(* ===== verification/Gateway_Prelude.thy ===== *)
theory Gateway_Prelude
  imports Main "HOL-Library.Sublist"
begin

text \<open>
  Shared vocabulary of the development: Go's byte strings with the functions of package
  \<open>strings\<close> that the gateway calls (\<open>TrimSpace\<close>, \<open>ToLower\<close>, \<open>EqualFold\<close>, \<open>Cut\<close>,
  \<open>Split\<close>, \<open>Join\<close>, \<open>HasPrefix\<close>, \<open>HasSuffix\<close>, \<open>Contains\<close>), the option and result
  helpers, the list lemmas on association lists used as Go maps, and the collections of
  simplification rules that the component theories extend.

  A Go string is a sequence of bytes, modelled as \<^typ>\<open>string\<close>.  \<open>trim_space\<close> removes every
  UTF-8 encoded Unicode white space rune, exactly as Go does.  \<open>to_lower\<close> is exact on ASCII
  and on the two non-ASCII runes whose lower case is ASCII (U+0130 and U+212A); every other
  non-ASCII rune is left alone, so comparing a lowered string with an ASCII literal (the only
  thing the gateway decides on) has the outcome it has in Go.
\<close>

named_theorems go_string_simps "equations of the string helpers"
named_theorems guard_simps "unfolding rules for guards and early returns"

type_synonym 'a result = "string + 'a"

section \<open>Prefixes, suffixes and substrings\<close>

definition has_prefix :: "string \<Rightarrow> string \<Rightarrow> bool" where
  "has_prefix s p \<longleftrightarrow> take (length p) s = p"

definition has_suffix :: "string \<Rightarrow> string \<Rightarrow> bool" where
  "has_suffix s p \<longleftrightarrow> has_prefix (rev s) (rev p)"

definition trim_suffix :: "string \<Rightarrow> string \<Rightarrow> string" where
  "trim_suffix s p = (if has_suffix s p then take (length s - length p) s else s)"

definition trim_prefix :: "string \<Rightarrow> string \<Rightarrow> string" where
  "trim_prefix s p = (if has_prefix s p then drop (length p) s else s)"

definition cut_prefix :: "string \<Rightarrow> string \<Rightarrow> string option" where
  "cut_prefix s p = (if has_prefix s p then Some (drop (length p) s) else None)"

fun str_contains :: "string \<Rightarrow> string \<Rightarrow> bool" where
  "str_contains [] p = (p = [])"
| "str_contains (c # cs) p = (has_prefix (c # cs) p \<or> str_contains cs p)"

lemma has_prefix_iff: "has_prefix s p \<longleftrightarrow> (\<exists>t. s = p @ t)"
  unfolding has_prefix_def by (metis append_eq_conv_conj append_take_drop_id)

lemma has_prefix_append [simp]: "has_prefix (p @ t) p"
  by (auto simp: has_prefix_iff)

lemma has_suffix_iff: "has_suffix s p \<longleftrightarrow> (\<exists>t. s = t @ p)"
proof
  assume "has_suffix s p"
  then obtain t where "rev s = rev p @ t"
    unfolding has_suffix_def has_prefix_iff by blast
  then have "s = rev t @ p" by (metis rev_append rev_rev_ident)
  then show "\<exists>t. s = t @ p" by blast
next
  assume "\<exists>t. s = t @ p"
  then show "has_suffix s p" by (auto simp: has_suffix_def)
qed

lemma has_suffix_append [simp]: "has_suffix (t @ p) p"
  by (auto simp: has_suffix_iff)

lemma trim_suffix_append [simp]: "trim_suffix (t @ p) p = t"
  by (simp add: trim_suffix_def)

lemma cut_prefix_Some_iff: "cut_prefix s p = Some t \<longleftrightarrow> s = p @ t"
  by (auto simp: cut_prefix_def has_prefix_iff)

lemma cut_prefix_append [simp]: "cut_prefix (p @ t) p = Some t"
  by (simp add: cut_prefix_Some_iff)

section \<open>Splitting and joining at one byte\<close>

text \<open>\<open>strings.Cut(s, sep)\<close> with a one-byte separator: \<open>None\<close> is \<open>found = false\<close>.\<close>

fun cut_at :: "char \<Rightarrow> string \<Rightarrow> (string \<times> string) option" where
  "cut_at sep [] = None"
| "cut_at sep (c # cs) =
     (if c = sep then Some ([], cs) else map_option (map_prod ((#) c) id) (cut_at sep cs))"

fun split_at :: "char \<Rightarrow> string \<Rightarrow> string list" where
  "split_at sep [] = [[]]"
| "split_at sep (c # cs) =
     (if c = sep then [] # split_at sep cs
      else (case split_at sep cs of [] \<Rightarrow> [[c]] | p # ps \<Rightarrow> (c # p) # ps))"

fun join_with :: "string \<Rightarrow> string list \<Rightarrow> string" where
  "join_with sep [] = []"
| "join_with sep [p] = p"
| "join_with sep (p # q # ps) = p @ sep @ join_with sep (q # ps)"

lemma cut_at_None_iff: "cut_at sep s = None \<longleftrightarrow> sep \<notin> set s"
  by (induction s) auto

lemma cut_at_Some_iff: "cut_at sep s = Some (a, b) \<longleftrightarrow> s = a @ sep # b \<and> sep \<notin> set a"
proof (induction s arbitrary: a)
  case Nil
  then show ?case by simp
next
  case (Cons c cs)
  show ?case
  proof (cases a)
    case Nil
    then show ?thesis by (cases "c = sep") (auto simp: map_option_case split: option.splits)
  next
    case (Cons x xs)
    then show ?thesis using Cons.IH [of xs] by (cases "c = sep") auto
  qed
qed

lemma cut_at_append [simp]: "sep \<notin> set a \<Longrightarrow> cut_at sep (a @ sep # b) = Some (a, b)"
  by (simp add: cut_at_Some_iff)

lemma split_at_nonempty [simp]: "split_at sep s \<noteq> []"
  by (induction s) (auto split: list.splits)

lemma split_at_no_sep: "p \<in> set (split_at sep s) \<Longrightarrow> sep \<notin> set p"
proof (induction s arbitrary: p)
  case Nil
  then show ?case by simp
next
  case (Cons c cs)
  show ?case
  proof (cases "c = sep")
    case True
    with Cons show ?thesis by auto
  next
    case False
    obtain q qs where q: "split_at sep cs = q # qs" by (cases "split_at sep cs") auto
    have "sep \<notin> set q" using Cons.IH [of q] q by simp
    with Cons False q show ?thesis by auto
  qed
qed

lemma join_with_Cons: "qs \<noteq> [] \<Longrightarrow> join_with sep (p # qs) = p @ sep @ join_with sep qs"
  by (cases qs) auto

lemma join_split: "join_with [sep] (split_at sep s) = s"
proof (induction s)
  case Nil
  then show ?case by simp
next
  case (Cons c cs)
  obtain q qs where q: "split_at sep cs = q # qs" by (cases "split_at sep cs") auto
  with Cons show ?case by (cases qs) auto
qed

lemma split_at_single: "sep \<notin> set s \<Longrightarrow> split_at sep s = [s]"
  by (induction s) auto

lemma split_at_append: "sep \<notin> set p \<Longrightarrow> split_at sep (p @ sep # s) = p # split_at sep s"
  by (induction p) auto

section \<open>White space\<close>

text \<open>The UTF-8 encodings of the runes of \<open>unicode.IsSpace\<close>.\<close>

definition space_runes :: "string list" where
  "space_runes =
     [[CHR 0x20], [CHR 0x09], [CHR 0x0A], [CHR 0x0B], [CHR 0x0C], [CHR 0x0D],
      [CHR 0xC2, CHR 0x85], [CHR 0xC2, CHR 0xA0],
      [CHR 0xE1, CHR 0x9A, CHR 0x80],
      [CHR 0xE2, CHR 0x80, CHR 0x80], [CHR 0xE2, CHR 0x80, CHR 0x81],
      [CHR 0xE2, CHR 0x80, CHR 0x82], [CHR 0xE2, CHR 0x80, CHR 0x83],
      [CHR 0xE2, CHR 0x80, CHR 0x84], [CHR 0xE2, CHR 0x80, CHR 0x85],
      [CHR 0xE2, CHR 0x80, CHR 0x86], [CHR 0xE2, CHR 0x80, CHR 0x87],
      [CHR 0xE2, CHR 0x80, CHR 0x88], [CHR 0xE2, CHR 0x80, CHR 0x89],
      [CHR 0xE2, CHR 0x80, CHR 0x8A],
      [CHR 0xE2, CHR 0x80, CHR 0xA8], [CHR 0xE2, CHR 0x80, CHR 0xA9],
      [CHR 0xE2, CHR 0x80, CHR 0xAF], [CHR 0xE2, CHR 0x81, CHR 0x9F],
      [CHR 0xE3, CHR 0x80, CHR 0x80]]"

text \<open>The length of the first word of \<open>ws\<close> that starts \<open>s\<close>, or \<open>0\<close>.\<close>

fun lead_len :: "string list \<Rightarrow> string \<Rightarrow> nat" where
  "lead_len [] s = 0"
| "lead_len (w # ws) s = (if has_prefix s w then length w else lead_len ws s)"

fun strip_lead :: "string list \<Rightarrow> string \<Rightarrow> string" where
  "strip_lead ws [] = []"
| "strip_lead ws (c # cs) =
     (case lead_len ws (c # cs) of 0 \<Rightarrow> c # cs | Suc n \<Rightarrow> strip_lead ws (drop n cs))"

definition trim_left :: "string \<Rightarrow> string" where
  "trim_left s = strip_lead space_runes s"

definition trim_right :: "string \<Rightarrow> string" where
  "trim_right s = rev (strip_lead (map rev space_runes) (rev s))"

definition trim_space :: "string \<Rightarrow> string" where
  "trim_space s = trim_right (trim_left s)"

text \<open>A string is blank when \<open>TrimSpace\<close> leaves nothing.\<close>

abbreviation blank :: "string \<Rightarrow> bool" where
  "blank s \<equiv> trim_space s = []"

lemma lead_len_strip: "lead_len ws (strip_lead ws s) = 0 \<or> strip_lead ws s = []"
  by (induction ws s rule: strip_lead.induct) (auto split: nat.splits)

lemma strip_lead_stop: "lead_len ws s = 0 \<Longrightarrow> strip_lead ws s = s"
  by (cases s) auto

lemma strip_lead_idem [simp]: "strip_lead ws (strip_lead ws s) = strip_lead ws s"
  using lead_len_strip [of ws s] by (auto simp: strip_lead_stop)

lemma strip_lead_suffix: "\<exists>p. s = p @ strip_lead ws s"
proof (induction ws s rule: strip_lead.induct)
  case (2 ws c cs)
  show ?case
  proof (cases "lead_len ws (c # cs)")
    case 0
    then show ?thesis by simp
  next
    case (Suc n)
    with 2 obtain p where "drop n cs = p @ strip_lead ws (drop n cs)" by blast
    then have "c # cs = (c # take n cs @ p) @ strip_lead ws (c # cs)"
      using Suc by simp
    then show ?thesis by blast
  qed
qed simp

lemma lead_len_prefix:
  "lead_len ws s = 0 \<Longrightarrow> [] \<notin> set ws \<Longrightarrow> s = t @ u \<Longrightarrow> lead_len ws t = 0"
proof (induction ws)
  case (Cons w ws)
  have "\<not> has_prefix s w" using Cons.prems by (auto split: if_splits)
  then have "\<not> has_prefix t w" using Cons.prems(3) by (auto simp: has_prefix_iff)
  with Cons show ?case by (auto split: if_splits)
qed simp

lemma space_runes_nonempty [simp]: "[] \<notin> set space_runes" "[] \<notin> set (map rev space_runes)"
  by (auto simp: space_runes_def)

lemma trim_right_prefix: "\<exists>u. s = trim_right s @ u"
proof -
  obtain p where "rev s = p @ strip_lead (map rev space_runes) (rev s)"
    using strip_lead_suffix by blast
  then have "s = rev (strip_lead (map rev space_runes) (rev s)) @ rev p"
    by (metis rev_append rev_rev_ident)
  then show ?thesis unfolding trim_right_def by blast
qed

lemma trim_right_idem [simp]: "trim_right (trim_right s) = trim_right s"
  by (simp add: trim_right_def)

lemma trim_left_trim_space [simp]: "trim_left (trim_space s) = trim_space s"
proof -
  obtain u where u: "trim_left s = trim_space s @ u"
    unfolding trim_space_def using trim_right_prefix by blast
  have "lead_len space_runes (trim_left s) = 0 \<or> trim_left s = []"
    unfolding trim_left_def by (rule lead_len_strip)
  then have "lead_len space_runes (trim_space s) = 0 \<or> trim_space s = []"
    using lead_len_prefix [OF _ _ u] u by auto
  then show ?thesis unfolding trim_left_def by (auto simp: strip_lead_stop)
qed

lemma trim_space_idem [simp]: "trim_space (trim_space s) = trim_space s"
  by (simp add: trim_space_def [of "trim_space s"]) (simp add: trim_space_def)

lemma trim_space_Nil [simp]: "trim_space [] = []"
  by (simp add: trim_space_def trim_left_def trim_right_def)

lemma trim_space_infix: "\<exists>p u. s = p @ trim_space s @ u"
proof -
  obtain p where p: "s = p @ trim_left s"
    unfolding trim_left_def using strip_lead_suffix by blast
  obtain u where "trim_left s = trim_space s @ u"
    unfolding trim_space_def using trim_right_prefix by blast
  with p have "s = p @ trim_space s @ u" by simp
  then show ?thesis by blast
qed

lemma set_trim_space: "set (trim_space s) \<subseteq> set s"
proof -
  obtain p u where "s = p @ trim_space s @ u" using trim_space_infix by blast
  then have "set s = set p \<union> set (trim_space s) \<union> set u" by (metis set_append sup_assoc)
  then show ?thesis by blast
qed

lemma length_trim_space: "length (trim_space s) \<le> length s"
proof -
  obtain p u where "s = p @ trim_space s @ u" using trim_space_infix by blast
  then have "length s = length p + length (trim_space s) + length u"
    by (metis add.assoc length_append)
  then show ?thesis by simp
qed

text \<open>A string none of whose bytes occurs in an encoded white space rune is its own trim.\<close>

definition space_bytes :: "char set" where
  "space_bytes = \<Union> (set ` set space_runes)"

lemma lead_len_no_space:
  assumes "set s \<inter> \<Union> (set ` set ws) = {}" and "[] \<notin> set ws"
  shows "lead_len ws s = 0"
  using assms
proof (induction ws)
  case (Cons w ws)
  have "\<not> has_prefix s w"
  proof
    assume "has_prefix s w"
    then have "set w \<subseteq> set s" by (auto simp: has_prefix_iff)
    moreover obtain x where "x \<in> set w" using Cons.prems by (cases w) auto
    ultimately show False using Cons.prems by auto
  qed
  with Cons show ?case by auto
qed simp

lemma trim_space_no_space:
  assumes "set s \<inter> space_bytes = {}"
  shows "trim_space s = s"
proof -
  have l: "trim_left s = s"
    using lead_len_no_space [of s space_runes] assms
    by (simp add: trim_left_def space_bytes_def strip_lead_stop)
  have "\<Union> (set ` set (map rev space_runes)) = space_bytes"
    by (simp add: space_bytes_def)
  then have "lead_len (map rev space_runes) (rev s) = 0"
    using lead_len_no_space [of "rev s" "map rev space_runes"] assms space_runes_nonempty(2)
    by simp
  then have "trim_right s = s" by (simp add: trim_right_def strip_lead_stop)
  with l show ?thesis by (simp add: trim_space_def)
qed

section \<open>Letter case\<close>

definition lower_byte :: "char \<Rightarrow> char" where
  "lower_byte c =
     (let n = of_char c :: nat
      in if 65 \<le> n \<and> n \<le> 90 then char_of (n + 32) else c)"

fun to_lower :: "string \<Rightarrow> string" where
  "to_lower [] = []"
| "to_lower (c # cs) =
     (if c = CHR 0xC4 \<and> take 1 cs = [CHR 0xB0] then CHR ''i'' # to_lower (drop 1 cs)
      else if c = CHR 0xE2 \<and> take 2 cs = [CHR 0x84, CHR 0xAA] then CHR ''k'' # to_lower (drop 2 cs)
      else lower_byte c # to_lower cs)"

text \<open>
  \<open>strings.EqualFold\<close> against the literals the gateway uses, none of which has a letter with
  a non-ASCII case variant.
\<close>

definition equal_fold :: "string \<Rightarrow> string \<Rightarrow> bool" where
  "equal_fold s t \<longleftrightarrow> map lower_byte s = map lower_byte t"

definition ascii :: "string \<Rightarrow> bool" where
  "ascii s \<longleftrightarrow> list_all (\<lambda>c. (of_char c :: nat) < 128) s"

lemma to_lower_ascii: "ascii s \<Longrightarrow> to_lower s = map lower_byte s"
  by (induction s rule: to_lower.induct) (auto simp: ascii_def)

lemma lower_byte_idem [simp]: "lower_byte (lower_byte c) = lower_byte c"
proof (cases "65 \<le> (of_char c :: nat) \<and> (of_char c :: nat) \<le> 90")
  case True
  then have "(of_char c :: nat) + 32 < 256" by simp
  then have "(of_char (char_of ((of_char c :: nat) + 32)) :: nat) = of_char c + 32"
    by simp
  with True show ?thesis by (simp add: lower_byte_def Let_def)
next
  case False
  then show ?thesis by (auto simp: lower_byte_def Let_def)
qed

section \<open>Go maps as association lists\<close>

text \<open>
  A Go map whose size or iteration matters is an association list with distinct keys; the
  order of the list stands for the (unspecified) iteration order.  \<open>put\<close> writes a key,
  \<open>del\<close> deletes it.
\<close>

definition put :: "'k \<Rightarrow> 'v \<Rightarrow> ('k \<times> 'v) list \<Rightarrow> ('k \<times> 'v) list" where
  "put k v m = (k, v) # filter (\<lambda>p. fst p \<noteq> k) m"

definition del :: "'k \<Rightarrow> ('k \<times> 'v) list \<Rightarrow> ('k \<times> 'v) list" where
  "del k m = filter (\<lambda>p. fst p \<noteq> k) m"

lemma map_of_del [simp]: "map_of (del k m) = (map_of m)(k := None)"
  by (induction m) (auto simp: del_def fun_eq_iff)

lemma map_of_put [simp]: "map_of (put k v m) = (map_of m)(k \<mapsto> v)"
  using map_of_del [of k m] by (auto simp: put_def del_def fun_eq_iff)

lemma set_del [simp]: "set (del k m) = {p \<in> set m. fst p \<noteq> k}"
  by (auto simp: del_def)

lemma set_put [simp]: "set (put k v m) = insert (k, v) {p \<in> set m. fst p \<noteq> k}"
  by (auto simp: put_def)

lemma distinct_del [simp]: "distinct (map fst m) \<Longrightarrow> distinct (map fst (del k m))"
  unfolding del_def by (induction m) auto

lemma distinct_put [simp]: "distinct (map fst m) \<Longrightarrow> distinct (map fst (put k v m))"
  using distinct_del [of m k] by (auto simp: put_def del_def)

lemma length_del_le [simp]: "length (del k m) \<le> length m"
  by (simp add: del_def)

lemma del_absent: "k \<notin> fst ` set m \<Longrightarrow> del k m = m"
  unfolding del_def by (induction m) auto

lemma length_put_absent: "map_of m k = None \<Longrightarrow> length (put k v m) = Suc (length m)"
  using del_absent [of k m] by (simp add: put_def del_def map_of_eq_None_iff)

lemma filter_del_le: "length (filter P (del k m)) \<le> length (filter P m)"
  by (induction m) (auto simp: del_def)

lemma filter_put_absent:
  "map_of m k = None \<Longrightarrow>
   length (filter P (put k v m)) = (if P (k, v) then 1 else 0) + length (filter P m)"
  using del_absent [of k m] by (simp add: put_def del_def map_of_eq_None_iff)

section \<open>The first error of a sequence\<close>

text \<open>The \<open>if err != nil && firstErr == nil\<close> idiom.\<close>

definition first_error :: "'e option \<Rightarrow> 'e option \<Rightarrow> 'e option" where
  "first_error acc e = (case acc of None \<Rightarrow> e | Some _ \<Rightarrow> acc)"

lemma first_error_simps [simp]:
  "first_error None e = e" "first_error (Some a) e = Some a" "first_error b None = b"
  by (auto simp: first_error_def split: option.splits)

lemma first_error_None_iff [simp]: "first_error a b = None \<longleftrightarrow> a = None \<and> b = None"
  by (auto simp: first_error_def split: option.splits)

end
