(* ===== verification/Runtime_Types.thy ===== *)
theory Runtime_Types
  imports Gateway_Prelude "HOL-Library.Word"
begin

text \<open>
  The shared data of \<open>internal/runtime/runtime.go\<close> (permission modes, pending requests and
  their responses, usage counters, response errors) and the model of Go's \<open>error\<close> values.

  An error is the list of causes in its wrapping chain, outermost first, and the text that
  \<open>Error()\<close> returns.  \<open>errors.Is\<close> and \<open>errors.As\<close> look the chain through;
  \<open>fmt.Errorf\<close> with a \<open>%w\<close> verb keeps the chain, with \<open>%v\<close> it keeps only the text.
\<close>

section \<open>Errors\<close>

datatype sentinel =
    ErrSessionNotFound | ErrPendingRequestNotFound | ErrPendingRequestsUnsupported
  | ErrSessionSpecMismatch | ErrTooManySessions | ErrTooManySessionsForNamespace
  | ErrUnauthorized
  | ErrNoTurns | ErrFinalTurnNotUser | ErrUnsupportedContent | ErrUnsupportedTools
  | ErrUnsupportedControls | ErrUnsupportedMessageFields | ErrUnsupportedImages
  | ErrInvalidImageData
  | ErrStreamIdleTimeout | ErrInvalidSessionKey | ErrMissingSessionKey
  | ErrInvalidAnthropicVersion | ErrUnsupportedReasoningEffort | ErrUnsupportedVisionModel
  | ErrModelLimitsExceeded | ErrUnknownModelCapabilities | ErrInvalidSystemMessageMode
  | ErrUnknownAgent | ErrInteractiveRequiresStream | ErrInteractiveRequiresSessionKey
  | ErrInvalidCopilotPermissionMode | ErrInvalidCopilotProvider
  | ErrCopilotPermissionEscalation | ErrInvalidCopilotTool | ErrInvalidCopilotResponse
  | ErrInvalidCopilotAttachment
  | ErrDeadlineExceeded | ErrCanceled | ErrEOF | ErrUnexpectedEOF

primrec sentinel_text :: "sentinel \<Rightarrow> string" where
  "sentinel_text ErrSessionNotFound = ''runtime session not found''"
| "sentinel_text ErrPendingRequestNotFound = ''pending request not found''"
| "sentinel_text ErrPendingRequestsUnsupported =
     ''pending request continuation is not supported''"
| "sentinel_text ErrSessionSpecMismatch =
     ''session exists with different model or session settings''"
| "sentinel_text ErrTooManySessions = ''too many active sessions''"
| "sentinel_text ErrTooManySessionsForNamespace = ''too many active sessions for API key''"
| "sentinel_text ErrUnauthorized = ''unauthorized''"
| "sentinel_text ErrNoTurns = ''request must include at least one conversation turn''"
| "sentinel_text ErrFinalTurnNotUser = ''final conversation turn must be a user message''"
| "sentinel_text ErrUnsupportedContent =
     ''only text and supported image message content are supported''"
| "sentinel_text ErrUnsupportedTools = ''tool use is not supported by this gateway yet''"
| "sentinel_text ErrUnsupportedControls =
     ''generation controls are not supported by this gateway yet''"
| "sentinel_text ErrUnsupportedMessageFields =
     ''message fields are not supported by this gateway yet''"
| "sentinel_text ErrUnsupportedImages =
     ''image content is only supported on the latest user message''"
| "sentinel_text ErrInvalidImageData = ''invalid image content''"
| "sentinel_text ErrStreamIdleTimeout = ''stream idle timeout exceeded''"
| "sentinel_text ErrInvalidSessionKey = ''invalid session key''"
| "sentinel_text ErrMissingSessionKey = ''X-Session-ID header is required''"
| "sentinel_text ErrInvalidAnthropicVersion = ''unsupported anthropic-version header''"
| "sentinel_text ErrUnsupportedReasoningEffort =
     ''reasoning effort is not supported by the selected model''"
| "sentinel_text ErrUnsupportedVisionModel =
     ''image input is not supported by the selected model''"
| "sentinel_text ErrModelLimitsExceeded = ''request exceeds model capability limits''"
| "sentinel_text ErrUnknownModelCapabilities =
     ''requested model is not listed in /v1/models''"
| "sentinel_text ErrInvalidSystemMessageMode = ''unsupported x_copilot.system_message_mode''"
| "sentinel_text ErrUnknownAgent = ''unknown x_copilot.agent''"
| "sentinel_text ErrInteractiveRequiresStream =
     ''x_copilot continuation flows require stream=true''"
| "sentinel_text ErrInteractiveRequiresSessionKey =
     ''x_copilot continuation flows require X-Session-ID''"
| "sentinel_text ErrInvalidCopilotPermissionMode = ''unsupported x_copilot.permission_mode''"
| "sentinel_text ErrInvalidCopilotProvider = ''unsupported x_copilot.provider''"
| "sentinel_text ErrCopilotPermissionEscalation =
     ''x_copilot.permission_mode cannot exceed server permission policy''"
| "sentinel_text ErrInvalidCopilotTool = ''invalid x_copilot.tools entry''"
| "sentinel_text ErrInvalidCopilotResponse = ''invalid x_copilot continuation request''"
| "sentinel_text ErrInvalidCopilotAttachment = ''invalid x_copilot attachment''"
| "sentinel_text ErrDeadlineExceeded = ''context deadline exceeded''"
| "sentinel_text ErrCanceled = ''context canceled''"
| "sentinel_text ErrEOF = ''EOF''"
| "sentinel_text ErrUnexpectedEOF = ''unexpected EOF''"

record response_error =
  re_type :: string
  re_message :: string
  re_status :: int

text \<open>\<open>(*ResponseError).Error\<close> (the receiver is not nil).\<close>

definition response_error_text :: "response_error \<Rightarrow> string" where
  "response_error_text e =
     (if re_message e \<noteq> [] then re_message e
      else if re_type e \<noteq> [] then re_type e
      else ''runtime error'')"

text \<open>The identities and dynamic types that \<open>errors.Is\<close> and \<open>errors.As\<close> ask for.\<close>

datatype err_cause =
    Sentinel sentinel
  | Response response_error
  | JsonSyntaxError
  | JsonTypeError
  | MaxBytesError

datatype go_error = GoError (causes: "err_cause list") (err_text: string)

definition err :: "sentinel \<Rightarrow> go_error" where
  "err s = GoError [Sentinel s] (sentinel_text s)"

definition errors_new :: "string \<Rightarrow> go_error" where
  "errors_new t = GoError [] t"

definition response_err :: "response_error \<Rightarrow> go_error" where
  "response_err r = GoError [Response r] (response_error_text r)"

text \<open>\<open>fmt.Errorf("%w: detail", e)\<close> and \<open>fmt.Errorf("prefix: %w", e)\<close>.\<close>

definition wrap_suffix :: "go_error \<Rightarrow> string \<Rightarrow> go_error" where
  "wrap_suffix e d = GoError (causes e) (err_text e @ '': '' @ d)"

definition wrap_prefix :: "string \<Rightarrow> go_error \<Rightarrow> go_error" where
  "wrap_prefix p e = GoError (causes e) (p @ '': '' @ err_text e)"

abbreviation err_with :: "sentinel \<Rightarrow> string \<Rightarrow> go_error" where
  "err_with s d \<equiv> wrap_suffix (err s) d"

definition errors_is :: "go_error \<Rightarrow> sentinel \<Rightarrow> bool" where
  "errors_is e s \<longleftrightarrow> Sentinel s \<in> set (causes e)"

fun first_response :: "err_cause list \<Rightarrow> response_error option" where
  "first_response [] = None"
| "first_response (Response r # cs) = Some r"
| "first_response (_ # cs) = first_response cs"

lemma causes_simps [simp]:
  "causes (err s) = [Sentinel s]"
  "causes (errors_new t) = []"
  "causes (response_err r) = [Response r]"
  "causes (wrap_suffix e d) = causes e"
  "causes (wrap_prefix p e) = causes e"
  by (simp_all add: err_def errors_new_def response_err_def wrap_suffix_def wrap_prefix_def)

lemma errors_is_simps [simp]:
  "errors_is (err s) t \<longleftrightarrow> s = t"
  "errors_is (errors_new x) t \<longleftrightarrow> False"
  "errors_is (response_err r) t \<longleftrightarrow> False"
  "errors_is (wrap_suffix e d) t = errors_is e t"
  "errors_is (wrap_prefix p e) t = errors_is e t"
  by (auto simp: errors_is_def)

section \<open>Permission modes\<close>

text \<open>\<open>PermissionMode\<close> is a string type in the source; these are its constants.\<close>

type_synonym permission_mode = string

definition PermissionModeDeny :: permission_mode where
  "PermissionModeDeny = ''deny''"

definition PermissionModeAllow :: permission_mode where
  "PermissionModeAllow = ''allow''"

definition PermissionModeBridge :: permission_mode where
  "PermissionModeBridge = ''bridge''"

definition PermissionModeInherit :: permission_mode where
  "PermissionModeInherit = ''inherit''"

lemmas permission_mode_defs =
  PermissionModeDeny_def PermissionModeAllow_def PermissionModeBridge_def
  PermissionModeInherit_def

section \<open>Dynamic values\<close>

text \<open>
  \<open>any\<close> values as \<open>encoding/json\<close> produces them.  A number keeps its literal; an object is
  the list of its members in document order.
\<close>

datatype json =
    JNull | JBool bool | JNum string | JStr string
  | JArr "json list" | JObj "(string \<times> json) list"

section \<open>Pending requests and responses\<close>

datatype pending_kind = PendingRequestTool | PendingRequestUserInput | PendingRequestPermission

primrec pending_kind_text :: "pending_kind \<Rightarrow> string" where
  "pending_kind_text PendingRequestTool = ''tool''"
| "pending_kind_text PendingRequestUserInput = ''user_input''"
| "pending_kind_text PendingRequestPermission = ''permission''"

record permission_summary =
  ps_kind :: string
  ps_tool_name :: string
  ps_server_name :: string
  ps_path :: string
  ps_url :: string
  ps_intention :: string
  ps_warning :: string
  ps_read_only :: "bool option"
  ps_commands :: "string list"

record user_input_summary =
  us_question :: string
  us_choices :: "string list"
  us_allow_freeform :: "bool option"
  us_requested_schema :: "json option"

record pending_request =
  pr_id :: string
  pr_kind :: pending_kind
  pr_call_id :: string
  pr_tool_name :: string
  pr_arguments :: json
  pr_permission :: "permission_summary option"
  pr_user_input :: "user_input_summary option"

record tool_binary_result =
  tb_data :: string
  tb_mime_type :: string
  tb_type :: string
  tb_description :: string

record tool_result =
  tr_text_result :: string
  tr_binary_results :: "tool_binary_result list"
  tr_result_type :: string
  tr_session_log :: string
  tr_telemetry :: "(string \<times> json) list option"

record user_input_response =
  ui_answer :: string
  ui_was_freeform :: bool

record permission_response =
  pm_result_kind :: string
  pm_rules :: "json list"

record pending_response =
  rsp_request_id :: string
  rsp_kind :: pending_kind
  rsp_tool_result :: "tool_result option"
  rsp_tool_error :: string
  rsp_user_input :: "user_input_response option"
  rsp_permission :: "permission_response option"

section \<open>Usage counters\<close>

text \<open>The counters are \<open>int64\<close>; \<open>TotalTokens\<close> wraps as Go's addition does.\<close>

record usage =
  input_tokens :: "64 word"
  output_tokens :: "64 word"
  cache_read_tokens :: "64 word"
  cache_write_tokens :: "64 word"

definition zero_usage :: usage where
  "zero_usage = \<lparr>input_tokens = 0, output_tokens = 0, cache_read_tokens = 0,
                 cache_write_tokens = 0\<rparr>"

definition total_tokens :: "usage \<Rightarrow> 64 word" where
  "total_tokens u = input_tokens u + output_tokens u"

section \<open>Runtime sessions\<close>

text \<open>
  A value of the \<open>Session\<close> interface, as far as the session manager sees it: which Go
  object it is, and what \<open>ID()\<close> returns.
\<close>

record rt_session =
  rs_handle :: nat
  rs_id :: string

text \<open>
  The calls the gateway makes on the runtime, in order.  The runtime itself (the Copilot SDK)
  is not part of the repository: its answers are arguments of the definitions.
\<close>

datatype runtime_call =
    CallNew | CallResume string | CallClose rt_session | CallDelete string

end
