(* ===== verification/Session_Store.thy ===== *)
theory Session_Store
  imports Runtime_Types
begin

text \<open>
  \<open>internal/session/store.go\<close>: the stored form of a session, the \<open>Store\<close> interface as the
  locale \<open>session_store\<close> with the laws the session manager relies on, and \<open>FileStore\<close>, the
  implementation on one JSON file, with the interpretation that discharges the laws.

  A JSON document is modelled by what \<open>json.Unmarshal\<close> makes of it.  Operating system calls
  fail according to a script of faults in the state (\<open>fs_faults\<close>): each call takes one
  entry, \<open>None\<close> meaning success; an empty script means that every further call succeeds.
  \<open>FileStore.mu\<close> makes each operation atomic, so an operation is one function.  Times are
  nanoseconds since the epoch.
\<close>

section \<open>Stored sessions\<close>

record session_spec =
  sp_model :: string
  sp_system_prompt :: string
  sp_system_prompt_mode :: string
  sp_reasoning_effort :: string
  sp_agent :: string
  sp_interactive :: bool
  sp_tools_fingerprint :: string
  sp_permission_mode :: permission_mode
  sp_provider_fingerprint :: string
  sp_provider_secret_fingerprint :: string

record stored_session =
  ss_session_id :: string
  ss_spec :: session_spec
  ss_created_at :: int
  ss_updated_at :: int

text \<open>
  What survives \<open>json.Marshal\<close> and \<open>json.Unmarshal\<close>: the field tagged \<open>json:"-"\<close> comes
  back empty.
\<close>

definition json_stored :: "stored_session \<Rightarrow> stored_session" where
  "json_stored r = r\<lparr>ss_spec := (ss_spec r)\<lparr>sp_provider_secret_fingerprint := []\<rparr>\<rparr>"

lemma json_stored_idem [simp]: "json_stored (json_stored r) = json_stored r"
  by (simp add: json_stored_def)

lemma json_stored_simps [simp]:
  "ss_session_id (json_stored r) = ss_session_id r"
  "ss_created_at (json_stored r) = ss_created_at r"
  "ss_updated_at (json_stored r) = ss_updated_at r"
  "ss_spec (json_stored r) = (ss_spec r)\<lparr>sp_provider_secret_fingerprint := []\<rparr>"
  by (simp_all add: json_stored_def)

section \<open>The Store interface\<close>

text \<open>
  A value of the Go interface \<open>Store\<close> is the record of its three methods; \<open>'s\<close> is the
  state they work on.
\<close>

record 's store_ops =
  op_load :: "string \<Rightarrow> 's \<Rightarrow> (go_error + stored_session option) \<times> 's"
  op_save :: "string \<Rightarrow> stored_session \<Rightarrow> 's \<Rightarrow> go_error option \<times> 's"
  op_delete :: "string \<Rightarrow> 's \<Rightarrow> go_error option \<times> 's"

text \<open>
  The contract: every operation keeps \<open>inv\<close>; a successful operation has the effect on the
  finite map \<open>contents\<close> that its name says, up to \<open>json_stored\<close>; a failed operation leaves
  the contents alone.
\<close>

locale session_store =
  fixes load :: "string \<Rightarrow> 's \<Rightarrow> (go_error + stored_session option) \<times> 's"
    and save :: "string \<Rightarrow> stored_session \<Rightarrow> 's \<Rightarrow> go_error option \<times> 's"
    and delete :: "string \<Rightarrow> 's \<Rightarrow> go_error option \<times> 's"
    and contents :: "'s \<Rightarrow> string \<Rightarrow> stored_session option"
    and inv :: "'s \<Rightarrow> bool"
  assumes load_inv: "inv s \<Longrightarrow> inv (snd (load k s))"
    and load_frame: "inv s \<Longrightarrow> contents (snd (load k s)) = contents s"
    and load_value: "inv s \<Longrightarrow> fst (load k s) = Inr x \<Longrightarrow> x = contents s k"
    and save_inv: "inv s \<Longrightarrow> inv (snd (save k r s))"
    and save_ok: "inv s \<Longrightarrow> fst (save k r s) = None \<Longrightarrow>
          contents (snd (save k r s)) = (contents s)(k \<mapsto> json_stored r)"
    and save_error: "inv s \<Longrightarrow> fst (save k r s) = Some e \<Longrightarrow>
          contents (snd (save k r s)) = contents s"
    and delete_inv: "inv s \<Longrightarrow> inv (snd (delete k s))"
    and delete_ok: "inv s \<Longrightarrow> fst (delete k s) = None \<Longrightarrow>
          contents (snd (delete k s)) = (contents s)(k := None)"
    and delete_error: "inv s \<Longrightarrow> fst (delete k s) = Some e \<Longrightarrow>
          contents (snd (delete k s)) = contents s"
begin

definition ops :: "'s store_ops" where
  "ops = \<lparr>op_load = load, op_save = save, op_delete = delete\<rparr>"

lemma ops_simps [simp]: "op_load ops = load" "op_save ops = save" "op_delete ops = delete"
  by (simp_all add: ops_def)

lemma load_after_save:
  assumes "inv s" and "fst (save k r s) = None"
    and "fst (load k (snd (save k r s))) = Inr x"
  shows "x = Some (json_stored r)"
  using load_value [OF save_inv [OF assms(1)] assms(3)] save_ok [OF assms(1,2)] by simp

lemma load_after_save_other:
  assumes "inv s" and "fst (save k r s) = None" and "j \<noteq> k"
    and "fst (load j (snd (save k r s))) = Inr x"
  shows "x = contents s j"
  using load_value [OF save_inv [OF assms(1)] assms(4)] save_ok [OF assms(1,2)] assms(3)
  by simp

lemma load_after_delete:
  assumes "inv s" and "fst (delete k s) = None"
    and "fst (load k (snd (delete k s))) = Inr x"
  shows "x = None"
  using load_value [OF delete_inv [OF assms(1)] assms(3)] delete_ok [OF assms(1,2)] by simp

lemma contents_stored:
  "inv s \<Longrightarrow> contents (snd (save k r s)) j = Some x \<Longrightarrow>
     contents s j = Some x \<or> (j = k \<and> x = json_stored r)"
  using save_ok [of s k r] save_error [of s k r]
  by (cases "fst (save k r s)") (auto split: if_splits)

end

text \<open>
  A store whose operations do not fail while \<open>ok\<close> holds, which they keep: what the manager's
  success paths need.
\<close>

locale reliable_store = session_store load save delete contents inv
  for load :: "string \<Rightarrow> 's \<Rightarrow> (go_error + stored_session option) \<times> 's"
    and save :: "string \<Rightarrow> stored_session \<Rightarrow> 's \<Rightarrow> go_error option \<times> 's"
    and delete :: "string \<Rightarrow> 's \<Rightarrow> go_error option \<times> 's"
    and contents :: "'s \<Rightarrow> string \<Rightarrow> stored_session option"
    and inv :: "'s \<Rightarrow> bool" +
  fixes ok :: "'s \<Rightarrow> bool"
  assumes load_succeeds: "inv s \<Longrightarrow> ok s \<Longrightarrow> \<exists>x. fst (load k s) = Inr x"
    and save_succeeds: "inv s \<Longrightarrow> ok s \<Longrightarrow> fst (save k r s) = None"
    and delete_succeeds: "inv s \<Longrightarrow> ok s \<Longrightarrow> fst (delete k s) = None"
    and load_keeps_ok: "inv s \<Longrightarrow> ok s \<Longrightarrow> ok (snd (load k s))"
    and save_keeps_ok: "inv s \<Longrightarrow> ok s \<Longrightarrow> ok (snd (save k r s))"
    and delete_keeps_ok: "inv s \<Longrightarrow> ok s \<Longrightarrow> ok (snd (delete k s))"
begin

lemma reliable_load:
  assumes "inv s" and "ok s"
  obtains s' where "load k s = (Inr (contents s k), s')" "inv s'" "ok s'" "contents s' = contents s"
  using assms load_succeeds [of s k] load_value [of s k] load_inv [of s k] load_frame [of s k]
    load_keeps_ok [of s k]
  by (metis prod.collapse)

lemma reliable_save:
  assumes "inv s" and "ok s"
  obtains s' where "save k r s = (None, s')" "inv s'" "ok s'"
    "contents s' = (contents s)(k \<mapsto> json_stored r)"
  using assms save_succeeds [of s k r] save_ok [of s k r] save_inv [of s k r]
    save_keeps_ok [of s k r]
  by (metis prod.collapse)

lemma reliable_delete:
  assumes "inv s" and "ok s"
  obtains s' where "delete k s = (None, s')" "inv s'" "ok s'"
    "contents s' = (contents s)(k := None)"
  using assms delete_succeeds [of s k] delete_ok [of s k] delete_inv [of s k]
    delete_keeps_ok [of s k]
  by (metis prod.collapse)

end

section \<open>FileStore\<close>

text \<open>What the bytes of the session file are to \<open>json.Unmarshal\<close>.\<close>

datatype document =
    EmptyDoc | NullDoc | BadDoc
  | RecordsDoc "(string \<times> stored_session) list"

record file_store =
  fs_path :: string
  fs_file :: "document option"
  fs_temp :: "document option"
  fs_faults :: "go_error option list"

text \<open>One operating system call: the next entry of the fault script.\<close>

definition sys_call :: "file_store \<Rightarrow> go_error option \<times> file_store" where
  "sys_call s = (case fs_faults s of [] \<Rightarrow> (None, s) | f # fs \<Rightarrow> (f, s\<lparr>fs_faults := fs\<rparr>))"

definition bad_json_error :: go_error where
  "bad_json_error = GoError [JsonSyntaxError] ''invalid character in session store''"

definition NewFileStore :: "string \<Rightarrow> document option \<Rightarrow> file_store" where
  "NewFileStore path file = \<lparr>fs_path = path, fs_file = file, fs_temp = None, fs_faults = []\<rparr>"

text \<open>
  \<open>readAllLocked\<close>.  A missing file is not an error (\<open>os.ErrNotExist\<close>); a script entry is any
  other error of \<open>os.ReadFile\<close>.
\<close>

definition readAllLocked ::
    "file_store \<Rightarrow> (go_error + (string \<times> stored_session) list) \<times> file_store" where
  "readAllLocked s =
     (if fs_path s = [] then (Inr [], s)
      else (case sys_call s of
              (Some e, s') \<Rightarrow> (Inl e, s')
            | (None, s') \<Rightarrow>
                (case fs_file s' of
                   None \<Rightarrow> (Inr [], s')
                 | Some EmptyDoc \<Rightarrow> (Inr [], s')
                 | Some BadDoc \<Rightarrow> (Inl bad_json_error, s')
                 | Some NullDoc \<Rightarrow> (Inr [], s')
                 | Some (RecordsDoc rs) \<Rightarrow> (Inr rs, s'))))"

text \<open>\<open>json.MarshalIndent\<close> of the record map.\<close>

definition marshal_records :: "(string \<times> stored_session) list \<Rightarrow> document" where
  "marshal_records rs = RecordsDoc (map (\<lambda>(k, r). (k, json_stored r)) rs)"

text \<open>The deferred \<open>temp.Close\<close> and \<open>os.Remove(tempName)\<close>, whose errors are ignored.\<close>

definition remove_temp :: "file_store \<Rightarrow> file_store" where
  "remove_temp s = s\<lparr>fs_temp := None\<rparr>"

text \<open>
  \<open>writeAllLocked\<close>: make the directory, create, write and close a temporary file, rename it
  over the session file.
\<close>

definition writeAllLocked ::
    "(string \<times> stored_session) list \<Rightarrow> file_store \<Rightarrow> go_error option \<times> file_store" where
  "writeAllLocked rs s =
     (if fs_path s = [] then (None, s)
      else (case sys_call s of                                  \<comment> \<open>os.MkdirAll\<close>
              (Some e, s1) \<Rightarrow> (Some e, s1)
            | (None, s1) \<Rightarrow>
       (case sys_call s1 of                                     \<comment> \<open>os.CreateTemp\<close>
          (Some e, s2) \<Rightarrow> (Some e, s2)
        | (None, s2) \<Rightarrow>
       (case sys_call (s2\<lparr>fs_temp := Some EmptyDoc\<rparr>) of          \<comment> \<open>temp.Write\<close>
          (Some e, s3) \<Rightarrow> (Some e, remove_temp s3)
        | (None, s3) \<Rightarrow>
       (case sys_call (s3\<lparr>fs_temp := Some (marshal_records rs)\<rparr>) of  \<comment> \<open>temp.Close\<close>
          (Some e, s4) \<Rightarrow> (Some e, remove_temp s4)
        | (None, s4) \<Rightarrow>
       (case sys_call s4 of                                     \<comment> \<open>os.Rename\<close>
          (Some e, s5) \<Rightarrow> (Some e, remove_temp s5)
        | (None, s5) \<Rightarrow>
           (None, remove_temp (s5\<lparr>fs_file := fs_temp s5\<rparr>))))))))"

definition fs_load ::
    "string \<Rightarrow> file_store \<Rightarrow> (go_error + stored_session option) \<times> file_store" where
  "fs_load k s =
     (case readAllLocked s of
        (Inl e, s') \<Rightarrow> (Inl e, s')
      | (Inr rs, s') \<Rightarrow> (Inr (map_of rs k), s'))"

definition fs_save :: "string \<Rightarrow> stored_session \<Rightarrow> file_store \<Rightarrow> go_error option \<times> file_store" where
  "fs_save k r s =
     (case readAllLocked s of
        (Inl e, s') \<Rightarrow> (Some e, s')
      | (Inr rs, s') \<Rightarrow> writeAllLocked (put k r rs) s')"

definition fs_delete :: "string \<Rightarrow> file_store \<Rightarrow> go_error option \<times> file_store" where
  "fs_delete k s =
     (case readAllLocked s of
        (Inl e, s') \<Rightarrow> (Some e, s')
      | (Inr rs, s') \<Rightarrow>
          (if map_of rs k = None then (None, s') else writeAllLocked (del k rs) s'))"

definition file_store_ops :: "file_store store_ops" where
  "file_store_ops = \<lparr>op_load = fs_load, op_save = fs_save, op_delete = fs_delete\<rparr>"

section \<open>FileStore implements the interface\<close>

text \<open>
  The records of the file.  The invariant: the store has a path, no temporary file is left,
  and every record in the file has been through the JSON encoder.
\<close>

fun doc_records :: "document option \<Rightarrow> (string \<times> stored_session) list" where
  "doc_records (Some (RecordsDoc rs)) = rs"
| "doc_records _ = []"

definition fs_contents :: "file_store \<Rightarrow> string \<Rightarrow> stored_session option" where
  "fs_contents s = map_of (doc_records (fs_file s))"

definition fs_inv :: "file_store \<Rightarrow> bool" where
  "fs_inv s \<longleftrightarrow> fs_path s \<noteq> [] \<and> fs_temp s = None \<and>
     (\<forall>(k, r) \<in> set (doc_records (fs_file s)). json_stored r = r)"

lemma sys_call_frame:
  "sys_call s = (e, s') \<Longrightarrow>
     fs_path s' = fs_path s \<and> fs_file s' = fs_file s \<and> fs_temp s' = fs_temp s"
  by (auto simp: sys_call_def split: list.splits)

lemma readAllLocked_frame:
  assumes "readAllLocked s = (x, s')"
  shows "fs_path s' = fs_path s \<and> fs_file s' = fs_file s \<and> fs_temp s' = fs_temp s"
  using assms
  by (auto simp: readAllLocked_def dest!: sys_call_frame
      split: if_splits prod.splits option.splits document.splits)

lemma readAllLocked_value:
  assumes "readAllLocked s = (Inr rs, s')" and "fs_path s \<noteq> []"
  shows "rs = doc_records (fs_file s)"
  using assms
  by (auto simp: readAllLocked_def dest!: sys_call_frame
      split: prod.splits option.splits document.splits)

lemma writeAllLocked_effect:
  assumes "writeAllLocked rs s = (e, s')" and "fs_path s \<noteq> []" and "fs_temp s = None"
  shows "fs_path s' = fs_path s \<and> fs_temp s' = None \<and>
         fs_file s' = (if e = None then Some (marshal_records rs) else fs_file s)"
  using assms
  by (auto simp: writeAllLocked_def remove_temp_def dest!: sys_call_frame
      split: prod.splits option.splits)

lemma map_of_marshal:
  "map_of (map (\<lambda>(k, r). (k, json_stored r)) rs) k = map_option json_stored (map_of rs k)"
  by (induction rs) auto

lemma marshal_stored:
  assumes "\<forall>(k, r) \<in> set rs. json_stored r = r"
  shows "map (\<lambda>(k, r). (k, json_stored r)) rs = rs"
  using assms by (induction rs) auto

lemma marshal_put:
  assumes "\<forall>(j, r) \<in> set rs. json_stored r = r"
  shows "map (\<lambda>(j, r). (j, json_stored r)) (put k x rs) = put k (json_stored x) rs"
proof -
  have "\<forall>(j, r) \<in> set (filter (\<lambda>p. fst p \<noteq> k) rs). json_stored r = r" using assms by auto
  from marshal_stored [OF this] show ?thesis by (simp add: put_def)
qed

lemma fs_load_effect:
  assumes "fs_inv s"
  shows "fs_inv (snd (fs_load k s)) \<and> fs_contents (snd (fs_load k s)) = fs_contents s \<and>
         (\<forall>r. fst (fs_load k s) = Inr r \<longrightarrow> r = fs_contents s k)"
proof -
  obtain x s' where x: "readAllLocked s = (x, s')" by fastforce
  show ?thesis
    using assms readAllLocked_frame [OF x] readAllLocked_value [of s _ s'] x
    by (cases x) (auto simp: fs_load_def fs_inv_def fs_contents_def)
qed

lemma fs_save_effect:
  assumes "fs_inv s"
  shows "fs_inv (snd (fs_save k r s)) \<and>
         fs_contents (snd (fs_save k r s)) =
           (if fst (fs_save k r s) = None then (fs_contents s)(k \<mapsto> json_stored r)
            else fs_contents s)"
proof -
  obtain x s' where x: "readAllLocked s = (x, s')" by fastforce
  note frame = readAllLocked_frame [OF x]
  show ?thesis
  proof (cases x)
    case (Inl e)
    then show ?thesis using assms frame x by (auto simp: fs_save_def fs_inv_def fs_contents_def)
  next
    case (Inr rs)
    have rs: "rs = doc_records (fs_file s)"
      using readAllLocked_value [of s rs s'] x Inr assms by (auto simp: fs_inv_def)
    have st: "\<forall>(j, y) \<in> set rs. json_stored y = y" using assms rs by (auto simp: fs_inv_def)
    obtain e s'' where w: "writeAllLocked (put k r rs) s' = (e, s'')" by fastforce
    have eff: "fs_path s'' = fs_path s' \<and> fs_temp s'' = None \<and>
        fs_file s'' = (if e = None then Some (marshal_records (put k r rs)) else fs_file s')"
      using writeAllLocked_effect [OF w] assms frame by (auto simp: fs_inv_def)
    have "fs_save k r s = (e, s'')" using x Inr w by (simp add: fs_save_def)
    then show ?thesis
      using eff frame assms rs st marshal_put [OF st, of k r]
      by (auto simp: fs_inv_def fs_contents_def marshal_records_def)
  qed
qed

lemma fs_delete_effect:
  assumes "fs_inv s"
  shows "fs_inv (snd (fs_delete k s)) \<and>
         fs_contents (snd (fs_delete k s)) =
           (if fst (fs_delete k s) = None then (fs_contents s)(k := None)
            else fs_contents s)"
proof -
  obtain x s' where x: "readAllLocked s = (x, s')" by fastforce
  note frame = readAllLocked_frame [OF x]
  show ?thesis
  proof (cases x)
    case (Inl e)
    then show ?thesis
      using assms frame x by (auto simp: fs_delete_def fs_inv_def fs_contents_def)
  next
    case (Inr rs)
    have rs: "rs = doc_records (fs_file s)"
      using readAllLocked_value [of s rs s'] x Inr assms by (auto simp: fs_inv_def)
    have st: "\<forall>(j, y) \<in> set (del k rs). json_stored y = y"
      using assms rs by (auto simp: fs_inv_def)
    show ?thesis
    proof (cases "map_of rs k")
      case None
      then show ?thesis
        using x Inr assms frame rs
        by (auto simp: fs_delete_def fs_inv_def fs_contents_def fun_eq_iff)
    next
      case (Some y)
      obtain e s'' where w: "writeAllLocked (del k rs) s' = (e, s'')" by fastforce
      have eff: "fs_path s'' = fs_path s' \<and> fs_temp s'' = None \<and>
          fs_file s'' = (if e = None then Some (marshal_records (del k rs)) else fs_file s')"
        using writeAllLocked_effect [OF w] assms frame by (auto simp: fs_inv_def)
      have "fs_delete k s = (e, s'')" using x Inr w Some by (simp add: fs_delete_def)
      then show ?thesis
        using eff frame assms rs st marshal_stored [OF st]
        by (auto simp: fs_inv_def fs_contents_def marshal_records_def)
    qed
  qed
qed

interpretation fs: session_store fs_load fs_save fs_delete fs_contents fs_inv
  by unfold_locales
    (use fs_load_effect fs_save_effect fs_delete_effect in \<open>auto split: if_splits\<close>)

text \<open>No fault is scripted and the file is not corrupt.\<close>

definition fs_ok :: "file_store \<Rightarrow> bool" where
  "fs_ok s \<longleftrightarrow> fs_faults s = [] \<and> fs_file s \<noteq> Some BadDoc"

lemma sys_call_ok: "fs_faults s = [] \<Longrightarrow> sys_call s = (None, s)"
  by (simp add: sys_call_def)

lemma readAllLocked_ok:
  assumes "fs_ok s"
  shows "readAllLocked s = (Inr (if fs_path s = [] then [] else doc_records (fs_file s)), s)"
  using assms
  by (auto simp: fs_ok_def readAllLocked_def sys_call_ok split: option.splits document.splits)

lemma writeAllLocked_ok:
  assumes "fs_faults s = []" and "fs_path s \<noteq> []"
  shows "writeAllLocked rs s =
    (None, s\<lparr>fs_file := Some (marshal_records rs), fs_temp := None\<rparr>)"
  using assms by (simp add: writeAllLocked_def sys_call_ok remove_temp_def)

interpretation fs: reliable_store fs_load fs_save fs_delete fs_contents fs_inv fs_ok
proof unfold_locales
  fix s k
  assume "fs_inv s" and "fs_ok s"
  then have p: "fs_path s \<noteq> []" "fs_faults s = []" by (auto simp: fs_inv_def fs_ok_def)
  note r = readAllLocked_ok [OF \<open>fs_ok s\<close>]
  show "\<exists>x. fst (fs_load k s) = Inr x" "fs_ok (snd (fs_load k s))"
    using r \<open>fs_ok s\<close> by (simp_all add: fs_load_def)
  show "fst (fs_save k x s) = None" "fs_ok (snd (fs_save k x s))" for x
    using r p by (simp_all add: fs_save_def writeAllLocked_ok fs_ok_def marshal_records_def)
  show "fst (fs_delete k s) = None" "fs_ok (snd (fs_delete k s))"
    using r p \<open>fs_ok s\<close> by (simp_all add: fs_delete_def writeAllLocked_ok fs_ok_def marshal_records_def)
qed

lemma fs_ops [simp]: "fs.ops = file_store_ops"
  by (simp add: fs.ops_def file_store_ops_def)

lemma fs_inv_NewFileStore: "path \<noteq> [] \<Longrightarrow> fs_inv (NewFileStore path None)"
  by (simp add: fs_inv_def NewFileStore_def)

end
