(* ===== verification/Session_Manager.thy ===== *)
theory Session_Manager
  imports Session_Store
begin

text \<open>
  \<open>internal/session/manager.go\<close>: the session manager and its leases, one function per
  operation, written as the composition of the critical sections of the code (the theory
  Session_Concurrency runs the same critical sections under an arbitrary scheduler).

  The Go objects \<open>*managedSession\<close> live in a heap \<open>m_entries\<close> and are compared by their
  address, as the code compares pointers; \<open>m_sessions\<close> is the map \<open>m.sessions\<close>.  The answers
  of the runtime (session factory, resume, close, delete) and of the request context are the
  record \<open>runtime_env\<close>; every call made on the runtime is appended to \<open>m_calls\<close>.  The clock is
  the argument \<open>now\<close>: one instant per operation.  The \<open>Store\<close> is the argument \<open>st\<close>, \<open>None\<close>
  being the nil interface.
\<close>

section \<open>State\<close>

record managed_session =
  ms_key :: string
  ms_spec :: session_spec
  ms_session_id :: string
  ms_session :: "rt_session option"
  ms_has_delete :: bool
  ms_created_at :: int
  ms_last_used :: int
  ms_locked :: bool
  ms_activity :: "nat option"
  ms_ready :: bool

record 's manager =
  m_ttl :: int
  m_max_active_sessions :: int
  m_max_active_per_namespace :: int
  m_sessions :: "(string \<times> nat) list"
  m_entries :: "nat \<Rightarrow> managed_session"
  m_next :: nat
  m_store :: 's
  m_calls :: "runtime_call list"

record session_limits =
  MaxActiveSessions :: int
  MaxActivePerNamespace :: int

record runtime_env =
  env_ctx_err :: "go_error option"
  env_new :: "go_error + rt_session"
  env_resume :: "string \<Rightarrow> go_error + rt_session"
  env_close :: "rt_session \<Rightarrow> go_error option"
  env_delete :: "string \<Rightarrow> go_error option"

text \<open>Go's zero \<open>time.Time\<close> (year 1) in nanoseconds since the epoch.\<close>

definition zero_time :: int where
  "zero_time = -62135596800000000000"

definition new_entry :: "string \<Rightarrow> session_spec \<Rightarrow> bool \<Rightarrow> managed_session" where
  "new_entry key spec has_delete =
     \<lparr>ms_key = key, ms_spec = spec, ms_session_id = [], ms_session = None,
      ms_has_delete = has_delete, ms_created_at = zero_time, ms_last_used = 0,
      ms_locked = True, ms_activity = None, ms_ready = False\<rparr>"

definition no_entry :: managed_session where
  "no_entry = (new_entry [] \<lparr>sp_model = [], sp_system_prompt = [], sp_system_prompt_mode = [],
     sp_reasoning_effort = [], sp_agent = [], sp_interactive = False, sp_tools_fingerprint = [],
     sp_permission_mode = [], sp_provider_fingerprint = [],
     sp_provider_secret_fingerprint = []\<rparr> False)\<lparr>ms_locked := False\<rparr>"

definition NewManagerWithStore :: "int \<Rightarrow> session_limits \<Rightarrow> 's \<Rightarrow> 's manager" where
  "NewManagerWithStore ttl limits store =
     \<lparr>m_ttl = ttl, m_max_active_sessions = MaxActiveSessions limits,
      m_max_active_per_namespace = MaxActivePerNamespace limits,
      m_sessions = [], m_entries = (\<lambda>_. no_entry), m_next = 0, m_store = store,
      m_calls = []\<rparr>"

section \<open>Entries: update, lock, touch\<close>

abbreviation entry :: "'s manager \<Rightarrow> nat \<Rightarrow> managed_session" where
  "entry m e \<equiv> m_entries m e"

definition update_entry :: "nat \<Rightarrow> (managed_session \<Rightarrow> managed_session) \<Rightarrow> 's manager \<Rightarrow> 's manager" where
  "update_entry e f m = m\<lparr>m_entries := (m_entries m)(e := f (m_entries m e))\<rparr>"

definition touch :: "int \<Rightarrow> nat \<Rightarrow> 's manager \<Rightarrow> 's manager" where
  "touch now e = update_entry e (\<lambda>x. x\<lparr>ms_last_used := now\<rparr>)"

definition lock_entry :: "nat \<Rightarrow> 's manager \<Rightarrow> 's manager" where
  "lock_entry e = update_entry e (\<lambda>x. x\<lparr>ms_locked := True\<rparr>)"

definition unlock_entry :: "nat \<Rightarrow> 's manager \<Rightarrow> 's manager" where
  "unlock_entry e = update_entry e (\<lambda>x. x\<lparr>ms_locked := False\<rparr>)"

definition mark_ready :: "nat \<Rightarrow> 's manager \<Rightarrow> 's manager" where
  "mark_ready e = update_entry e (\<lambda>x. x\<lparr>ms_ready := True\<rparr>)"

definition log_call :: "runtime_call \<Rightarrow> 's manager \<Rightarrow> 's manager" where
  "log_call c m = m\<lparr>m_calls := m_calls m @ [c]\<rparr>"

lemmas entry_defs = update_entry_def touch_def lock_entry_def unlock_entry_def mark_ready_def
  log_call_def

lemma update_entry_simps [simp]:
  "m_ttl (update_entry e f m) = m_ttl m"
  "m_max_active_sessions (update_entry e f m) = m_max_active_sessions m"
  "m_max_active_per_namespace (update_entry e f m) = m_max_active_per_namespace m"
  "m_sessions (update_entry e f m) = m_sessions m"
  "m_next (update_entry e f m) = m_next m"
  "m_store (update_entry e f m) = m_store m"
  "m_calls (update_entry e f m) = m_calls m"
  "entry (update_entry e f m) d = (if d = e then f (entry m e) else entry m d)"
  by (simp_all add: update_entry_def)

lemma log_call_simps [simp]:
  "m_ttl (log_call c m) = m_ttl m"
  "m_max_active_sessions (log_call c m) = m_max_active_sessions m"
  "m_max_active_per_namespace (log_call c m) = m_max_active_per_namespace m"
  "m_sessions (log_call c m) = m_sessions m"
  "m_next (log_call c m) = m_next m"
  "m_store (log_call c m) = m_store m"
  "m_calls (log_call c m) = m_calls m @ [c]"
  "m_entries (log_call c m) = m_entries m"
  by (simp_all add: log_call_def)

text \<open>\<open>lastUsedAt\<close>, \<open>specsEqual\<close>, \<open>specForStorage\<close>, \<open>persistedSpecMatches\<close>.\<close>

definition last_used_at :: "managed_session \<Rightarrow> int" where
  "last_used_at x = ms_last_used x"

definition specsEqual :: "session_spec \<Rightarrow> session_spec \<Rightarrow> bool" where
  "specsEqual left right \<longleftrightarrow> left = right"

definition specForStorage :: "session_spec \<Rightarrow> session_spec" where
  "specForStorage spec = spec\<lparr>sp_provider_secret_fingerprint := []\<rparr>"

definition persistedSpecMatches :: "session_spec \<Rightarrow> session_spec \<Rightarrow> bool" where
  "persistedSpecMatches stored requested \<longleftrightarrow> stored = specForStorage requested"

section \<open>The store, possibly nil\<close>

definition store_load ::
    "'s store_ops option \<Rightarrow> string \<Rightarrow> 's manager \<Rightarrow> (go_error + stored_session option) \<times> 's manager"
  where
  "store_load st key m =
     (case st of None \<Rightarrow> (Inr None, m)
      | Some ops \<Rightarrow> (let (r, s) = op_load ops key (m_store m) in (r, m\<lparr>m_store := s\<rparr>)))"

definition store_save ::
    "'s store_ops option \<Rightarrow> string \<Rightarrow> stored_session \<Rightarrow> 's manager \<Rightarrow> go_error option \<times> 's manager"
  where
  "store_save st key r m =
     (case st of None \<Rightarrow> (None, m)
      | Some ops \<Rightarrow> (let (e, s) = op_save ops key r (m_store m) in (e, m\<lparr>m_store := s\<rparr>)))"

definition store_delete ::
    "'s store_ops option \<Rightarrow> string \<Rightarrow> 's manager \<Rightarrow> go_error option \<times> 's manager" where
  "store_delete st key m =
     (case st of None \<Rightarrow> (None, m)
      | Some ops \<Rightarrow> (let (e, s) = op_delete ops key (m_store m) in (e, m\<lparr>m_store := s\<rparr>)))"

lemmas store_call_defs = store_load_def store_save_def store_delete_def

text \<open>What a store call changes: only the state of the store.\<close>

definition same_but_store :: "'s manager \<Rightarrow> 's manager \<Rightarrow> bool" where
  "same_but_store m m' \<longleftrightarrow> m' = m\<lparr>m_store := m_store m'\<rparr>"

lemma store_calls_frame [simp]:
  "same_but_store m (snd (store_load st key m))"
  "same_but_store m (snd (store_save st key r m))"
  "same_but_store m (snd (store_delete st key m))"
  by (auto simp: same_but_store_def store_call_defs split: option.splits prod.splits)

lemma same_but_storeD:
  assumes "same_but_store m m'"
  shows "m_ttl m' = m_ttl m" "m_max_active_sessions m' = m_max_active_sessions m"
    "m_max_active_per_namespace m' = m_max_active_per_namespace m"
    "m_sessions m' = m_sessions m" "m_entries m' = m_entries m" "m_next m' = m_next m"
    "m_calls m' = m_calls m"
  using assms unfolding same_but_store_def by (metis manager.select_convs manager.update_convs(7) manager.surjective)+

lemmas store_load_frame [simp] = same_but_storeD [OF store_calls_frame(1)]
lemmas store_save_frame [simp] = same_but_storeD [OF store_calls_frame(2)]
lemmas store_delete_frame [simp] = same_but_storeD [OF store_calls_frame(3)]

section \<open>Creating and destroying runtime sessions\<close>

text \<open>
  \<open>createSessionWithContext\<close>: the call is made in a goroutine; when the context is done first
  the caller gets the context's error, and the session that arrives later is closed.
\<close>

definition createSessionWithContext ::
    "runtime_env \<Rightarrow> runtime_call \<Rightarrow> (go_error + rt_session) \<Rightarrow> 's manager \<Rightarrow>
     (go_error + rt_session) \<times> 's manager" where
  "createSessionWithContext env call answer m =
     (case env_ctx_err env of
        None \<Rightarrow> (answer, log_call call m)
      | Some e \<Rightarrow>
          (Inl e, (case answer of Inl _ \<Rightarrow> log_call call m
                   | Inr s \<Rightarrow> log_call (CallClose s) (log_call call m))))"

text \<open>An error that \<open>destroyPersistentSession\<close> and its kin report: not \<open>ErrSessionNotFound\<close>.\<close>

definition reportable :: "go_error option \<Rightarrow> go_error option" where
  "reportable e = (case e of Some x \<Rightarrow> if errors_is x ErrSessionNotFound then None else Some x
                   | None \<Rightarrow> None)"

definition close_session :: "runtime_env \<Rightarrow> managed_session \<Rightarrow> 's manager \<Rightarrow> go_error option \<times> 's manager"
  where
  "close_session env x m =
     (case ms_session x of None \<Rightarrow> (None, m)
      | Some s \<Rightarrow> (reportable (env_close env s), log_call (CallClose s) m))"

definition delete_by_id ::
    "runtime_env \<Rightarrow> bool \<Rightarrow> string \<Rightarrow> 's manager \<Rightarrow> go_error option \<times> 's manager" where
  "delete_by_id env has_delete sid m =
     (if has_delete then (reportable (env_delete env sid), log_call (CallDelete sid) m)
      else (None, m))"

definition destroyPersistentSession ::
    "'s store_ops option \<Rightarrow> runtime_env \<Rightarrow> nat \<Rightarrow> 's manager \<Rightarrow> go_error option \<times> 's manager" where
  "destroyPersistentSession st env e m =
     (let x = entry m e;
          (e1, m1) = close_session env x m;
          (e2, m2) = (if ms_key x \<noteq> [] then store_delete st (ms_key x) m1 else (None, m1));
          (e3, m3) = (if ms_session_id x \<noteq> [] then delete_by_id env (ms_has_delete x) (ms_session_id x) m2
                      else (None, m2))
      in (first_error (first_error e1 e2) e3, m3))"

definition disconnectPersistentSession ::
    "runtime_env \<Rightarrow> nat \<Rightarrow> 's manager \<Rightarrow> go_error option \<times> 's manager" where
  "disconnectPersistentSession env e m = close_session env (entry m e) m"

definition removeStoredSession ::
    "'s store_ops option \<Rightarrow> runtime_env \<Rightarrow> bool \<Rightarrow> string \<Rightarrow> stored_session \<Rightarrow> 's manager \<Rightarrow>
     go_error option \<times> 's manager" where
  "removeStoredSession st env has_delete key r m =
     (if st = None then (None, m)
      else (case store_delete st key m of
              (Some e, m1) \<Rightarrow> (Some e, m1)
            | (None, m1) \<Rightarrow> delete_by_id env has_delete (ss_session_id r) m1))"

section \<open>The critical sections of Acquire\<close>

definition sessionNamespace :: "string \<Rightarrow> string" where
  "sessionNamespace key = (case cut_at (CHR '':'') key of Some (p, _) \<Rightarrow> p | None \<Rightarrow> key)"

definition active_in_namespace :: "string \<Rightarrow> (string \<times> nat) list \<Rightarrow> nat" where
  "active_in_namespace ns sessions = length (filter (\<lambda>p. sessionNamespace (fst p) = ns) sessions)"

definition validateCapacityLocked :: "'s manager \<Rightarrow> string \<Rightarrow> go_error option" where
  "validateCapacityLocked m key =
     (if m_max_active_sessions m > 0 \<and> int (length (m_sessions m)) \<ge> m_max_active_sessions m
      then Some (err ErrTooManySessions)
      else if m_max_active_per_namespace m \<le> 0 then None
      else if int (active_in_namespace (sessionNamespace key) (m_sessions m)) \<ge> m_max_active_per_namespace m
      then Some (err ErrTooManySessionsForNamespace)
      else None)"

datatype enter_outcome = EnterError go_error | EnterWait nat | EnterCreate nat

text \<open>The first critical section under \<open>m.mu\<close>: find the entry or insert a locked one.\<close>

definition acquire_enter ::
    "bool \<Rightarrow> string \<Rightarrow> session_spec \<Rightarrow> 's manager \<Rightarrow> enter_outcome \<times> 's manager" where
  "acquire_enter has_delete key spec m =
     (case map_of (m_sessions m) key of
        Some e \<Rightarrow>
          (if \<not> specsEqual (ms_spec (entry m e)) spec then (EnterError (err ErrSessionSpecMismatch), m)
           else (EnterWait e, m))
      | None \<Rightarrow>
          (case validateCapacityLocked m key of
             Some er \<Rightarrow> (EnterError er, m)
           | None \<Rightarrow>
               (EnterCreate (m_next m),
                m\<lparr>m_entries := (m_entries m)(m_next m := new_entry key spec has_delete),
                  m_sessions := put key (m_next m) (m_sessions m),
                  m_next := Suc (m_next m)\<rparr>)))"

text \<open>The second one, with the entry's lock held: is it still the one in the map?\<close>

definition is_current :: "'s manager \<Rightarrow> string \<Rightarrow> nat \<Rightarrow> bool" where
  "is_current m key e \<longleftrightarrow> map_of (m_sessions m) key = Some e"

definition acquire_recheck :: "int \<Rightarrow> string \<Rightarrow> nat \<Rightarrow> 's manager \<Rightarrow> bool \<times> 's manager" where
  "acquire_recheck now key e m =
     (if is_current m key e then (True, touch now e m) else (False, unlock_entry e m))"

definition unmap_entry :: "string \<Rightarrow> nat \<Rightarrow> 's manager \<Rightarrow> 's manager" where
  "unmap_entry key e m = (if is_current m key e then m\<lparr>m_sessions := del key (m_sessions m)\<rparr> else m)"

text \<open>The closure \<open>cleanupEntry\<close>, and the deferred \<open>markReady\<close> of a failed creation.\<close>

definition cleanup_entry :: "string \<Rightarrow> nat \<Rightarrow> 's manager \<Rightarrow> 's manager" where
  "cleanup_entry key e m = mark_ready e (unlock_entry e (unmap_entry key e m))"

datatype load_outcome =
    LoadError go_error | LoadNone | LoadMismatch stored_session
  | LoadExpired stored_session | LoadHit stored_session

definition acquire_load ::
    "'s store_ops option \<Rightarrow> int \<Rightarrow> string \<Rightarrow> session_spec \<Rightarrow> 's manager \<Rightarrow> load_outcome \<times> 's manager" where
  "acquire_load st now key spec m =
     (case store_load st key m of
        (Inl e, m1) \<Rightarrow> (LoadError e, m1)
      | (Inr None, m1) \<Rightarrow> (LoadNone, m1)
      | (Inr (Some r), m1) \<Rightarrow>
          (if \<not> persistedSpecMatches (ss_spec r) spec then (LoadMismatch r, m1)
           else if m_ttl m > 0 \<and> now - ss_updated_at r \<ge> m_ttl m then (LoadExpired r, m1)
           else (LoadHit r, m1)))"

text \<open>The fields set when the runtime session is there, and the record saved for it.\<close>

definition fill_entry ::
    "int \<Rightarrow> nat \<Rightarrow> stored_session option \<Rightarrow> rt_session \<Rightarrow> 's manager \<Rightarrow> 's manager" where
  "fill_entry now e persisted sess m =
     update_entry e (\<lambda>x. x\<lparr>ms_session_id := rs_id sess,
       ms_created_at := (case persisted of
            Some r \<Rightarrow> if ss_created_at r \<noteq> zero_time then ss_created_at r else now
          | None \<Rightarrow> now),
       ms_session := Some sess, ms_last_used := now\<rparr>) m"

definition entry_record :: "int \<Rightarrow> managed_session \<Rightarrow> stored_session" where
  "entry_record now x =
     \<lparr>ss_session_id = ms_session_id x, ss_spec = specForStorage (ms_spec x),
      ss_created_at = ms_created_at x, ss_updated_at = now\<rparr>"

section \<open>Leases\<close>

datatype lease_target = EphemeralLease rt_session | EntryLease string nat

record lease =
  le_session :: "rt_session option"
  le_session_id :: string
  le_persistent :: bool
  le_created :: bool
  le_target :: lease_target
  le_done :: bool
  le_final_err :: "go_error option"

definition newLease :: "string \<Rightarrow> nat \<Rightarrow> bool \<Rightarrow> 's manager \<Rightarrow> lease" where
  "newLease key e created m =
     \<lparr>le_session = ms_session (entry m e), le_session_id = ms_session_id (entry m e),
      le_persistent = True, le_created = created, le_target = EntryLease key e,
      le_done = False, le_final_err = None\<rparr>"

definition ephemeral_lease :: "rt_session \<Rightarrow> lease" where
  "ephemeral_lease s =
     \<lparr>le_session = Some s, le_session_id = rs_id s, le_persistent = False, le_created = True,
      le_target = EphemeralLease s, le_done = False, le_final_err = None\<rparr>"

section \<open>Acquire\<close>

text \<open>The session of a new entry: resumed from the stored record, or a fresh one.\<close>

definition acquire_session ::
    "'s store_ops option \<Rightarrow> runtime_env \<Rightarrow> bool \<Rightarrow> string \<Rightarrow> stored_session option \<Rightarrow> 's manager \<Rightarrow>
     (go_error + rt_session \<times> bool \<times> stored_session option) \<times> 's manager" where
  "acquire_session st env has_resume key persisted m =
     (let fresh = (\<lambda>p m1. case createSessionWithContext env CallNew (env_new env) m1 of
                       (Inl e, m2) \<Rightarrow> (Inl e, m2)
                     | (Inr s, m2) \<Rightarrow> (Inr (s, True, p), m2))
      in (case persisted of
            Some r \<Rightarrow>
              (if \<not> has_resume then fresh persisted m
               else (case createSessionWithContext env (CallResume (ss_session_id r))
                            (env_resume env (ss_session_id r)) m of
                       (Inr s, m1) \<Rightarrow> (Inr (s, False, persisted), m1)
                     | (Inl e, m1) \<Rightarrow>
                         (if \<not> errors_is e ErrSessionNotFound then (Inl e, m1)
                          else (case store_delete st key m1 of
                                  (Some de, m2) \<Rightarrow> (Inl de, m2)
                                | (None, m2) \<Rightarrow> fresh None m2))))
          | None \<Rightarrow> fresh None m))"

text \<open>From the runtime session to the lease: set the fields, save the record, mark ready.\<close>

definition acquire_finish ::
    "'s store_ops option \<Rightarrow> runtime_env \<Rightarrow> int \<Rightarrow> string \<Rightarrow> nat \<Rightarrow> rt_session \<Rightarrow> bool \<Rightarrow>
     stored_session option \<Rightarrow> 's manager \<Rightarrow> (go_error + lease) \<times> 's manager" where
  "acquire_finish st env now key e sess created persisted m =
     (let m1 = fill_entry now e persisted sess m
      in (case store_save st key (entry_record now (entry m1 e)) m1 of
            (Some er, m2) \<Rightarrow> (Inl er, cleanup_entry key e (log_call (CallClose sess) m2))
          | (None, m2) \<Rightarrow> (let m3 = mark_ready e m2 in (Inr (newLease key e created m3), m3))))"

text \<open>The stored record a new entry may resume; a mismatched or expired one is removed.\<close>

definition acquire_persisted ::
    "'s store_ops option \<Rightarrow> runtime_env \<Rightarrow> int \<Rightarrow> bool \<Rightarrow> string \<Rightarrow> session_spec \<Rightarrow> 's manager \<Rightarrow>
     (go_error + stored_session option) \<times> 's manager" where
  "acquire_persisted st env now has_delete key spec m =
     (case acquire_load st now key spec m of
        (LoadError er, m1) \<Rightarrow> (Inl er, m1)
      | (LoadNone, m1) \<Rightarrow> (Inr None, m1)
      | (LoadMismatch r, m1) \<Rightarrow>
          (case removeStoredSession st env has_delete key r m1 of
             (Some er, m2) \<Rightarrow> (Inl er, m2)
           | (None, m2) \<Rightarrow> (Inl (err ErrSessionSpecMismatch), m2))
      | (LoadExpired r, m1) \<Rightarrow>
          (case removeStoredSession st env has_delete key r m1 of
             (Some er, m2) \<Rightarrow> (Inl er, m2)
           | (None, m2) \<Rightarrow> (Inr None, m2))
      | (LoadHit r, m1) \<Rightarrow> (Inr (Some r), m1))"

definition acquire_create ::
    "'s store_ops option \<Rightarrow> runtime_env \<Rightarrow> int \<Rightarrow> bool \<Rightarrow> bool \<Rightarrow> string \<Rightarrow> session_spec \<Rightarrow> nat \<Rightarrow>
     's manager \<Rightarrow> (go_error + lease) \<times> 's manager" where
  "acquire_create st env now has_resume has_delete key spec e m =
     (case acquire_persisted st env now has_delete key spec m of
        (Inl er, m1) \<Rightarrow> (Inl er, cleanup_entry key e m1)
      | (Inr persisted, m1) \<Rightarrow>
          (case acquire_session st env has_resume key persisted m1 of
             (Inl er, m2) \<Rightarrow> (Inl er, cleanup_entry key e m2)
           | (Inr (sess, created, persisted'), m2) \<Rightarrow>
               acquire_finish st env now key e sess created persisted' m2))"

text \<open>
  \<open>Acquire\<close> run without interference.  A locked entry is never unlocked then, so the wait of
  \<open>lockManagedSession\<close> ends with the context's error \<open>wait_err\<close>; and the recheck succeeds, so the loop
  runs once.
\<close>

definition Acquire ::
    "'s store_ops option \<Rightarrow> runtime_env \<Rightarrow> go_error \<Rightarrow> int \<Rightarrow> bool \<Rightarrow> bool \<Rightarrow> string \<Rightarrow> session_spec \<Rightarrow>
     's manager \<Rightarrow> (go_error + lease) \<times> 's manager" where
  "Acquire st env wait_err now has_resume has_delete key spec m =
     (if key = [] then
        (case createSessionWithContext env CallNew (env_new env) m of
           (Inl er, m1) \<Rightarrow> (Inl er, m1)
         | (Inr s, m1) \<Rightarrow> (Inr (ephemeral_lease s), m1))
      else
        (case acquire_enter has_delete key spec m of
           (EnterError er, m1) \<Rightarrow> (Inl er, m1)
         | (EnterWait e, m1) \<Rightarrow>
             (case env_ctx_err env of
                Some er \<Rightarrow> (Inl er, m1)
              | None \<Rightarrow>
                  (if ms_locked (entry m1 e) then (Inl wait_err, m1)
                   else (let (_, m2) = acquire_recheck now key e (lock_entry e m1)
                         in (Inr (newLease key e False m2), m2))))
         | (EnterCreate e, m1) \<Rightarrow>
             acquire_create st env now has_resume has_delete key spec e m1))"

section \<open>Release and Discard\<close>

definition release_entry ::
    "'s store_ops option \<Rightarrow> int \<Rightarrow> string \<Rightarrow> nat \<Rightarrow> 's manager \<Rightarrow> go_error option \<times> 's manager" where
  "release_entry st now key e m =
     (let m1 = touch now e m;
          (er, m2) = store_save st key (entry_record now (entry m1 e)) m1
      in (er, unlock_entry e m2))"

definition discard_entry ::
    "'s store_ops option \<Rightarrow> runtime_env \<Rightarrow> string \<Rightarrow> nat \<Rightarrow> 's manager \<Rightarrow> go_error option \<times> 's manager" where
  "discard_entry st env key e m =
     (let (er, m1) = destroyPersistentSession st env e (unmap_entry key e m)
      in (er, unlock_entry e m1))"

definition finish_lease :: "lease \<Rightarrow> go_error option \<times> 's manager \<Rightarrow> go_error option \<times> lease \<times> 's manager" where
  "finish_lease l r = (fst r, l\<lparr>le_done := True, le_final_err := fst r\<rparr>, snd r)"

text \<open>\<open>Lease.Release\<close> and \<open>Lease.Discard\<close> share one \<open>sync.Once\<close>.\<close>

definition Release ::
    "'s store_ops option \<Rightarrow> runtime_env \<Rightarrow> int \<Rightarrow> lease \<Rightarrow> 's manager \<Rightarrow> go_error option \<times> lease \<times> 's manager" where
  "Release st env now l m =
     (if le_done l then (le_final_err l, l, m)
      else finish_lease l
        (case le_target l of
           EphemeralLease s \<Rightarrow> (env_close env s, log_call (CallClose s) m)
         | EntryLease key e \<Rightarrow> release_entry st now key e m))"

definition Discard ::
    "'s store_ops option \<Rightarrow> runtime_env \<Rightarrow> lease \<Rightarrow> 's manager \<Rightarrow> go_error option \<times> lease \<times> 's manager" where
  "Discard st env l m =
     (if le_done l then (le_final_err l, l, m)
      else finish_lease l
        (case le_target l of
           EphemeralLease s \<Rightarrow> (env_close env s, log_call (CallClose s) m)
         | EntryLease key e \<Rightarrow> discard_entry st env key e m))"

section \<open>Expiry and shutdown\<close>

text \<open>The loop of \<open>CleanupExpired\<close> over the map, under \<open>m.mu\<close>.\<close>

definition stale :: "int \<Rightarrow> 's manager \<Rightarrow> nat \<Rightarrow> bool" where
  "stale now m e \<longleftrightarrow> \<not> (now - last_used_at (entry m e) < m_ttl m) \<and> \<not> ms_locked (entry m e)"

fun sweep :: "int \<Rightarrow> (string \<times> nat) list \<Rightarrow> 's manager \<Rightarrow> nat list \<times> 's manager" where
  "sweep now [] m = ([], m)"
| "sweep now ((key, e) # rest) m =
     (if now - last_used_at (entry m e) < m_ttl m then sweep now rest m
      else if ms_locked (entry m e) then sweep now rest m
      else (let (es, m') = sweep now rest (lock_entry e (m\<lparr>m_sessions := del key (m_sessions m)\<rparr>))
            in (e # es, m')))"

fun destroy_all ::
    "'s store_ops option \<Rightarrow> runtime_env \<Rightarrow> nat list \<Rightarrow> go_error option \<Rightarrow> 's manager \<Rightarrow> go_error option \<times> 's manager"
  where
  "destroy_all st env [] acc m = (acc, m)"
| "destroy_all st env (e # es) acc m =
     (let (er, m1) = destroyPersistentSession st env e m
      in destroy_all st env es (first_error acc er) (unlock_entry e m1))"

definition CleanupExpired ::
    "'s store_ops option \<Rightarrow> runtime_env \<Rightarrow> int \<Rightarrow> 's manager \<Rightarrow> go_error option \<times> 's manager" where
  "CleanupExpired st env now m =
     (if m_ttl m \<le> 0 then (None, m)
      else (let (es, m1) = sweep now (m_sessions m) m in destroy_all st env es None m1))"

text \<open>
  The loop of \<open>closeContext\<close> over the entries taken out of the map.  A locked entry is waited
  for until the context is done (\<open>wait_err\<close>).
\<close>

fun close_all ::
    "'s store_ops option \<Rightarrow> runtime_env \<Rightarrow> go_error \<Rightarrow> bool \<Rightarrow> nat list \<Rightarrow> go_error option \<Rightarrow> 's manager \<Rightarrow>
     go_error option \<times> 's manager" where
  "close_all st env wait_err preserve [] acc m = (acc, m)"
| "close_all st env wait_err preserve (e # es) acc m =
     (case env_ctx_err env of
        Some er \<Rightarrow> close_all st env wait_err preserve es (first_error acc (Some er)) m
      | None \<Rightarrow>
          (if ms_locked (entry m e)
           then close_all st env wait_err preserve es (first_error acc (Some wait_err)) m
           else (let (er, m1) = (if preserve then disconnectPersistentSession env e (lock_entry e m)
                                 else destroyPersistentSession st env e (lock_entry e m))
                 in close_all st env wait_err preserve es (first_error acc er) (unlock_entry e m1))))"

definition closeContext ::
    "'s store_ops option \<Rightarrow> runtime_env \<Rightarrow> go_error \<Rightarrow> bool \<Rightarrow> 's manager \<Rightarrow> go_error option \<times> 's manager" where
  "closeContext st env wait_err preserve m =
     close_all st env wait_err preserve (map snd (m_sessions m)) None (m\<lparr>m_sessions := []\<rparr>)"

definition CloseContext ::
    "'s store_ops option \<Rightarrow> runtime_env \<Rightarrow> go_error \<Rightarrow> 's manager \<Rightarrow> go_error option \<times> 's manager" where
  "CloseContext st env wait_err = closeContext st env wait_err False"

definition DisconnectContext ::
    "'s store_ops option \<Rightarrow> runtime_env \<Rightarrow> go_error \<Rightarrow> 's manager \<Rightarrow> go_error option \<times> 's manager" where
  "DisconnectContext st env wait_err = closeContext st env wait_err True"

section \<open>Lookup and activity hooks\<close>

text \<open>
  \<open>waitReady\<close> blocks until the entry's creation is over; \<open>Lookup\<close> and \<open>TouchActivity\<close> are
  modelled from that moment on, so an entry they find is ready.  A hook is a number.
\<close>

definition Lookup :: "string \<Rightarrow> 's manager \<Rightarrow> rt_session option" where
  "Lookup key m =
     (if blank key then None
      else (case map_of (m_sessions m) key of None \<Rightarrow> None | Some e \<Rightarrow> ms_session (entry m e)))"

definition SetActivityHook :: "string \<Rightarrow> nat \<Rightarrow> 's manager \<Rightarrow> nat option \<times> 's manager" where
  "SetActivityHook key hook m =
     (if blank key then (None, m)
      else (case map_of (m_sessions m) key of
              None \<Rightarrow> (None, m)
            | Some e \<Rightarrow> (Some e, update_entry e (\<lambda>x. x\<lparr>ms_activity := Some hook\<rparr>) m)))"

text \<open>The closure that \<open>SetActivityHook\<close> returns clears the hook of the entry it found.\<close>

definition clear_activity :: "nat option \<Rightarrow> 's manager \<Rightarrow> 's manager" where
  "clear_activity target m =
     (case target of None \<Rightarrow> m | Some e \<Rightarrow> update_entry e (\<lambda>x. x\<lparr>ms_activity := None\<rparr>) m)"

definition TouchActivity :: "string \<Rightarrow> 's manager \<Rightarrow> nat option" where
  "TouchActivity key m =
     (if blank key then None
      else (case map_of (m_sessions m) key of None \<Rightarrow> None | Some e \<Rightarrow> ms_activity (entry m e)))"

end
