(* ===== verification/Session_Manager_Facts.thy ===== *)
theory Session_Manager_Facts
  imports Session_Manager
begin

text \<open>
  The lemmas of the session manager: what each operation leaves alone (\<open>same_core\<close>), the
  invariant \<open>mgr_inv\<close> of the map, the heap and the capacity limits with its preservation by
  every operation, and the behaviour of the operations on success and on error.  The lemmas
  that need the contract of the store are proved in the locale \<open>session_store\<close> and reach the
  properties through its interpretation on \<open>FileStore\<close>.
\<close>

section \<open>Frames\<close>

definition same_core :: "'s manager \<Rightarrow> 's manager \<Rightarrow> bool" where
  "same_core m m' \<longleftrightarrow>
     m_ttl m' = m_ttl m \<and> m_max_active_sessions m' = m_max_active_sessions m \<and>
     m_max_active_per_namespace m' = m_max_active_per_namespace m \<and>
     m_sessions m' = m_sessions m \<and> m_entries m' = m_entries m \<and> m_next m' = m_next m"

named_theorems core_intros "operations that change only the store and the call log"

lemma same_core_refl [simp]: "same_core m m"
  by (simp add: same_core_def)

lemma same_core_trans: "same_core a b \<Longrightarrow> same_core b c \<Longrightarrow> same_core a c"
  by (simp add: same_core_def)

lemmas same_coreD = same_core_def [THEN iffD1, THEN conjunct1]
  same_core_def [THEN iffD1, THEN conjunct2, THEN conjunct1]
  same_core_def [THEN iffD1, THEN conjunct2, THEN conjunct2, THEN conjunct1]
  same_core_def [THEN iffD1, THEN conjunct2, THEN conjunct2, THEN conjunct2, THEN conjunct1]
  same_core_def [THEN iffD1, THEN conjunct2, THEN conjunct2, THEN conjunct2, THEN conjunct2, THEN conjunct1]
  same_core_def [THEN iffD1, THEN conjunct2, THEN conjunct2, THEN conjunct2, THEN conjunct2, THEN conjunct2]

lemma same_core_store [core_intros]: "same_but_store m m' \<Longrightarrow> same_core m m'"
  using same_but_storeD [of m m'] by (simp add: same_core_def)

lemma same_core_log [core_intros]: "same_core m (log_call c m)"
  by (simp add: same_core_def log_call_def)

lemma same_core_log2 [core_intros]: "same_core a m \<Longrightarrow> same_core a (log_call c m)"
  by (rule same_core_trans [OF _ same_core_log])

lemma same_core_save [core_intros]: "same_core m (snd (store_save st k r m))"
  by (intro core_intros store_calls_frame)

lemma same_core_delete [core_intros]: "same_core m (snd (store_delete st k m))"
  by (intro core_intros store_calls_frame)

lemma same_core_load [core_intros]: "same_core m (snd (store_load st k m))"
  by (intro core_intros store_calls_frame)

lemma same_core_create [core_intros]:
  "same_core m (snd (createSessionWithContext env c a m))"
  by (auto simp: createSessionWithContext_def intro: core_intros split: option.splits sum.splits)

lemma same_core_close [core_intros]: "same_core m (snd (close_session env x m))"
  by (auto simp: close_session_def intro: core_intros split: option.splits)

lemma same_core_delete_by_id [core_intros]: "same_core m (snd (delete_by_id env d sid m))"
  by (auto simp: delete_by_id_def intro: core_intros)

lemma same_core_destroy [core_intros]:
  "same_core m (snd (destroyPersistentSession st env e m))"
proof -
  let ?m1 = "snd (close_session env (entry m e) m)"
  let ?m2 = "if ms_key (entry m e) \<noteq> [] then snd (store_delete st (ms_key (entry m e)) ?m1) else ?m1"
  have "same_core m ?m1" by (rule same_core_close)
  moreover have "same_core ?m1 ?m2" by (simp add: same_core_delete)
  moreover have "same_core ?m2 (snd (destroyPersistentSession st env e m))"
    by (simp add: destroyPersistentSession_def Let_def case_prod_beta same_core_delete_by_id)
  ultimately show ?thesis using same_core_trans by blast
qed

lemma same_core_disconnect [core_intros]:
  "same_core m (snd (disconnectPersistentSession env e m))"
  by (simp add: disconnectPersistentSession_def core_intros)

lemma same_core_remove [core_intros]:
  "same_core m (snd (removeStoredSession st env d key r m))"
  unfolding removeStoredSession_def
  by (auto split: prod.splits option.splits)
    (metis same_core_delete same_core_delete_by_id same_core_trans snd_conv)+

lemma same_core_acquire_load [core_intros]:
  "same_core m (snd (acquire_load st now key spec m))"
  unfolding acquire_load_def
  by (auto split: prod.splits option.splits sum.splits) (metis same_core_load snd_conv)+

lemma same_core_persisted [core_intros]:
  "same_core m (snd (acquire_persisted st env now d key spec m))"
  unfolding acquire_persisted_def
  by (auto split: prod.splits option.splits load_outcome.splits)
    (metis same_core_acquire_load same_core_remove same_core_trans snd_conv)+

lemma same_core_session [core_intros]:
  "same_core m (snd (acquire_session st env hr key p m))"
  unfolding acquire_session_def Let_def
  by (auto split: prod.splits option.splits sum.splits)
    (metis same_core_create same_core_delete same_core_trans snd_conv)+

section \<open>The invariant of the manager\<close>

text \<open>
  The map has distinct, non-empty keys and points into the allocated heap, each entry under its
  own key.
\<close>

definition mgr_wf :: "'s manager \<Rightarrow> bool" where
  "mgr_wf m \<longleftrightarrow> distinct (map fst (m_sessions m)) \<and>
     (\<forall>(k, e) \<in> set (m_sessions m). e < m_next m \<and> ms_key (entry m e) = k \<and> k \<noteq> [])"

text \<open>Neither limit is exceeded.\<close>

definition capacity_ok :: "'s manager \<Rightarrow> bool" where
  "capacity_ok m \<longleftrightarrow>
     (m_max_active_sessions m > 0 \<longrightarrow> int (length (m_sessions m)) \<le> m_max_active_sessions m) \<and>
     (m_max_active_per_namespace m > 0 \<longrightarrow>
        (\<forall>ns. int (active_in_namespace ns (m_sessions m)) \<le> m_max_active_per_namespace m))"

text \<open>An entry in the map that nobody holds is complete: it has its runtime session.\<close>

definition entry_complete :: "managed_session \<Rightarrow> bool" where
  "entry_complete x \<longleftrightarrow>
     (\<exists>s. ms_session x = Some s \<and> ms_session_id x = rs_id s) \<and> ms_ready x"

definition mgr_ready :: "'s manager \<Rightarrow> bool" where
  "mgr_ready m \<longleftrightarrow>
     (\<forall>(k, e) \<in> set (m_sessions m). \<not> ms_locked (entry m e) \<longrightarrow> entry_complete (entry m e))"

definition mgr_inv :: "'s manager \<Rightarrow> bool" where
  "mgr_inv m \<longleftrightarrow> mgr_wf m \<and> capacity_ok m \<and> mgr_ready m"

lemma mgr_inv_NewManagerWithStore: "mgr_inv (NewManagerWithStore ttl limits store)"
  by (simp add: mgr_inv_def mgr_wf_def capacity_ok_def mgr_ready_def NewManagerWithStore_def
      active_in_namespace_def)

lemma mgr_wf_current:
  "mgr_wf m \<Longrightarrow> map_of (m_sessions m) k = Some e \<longleftrightarrow> (k, e) \<in> set (m_sessions m)"
  by (auto simp: mgr_wf_def)

lemma mgr_wf_entry:
  assumes "mgr_wf m" and "map_of (m_sessions m) k = Some e"
  shows "e < m_next m \<and> ms_key (entry m e) = k \<and> k \<noteq> []"
  using assms map_of_SomeD [OF assms(2)] by (auto simp: mgr_wf_def)

lemma mgr_inv_same_core: "same_core m m' \<Longrightarrow> mgr_inv m' = mgr_inv m"
  using same_coreD [of m m'] by (auto simp: mgr_inv_def mgr_wf_def capacity_ok_def mgr_ready_def)

lemma active_in_namespace_filter:
  "active_in_namespace ns (filter P s) \<le> active_in_namespace ns s"
proof -
  have "filter (\<lambda>p. sessionNamespace (fst p) = ns) (filter P s)
      = filter P (filter (\<lambda>p. sessionNamespace (fst p) = ns) s)"
    by (simp add: conj_commute)
  then show ?thesis unfolding active_in_namespace_def by (metis length_filter_le)
qed

lemma capacity_ok_filter:
  assumes "capacity_ok m" and "m_sessions m' = filter P (m_sessions m)"
    and "m_max_active_sessions m' = m_max_active_sessions m"
    and "m_max_active_per_namespace m' = m_max_active_per_namespace m"
  shows "capacity_ok m'"
proof -
  have "int (length (m_sessions m')) \<le> int (length (m_sessions m))" using assms(2) by simp
  moreover have "int (active_in_namespace ns (m_sessions m')) \<le> int (active_in_namespace ns (m_sessions m))"
    for ns
    using assms(2) active_in_namespace_filter by simp
  ultimately show ?thesis using assms(1,3,4) unfolding capacity_ok_def by (metis order_trans)
qed

lemma capacity_ok_del:
  assumes "capacity_ok m" and "m_sessions m' = del k (m_sessions m)"
    and "m_max_active_sessions m' = m_max_active_sessions m"
    and "m_max_active_per_namespace m' = m_max_active_per_namespace m"
  shows "capacity_ok m'"
  using capacity_ok_filter [OF assms(1) _ assms(3,4)] assms(2) by (simp add: del_def)

lemma capacity_ok_put:
  assumes "capacity_ok m" and "validateCapacityLocked m key = None"
    and "map_of (m_sessions m) key = None"
    and "m_sessions m' = put key e (m_sessions m)"
    and "m_max_active_sessions m' = m_max_active_sessions m"
    and "m_max_active_per_namespace m' = m_max_active_per_namespace m"
  shows "capacity_ok m'"
  using assms length_put_absent [OF assms(3), of e]
  by (auto simp: capacity_ok_def validateCapacityLocked_def active_in_namespace_def
      filter_put_absent split: if_splits)

lemma acquire_enter_create:
  assumes "acquire_enter d key spec m = (EnterCreate e, m')"
  shows "map_of (m_sessions m) key = None \<and> validateCapacityLocked m key = None \<and>
    e = m_next m \<and>
    m' = m\<lparr>m_entries := (m_entries m)(e := new_entry key spec d),
           m_sessions := put key e (m_sessions m), m_next := Suc e\<rparr>"
  using assms by (auto simp: acquire_enter_def split: option.splits if_splits)

lemma acquire_enter_wait:
  assumes "acquire_enter d key spec m = (EnterWait e, m')"
  shows "map_of (m_sessions m) key = Some e \<and> ms_spec (entry m e) = spec \<and> m' = m"
  using assms by (auto simp: acquire_enter_def specsEqual_def split: option.splits if_splits)

lemma acquire_enter_error:
  assumes "acquire_enter d key spec m = (EnterError er, m')"
  shows "m' = m"
  using assms by (auto simp: acquire_enter_def split: option.splits if_splits)

lemma mgr_wf_enter:
  assumes "mgr_wf m" and "key \<noteq> []" and "acquire_enter d key spec m = (EnterCreate e, m')"
  shows "mgr_wf m'"
  using acquire_enter_create [OF assms(3)] assms(1,2)
  by (auto simp: mgr_wf_def new_entry_def)

lemma mgr_inv_enter:
  assumes "mgr_inv m" and "key \<noteq> []" and "acquire_enter d key spec m = (EnterCreate e, m')"
  shows "mgr_inv m'"
proof -
  note c = acquire_enter_create [OF assms(3)]
  have "mgr_wf m'" using mgr_wf_enter assms mgr_inv_def by blast
  moreover have "capacity_ok m'"
    using capacity_ok_put [of m key m' e] c assms(1) by (simp add: mgr_inv_def)
  moreover have "mgr_ready m'"
    using c assms(1) by (auto simp: mgr_inv_def mgr_ready_def mgr_wf_def new_entry_def)
  ultimately show ?thesis by (simp add: mgr_inv_def)
qed

lemma mgr_inv_update:
  assumes "mgr_inv m" and "ms_key (f (entry m e)) = ms_key (entry m e)"
    and "\<not> ms_locked (f (entry m e)) \<Longrightarrow>
         entry_complete (f (entry m e)) \<or> (\<forall>k. (k, e) \<notin> set (m_sessions m))"
  shows "mgr_inv (update_entry e f m)"
  using assms
  by (auto simp: mgr_inv_def mgr_wf_def capacity_ok_def mgr_ready_def split: if_splits)

lemma unmap_entry_sessions:
  "m_sessions (unmap_entry key e m) =
     (if is_current m key e then del key (m_sessions m) else m_sessions m)"
  by (simp add: unmap_entry_def)

lemma unmap_entry_simps [simp]:
  "m_ttl (unmap_entry key e m) = m_ttl m"
  "m_max_active_sessions (unmap_entry key e m) = m_max_active_sessions m"
  "m_max_active_per_namespace (unmap_entry key e m) = m_max_active_per_namespace m"
  "m_entries (unmap_entry key e m) = m_entries m"
  "m_next (unmap_entry key e m) = m_next m"
  "m_store (unmap_entry key e m) = m_store m"
  "m_calls (unmap_entry key e m) = m_calls m"
  by (simp_all add: unmap_entry_def)

lemma mgr_inv_unmap: "mgr_inv m \<Longrightarrow> mgr_inv (unmap_entry key e m)"
  using capacity_ok_del [of m "unmap_entry key e m" key]
  by (auto simp: mgr_inv_def mgr_wf_def mgr_ready_def unmap_entry_def)

lemma unmapped_after_unmap:
  assumes "mgr_wf m" and "ms_key (entry m e) = key"
  shows "(k, e) \<notin> set (m_sessions (unmap_entry key e m))"
proof
  assume a: "(k, e) \<in> set (m_sessions (unmap_entry key e m))"
  then have "(k, e) \<in> set (m_sessions m)" by (auto simp: unmap_entry_def split: if_splits)
  then have "k = key" "map_of (m_sessions m) key = Some e"
    using assms by (auto simp: mgr_wf_def)
  with a show False by (simp add: unmap_entry_def is_current_def)
qed

lemma mgr_inv_cleanup_entry:
  assumes "mgr_inv m" and "ms_key (entry m e) = key"
  shows "mgr_inv (cleanup_entry key e m)"
proof -
  have u: "mgr_inv (unmap_entry key e m)" using assms(1) by (rule mgr_inv_unmap)
  have "\<forall>k. (k, e) \<notin> set (m_sessions (unmap_entry key e m))"
    using unmapped_after_unmap assms by (auto simp: mgr_inv_def)
  then show ?thesis
    unfolding cleanup_entry_def unlock_entry_def mark_ready_def
    by (intro mgr_inv_update u) auto
qed

lemma mgr_inv_fill_entry:
  assumes "mgr_inv m" and "ms_locked (entry m e)"
  shows "mgr_inv (fill_entry now e p s m)"
  unfolding fill_entry_def using assms by (intro mgr_inv_update) auto

lemma fill_entry_entry [simp]:
  "entry (fill_entry now e p s m) d =
     (if d = e then (entry m e)\<lparr>ms_session_id := rs_id s,
       ms_created_at := (case p of
            Some r \<Rightarrow> if ss_created_at r \<noteq> zero_time then ss_created_at r else now
          | None \<Rightarrow> now),
       ms_session := Some s, ms_last_used := now\<rparr> else entry m d)"
  by (simp add: fill_entry_def)

lemma fill_entry_frame [simp]:
  "m_ttl (fill_entry now e p s m) = m_ttl m"
  "m_sessions (fill_entry now e p s m) = m_sessions m"
  "m_next (fill_entry now e p s m) = m_next m"
  "m_store (fill_entry now e p s m) = m_store m"
  "m_calls (fill_entry now e p s m) = m_calls m"
  by (simp_all add: fill_entry_def)

section \<open>Acquire\<close>

lemma acquire_finish_inv:
  assumes "mgr_inv m" and "ms_locked (entry m e)" and "ms_key (entry m e) = key"
    and "acquire_finish st env now key e s c p m = (r, m')"
  shows "mgr_inv m'"
proof -
  let ?m1 = "fill_entry now e p s m"
  have i1: "mgr_inv ?m1" using assms(1,2) by (rule mgr_inv_fill_entry)
  obtain er m2 where sv: "store_save st key (entry_record now (entry ?m1 e)) ?m1 = (er, m2)"
    by fastforce
  have c2: "same_core ?m1 m2" using same_core_save sv by (metis snd_conv)
  have i2: "mgr_inv m2" using i1 mgr_inv_same_core [OF c2] by simp
  have e2: "m_entries m2 = m_entries ?m1" using same_coreD [OF c2] by simp
  show ?thesis
  proof (cases er)
    case None
    then have "m' = mark_ready e m2" using assms(4) sv by (simp add: acquire_finish_def Let_def)
    moreover have "mgr_inv (mark_ready e m2)"
      unfolding mark_ready_def using i2 e2 assms(2) by (intro mgr_inv_update) auto
    ultimately show ?thesis by simp
  next
    case (Some x)
    then have "m' = cleanup_entry key e (log_call (CallClose s) m2)"
      using assms(4) sv by (simp add: acquire_finish_def)
    moreover have "mgr_inv (log_call (CallClose s) m2)"
      using i2 mgr_inv_same_core [OF same_core_log] by blast
    ultimately show ?thesis using e2 assms(3) by (auto intro!: mgr_inv_cleanup_entry)
  qed
qed

lemma acquire_create_inv:
  assumes "mgr_inv m" and "ms_locked (entry m e)" and "ms_key (entry m e) = key"
    and "acquire_create st env now hr dl key spec e m = (r, m')"
  shows "mgr_inv m'"
proof -
  obtain x m1 where p: "acquire_persisted st env now dl key spec m = (x, m1)" by fastforce
  have c1: "same_core m m1" using same_core_persisted p by (metis snd_conv)
  show ?thesis
  proof (cases x)
    case (Inl er)
    then have "m' = cleanup_entry key e m1" using assms(4) p by (simp add: acquire_create_def)
    then show ?thesis
      using assms(1,3) mgr_inv_same_core [OF c1] same_coreD [OF c1]
      by (auto intro!: mgr_inv_cleanup_entry)
  next
    case (Inr persisted)
    obtain y m2 where q: "acquire_session st env hr key persisted m1 = (y, m2)" by fastforce
    have "same_core m1 m2" using same_core_session q by (metis snd_conv)
    then have c2: "same_core m m2" using c1 same_core_trans by blast
    have i2: "mgr_inv m2" using assms(1) mgr_inv_same_core [OF c2] by simp
    show ?thesis
    proof (cases y)
      case (Inl er)
      then have "m' = cleanup_entry key e m2"
        using assms(4) p q Inr by (simp add: acquire_create_def)
      then show ?thesis using i2 assms(3) same_coreD [OF c2] by (auto intro!: mgr_inv_cleanup_entry)
    next
      case (Inr z)
      then obtain s c p' where "z = (s, c, p')" by (cases z)
      then have "acquire_finish st env now key e s c p' m2 = (r, m')"
        using assms(4) p q Inr \<open>x = Inr persisted\<close> by (simp add: acquire_create_def)
      then show ?thesis
        using acquire_finish_inv [OF i2] assms(2,3) same_coreD [OF c2] by auto
    qed
  qed
qed

lemma Acquire_preserves_inv:
  assumes "mgr_inv m" and "Acquire st env werr now hr dl key spec m = (r, m')"
  shows "mgr_inv m'"
proof (cases "key = []")
  case True
  have "m' = snd (createSessionWithContext env CallNew (env_new env) m)"
    using assms(2) True by (auto simp: Acquire_def split: prod.splits sum.splits)
  then show ?thesis using assms(1) mgr_inv_same_core [OF same_core_create] by metis
next
  case False
  obtain out m1 where en: "acquire_enter dl key spec m = (out, m1)" by fastforce
  show ?thesis
  proof (cases out)
    case (EnterError er)
    then show ?thesis
      using assms en False acquire_enter_error [of dl key spec m er m1] by (simp add: Acquire_def)
  next
    case (EnterWait e)
    note w = acquire_enter_wait [OF en [unfolded EnterWait]]
    have "mgr_inv (touch now e (lock_entry e m))"
      unfolding touch_def lock_entry_def using assms(1) by (intro mgr_inv_update) auto
    then show ?thesis
      using assms en EnterWait False w
      by (auto simp: Acquire_def acquire_recheck_def is_current_def lock_entry_def
          split: option.splits if_splits)
  next
    case (EnterCreate e)
    note c = acquire_enter_create [OF en [unfolded EnterCreate]]
    have "mgr_inv m1" using mgr_inv_enter assms(1) en EnterCreate False by blast
    moreover have "acquire_create st env now hr dl key spec e m1 = (r, m')"
      using assms(2) en EnterCreate False by (simp add: Acquire_def)
    ultimately show ?thesis
      using acquire_create_inv [of m1 e key] c by (simp add: new_entry_def)
  qed
qed

section \<open>The outcome of Acquire\<close>

text \<open>A lease that is still to be finished: its entry is locked by it and complete.\<close>

definition lease_live :: "lease \<Rightarrow> 's manager \<Rightarrow> bool" where
  "lease_live l m \<longleftrightarrow> \<not> le_done l \<and>
     (case le_target l of
        EphemeralLease s \<Rightarrow> le_session l = Some s
      | EntryLease key e \<Rightarrow> e < m_next m \<and> ms_locked (entry m e) \<and> ms_key (entry m e) = key \<and>
          entry_complete (entry m e) \<and> le_session l = ms_session (entry m e) \<and>
          le_session_id l = ms_session_id (entry m e))"

lemma cleanup_entry_simps [simp]:
  "m_sessions (cleanup_entry key e m) =
     (if is_current m key e then del key (m_sessions m) else m_sessions m)"
  "m_next (cleanup_entry key e m) = m_next m"
  "m_store (cleanup_entry key e m) = m_store m"
  "m_calls (cleanup_entry key e m) = m_calls m"
  "entry (cleanup_entry key e m) d =
     (if d = e then (entry m e)\<lparr>ms_locked := False, ms_ready := True\<rparr> else entry m d)"
  by (simp_all add: cleanup_entry_def mark_ready_def unlock_entry_def unmap_entry_sessions)

text \<open>
  What \<open>acquire_create\<close> does to the map and the heap, by outcome: on an error the entry is gone
  and unlocked; on success it is there, locked and complete.
\<close>

lemma acquire_finish_outcome:
  assumes "acquire_finish st env now key e s c p m = (r, m')"
  shows "m_next m' = m_next m \<and> (\<forall>d. d \<noteq> e \<longrightarrow> entry m' d = entry m d) \<and>
    (case r of
       Inl er \<Rightarrow> \<not> ms_locked (entry m' e) \<and> ms_key (entry m' e) = ms_key (entry m e) \<and>
         m_sessions m' = (if is_current m key e then del key (m_sessions m) else m_sessions m)
     | Inr l \<Rightarrow> m_sessions m' = m_sessions m \<and> l = newLease key e c m' \<and>
         ms_session (entry m' e) = Some s \<and> ms_session_id (entry m' e) = rs_id s \<and>
         ms_ready (entry m' e) \<and> ms_locked (entry m' e) = ms_locked (entry m e) \<and>
         ms_key (entry m' e) = ms_key (entry m e) \<and> ms_spec (entry m' e) = ms_spec (entry m e))"
proof -
  let ?m1 = "fill_entry now e p s m"
  let ?rec = "entry_record now (entry ?m1 e)"
  have c: "same_core ?m1 (snd (store_save st key ?rec ?m1))" by (rule same_core_save)
  show ?thesis
    using assms same_coreD [OF c]
    by (cases "store_save st key ?rec ?m1"; cases "fst (store_save st key ?rec ?m1)")
      (auto simp: acquire_finish_def Let_def is_current_def mark_ready_def simp del: fill_entry_entry,
       auto)
qed

lemma acquire_create_outcome:
  assumes "acquire_create st env now hr dl key spec e m = (r, m')"
  shows "m_next m' = m_next m \<and> (\<forall>d. d \<noteq> e \<longrightarrow> entry m' d = entry m d) \<and>
    (case r of
       Inl er \<Rightarrow> \<not> ms_locked (entry m' e) \<and> ms_key (entry m' e) = ms_key (entry m e) \<and>
         m_sessions m' = (if is_current m key e then del key (m_sessions m) else m_sessions m)
     | Inr l \<Rightarrow> m_sessions m' = m_sessions m \<and> (\<exists>c s. l = newLease key e c m' \<and>
         ms_session (entry m' e) = Some s \<and> ms_session_id (entry m' e) = rs_id s) \<and>
         ms_ready (entry m' e) \<and> ms_locked (entry m' e) = ms_locked (entry m e) \<and>
         ms_key (entry m' e) = ms_key (entry m e) \<and> ms_spec (entry m' e) = ms_spec (entry m e))"
proof -
  obtain x m1 where p: "acquire_persisted st env now dl key spec m = (x, m1)" by fastforce
  have c1: "same_core m m1" using same_core_persisted p by (metis snd_conv)
  show ?thesis
  proof (cases x)
    case (Inl er)
    then show ?thesis using assms p same_coreD [OF c1]
      by (auto simp: acquire_create_def is_current_def)
  next
    case (Inr persisted)
    obtain y m2 where q: "acquire_session st env hr key persisted m1 = (y, m2)" by fastforce
    have "same_core m1 m2" using same_core_session q by (metis snd_conv)
    then have c2: "same_core m m2" using c1 same_core_trans by blast
    show ?thesis
    proof (cases y)
      case (Inl er)
      then show ?thesis using assms p q Inr same_coreD [OF c2]
        by (auto simp: acquire_create_def is_current_def)
    next
      case (Inr z)
      then obtain s c p' where "z = (s, c, p')" by (cases z)
      then have f: "acquire_finish st env now key e s c p' m2 = (r, m')"
        using assms p q Inr \<open>x = Inr persisted\<close> by (simp add: acquire_create_def)
      show ?thesis using acquire_finish_outcome [OF f] same_coreD [OF c2]
        by (cases r) (auto simp: is_current_def)
    qed
  qed
qed

lemma Acquire_error_outcome:
  assumes "mgr_inv m" and "Acquire st env werr now hr dl key spec m = (Inl er, m')"
  shows "m_sessions m' = m_sessions m \<and> (\<forall>e < m_next m. entry m' e = entry m e)"
proof (cases "key = []")
  case True
  then have "same_core m m'"
    using assms(2) same_core_create [of m env CallNew "env_new env"]
    by (auto simp: Acquire_def split: prod.splits sum.splits)
  then show ?thesis by (simp add: same_core_def)
next
  case False
  obtain out m1 where en: "acquire_enter dl key spec m = (out, m1)" by fastforce
  show ?thesis
  proof (cases out)
    case (EnterError x)
    then show ?thesis using assms(2) en False acquire_enter_error [of dl key spec m x m1]
      by (simp add: Acquire_def)
  next
    case (EnterWait e)
    then show ?thesis using assms(2) en False acquire_enter_wait [of dl key spec m e m1]
      by (auto simp: Acquire_def Let_def split: option.splits if_splits prod.splits)
  next
    case (EnterCreate e)
    note c = acquire_enter_create [OF en [unfolded EnterCreate]]
    have cr: "acquire_create st env now hr dl key spec e m1 = (Inl er, m')"
      using assms(2) en EnterCreate False by (simp add: Acquire_def)
    have "key \<notin> fst ` set (m_sessions m)" using c by (simp add: map_of_eq_None_iff)
    then have "del key (put key e (m_sessions m)) = m_sessions m"
      using del_absent by (simp add: put_def del_def) (simp add: del_absent [unfolded del_def])
    then show ?thesis using acquire_create_outcome [OF cr] c by (auto simp: is_current_def)
  qed
qed

lemma Acquire_success_outcome:
  assumes "mgr_inv m" and "key \<noteq> []"
    and "Acquire st env werr now hr dl key spec m = (Inr l, m')"
  shows "lease_live l m' \<and> (\<exists>e. le_target l = EntryLease key e \<and>
           map_of (m_sessions m') key = Some e \<and> ms_spec (entry m' e) = spec \<and>
           (e < m_next m \<longrightarrow> map_of (m_sessions m) key = Some e \<and> \<not> ms_locked (entry m e) \<and>
              \<not> le_created l \<and> le_session l = ms_session (entry m e)))"
proof -
  obtain out m1 where en: "acquire_enter dl key spec m = (out, m1)" by fastforce
  show ?thesis
  proof (cases out)
    case (EnterError x)
    then show ?thesis using assms en by (simp add: Acquire_def)
  next
    case (EnterWait e)
    note w = acquire_enter_wait [OF en [unfolded EnterWait]]
    have u: "\<not> ms_locked (entry m e)" and
      m': "m' = touch now e (lock_entry e m)" and l: "l = newLease key e False m'"
      using assms(2,3) en EnterWait w
      by (auto simp: Acquire_def acquire_recheck_def is_current_def lock_entry_def Let_def
          split: option.splits if_splits)
    have "(key, e) \<in> set (m_sessions m)" using w map_of_SomeD by fastforce
    then have "entry_complete (entry m e)" "ms_key (entry m e) = key" "e < m_next m"
      using assms(1) u by (auto simp: mgr_inv_def mgr_ready_def mgr_wf_def)
    then show ?thesis
      using u w l m'
      by (auto simp: lease_live_def newLease_def touch_def lock_entry_def entry_complete_def)
  next
    case (EnterCreate e)
    note c = acquire_enter_create [OF en [unfolded EnterCreate]]
    have cr: "acquire_create st env now hr dl key spec e m1 = (Inr l, m')"
      using assms en EnterCreate by (simp add: Acquire_def)
    note o = acquire_create_outcome [OF cr]
    then show ?thesis
      using c by (auto simp: lease_live_def newLease_def new_entry_def entry_complete_def)
  qed
qed

section \<open>Release and Discard\<close>

lemma release_entry_effect:
  assumes "release_entry st now key e m = (er, m')"
  shows "m_sessions m' = m_sessions m \<and> m_next m' = m_next m \<and> m_calls m' = m_calls m \<and>
    m_ttl m' = m_ttl m \<and> m_max_active_sessions m' = m_max_active_sessions m \<and>
    m_max_active_per_namespace m' = m_max_active_per_namespace m \<and>
    m_entries m' = (m_entries m)(e := (entry m e)\<lparr>ms_last_used := now, ms_locked := False\<rparr>) \<and>
    (er, m_store m') =
      (case st of None \<Rightarrow> (None, m_store m)
       | Some ops \<Rightarrow> op_save ops key (entry_record now (entry m e)) (m_store m))"
  using assms
  by (auto simp: release_entry_def Let_def store_save_def touch_def unlock_entry_def
      update_entry_def entry_record_def split: option.splits prod.splits)

lemma release_entry_inv:
  assumes "mgr_inv m" and "entry_complete (entry m e)"
    and "release_entry st now key e m = (er, m')"
  shows "mgr_inv m'"
  using release_entry_effect [OF assms(3)] assms(1,2)
  by (auto simp: mgr_inv_def mgr_wf_def capacity_ok_def mgr_ready_def entry_complete_def
      split: if_splits)

lemma discard_entry_effect:
  assumes "discard_entry st env key e m = (er, m')"
  shows "m_sessions m' = m_sessions (unmap_entry key e m) \<and> m_next m' = m_next m \<and>
    m_ttl m' = m_ttl m \<and> m_max_active_sessions m' = m_max_active_sessions m \<and>
    m_max_active_per_namespace m' = m_max_active_per_namespace m \<and>
    m_entries m' = (m_entries m)(e := (entry m e)\<lparr>ms_locked := False\<rparr>)"
proof -
  have c: "same_core (unmap_entry key e m)
      (snd (destroyPersistentSession st env e (unmap_entry key e m)))"
    by (rule same_core_destroy)
  show ?thesis
    using assms same_coreD [OF c]
    by (auto simp: discard_entry_def Let_def unlock_entry_def update_entry_def split: prod.splits)
qed

lemma discard_entry_inv:
  assumes "mgr_inv m" and "ms_key (entry m e) = key"
    and "discard_entry st env key e m = (er, m')"
  shows "mgr_inv m'"
proof -
  let ?d = "snd (destroyPersistentSession st env e (unmap_entry key e m))"
  have c: "same_core (unmap_entry key e m) ?d" by (rule same_core_destroy)
  have "mgr_inv ?d" using mgr_inv_unmap [OF assms(1)] mgr_inv_same_core [OF c] by simp
  moreover have "m' = unlock_entry e ?d"
    using assms(3) by (auto simp: discard_entry_def Let_def split: prod.splits)
  moreover have "\<forall>k. (k, e) \<notin> set (m_sessions ?d)"
    using unmapped_after_unmap assms(1,2) same_coreD [OF c] by (auto simp: mgr_inv_def)
  ultimately show ?thesis by (auto simp: unlock_entry_def intro!: mgr_inv_update)
qed

lemma Release_preserves_inv:
  assumes "mgr_inv m" and "le_done l \<or> lease_live l m" and "Release st env now l m = (er, l', m')"
  shows "mgr_inv m' \<and> le_done l'"
proof (cases "le_done l")
  case True
  then show ?thesis using assms by (simp add: Release_def)
next
  case False
  show ?thesis
  proof (cases "le_target l")
    case (EphemeralLease s)
    then show ?thesis
      using assms False mgr_inv_same_core [OF same_core_log, of "CallClose s" m]
      by (auto simp: Release_def finish_lease_def)
  next
    case (EntryLease key e)
    obtain x y where "release_entry st now key e m = (x, y)" by fastforce
    then show ?thesis
      using assms False EntryLease release_entry_inv [of m e st now key x y]
      by (auto simp: Release_def finish_lease_def lease_live_def)
  qed
qed

lemma Discard_preserves_inv:
  assumes "mgr_inv m" and "le_done l \<or> lease_live l m" and "Discard st env l m = (er, l', m')"
  shows "mgr_inv m' \<and> le_done l'"
proof (cases "le_done l")
  case True
  then show ?thesis using assms by (simp add: Discard_def)
next
  case False
  show ?thesis
  proof (cases "le_target l")
    case (EphemeralLease s)
    then show ?thesis
      using assms False mgr_inv_same_core [OF same_core_log, of "CallClose s" m]
      by (auto simp: Discard_def finish_lease_def)
  next
    case (EntryLease key e)
    obtain x y where "discard_entry st env key e m = (x, y)" by fastforce
    then show ?thesis
      using assms False EntryLease discard_entry_inv [of m e key st env x y]
      by (auto simp: Discard_def finish_lease_def lease_live_def)
  qed
qed

section \<open>Expiry\<close>

lemma distinct_entries:
  assumes "distinct (map fst l)" and "\<forall>(k, e) \<in> set l. ms_key (ent e) = k"
  shows "distinct (map snd l)"
  using assms
proof (induction l)
  case (Cons p l)
  have "snd p \<noteq> snd q" if q: "q \<in> set l" for q
  proof
    assume "snd p = snd q"
    then have "fst p = fst q" using Cons.prems(2) q by (cases p; cases q) auto
    then show False using Cons.prems(1) q by auto
  qed
  then show ?case using Cons by auto
qed simp

lemma mgr_wf_distinct_entries: "mgr_wf m \<Longrightarrow> distinct (map snd (m_sessions m))"
  by (rule distinct_entries) (auto simp: mgr_wf_def)

lemma sweep_effect:
  assumes "distinct (map snd l)" and "distinct (map fst l)" and "sweep now l m = (es, m')"
  shows "es = map snd (filter (\<lambda>(k, e). stale now m e) l) \<and>
    m_sessions m' = filter (\<lambda>p. fst p \<notin> fst ` {q \<in> set l. stale now m (snd q)}) (m_sessions m) \<and>
    m_entries m' = (\<lambda>d. if d \<in> set es then (entry m d)\<lparr>ms_locked := True\<rparr> else entry m d) \<and>
    m_next m' = m_next m \<and> m_ttl m' = m_ttl m \<and> m_store m' = m_store m \<and> m_calls m' = m_calls m \<and>
    m_max_active_sessions m' = m_max_active_sessions m \<and>
    m_max_active_per_namespace m' = m_max_active_per_namespace m"
  using assms
proof (induction l arbitrary: m es m')
  case Nil
  then show ?case by auto
next
  case (Cons p l)
  obtain k e where p: "p = (k, e)" by (cases p)
  show ?case
  proof (cases "stale now m e")
    case False
    then have "sweep now l m = (es, m')" using Cons.prems p by (auto simp: stale_def split: if_splits)
    from Cons.IH [OF _ _ this] Cons.prems False p show ?thesis
      by (auto simp: image_iff intro!: filter_cong)
  next
    case True
    let ?m1 = "lock_entry e (m\<lparr>m_sessions := del k (m_sessions m)\<rparr>)"
    obtain es1 where es: "es = e # es1" and sw: "sweep now l ?m1 = (es1, m')"
      using Cons.prems p True by (auto simp: stale_def Let_def split: prod.splits)
    have st: "stale now ?m1 d = stale now m d" if "d \<noteq> e" for d
      using that by (simp add: stale_def lock_entry_def last_used_at_def)
    have ne: "snd q \<noteq> e" if "q \<in> set l" for q using that Cons.prems(1) p by auto
    have f: "filter (\<lambda>(k, e). stale now ?m1 e) l = filter (\<lambda>(k, e). stale now m e) l"
      using st ne by (intro filter_cong) auto
    have S: "{q \<in> set l. stale now ?m1 (snd q)} = {q \<in> set l. stale now m (snd q)}"
      using st ne by auto
    have S2: "fst ` {q \<in> set (p # l). stale now m (snd q)} =
        insert k (fst ` {q \<in> set l. stale now m (snd q)})"
      using True p by (auto intro: rev_image_eqI [of "(k, e)"])
    note IH = Cons.IH [OF _ _ sw, unfolded f S]
    show ?thesis
      unfolding S2 using IH Cons.prems(1,2) p True es
      by (auto simp: lock_entry_def update_entry_def del_def conj_commute fun_eq_iff)
  qed
qed

lemma destroy_all_effect:
  assumes "destroy_all st env es acc m = (er, m')"
  shows "m_sessions m' = m_sessions m \<and> m_next m' = m_next m \<and> m_ttl m' = m_ttl m \<and>
    m_max_active_sessions m' = m_max_active_sessions m \<and>
    m_max_active_per_namespace m' = m_max_active_per_namespace m \<and>
    m_entries m' = (\<lambda>d. if d \<in> set es then (entry m d)\<lparr>ms_locked := False\<rparr> else entry m d)"
  using assms
proof (induction es arbitrary: acc m)
  case Nil
  then show ?case by auto
next
  case (Cons e es)
  let ?d = "destroyPersistentSession st env e m"
  have c: "same_core m (snd ?d)" by (rule same_core_destroy)
  have "destroy_all st env es (first_error acc (fst ?d)) (unlock_entry e (snd ?d)) = (er, m')"
    using Cons.prems by (simp add: case_prod_beta Let_def)
  from Cons.IH [OF this] same_coreD [OF c] show ?case
    by (auto simp: unlock_entry_def update_entry_def fun_eq_iff)
qed

lemma CleanupExpired_effect:
  assumes "mgr_wf m" and "0 < m_ttl m" and "CleanupExpired st env now m = (er, m')"
  shows "m_sessions m' = filter (\<lambda>(k, e). \<not> stale now m e) (m_sessions m) \<and>
    m_next m' = m_next m \<and> m_ttl m' = m_ttl m \<and>
    m_max_active_sessions m' = m_max_active_sessions m \<and>
    m_max_active_per_namespace m' = m_max_active_per_namespace m \<and>
    (\<forall>d. entry m' d = entry m d)"
proof -
  obtain es m1 where sw: "sweep now (m_sessions m) m = (es, m1)" by fastforce
  have d: "distinct (map snd (m_sessions m))" "distinct (map fst (m_sessions m))"
    using assms(1) mgr_wf_distinct_entries by (auto simp: mgr_wf_def)
  note s = sweep_effect [OF d sw]
  have "destroy_all st env es None m1 = (er, m')"
    using assms(2,3) sw by (simp add: CleanupExpired_def)
  note da = destroy_all_effect [OF this]
  have "filter (\<lambda>p. fst p \<notin> fst ` {q \<in> set (m_sessions m). stale now m (snd q)}) (m_sessions m)
      = filter (\<lambda>(k, e). \<not> stale now m e) (m_sessions m)"
  proof (rule filter_cong [OF refl])
    fix p
    assume p: "p \<in> set (m_sessions m)"
    have u: "q = p" if "q \<in> set (m_sessions m)" "fst q = fst p" for q
      using p that d(2) by (metis map_of_is_SomeI option.inject prod.collapse)
    have "fst p \<in> fst ` {q \<in> set (m_sessions m). stale now m (snd q)} \<longleftrightarrow> stale now m (snd p)"
      using p u by (auto intro: rev_image_eqI [of p])
    then show "(fst p \<notin> fst ` {q \<in> set (m_sessions m). stale now m (snd q)})
        = (case p of (k, e) \<Rightarrow> \<not> stale now m e)"
      by (simp add: case_prod_beta)
  qed
  moreover have "entry m' x = entry m x" for x
    using s da by (auto simp: stale_def)
  ultimately show ?thesis using s da by auto
qed

lemma CleanupExpired_preserves_inv:
  assumes "mgr_inv m" and "CleanupExpired st env now m = (er, m')"
  shows "mgr_inv m'"
proof (cases "0 < m_ttl m")
  case False
  then show ?thesis using assms by (simp add: CleanupExpired_def)
next
  case True
  have wf: "mgr_wf m" using assms(1) by (simp add: mgr_inv_def)
  note e = CleanupExpired_effect [OF wf True assms(2)]
  have "capacity_ok m'"
    using capacity_ok_filter [of m m'] e assms(1) by (simp add: mgr_inv_def)
  moreover have "distinct (map fst (m_sessions m'))"
    using e wf by (simp add: mgr_wf_def distinct_map_filter)
  ultimately show ?thesis
    using assms(1) e by (auto simp: mgr_inv_def mgr_wf_def mgr_ready_def)
qed

section \<open>Shutdown\<close>

lemma close_all_effect:
  assumes "close_all st env werr preserve es acc m = (er, m')"
  shows "m_sessions m' = m_sessions m \<and> m_entries m' = m_entries m \<and> m_next m' = m_next m \<and>
    m_ttl m' = m_ttl m \<and> m_max_active_sessions m' = m_max_active_sessions m \<and>
    m_max_active_per_namespace m' = m_max_active_per_namespace m"
  using assms
proof (induction es arbitrary: acc m)
  case Nil
  then show ?case by auto
next
  case (Cons e es)
  show ?case
  proof (cases "env_ctx_err env \<noteq> None \<or> ms_locked (entry m e)")
    case True
    then obtain x where "close_all st env werr preserve es x m = (er, m')"
      using Cons.prems by (auto split: option.splits if_splits)
    from Cons.IH [OF this] show ?thesis .
  next
    case False
    let ?d = "if preserve then disconnectPersistentSession env e (lock_entry e m)
              else destroyPersistentSession st env e (lock_entry e m)"
    have c: "same_core (lock_entry e m) (snd ?d)" by (simp add: core_intros)
    have "close_all st env werr preserve es (first_error acc (fst ?d)) (unlock_entry e (snd ?d))
        = (er, m')"
      using Cons.prems False by (simp add: case_prod_beta Let_def)
    from Cons.IH [OF this] same_coreD [OF c] False show ?thesis
      by (auto simp: unlock_entry_def lock_entry_def update_entry_def fun_eq_iff)
  qed
qed

lemma closeContext_preserves_inv:
  assumes "mgr_inv m" and "closeContext st env werr preserve m = (er, m')"
  shows "mgr_inv m' \<and> m_sessions m' = []"
  using close_all_effect [OF assms(2) [unfolded closeContext_def]] assms(1)
  by (auto simp: mgr_inv_def mgr_wf_def capacity_ok_def mgr_ready_def active_in_namespace_def)

lemma close_all_preserve_store:
  assumes "close_all st env werr True es acc m = (er, m')"
  shows "m_store m' = m_store m \<and>
    (\<exists>cs. m_calls m' = m_calls m @ cs \<and> (\<forall>c \<in> set cs. \<exists>s. c = CallClose s))"
  using assms
proof (induction es arbitrary: acc m)
  case Nil
  then show ?case by auto
next
  case (Cons e es)
  show ?case
  proof (cases "env_ctx_err env \<noteq> None \<or> ms_locked (entry m e)")
    case True
    then obtain x where "close_all st env werr True es x m = (er, m')"
      using Cons.prems by (auto split: option.splits if_splits)
    from Cons.IH [OF this] show ?thesis .
  next
    case False
    let ?d = "disconnectPersistentSession env e (lock_entry e m)"
    have "close_all st env werr True es (first_error acc (fst ?d)) (unlock_entry e (snd ?d))
        = (er, m')"
      using Cons.prems False by (simp add: case_prod_beta Let_def)
    note IH = Cons.IH [OF this]
    show ?thesis
    proof (cases "ms_session (entry (lock_entry e m) e)")
      case None
      then show ?thesis using IH
        by (simp add: disconnectPersistentSession_def close_session_def unlock_entry_def lock_entry_def)
    next
      case (Some s)
      then have "m_calls (unlock_entry e (snd ?d)) = m_calls m @ [CallClose s]"
        and "m_store (unlock_entry e (snd ?d)) = m_store m"
        by (simp_all add: disconnectPersistentSession_def close_session_def unlock_entry_def lock_entry_def)
      then show ?thesis using IH by force
    qed
  qed
qed

end
