(* ===== verification/Session_Recovery.thy ===== *)
theory Session_Recovery
  imports Session_Manager_Facts
begin

text \<open>
  Sessions across a restart of the gateway: what a released lease leaves in the store, and what
  an \<open>Acquire\<close> of a new manager on the same store makes of it.  The lemmas are proved in the
  locale \<open>reliable_store\<close>, once for every store that keeps the contract.
\<close>

lemma Acquire_absent:
  assumes "key \<noteq> []" and "map_of (m_sessions m) key = None"
    and "validateCapacityLocked m key = None"
  shows "Acquire st env werr now hr dl key spec m =
    acquire_create st env now hr dl key spec (m_next m)
      (m\<lparr>m_entries := (m_entries m)(m_next m := new_entry key spec dl),
         m_sessions := put key (m_next m) (m_sessions m), m_next := Suc (m_next m)\<rparr>)"
  using assms by (simp add: Acquire_def acquire_enter_def)

lemma fresh_manager [simp]:
  "m_sessions (NewManagerWithStore ttl limits s) = []"
  "m_next (NewManagerWithStore ttl limits s) = 0"
  "m_store (NewManagerWithStore ttl limits s) = s"
  "m_calls (NewManagerWithStore ttl limits s) = []"
  "m_ttl (NewManagerWithStore ttl limits s) = ttl"
  by (simp_all add: NewManagerWithStore_def)

lemma fresh_manager_capacity [simp]:
  "validateCapacityLocked (NewManagerWithStore ttl limits s) key = None"
  by (simp add: validateCapacityLocked_def active_in_namespace_def)

lemma update_entry_store [simp]:
  "(update_entry e f m)\<lparr>m_store := s\<rparr> = update_entry e f (m\<lparr>m_store := s\<rparr>)"
  by (simp add: update_entry_def)

lemma log_call_store [simp]: "(log_call c m)\<lparr>m_store := s\<rparr> = log_call c (m\<lparr>m_store := s\<rparr>)"
  by (simp add: log_call_def)

lemma json_entry_record [simp]: "json_stored (entry_record now x) = entry_record now x"
  by (simp add: json_stored_def entry_record_def specForStorage_def)

context reliable_store
begin

text \<open>An \<open>Acquire\<close> that creates an entry and gets a session saves its record.\<close>

lemma Acquire_saves:
  assumes "key \<noteq> []" and "map_of (m_sessions m) key = None" and "validateCapacityLocked m key = None"
    and "m0 = m\<lparr>m_entries := (m_entries m)(m_next m := new_entry key spec dl),
      m_sessions := put key (m_next m) (m_sessions m), m_next := Suc (m_next m)\<rparr>"
    and p: "acquire_persisted (Some ops) env now dl key spec m0 = (Inr pr, m1)"
    and q: "acquire_session (Some ops) env hr key pr m1 = (Inr (s, c, pr'), m2)"
    and "inv (m_store m2)" and "ok (m_store m2)"
  shows "\<exists>l m'. Acquire (Some ops) env werr now hr dl key spec m = (Inr l, m') \<and>
    le_created l = c \<and> le_session l = Some s \<and> le_session_id l = rs_id s \<and> m_calls m' = m_calls m2 \<and>
    inv (m_store m') \<and> ok (m_store m') \<and> contents (m_store m') = (contents (m_store m2))(key \<mapsto>
      entry_record now (entry (fill_entry now (m_next m) pr' s m2) (m_next m)))"
proof -
  let ?m = "fill_entry now (m_next m) pr' s m2"
  let ?r = "entry_record now (entry ?m (m_next m))"
  obtain s3 where sv: "save key ?r (m_store m2) = (None, s3)" and i3: "inv s3" "ok s3"
    "contents s3 = (contents (m_store m2))(key \<mapsto> json_stored ?r)"
    using reliable_save [OF assms(7,8)] by metis
  define m3 where "m3 = mark_ready (m_next m) (?m\<lparr>m_store := s3\<rparr>)"
  have "m_store ?m = m_store m2" by (simp add: fill_entry_def)
  then have f: "acquire_finish (Some ops) env now key (m_next m) s c pr' m2 = (Inr (newLease key (m_next m) c m3), m3)"
    using sv by (simp add: acquire_finish_def Let_def store_save_def m3_def)
  have "Acquire (Some ops) env werr now hr dl key spec m = (Inr (newLease key (m_next m) c m3), m3)"
    using Acquire_absent [OF assms(1-3)] assms(4) p q f by (simp add: acquire_create_def)
  then show ?thesis using i3 by (simp add: newLease_def m3_def mark_ready_def fill_entry_def)
qed

text \<open>A stored record that matches and has not expired is resumed under its own identifier.\<close>

lemma Acquire_resumes:
  assumes "inv (m_store m)" and "ok (m_store m)" and "key \<noteq> []"
    and "map_of (m_sessions m) key = None" and "validateCapacityLocked m key = None"
    and "contents (m_store m) key = Some r" and "ss_spec r = specForStorage spec"
    and "m_ttl m \<le> 0 \<or> now - ss_updated_at r < m_ttl m"
    and "env_ctx_err env = None" and "env_resume env (ss_session_id r) = Inr s"
  shows "\<exists>l m'. Acquire (Some ops) env werr now True dl key spec m = (Inr l, m') \<and>
    le_created l = False \<and> le_session l = Some s \<and> le_session_id l = rs_id s \<and>
    m_calls m' = m_calls m @ [CallResume (ss_session_id r)] \<and>
    inv (m_store m') \<and> ok (m_store m') \<and>
    contents (m_store m') = (contents (m_store m))(key \<mapsto>
      \<lparr>ss_session_id = rs_id s, ss_spec = specForStorage spec,
       ss_created_at = (if ss_created_at r \<noteq> zero_time then ss_created_at r else now),
       ss_updated_at = now\<rparr>)"
proof -
  define m0 where "m0 = m\<lparr>m_entries := (m_entries m)(m_next m := new_entry key spec dl),
      m_sessions := put key (m_next m) (m_sessions m), m_next := Suc (m_next m)\<rparr>"
  obtain s1 where ld: "load key (m_store m) = (Inr (Some r), s1)"
    and i1: "inv s1" "ok s1" "contents s1 = contents (m_store m)"
    using reliable_load [OF assms(1,2), of key] assms(6) by metis
  define m1 where "m1 = m0\<lparr>m_store := s1\<rparr>"
  have p: "acquire_persisted (Some ops) env now dl key spec m0 = (Inr (Some r), m1)"
    using ld assms(7,8)
    by (auto simp: acquire_persisted_def acquire_load_def store_load_def m0_def m1_def
        persistedSpecMatches_def)
  define m2 where "m2 = log_call (CallResume (ss_session_id r)) m1"
  have q: "acquire_session (Some ops) env True key (Some r) m1 = (Inr (s, False, Some r), m2)"
    using assms(9,10) by (simp add: acquire_session_def createSessionWithContext_def m2_def)
  have "m_store m2 = s1" "m_calls m2 = m_calls m @ [CallResume (ss_session_id r)]"
    by (simp_all add: m2_def m1_def m0_def)
  moreover have "entry_record now (entry (fill_entry now (m_next m) (Some r) s m2) (m_next m)) =
      \<lparr>ss_session_id = rs_id s, ss_spec = specForStorage spec,
       ss_created_at = (if ss_created_at r \<noteq> zero_time then ss_created_at r else now), ss_updated_at = now\<rparr>"
    by (simp add: entry_record_def fill_entry_def m2_def m1_def m0_def new_entry_def)
  ultimately show ?thesis using Acquire_saves [OF assms(3-5) m0_def p q] i1 by simp
qed

text \<open>Release, restart, Acquire with the same settings: the conversation goes on.\<close>

lemma release_then_restart:
  assumes "inv (m_store m)" and "ok (m_store m)"
    and "lease_live l m" and "le_target l = EntryLease key e" and "key \<noteq> []"
    and "Release (Some ops) env0 now l m = (er, l', m1)"
    and "ttl \<le> 0 \<or> later - now < ttl"
    and "specForStorage spec = specForStorage (ms_spec (entry m e))"
    and "env_ctx_err env = None" and "env_resume env (ms_session_id (entry m e)) = Inr s"
  shows "er = None \<and>
    (\<exists>l2 m2. Acquire (Some ops) env werr later True dl key spec
        (NewManagerWithStore ttl limits (m_store m1)) = (Inr l2, m2) \<and>
      le_created l2 = False \<and> le_session l2 = Some s \<and>
      m_calls m2 = [CallResume (le_session_id l)])"
proof -
  define rec where "rec = entry_record now (entry m e)"
  obtain s1 where sv: "save key rec (m_store m) = (None, s1)" and i1: "inv s1" "ok s1"
    "contents s1 = (contents (m_store m))(key \<mapsto> json_stored rec)"
    using reliable_save [OF assms(1,2)] by metis
  obtain x y where rl: "release_entry (Some ops) now key e m = (x, y)" by fastforce
  have xy: "(er, m1) = (x, y)"
    using assms(3,4,6) rl by (simp add: Release_def finish_lease_def lease_live_def)
  have st: "er = None" "m_store m1 = s1"
    using release_entry_effect [OF rl] sv xy by (simp_all add: rec_def)
  let ?m = "NewManagerWithStore ttl limits s1"
  have c: "contents (m_store ?m) key = Some (json_stored rec)" using i1 by simp
  have sp: "ss_spec (json_stored rec) = specForStorage spec"
    using assms(8) by (simp add: rec_def entry_record_def specForStorage_def)
  have sid: "ss_session_id (json_stored rec) = ms_session_id (entry m e)"
    by (simp add: rec_def entry_record_def)
  have upd: "m_ttl ?m \<le> 0 \<or> later - ss_updated_at (json_stored rec) < m_ttl ?m"
    using assms(7) by (simp add: rec_def entry_record_def)
  obtain l2 m2 where a: "Acquire (Some ops) env werr later True dl key spec ?m = (Inr l2, m2)"
    "le_created l2 = False" "le_session l2 = Some s"
    "m_calls m2 = m_calls ?m @ [CallResume (ss_session_id (json_stored rec))]"
    using Acquire_resumes [of ?m key "json_stored rec" spec later env s werr dl] i1 assms(5) c sp
      upd assms(9,10) sid by auto
  moreover have "le_session_id l = ms_session_id (entry m e)"
    using assms(3,4) by (simp add: lease_live_def)
  ultimately show ?thesis using st sid by auto
qed

text \<open>An expired record is never resumed: it is deleted, and so is its runtime session.\<close>

lemma Acquire_expired:
  assumes "inv (m_store m)" and "ok (m_store m)" and "key \<noteq> []"
    and "map_of (m_sessions m) key = None" and "validateCapacityLocked m key = None"
    and "contents (m_store m) key = Some r" and "ss_spec r = specForStorage spec"
    and "0 < m_ttl m" and "m_ttl m \<le> now - ss_updated_at r"
    and "env_ctx_err env = None" and "env_new env = Inr s"
    and "reportable (env_delete env (ss_session_id r)) = None"
  shows "\<exists>l m'. Acquire (Some ops) env werr now True True key spec m = (Inr l, m') \<and>
    le_created l = True \<and> le_session l = Some s \<and>
    m_calls m' = m_calls m @ [CallDelete (ss_session_id r), CallNew] \<and>
    contents (m_store m') = (contents (m_store m))(key \<mapsto>
      \<lparr>ss_session_id = rs_id s, ss_spec = specForStorage spec, ss_created_at = now,
       ss_updated_at = now\<rparr>)"
proof -
  define m0 where "m0 = m\<lparr>m_entries := (m_entries m)(m_next m := new_entry key spec True),
      m_sessions := put key (m_next m) (m_sessions m), m_next := Suc (m_next m)\<rparr>"
  obtain s1 where ld: "load key (m_store m) = (Inr (Some r), s1)"
    and i1: "inv s1" "ok s1" "contents s1 = contents (m_store m)"
    using reliable_load [OF assms(1,2), of key] assms(6) by metis
  obtain s2 where de: "delete key s1 = (None, s2)"
    and i2: "inv s2" "ok s2" "contents s2 = (contents s1)(key := None)"
    using reliable_delete [OF i1(1,2), of key] by metis
  define m1 where "m1 = log_call (CallDelete (ss_session_id r)) (m0\<lparr>m_store := s2\<rparr>)"
  have p: "acquire_persisted (Some ops) env now True key spec m0 = (Inr None, m1)"
    using ld de assms(7-9,12)
    by (simp add: acquire_persisted_def acquire_load_def store_load_def m0_def m1_def
        persistedSpecMatches_def removeStoredSession_def store_delete_def delete_by_id_def)
  define m2 where "m2 = log_call CallNew m1"
  have q: "acquire_session (Some ops) env True key None m1 = (Inr (s, True, None), m2)"
    using assms(10,11) by (simp add: acquire_session_def createSessionWithContext_def m2_def Let_def)
  have "m_store m2 = s2" "m_calls m2 = m_calls m @ [CallDelete (ss_session_id r), CallNew]"
    by (simp_all add: m2_def m1_def m0_def)
  moreover have "entry_record now (entry (fill_entry now (m_next m) None s m2) (m_next m)) =
      \<lparr>ss_session_id = rs_id s, ss_spec = specForStorage spec, ss_created_at = now, ss_updated_at = now\<rparr>"
    by (simp add: entry_record_def fill_entry_def m2_def m1_def m0_def new_entry_def)
  ultimately show ?thesis using Acquire_saves [OF assms(3-5) m0_def p q, of werr] i1 i2 by auto
qed

text \<open>A stored record with other settings: the request is refused and the record destroyed.\<close>

lemma Acquire_stored_mismatch:
  assumes "inv (m_store m)" and "ok (m_store m)" and "key \<noteq> []"
    and "map_of (m_sessions m) key = None" and "validateCapacityLocked m key = None"
    and "contents (m_store m) key = Some r" and "ss_spec r \<noteq> specForStorage spec"
    and "reportable (env_delete env (ss_session_id r)) = None"
  shows "\<exists>m'. Acquire (Some ops) env werr now hr True key spec m
        = (Inl (err ErrSessionSpecMismatch), m') \<and>
    m_sessions m' = m_sessions m \<and> m_calls m' = m_calls m @ [CallDelete (ss_session_id r)] \<and>
    contents (m_store m') = (contents (m_store m))(key := None)"
proof -
  define e where "e = m_next m"
  define m0 where "m0 = m\<lparr>m_entries := (m_entries m)(e := new_entry key spec True),
      m_sessions := put key e (m_sessions m), m_next := Suc e\<rparr>"
  obtain s1 where ld: "load key (m_store m) = (Inr (Some r), s1)"
    and i1: "inv s1" "ok s1" "contents s1 = contents (m_store m)"
    using reliable_load [OF assms(1,2), of key] assms(6) by metis
  obtain s2 where de: "delete key s1 = (None, s2)"
    and i2: "inv s2" "ok s2" "contents s2 = (contents s1)(key := None)"
    using reliable_delete [OF i1(1,2), of key] by metis
  define m1 where "m1 = log_call (CallDelete (ss_session_id r)) (m0\<lparr>m_store := s2\<rparr>)"
  have p: "acquire_persisted (Some ops) env now True key spec m0
      = (Inl (err ErrSessionSpecMismatch), m1)"
    using ld de assms(7,8)
    by (simp add: acquire_persisted_def acquire_load_def store_load_def m0_def m1_def
        persistedSpecMatches_def removeStoredSession_def store_delete_def delete_by_id_def)
  have "Acquire (Some ops) env werr now hr True key spec m
      = (Inl (err ErrSessionSpecMismatch), cleanup_entry key e m1)"
    using Acquire_absent [OF assms(3,4,5)] p by (simp add: acquire_create_def e_def m0_def)
  moreover have "del key (put key e (m_sessions m)) = m_sessions m"
    using assms(4) del_absent [of key "m_sessions m"]
    by (simp add: put_def del_def map_of_eq_None_iff)
  ultimately show ?thesis
    using i1 i2 by (simp add: m1_def m0_def is_current_def)
qed

text \<open>Discard: out of the map, out of the store, closed and deleted at the runtime.\<close>

lemma Discard_destroys:
  assumes "inv (m_store m)" and "ok (m_store m)" and "mgr_inv m"
    and "lease_live l m" and "le_target l = EntryLease key e" and "key \<noteq> []"
    and "ms_has_delete (entry m e)" and "le_session l = Some s" and "le_session_id l \<noteq> []"
    and "Discard (Some ops) env l m = (er, l', m')"
  shows "contents (m_store m') = (contents (m_store m))(key := None) \<and>
    m_calls m' = m_calls m @ [CallClose s, CallDelete (le_session_id l)] \<and>
    map_of (m_sessions m') key \<noteq> Some e \<and> \<not> ms_locked (entry m' e)"
proof -
  let ?m1 = "log_call (CallClose s) (unmap_entry key e m)"
  have e: "ms_session (entry m e) = Some s" "ms_key (entry m e) = key"
    "ms_session_id (entry m e) = le_session_id l"
    using assms(4,5,8) by (simp_all add: lease_live_def)
  obtain s2 where de: "delete key (m_store m) = (None, s2)"
    and i2: "inv s2" "ok s2" "contents s2 = (contents (m_store m))(key := None)"
    using reliable_delete [OF assms(1,2), of key] by metis
  obtain x y where d: "discard_entry (Some ops) env key e m = (x, y)" by fastforce
  have xy: "m' = y"
    using assms(4,5,10) d by (simp add: Discard_def finish_lease_def lease_live_def)
  have "m_store y = s2 \<and> m_calls y = m_calls m @ [CallClose s, CallDelete (le_session_id l)]"
    using d e de assms(6,7,9)
    by (auto simp: discard_entry_def destroyPersistentSession_def Let_def close_session_def
        store_delete_def delete_by_id_def unlock_entry_def)
  moreover have "map_of (m_sessions y) key \<noteq> Some e \<and> \<not> ms_locked (entry y e)"
    using discard_entry_effect [OF d] by (simp add: unmap_entry_sessions is_current_def)
  ultimately show ?thesis using xy i2 by simp
qed

end

end
