(* ===== verification/Session_Concurrency.thy ===== *)
theory Session_Concurrency
  imports Session_Recovery
begin

text \<open>
  The session manager under concurrent requests.  Goroutines are numbered; each has a program
  counter \<open>pc\<close> inside \<open>Acquire\<close>, between \<open>Acquire\<close> and \<open>Release\<close> or \<open>Discard\<close>, inside
  \<open>CleanupExpired\<close> or inside \<open>closeContext\<close>.  One step is one critical section under \<open>m.mu\<close>, one
  acquisition of an entry's mutex, one call on the store (atomic under \<open>FileStore.mu\<close>) or one call on
  the runtime, in the order in which the code makes them; the sections are the functions of
  Session_Manager.  Which goroutine moves, what the clock says and what the runtime
  answers is not determined.

  A request without a session key has an \<open>Ephemeral\<close> lease, which is not in the map.  The activity hooks
  of entries have a mutex of their own: \<open>set_hook\<close> and \<open>clear_hook\<close> may happen at any time, and nothing else
  reads them; \<open>Lookup\<close> and \<open>TouchActivity\<close> change nothing.

  Steps are labelled: \<open>ActCall\<close> starts an operation, \<open>ActCancel\<close> gives up because the request
  context is done, \<open>ActRun\<close> is every other step.  Releasing an entry's mutex is part of the
  step before it: only then can another goroutine tell.
\<close>

section \<open>Program counters\<close>

datatype pc =
    Idle
  | Entering string session_spec bool
  | Waiting string session_spec bool nat
  | Holding string session_spec bool nat
  | Loading string session_spec bool nat
  | Removing string session_spec bool nat stored_session bool
  | Resuming string nat stored_session
  | Dropping string nat
  | Making string nat "stored_session option"
  | Finishing string nat rt_session bool "stored_session option"
  | Aborting string nat
  | Leased string nat
  | Destroying nat
  | Sweeping "nat list"
  | Closing bool "nat list"
  | Ephemeral rt_session

datatype action = ActCall | ActCancel | ActRun

record 's sys =
  sy_mgr :: "'s manager"
  sy_pc :: "nat \<Rightarrow> pc"

definition goto :: "nat \<Rightarrow> pc \<Rightarrow> 's manager \<Rightarrow> 's sys \<Rightarrow> 's sys" where
  "goto t p m s = s\<lparr>sy_mgr := m, sy_pc := (sy_pc s)(t := p)\<rparr>"

lemma goto_simps [simp]:
  "sy_mgr (goto t p m s) = m"
  "sy_pc (goto t p m s) = (sy_pc s)(t := p)"
  by (simp_all add: goto_def)

section \<open>Steps\<close>

inductive sys_step :: "'s store_ops option \<Rightarrow> action \<Rightarrow> nat \<Rightarrow> 's sys \<Rightarrow> 's sys \<Rightarrow> bool"
  for st :: "'s store_ops option" where
  call_acquire:
    "sy_pc s t = Idle \<Longrightarrow> key \<noteq> [] \<Longrightarrow>
     sys_step st ActCall t s (goto t (Entering key spec d) (sy_mgr s) s)"
| call_cleanup:
    "sy_pc s t = Idle \<Longrightarrow> 0 < m_ttl (sy_mgr s) \<Longrightarrow>
     sweep now (m_sessions (sy_mgr s)) (sy_mgr s) = (es, m) \<Longrightarrow>
     sys_step st ActCall t s (goto t (Sweeping es) m s)"
| call_close:
    "sy_pc s t = Idle \<Longrightarrow>
     sys_step st ActCall t s
       (goto t (Closing preserve (map snd (m_sessions (sy_mgr s))))
         ((sy_mgr s)\<lparr>m_sessions := []\<rparr>) s)"
| enter_error:
    "sy_pc s t = Entering key spec d \<Longrightarrow>
     acquire_enter d key spec (sy_mgr s) = (EnterError er, m) \<Longrightarrow>
     sys_step st ActRun t s (goto t Idle m s)"
| enter_wait:
    "sy_pc s t = Entering key spec d \<Longrightarrow>
     acquire_enter d key spec (sy_mgr s) = (EnterWait e, m) \<Longrightarrow>
     sys_step st ActRun t s (goto t (Waiting key spec d e) m s)"
| enter_create:
    "sy_pc s t = Entering key spec d \<Longrightarrow>
     acquire_enter d key spec (sy_mgr s) = (EnterCreate e, m) \<Longrightarrow>
     sys_step st ActRun t s (goto t (Loading key spec d e) m s)"
| wait_cancel:
    "sy_pc s t = Waiting key spec d e \<Longrightarrow> sys_step st ActCancel t s (goto t Idle (sy_mgr s) s)"
| wait_lock:
    "sy_pc s t = Waiting key spec d e \<Longrightarrow> \<not> ms_locked (entry (sy_mgr s) e) \<Longrightarrow>
     sys_step st ActRun t s (goto t (Holding key spec d e) (lock_entry e (sy_mgr s)) s)"
| recheck_ok:
    "sy_pc s t = Holding key spec d e \<Longrightarrow> acquire_recheck now key e (sy_mgr s) = (True, m) \<Longrightarrow>
     sys_step st ActRun t s (goto t (Leased key e) m s)"
| recheck_retry:
    "sy_pc s t = Holding key spec d e \<Longrightarrow> acquire_recheck now key e (sy_mgr s) = (False, m) \<Longrightarrow>
     sys_step st ActRun t s (goto t (Entering key spec d) m s)"
| load_error:
    "sy_pc s t = Loading key spec d e \<Longrightarrow>
     acquire_load st now key spec (sy_mgr s) = (LoadError er, m) \<Longrightarrow>
     sys_step st ActRun t s (goto t (Aborting key e) m s)"
| load_none:
    "sy_pc s t = Loading key spec d e \<Longrightarrow>
     acquire_load st now key spec (sy_mgr s) = (LoadNone, m) \<Longrightarrow>
     sys_step st ActRun t s (goto t (Making key e None) m s)"
| load_mismatch:
    "sy_pc s t = Loading key spec d e \<Longrightarrow>
     acquire_load st now key spec (sy_mgr s) = (LoadMismatch r, m) \<Longrightarrow>
     sys_step st ActRun t s (goto t (Removing key spec d e r True) m s)"
| load_expired:
    "sy_pc s t = Loading key spec d e \<Longrightarrow>
     acquire_load st now key spec (sy_mgr s) = (LoadExpired r, m) \<Longrightarrow>
     sys_step st ActRun t s (goto t (Removing key spec d e r False) m s)"
| load_hit:
    "sy_pc s t = Loading key spec d e \<Longrightarrow>
     acquire_load st now key spec (sy_mgr s) = (LoadHit r, m) \<Longrightarrow>
     sys_step st ActRun t s (goto t (Resuming key e r) m s)"
| remove_stored:
    "sy_pc s t = Removing key spec d e r mismatch \<Longrightarrow>
     removeStoredSession st env d key r (sy_mgr s) = (er, m) \<Longrightarrow>
     sys_step st ActRun t s
       (goto t (if er \<noteq> None \<or> mismatch then Aborting key e else Making key e None) m s)"
| resume_nil:
    "sy_pc s t = Resuming key e r \<Longrightarrow>
     sys_step st ActRun t s (goto t (Making key e (Some r)) (sy_mgr s) s)"
| resume_ok:
    "sy_pc s t = Resuming key e r \<Longrightarrow>
     createSessionWithContext env (CallResume (ss_session_id r)) (env_resume env (ss_session_id r))
       (sy_mgr s) = (Inr sess, m) \<Longrightarrow>
     sys_step st ActRun t s (goto t (Finishing key e sess False (Some r)) m s)"
| resume_error:
    "sy_pc s t = Resuming key e r \<Longrightarrow>
     createSessionWithContext env (CallResume (ss_session_id r)) (env_resume env (ss_session_id r))
       (sy_mgr s) = (Inl er, m) \<Longrightarrow>
     sys_step st ActRun t s
       (goto t (if errors_is er ErrSessionNotFound then Dropping key e else Aborting key e) m s)"
| drop_stored:
    "sy_pc s t = Dropping key e \<Longrightarrow> store_delete st key (sy_mgr s) = (er, m) \<Longrightarrow>
     sys_step st ActRun t s (goto t (if er \<noteq> None then Aborting key e else Making key e None) m s)"
| make_ok:
    "sy_pc s t = Making key e p \<Longrightarrow>
     createSessionWithContext env CallNew (env_new env) (sy_mgr s) = (Inr sess, m) \<Longrightarrow>
     sys_step st ActRun t s (goto t (Finishing key e sess True p) m s)"
| make_error:
    "sy_pc s t = Making key e p \<Longrightarrow>
     createSessionWithContext env CallNew (env_new env) (sy_mgr s) = (Inl er, m) \<Longrightarrow>
     sys_step st ActRun t s (goto t (Aborting key e) m s)"
| finish_ok:
    "sy_pc s t = Finishing key e sess created p \<Longrightarrow>
     m1 = fill_entry now e p sess (sy_mgr s) \<Longrightarrow>
     store_save st key (entry_record now (entry m1 e)) m1 = (None, m) \<Longrightarrow>
     sys_step st ActRun t s (goto t (Leased key e) (mark_ready e m) s)"
| finish_error:
    "sy_pc s t = Finishing key e sess created p \<Longrightarrow>
     m1 = fill_entry now e p sess (sy_mgr s) \<Longrightarrow>
     store_save st key (entry_record now (entry m1 e)) m1 = (Some er, m) \<Longrightarrow>
     sys_step st ActRun t s (goto t (Aborting key e) (log_call (CallClose sess) m) s)"
| abort:
    "sy_pc s t = Aborting key e \<Longrightarrow>
     sys_step st ActRun t s (goto t Idle (cleanup_entry key e (sy_mgr s)) s)"
| release:
    "sy_pc s t = Leased key e \<Longrightarrow> release_entry st now key e (sy_mgr s) = (er, m) \<Longrightarrow>
     sys_step st ActRun t s (goto t Idle m s)"
| discard:
    "sy_pc s t = Leased key e \<Longrightarrow>
     sys_step st ActRun t s (goto t (Destroying e) (unmap_entry key e (sy_mgr s)) s)"
| destroy:
    "sy_pc s t = Destroying e \<Longrightarrow> destroyPersistentSession st env e (sy_mgr s) = (er, m) \<Longrightarrow>
     sys_step st ActRun t s (goto t Idle (unlock_entry e m) s)"
| sweep_done:
    "sy_pc s t = Sweeping [] \<Longrightarrow> sys_step st ActRun t s (goto t Idle (sy_mgr s) s)"
| sweep_one:
    "sy_pc s t = Sweeping (e # es) \<Longrightarrow>
     destroyPersistentSession st env e (sy_mgr s) = (er, m) \<Longrightarrow>
     sys_step st ActRun t s (goto t (Sweeping es) (unlock_entry e m) s)"
| close_done:
    "sy_pc s t = Closing preserve [] \<Longrightarrow> sys_step st ActRun t s (goto t Idle (sy_mgr s) s)"
| close_skip:
    "sy_pc s t = Closing preserve (e # es) \<Longrightarrow>
     sys_step st ActCancel t s (goto t (Closing preserve es) (sy_mgr s) s)"
| close_one:
    "sy_pc s t = Closing preserve (e # es) \<Longrightarrow> \<not> ms_locked (entry (sy_mgr s) e) \<Longrightarrow>
     (if preserve then disconnectPersistentSession env e (lock_entry e (sy_mgr s))
      else destroyPersistentSession st env e (lock_entry e (sy_mgr s))) = (er, m) \<Longrightarrow>
     sys_step st ActRun t s (goto t (Closing preserve es) (unlock_entry e m) s)"
| ephemeral_ok:
    "sy_pc s t = Idle \<Longrightarrow>
     createSessionWithContext env CallNew (env_new env) (sy_mgr s) = (Inr sess, m) \<Longrightarrow>
     sys_step st ActCall t s (goto t (Ephemeral sess) m s)"
| ephemeral_error:
    "sy_pc s t = Idle \<Longrightarrow>
     createSessionWithContext env CallNew (env_new env) (sy_mgr s) = (Inl er, m) \<Longrightarrow>
     sys_step st ActCall t s (goto t Idle m s)"
| ephemeral_close:
    "sy_pc s t = Ephemeral sess \<Longrightarrow>
     sys_step st ActRun t s (goto t Idle (log_call (CallClose sess) (sy_mgr s)) s)"
| set_hook:
    "SetActivityHook key hook (sy_mgr s) = (target, m) \<Longrightarrow>
     sys_step st ActCall t s (goto t (sy_pc s t) m s)"
| clear_hook:
    "sys_step st ActCall t s (goto t (sy_pc s t) (clear_activity target (sy_mgr s)) s)"

definition init_sys :: "'s manager \<Rightarrow> 's sys" where
  "init_sys m = \<lparr>sy_mgr = m, sy_pc = (\<lambda>_. Idle)\<rparr>"

inductive reachable :: "'s store_ops option \<Rightarrow> 's manager \<Rightarrow> 's sys \<Rightarrow> bool"
  for st :: "'s store_ops option" and m0 :: "'s manager" where
  start: "reachable st m0 (init_sys m0)"
| step: "reachable st m0 s \<Longrightarrow> sys_step st a t s s' \<Longrightarrow> reachable st m0 s'"

section \<open>The invariant\<close>

text \<open>The entries whose mutex a goroutine holds, and the one it is creating.\<close>

fun holds :: "pc \<Rightarrow> nat set" where
  "holds (Holding _ _ _ e) = {e}"
| "holds (Loading _ _ _ e) = {e}"
| "holds (Removing _ _ _ e _ _) = {e}"
| "holds (Resuming _ e _) = {e}"
| "holds (Dropping _ e) = {e}"
| "holds (Making _ e _) = {e}"
| "holds (Finishing _ e _ _ _) = {e}"
| "holds (Aborting _ e) = {e}"
| "holds (Leased _ e) = {e}"
| "holds (Destroying e) = {e}"
| "holds (Sweeping es) = set es"
| "holds _ = {}"

fun creating :: "pc \<Rightarrow> nat set" where
  "creating (Loading _ _ _ e) = {e}"
| "creating (Removing _ _ _ e _ _) = {e}"
| "creating (Resuming _ e _) = {e}"
| "creating (Dropping _ e) = {e}"
| "creating (Making _ e _) = {e}"
| "creating (Finishing _ e _ _ _) = {e}"
| "creating (Aborting _ e) = {e}"
| "creating _ = {}"

lemma creating_holds: "creating p \<subseteq> holds p"
  by (cases p) auto

text \<open>What a program counter says of the entries it names.\<close>

definition named :: "'s manager \<Rightarrow> string \<Rightarrow> nat \<Rightarrow> bool" where
  "named m k e \<longleftrightarrow> k \<noteq> [] \<and> e < m_next m \<and> ms_key (entry m e) = k"

definition unmapped :: "'s manager \<Rightarrow> nat \<Rightarrow> bool" where
  "unmapped m e \<longleftrightarrow> e < m_next m \<and> e \<notin> snd ` set (m_sessions m)"

fun pc_ok :: "'s manager \<Rightarrow> pc \<Rightarrow> bool" where
  "pc_ok m Idle = True"
| "pc_ok m (Entering k _ _) = (k \<noteq> [])"
| "pc_ok m (Waiting k _ _ e) = named m k e"
| "pc_ok m (Holding k _ _ e) = named m k e"
| "pc_ok m (Loading k _ _ e) = named m k e"
| "pc_ok m (Removing k _ _ e _ _) = named m k e"
| "pc_ok m (Resuming k e _) = named m k e"
| "pc_ok m (Dropping k e) = named m k e"
| "pc_ok m (Making k e _) = named m k e"
| "pc_ok m (Finishing k e _ _ _) = named m k e"
| "pc_ok m (Aborting k e) = named m k e"
| "pc_ok m (Leased k e) = (named m k e \<and> entry_complete (entry m e))"
| "pc_ok m (Destroying e) = unmapped m e"
| "pc_ok m (Sweeping es) = (distinct es \<and> (\<forall>e \<in> set es. unmapped m e))"
| "pc_ok m (Closing _ es) = (\<forall>e \<in> set es. unmapped m e)"
| "pc_ok m (Ephemeral _) = True"

definition sys_inv :: "'s sys \<Rightarrow> bool" where
  "sys_inv s \<longleftrightarrow>
     (let m = sy_mgr s; p = sy_pc s in
        mgr_wf m \<and> capacity_ok m \<and>
        (\<forall>t. \<forall>e \<in> holds (p t). e < m_next m \<and> ms_locked (entry m e)) \<and>
        (\<forall>t t'. holds (p t) \<inter> holds (p t') \<noteq> {} \<longrightarrow> t = t') \<and>
        (\<forall>e < m_next m. ms_locked (entry m e) \<longrightarrow> (\<exists>t. e \<in> holds (p t))) \<and>
        (\<forall>(k, e) \<in> set (m_sessions m). entry_complete (entry m e) \<or> (\<exists>t. e \<in> creating (p t))) \<and>
        (\<forall>t. pc_ok m (p t)))"

text \<open>
  What one goroutine's step from \<open>p\<close> to \<open>p'\<close> may do to the manager: it writes only entries it
  holds before or after (but for their hooks), takes only free locks, frees the locks it gives up, maps only an entry
  it is creating, and unmaps only entries it holds, unless it is a shutdown.
\<close>

definition up_to_hook :: "managed_session \<Rightarrow> managed_session \<Rightarrow> bool" where
  "up_to_hook x y \<longleftrightarrow> (\<exists>a. y = x\<lparr>ms_activity := a\<rparr>)"

lemma up_to_hook_refl [simp]: "up_to_hook x x"
  unfolding up_to_hook_def by (rule exI [of _ "ms_activity x"]) simp

lemma up_to_hook_set [simp]: "up_to_hook x (x\<lparr>ms_activity := a\<rparr>)"
  unfolding up_to_hook_def by blast

lemma up_to_hookD:
  assumes "up_to_hook x y"
  shows "ms_locked y = ms_locked x" "ms_key y = ms_key x" "entry_complete y = entry_complete x"
  using assms by (auto simp: up_to_hook_def entry_complete_def)

definition step_ok :: "'s manager \<Rightarrow> pc \<Rightarrow> 's manager \<Rightarrow> pc \<Rightarrow> bool" where
  "step_ok m p m' p' \<longleftrightarrow>
     mgr_wf m' \<and> capacity_ok m' \<and> m_next m \<le> m_next m' \<and>
     (\<forall>e < m_next m. e \<notin> holds p \<longrightarrow> e \<notin> holds p' \<longrightarrow> up_to_hook (entry m e) (entry m' e)) \<and>
     (\<forall>e < m_next m. ms_key (entry m' e) = ms_key (entry m e) \<and>
        (entry_complete (entry m e) \<longrightarrow> entry_complete (entry m' e))) \<and>
     (\<forall>e \<in> holds p'. e < m_next m' \<and> ms_locked (entry m' e)) \<and>
     (\<forall>e \<in> holds p - holds p'. \<not> ms_locked (entry m' e)) \<and>
     (\<forall>e \<in> holds p' - holds p. e < m_next m \<longrightarrow> \<not> ms_locked (entry m e)) \<and>
     (\<forall>e. m_next m \<le> e \<and> e < m_next m' \<longrightarrow> e \<in> holds p') \<and>
     (\<forall>q \<in> set (m_sessions m'). q \<in> set (m_sessions m) \<or>
        (m_next m \<le> snd q \<and> snd q \<in> creating p')) \<and>
     (\<forall>q \<in> set (m_sessions m). q \<in> set (m_sessions m') \<or> snd q \<in> holds p \<union> holds p' \<or>
        (p = Idle \<and> (\<exists>b es. p' = Closing b es))) \<and>
     (\<forall>e \<in> creating p - creating p'. entry_complete (entry m' e) \<or> e \<notin> snd ` set (m_sessions m')) \<and>
     pc_ok m' p' \<and> m_max_active_sessions m' = m_max_active_sessions m \<and>
     m_max_active_per_namespace m' = m_max_active_per_namespace m"

lemma pc_ok_mono:
  assumes "pc_ok m q" and "m_next m \<le> m_next m'"
    and "\<forall>e < m_next m. ms_key (entry m' e) = ms_key (entry m e) \<and>
      (entry_complete (entry m e) \<longrightarrow> entry_complete (entry m' e))"
    and "\<forall>x \<in> set (m_sessions m'). x \<in> set (m_sessions m) \<or> m_next m \<le> snd x"
  shows "pc_ok m' q"
proof -
  have n: "named m k e \<Longrightarrow> named m' k e" for k e using assms(2,3) by (auto simp: named_def)
  have u: "unmapped m e \<Longrightarrow> unmapped m' e" for e
    using assms(2,4) by (fastforce simp: unmapped_def)
  show ?thesis using assms(1,3) n u by (cases q) (auto simp: named_def)
qed

lemma sys_invD:
  assumes "sys_inv s"
  shows "mgr_wf (sy_mgr s)" and "capacity_ok (sy_mgr s)"
    and "e \<in> holds (sy_pc s t) \<Longrightarrow> e < m_next (sy_mgr s) \<and> ms_locked (entry (sy_mgr s) e)"
    and "e \<in> holds (sy_pc s t) \<Longrightarrow> e \<in> holds (sy_pc s t') \<Longrightarrow> t = t'"
    and "e < m_next (sy_mgr s) \<Longrightarrow> ms_locked (entry (sy_mgr s) e) \<Longrightarrow> \<exists>t. e \<in> holds (sy_pc s t)"
    and "(k, e) \<in> set (m_sessions (sy_mgr s)) \<Longrightarrow>
      entry_complete (entry (sy_mgr s) e) \<or> (\<exists>t. e \<in> creating (sy_pc s t))"
    and "pc_ok (sy_mgr s) (sy_pc s t)"
  using assms unfolding sys_inv_def Let_def by blast+

lemma sys_invI:
  assumes "mgr_wf (sy_mgr s)" and "capacity_ok (sy_mgr s)"
    and "\<And>e t. e \<in> holds (sy_pc s t) \<Longrightarrow> e < m_next (sy_mgr s) \<and> ms_locked (entry (sy_mgr s) e)"
    and "\<And>e t t'. e \<in> holds (sy_pc s t) \<Longrightarrow> e \<in> holds (sy_pc s t') \<Longrightarrow> t = t'"
    and "\<And>e. e < m_next (sy_mgr s) \<Longrightarrow> ms_locked (entry (sy_mgr s) e) \<Longrightarrow> \<exists>t. e \<in> holds (sy_pc s t)"
    and "\<And>k e. (k, e) \<in> set (m_sessions (sy_mgr s)) \<Longrightarrow>
      entry_complete (entry (sy_mgr s) e) \<or> (\<exists>t. e \<in> creating (sy_pc s t))"
    and "\<And>t. pc_ok (sy_mgr s) (sy_pc s t)"
  shows "sys_inv s"
  using assms unfolding sys_inv_def Let_def by blast

lemma step_ok_parts:
  assumes "step_ok m p m' p'"
  shows "mgr_wf m'" and "capacity_ok m'" and "m_next m \<le> m_next m'"
    and "\<forall>e < m_next m. e \<notin> holds p \<longrightarrow> e \<notin> holds p' \<longrightarrow> up_to_hook (entry m e) (entry m' e)"
    and "\<forall>e < m_next m. ms_key (entry m' e) = ms_key (entry m e) \<and>
      (entry_complete (entry m e) \<longrightarrow> entry_complete (entry m' e))"
    and "\<forall>e \<in> holds p'. e < m_next m' \<and> ms_locked (entry m' e)"
    and "\<forall>e \<in> holds p - holds p'. \<not> ms_locked (entry m' e)"
    and "\<forall>e \<in> holds p' - holds p. e < m_next m \<longrightarrow> \<not> ms_locked (entry m e)"
    and "\<forall>e. m_next m \<le> e \<and> e < m_next m' \<longrightarrow> e \<in> holds p'"
    and "\<forall>q \<in> set (m_sessions m'). q \<in> set (m_sessions m) \<or> (m_next m \<le> snd q \<and> snd q \<in> creating p')"
    and "\<forall>q \<in> set (m_sessions m). q \<in> set (m_sessions m') \<or> snd q \<in> holds p \<union> holds p' \<or>
      (p = Idle \<and> (\<exists>b es. p' = Closing b es))"
    and "\<forall>e \<in> creating p - creating p'. entry_complete (entry m' e) \<or> e \<notin> snd ` set (m_sessions m')"
    and "pc_ok m' p'"
    and "m_max_active_sessions m' = m_max_active_sessions m"
    and "m_max_active_per_namespace m' = m_max_active_per_namespace m"
  using assms unfolding step_ok_def by - (elim conjE, assumption)+

lemma step_okD:
  assumes "step_ok m p m' p'"
  shows "e < m_next m \<Longrightarrow> e \<notin> holds p \<Longrightarrow> e \<notin> holds p' \<Longrightarrow> up_to_hook (entry m e) (entry m' e)"
    and "e \<in> holds p' \<Longrightarrow> e < m_next m' \<and> ms_locked (entry m' e)"
    and "e \<in> holds p \<Longrightarrow> e \<notin> holds p' \<Longrightarrow> \<not> ms_locked (entry m' e)"
    and "e \<in> holds p' \<Longrightarrow> e \<notin> holds p \<Longrightarrow> e < m_next m \<Longrightarrow> \<not> ms_locked (entry m e)"
    and "m_next m \<le> e \<Longrightarrow> e < m_next m' \<Longrightarrow> e \<in> holds p'"
    and "q \<in> set (m_sessions m') \<Longrightarrow>
      q \<in> set (m_sessions m) \<or> (m_next m \<le> snd q \<and> snd q \<in> creating p')"
    and "q \<in> set (m_sessions m) \<Longrightarrow> q \<in> set (m_sessions m') \<or> snd q \<in> holds p \<union> holds p' \<or>
      (p = Idle \<and> (\<exists>b es. p' = Closing b es))"
    and "e \<in> creating p \<Longrightarrow> e \<notin> creating p' \<Longrightarrow>
      entry_complete (entry m' e) \<or> e \<notin> snd ` set (m_sessions m')"
  using step_ok_parts(4,6-12) [OF assms] by simp_all

text \<open>What goroutine \<open>t\<close> does leaves the entries of another one alone.\<close>

lemma others_apart:
  assumes "sys_inv s" and "step_ok (sy_mgr s) (sy_pc s t) m' p'" and "t' \<noteq> t" and "e \<in> holds (sy_pc s t')"
  shows "e \<notin> holds (sy_pc s t)" and "e \<notin> holds p'"
    and "up_to_hook (entry (sy_mgr s) e) (entry m' e)" and "e < m_next m'"
proof -
  show mine: "e \<notin> holds (sy_pc s t)" using sys_invD(4) [OF assms(1,4)] assms(3) by blast
  have e: "e < m_next (sy_mgr s)" "ms_locked (entry (sy_mgr s) e)" using sys_invD(3) [OF assms(1,4)] by auto
  then show free: "e \<notin> holds p'" using step_okD(4) [OF assms(2) _ mine] by blast
  show "up_to_hook (entry (sy_mgr s) e) (entry m' e)" by (rule step_okD(1) [OF assms(2) e(1) mine free])
  show "e < m_next m'" using e(1) step_ok_parts(3) [OF assms(2)] by simp
qed

lemma step_held:
  assumes "sys_inv s" and "step_ok (sy_mgr s) (sy_pc s t) m' p'"
    and "e < m_next m'" and "ms_locked (entry m' e)"
  shows "\<exists>t'. e \<in> holds (((sy_pc s)(t := p')) t')"
proof (cases "e \<in> holds p'")
  case True
  then show ?thesis by (intro exI [of _ t]) simp
next
  case False
  then have old: "e < m_next (sy_mgr s)" using step_okD(5) [OF assms(2)] assms(3) by (meson leI)
  have mine: "e \<notin> holds (sy_pc s t)" using step_okD(3) [OF assms(2)] assms(4) False by blast
  have "ms_locked (entry (sy_mgr s) e)"
    using up_to_hookD(1) [OF step_okD(1) [OF assms(2) old mine False]] assms(4) by simp
  then obtain t' where t': "e \<in> holds (sy_pc s t')" using sys_invD(5) [OF assms(1) old] by blast
  with mine show ?thesis by (intro exI [of _ t']) auto
qed

lemma step_mapped:
  assumes "sys_inv s" and "step_ok (sy_mgr s) (sy_pc s t) m' p'" and "(k, e) \<in> set (m_sessions m')"
  shows "entry_complete (entry m' e) \<or> (\<exists>t'. e \<in> creating (((sy_pc s)(t := p')) t'))"
proof (cases "e \<in> creating p'")
  case True
  then have "e \<in> creating (((sy_pc s)(t := p')) t)" by simp
  then show ?thesis by blast
next
  case False
  then have old: "(k, e) \<in> set (m_sessions (sy_mgr s))" using step_okD(6) [OF assms(2,3)] by auto
  then have lt: "e < m_next (sy_mgr s)" using sys_invD(1) [OF assms(1)] by (auto simp: mgr_wf_def)
  have gone: "e \<in> snd ` set (m_sessions m')" using assms(3) by force
  from sys_invD(6) [OF assms(1) old] show ?thesis
  proof (elim disjE exE)
    assume "entry_complete (entry (sy_mgr s) e)"
    with lt show ?thesis using step_ok_parts(5) [OF assms(2)] by blast
  next
    fix t'
    assume t': "e \<in> creating (sy_pc s t')"
    show ?thesis
    proof (cases "t' = t")
      case True
      with t' False gone show ?thesis using step_okD(8) [OF assms(2)] by blast
    next
      case False
      with t' have "e \<in> creating (((sy_pc s)(t := p')) t')" by simp
      then show ?thesis by blast
    qed
  qed
qed

lemma step_ok_inv:
  assumes inv: "sys_inv s" and ok: "step_ok (sy_mgr s) (sy_pc s t) m' p'"
  shows "sys_inv (goto t p' m' s)"
proof (rule sys_invI, unfold goto_simps)
  note other = others_apart [OF inv ok]
  show "mgr_wf m'" and "capacity_ok m'" using step_ok_parts(1,2) [OF ok] .
  show "e < m_next m' \<and> ms_locked (entry m' e)" if "e \<in> holds (((sy_pc s)(t := p')) t')" for e t'
    using that step_okD(2) [OF ok] other(3,4) [of t' e] up_to_hookD(1) sys_invD(3) [OF inv, of e t']
    by (cases "t' = t") auto
  show "t1 = t2" if "e \<in> holds (((sy_pc s)(t := p')) t1)" "e \<in> holds (((sy_pc s)(t := p')) t2)" for e t1 t2
    using that other(2) [of t1 e] other(2) [of t2 e] sys_invD(4) [OF inv, of e t1 t2]
    by (cases "t1 = t"; cases "t2 = t") auto
  show "\<exists>t'. e \<in> holds (((sy_pc s)(t := p')) t')" if "e < m_next m'" "ms_locked (entry m' e)" for e
    by (rule step_held [OF inv ok that])
  show "entry_complete (entry m' e) \<or> (\<exists>t'. e \<in> creating (((sy_pc s)(t := p')) t'))"
    if "(k, e) \<in> set (m_sessions m')" for k e
    by (rule step_mapped [OF inv ok that])
  have "\<forall>x \<in> set (m_sessions m'). x \<in> set (m_sessions (sy_mgr s)) \<or> m_next (sy_mgr s) \<le> snd x"
    using step_okD(6) [OF ok] by blast
  then show "pc_ok m' (((sy_pc s)(t := p')) t')" for t'
    using pc_ok_mono [OF sys_invD(7) [OF inv, of t'] step_ok_parts(3,5) [OF ok]] step_ok_parts(13) [OF ok] by simp
qed

section \<open>Every step keeps the invariant\<close>

lemma step_ok_same_core:
  assumes "mgr_wf m" and "capacity_ok m" and "same_core m m'" and "holds p' = holds p"
    and "\<forall>e \<in> holds p. e < m_next m \<and> ms_locked (entry m e)" and "creating p \<subseteq> creating p'"
    and "pc_ok m p'"
  shows "step_ok m p m' p'"
proof -
  note d = same_coreD [OF assms(3)]
  have "mgr_wf m'" "capacity_ok m'" using assms(1,2) d by (simp_all add: mgr_wf_def capacity_ok_def)
  moreover have "pc_ok m' p'" using pc_ok_mono [OF assms(7), of m'] d by simp
  ultimately show ?thesis using d assms(4-6) unfolding step_ok_def by auto
qed

text \<open>A step that writes one entry \<open>e\<close> and may unmap entries it holds.\<close>

lemma step_ok_update:
  assumes "mgr_wf m'" and "capacity_ok m'" and "m_next m' = m_next m"
    and "m_entries m' = (m_entries m)(e := x)"
    and "e < m_next m" and "ms_key x = ms_key (entry m e)"
    and "entry_complete (entry m e) \<longrightarrow> entry_complete x"
    and "holds p' - {e} = holds p - {e}" and "e \<in> holds p \<or> \<not> ms_locked (entry m e)"
    and "e \<in> holds p \<or> e \<in> holds p'" and "ms_locked x \<longleftrightarrow> e \<in> holds p'"
    and "\<forall>d \<in> holds p. d < m_next m \<and> ms_locked (entry m d)"
    and "set (m_sessions m') \<subseteq> set (m_sessions m)"
    and "\<forall>q \<in> set (m_sessions m). q \<in> set (m_sessions m') \<or> snd q \<in> holds p"
    and "creating p - {e} \<subseteq> creating p'"
    and "e \<in> creating p' \<or> e \<notin> creating p \<or> entry_complete x \<or> e \<notin> snd ` set (m_sessions m')"
    and "pc_ok m' p'" and "m_max_active_sessions m' = m_max_active_sessions m"
    and "m_max_active_per_namespace m' = m_max_active_per_namespace m"
  shows "step_ok m p m' p'"
  unfolding step_ok_def
proof (intro conjI)
  show "\<forall>d < m_next m. d \<notin> holds p \<longrightarrow> d \<notin> holds p' \<longrightarrow> up_to_hook (entry m d) (entry m' d)"
    using assms(4,10) by auto
  show "\<forall>d < m_next m. ms_key (entry m' d) = ms_key (entry m d) \<and>
      (entry_complete (entry m d) \<longrightarrow> entry_complete (entry m' d))"
    using assms(4,6,7) by auto
  show "\<forall>d \<in> holds p'. d < m_next m' \<and> ms_locked (entry m' d)"
  proof
    fix d
    assume d: "d \<in> holds p'"
    show "d < m_next m' \<and> ms_locked (entry m' d)"
      using d assms(3,4,5,8,11,12) by (cases "d = e") auto
  qed
  show "\<forall>d \<in> holds p - holds p'. \<not> ms_locked (entry m' d)"
    using assms(4,8,11) by auto
  show "\<forall>d \<in> holds p' - holds p. d < m_next m \<longrightarrow> \<not> ms_locked (entry m d)"
    using assms(8,9) by auto
  show "\<forall>d \<in> creating p - creating p'.
      entry_complete (entry m' d) \<or> d \<notin> snd ` set (m_sessions m')"
    using assms(4,15,16) by auto
qed (use assms in auto)

lemma pc_ok_named:
  assumes "named m k e" and "m_next m' = m_next m" and "ms_key (entry m' e) = ms_key (entry m e)"
  shows "named m' k e"
  using assms by (simp add: named_def)

lemma mgr_wf_frame:
  assumes "mgr_wf m" and "m_sessions m' = m_sessions m" and "m_next m' = m_next m"
    and "\<And>e. ms_key (entry m' e) = ms_key (entry m e)"
  shows "mgr_wf m'"
  using assms by (simp add: mgr_wf_def)

lemma capacity_ok_frame:
  assumes "capacity_ok m" and "m_sessions m' = m_sessions m"
    and "m_max_active_sessions m' = m_max_active_sessions m"
    and "m_max_active_per_namespace m' = m_max_active_per_namespace m"
  shows "capacity_ok m'"
  using assms by (simp add: capacity_ok_def)

text \<open>One entry written, the map untouched.\<close>

lemma step_ok_entry:
  assumes "mgr_wf m" and "capacity_ok m"
    and "m_sessions m' = m_sessions m" and "m_next m' = m_next m"
    and "m_max_active_sessions m' = m_max_active_sessions m"
    and "m_max_active_per_namespace m' = m_max_active_per_namespace m"
    and "m_entries m' = (m_entries m)(e := x)"
    and "e < m_next m" and "ms_key x = ms_key (entry m e)"
    and "entry_complete (entry m e) \<longrightarrow> entry_complete x"
    and "holds p' - {e} = holds p - {e}" and "e \<in> holds p \<or> \<not> ms_locked (entry m e)"
    and "e \<in> holds p \<or> e \<in> holds p'" and "ms_locked x \<longleftrightarrow> e \<in> holds p'"
    and "\<forall>d \<in> holds p. d < m_next m \<and> ms_locked (entry m d)"
    and "creating p - {e} \<subseteq> creating p'"
    and "e \<in> creating p' \<or> e \<notin> creating p \<or> entry_complete x"
    and "pc_ok m' p'"
  shows "step_ok m p m' p'"
proof (rule step_ok_update [where e = e and x = x])
  show "mgr_wf m'" using mgr_wf_frame [OF assms(1,3,4)] assms(7,9) by simp
  show "capacity_ok m'" using capacity_ok_frame [OF assms(2,3,5,6)] .
qed (use assms in auto)

lemma entry_complete_locks [simp]:
  "entry_complete (x\<lparr>ms_locked := b\<rparr>) = entry_complete x"
  "entry_complete (x\<lparr>ms_last_used := n\<rparr>) = entry_complete x"
  by (simp_all add: entry_complete_def)

lemma step_ok_create:
  assumes "mgr_wf m" and "capacity_ok m" and "key \<noteq> []"
    and "acquire_enter d key spec m = (EnterCreate e, m')"
  shows "step_ok m (Entering key spec d) m' (Loading key spec d e)"
proof -
  note c = acquire_enter_create [OF assms(4)]
  have "mgr_wf m'" using mgr_wf_enter assms by blast
  moreover have "capacity_ok m'" using capacity_ok_put [of m key m' e] c assms(2) by simp
  moreover have "key \<notin> fst ` set (m_sessions m)" using c by (simp add: map_of_eq_None_iff)
  ultimately show ?thesis
    using c assms(1,3)
    by (auto simp: step_ok_def named_def new_entry_def mgr_wf_def)
qed

lemma mgr_wf_mapped:
  assumes "mgr_wf m" and "(k, e) \<in> set (m_sessions m)"
  shows "e < m_next m \<and> ms_key (entry m e) = k \<and> k \<noteq> [] \<and> map_of (m_sessions m) k = Some e"
  using assms mgr_wf_current [OF assms(1)] by (auto simp: mgr_wf_def)

lemma unmap_keeps:
  assumes "mgr_wf m" and "q \<in> set (m_sessions m)"
  shows "q \<in> set (m_sessions (unmap_entry key e m)) \<or> snd q = e"
  using assms mgr_wf_mapped [OF assms(1), of "fst q" "snd q"]
  by (auto simp: unmap_entry_sessions is_current_def)

lemma unmap_ok:
  assumes "mgr_wf m" and "capacity_ok m"
  shows "mgr_wf (unmap_entry key e m)" and "capacity_ok (unmap_entry key e m)"
proof -
  show "mgr_wf (unmap_entry key e m)" using assms(1) by (auto simp: mgr_wf_def unmap_entry_def)
  show "capacity_ok (unmap_entry key e m)"
    using capacity_ok_del [OF assms(2), of "unmap_entry key e m" key] assms(2)
    by (cases "is_current m key e") (simp_all add: unmap_entry_def)
qed

lemma step_ok_abort:
  assumes "mgr_wf m" and "capacity_ok m" and "named m key e" and "ms_locked (entry m e)"
  shows "step_ok m (Aborting key e) (cleanup_entry key e m) Idle"
proof (rule step_ok_update [where e = e and x = "(entry m e)\<lparr>ms_locked := False, ms_ready := True\<rparr>"])
  let ?m = "cleanup_entry key e m" and ?u = "unmap_entry key e m"
  have k: "e < m_next m" "ms_key (entry m e) = key" using assms(3) by (auto simp: named_def)
  have su: "m_sessions ?m = m_sessions ?u"
    by (simp add: cleanup_entry_def mark_ready_def unlock_entry_def)
  show "mgr_wf ?m"
    using mgr_wf_frame [OF unmap_ok(1) [OF assms(1,2)] su] by simp
  show "capacity_ok ?m"
    using capacity_ok_frame [OF unmap_ok(2) [OF assms(1,2)] su]
    by (simp add: cleanup_entry_def mark_ready_def unlock_entry_def)
  show "e \<in> creating Idle \<or> e \<notin> creating (Aborting key e) \<or>
      entry_complete ((entry m e)\<lparr>ms_locked := False, ms_ready := True\<rparr>) \<or>
      e \<notin> snd ` set (m_sessions ?m)"
    using unmapped_after_unmap [OF assms(1) k(2)] su by auto
  show "\<forall>q \<in> set (m_sessions m). q \<in> set (m_sessions ?m) \<or> snd q \<in> holds (Aborting key e)"
    using unmap_keeps [OF assms(1)] su by auto
  show "entry_complete (entry m e) \<longrightarrow>
      entry_complete ((entry m e)\<lparr>ms_locked := False, ms_ready := True\<rparr>)"
    by (simp add: entry_complete_def)
qed (use assms in \<open>auto simp: named_def cleanup_entry_def mark_ready_def unlock_entry_def
      update_entry_def unmap_entry_def\<close>)

lemma step_ok_discard:
  assumes "mgr_wf m" and "capacity_ok m" and "named m key e" and "ms_locked (entry m e)"
  shows "step_ok m (Leased key e) (unmap_entry key e m) (Destroying e)"
proof (rule step_ok_update [where e = e and x = "entry m e"])
  let ?m = "unmap_entry key e m"
  have k: "e < m_next m" "ms_key (entry m e) = key" using assms(3) by (auto simp: named_def)
  show "mgr_wf ?m" and "capacity_ok ?m" using unmap_ok [OF assms(1,2)] by blast+
  show "\<forall>q \<in> set (m_sessions m). q \<in> set (m_sessions ?m) \<or> snd q \<in> holds (Leased key e)"
    using unmap_keeps [OF assms(1)] by auto
  show "pc_ok ?m (Destroying e)"
    using k unmapped_after_unmap [OF assms(1) k(2)] by (auto simp: unmapped_def)
qed (use assms in \<open>auto simp: named_def unmap_entry_sessions\<close>)

lemma step_ok_sweep:
  assumes "mgr_wf m" and "capacity_ok m" and "sweep now (m_sessions m) m = (es, m')"
  shows "step_ok m Idle m' (Sweeping es)"
proof -
  have d: "distinct (map snd (m_sessions m))" "distinct (map fst (m_sessions m))"
    using assms(1) mgr_wf_distinct_entries by (auto simp: mgr_wf_def)
  note s = sweep_effect [OF d assms(3)]
  have f: "m_next m' = m_next m"
    "\<And>d. entry m' d = (if d \<in> set es then (entry m d)\<lparr>ms_locked := True\<rparr> else entry m d)"
    "\<And>q. q \<in> set (m_sessions m') \<longleftrightarrow> q \<in> set (m_sessions m) \<and>
        fst q \<notin> fst ` {q \<in> set (m_sessions m). stale now m (snd q)}"
    using s by simp_all
  have es: "e \<in> set es \<longleftrightarrow> (\<exists>k. (k, e) \<in> set (m_sessions m) \<and> stale now m e)" for e
    using conjunct1 [OF s] by force
  have free: "e < m_next m \<and> \<not> ms_locked (entry m e)" if "e \<in> set es" for e
    using that es mgr_wf_mapped [OF assms(1)] by (auto simp: stale_def)
  have kept: "q \<in> set (m_sessions m') \<longleftrightarrow> q \<in> set (m_sessions m) \<and> snd q \<notin> set es" for q
  proof -
    have "fst q \<in> fst ` {q \<in> set (m_sessions m). stale now m (snd q)} \<longleftrightarrow> snd q \<in> set es"
      if q: "q \<in> set (m_sessions m)"
    proof
      assume "fst q \<in> fst ` {q \<in> set (m_sessions m). stale now m (snd q)}"
      then obtain e where "(fst q, e) \<in> set (m_sessions m)" "stale now m e" by auto
      moreover have "e = snd q"
        using calculation(1) q mgr_wf_mapped [OF assms(1)] by (metis option.inject prod.collapse)
      ultimately show "snd q \<in> set es" using es by blast
    next
      assume "snd q \<in> set es"
      then have "stale now m (snd q)" using es by blast
      then show "fst q \<in> fst ` {q \<in> set (m_sessions m). stale now m (snd q)}" using q by blast
    qed
    then show ?thesis using f(3) by blast
  qed
  have "mgr_wf m'"
    using s mgr_wf_mapped [OF assms(1)] d(2) kept f(2)
    by (auto simp: mgr_wf_def f(1) distinct_map_filter)
  moreover have "capacity_ok m'"
    using s by (intro capacity_ok_filter [OF assms(2)]) blast+
  moreover have "distinct es" using conjunct1 [OF s] d(1) by (simp add: distinct_map_filter)
  moreover have "unmapped m' e" if "e \<in> set es" for e
    using that kept free f(1) by (auto simp: unmapped_def)
  moreover have "entry_complete (entry m e) \<longrightarrow> entry_complete (entry m' e)"
    "ms_key (entry m' e) = ms_key (entry m e)" for e
    using f(2) by (simp_all add: entry_complete_def)
  ultimately show ?thesis
    unfolding step_ok_def using f(1,2) s kept free by simp (meson leD)
qed

lemma step_ok_finish:
  assumes "mgr_wf m" and "capacity_ok m" and "named m key e" and "ms_locked (entry m e)"
    and "store_save st key r (fill_entry now e q sess m) = (er, m1)"
  shows "step_ok m (Finishing key e sess c q) (mark_ready e m1) (Leased key e)"
    and "step_ok m (Finishing key e sess c q) (log_call k m1) (Aborting key e)"
proof -
  have c: "same_core (fill_entry now e q sess m) m1"
    using same_core_save [of "fill_entry now e q sess m" st key r] assms(5) by simp
  note d = same_coreD [OF c]
  let ?x = "entry (fill_entry now e q sess m) e"
  have f: "m_entries (fill_entry now e q sess m) = (m_entries m)(e := ?x)"
    by (simp add: fill_entry_def update_entry_def)
  have mx: "m_max_active_sessions (fill_entry now e q sess m) = m_max_active_sessions m"
    "m_max_active_per_namespace (fill_entry now e q sess m) = m_max_active_per_namespace m"
    by (simp_all add: fill_entry_def)
  show "step_ok m (Finishing key e sess c q) (mark_ready e m1) (Leased key e)"
    by (rule step_ok_entry [OF assms(1,2), where e = e and x = "?x\<lparr>ms_ready := True\<rparr>"])
      (use assms(3,4) d f mx in \<open>auto simp: mark_ready_def update_entry_def named_def entry_complete_def\<close>)
  show "step_ok m (Finishing key e sess c q) (log_call k m1) (Aborting key e)"
    by (rule step_ok_entry [OF assms(1,2), where e = e and x = ?x])
      (use assms(3,4) d f mx in \<open>auto simp: named_def entry_complete_def\<close>)
qed

text \<open>Giving up a lock after calls that leave the map and the heap alone.\<close>

lemma step_ok_unlock:
  assumes "mgr_wf m" and "capacity_ok m" and "same_core m m1" and "e < m_next m"
    and "holds p' = holds p - {e}" and "e \<in> holds p" and "e \<notin> creating p"
    and "\<forall>d \<in> holds p. d < m_next m \<and> ms_locked (entry m d)" and "creating p \<subseteq> creating p'"
    and "pc_ok m p'"
  shows "step_ok m p (unlock_entry e m1) p'"
proof (rule step_ok_entry [OF assms(1,2), where e = e and x = "(entry m e)\<lparr>ms_locked := False\<rparr>"])
  note d = same_coreD [OF assms(3)]
  show "pc_ok (unlock_entry e m1) p'"
    using pc_ok_mono [OF assms(10), of "unlock_entry e m1"] d by (simp add: unlock_entry_def)
  show "m_entries (unlock_entry e m1) = (m_entries m)(e := (entry m e)\<lparr>ms_locked := False\<rparr>)"
    using d by (simp add: unlock_entry_def update_entry_def)
qed (use assms same_coreD [OF assms(3)] in \<open>auto simp: unlock_entry_def\<close>)

lemma step_ok_close:
  assumes "mgr_wf m" and "capacity_ok m"
  shows "step_ok m Idle (m\<lparr>m_sessions := []\<rparr>) (Closing preserve (map snd (m_sessions m)))"
  using mgr_wf_mapped [OF assms(1)] assms(2)
  by (auto simp: step_ok_def mgr_wf_def capacity_ok_def active_in_namespace_def unmapped_def)

lemma step_ok_recheck:
  assumes "mgr_wf m" and "capacity_ok m" and "named m key e" and "ms_locked (entry m e)"
    and "acquire_recheck now key e m = (b, m')" and "b \<longrightarrow> entry_complete (entry m e)"
  shows "step_ok m (Holding key spec d e) m' (if b then Leased key e else Entering key spec d)"
proof (rule step_ok_entry [OF assms(1,2), where e = e and
      x = "if b then (entry m e)\<lparr>ms_last_used := now\<rparr> else (entry m e)\<lparr>ms_locked := False\<rparr>"])
  show "m_entries m' = (m_entries m)(e := if b then (entry m e)\<lparr>ms_last_used := now\<rparr>
      else (entry m e)\<lparr>ms_locked := False\<rparr>)"
    using assms(5) by (auto simp: acquire_recheck_def touch_def unlock_entry_def update_entry_def
        split: if_splits)
qed (use assms in \<open>auto simp: acquire_recheck_def touch_def unlock_entry_def update_entry_def
      named_def split: if_splits\<close>)

lemma step_ok_wait:
  assumes "mgr_wf m" and "capacity_ok m" and "named m key e" and "\<not> ms_locked (entry m e)"
  shows "step_ok m (Waiting key spec d e) (lock_entry e m) (Holding key spec d e)"
  by (rule step_ok_entry [OF assms(1,2), where e = e and x = "(entry m e)\<lparr>ms_locked := True\<rparr>"])
    (use assms(3,4) in \<open>auto simp: lock_entry_def update_entry_def named_def\<close>)

lemma step_ok_release:
  assumes "mgr_wf m" and "capacity_ok m" and "named m key e" and "ms_locked (entry m e)"
    and "release_entry st now key e m = (er, m')"
  shows "step_ok m (Leased key e) m' Idle"
  by (rule step_ok_entry [OF assms(1,2), where e = e and
        x = "(entry m e)\<lparr>ms_last_used := now, ms_locked := False\<rparr>"])
    (use assms(3,4) release_entry_effect [OF assms(5)] in \<open>auto simp: named_def entry_complete_def\<close>)

lemma close_one_core:
  assumes "\<not> ms_locked (entry m e)"
    and "(if preserve then disconnectPersistentSession env e (lock_entry e m)
      else destroyPersistentSession st env e (lock_entry e m)) = (er, m')"
  shows "same_core m (unlock_entry e m')"
proof -
  have "same_core (lock_entry e m) m'"
    using same_core_disconnect [of "lock_entry e m" env e]
      same_core_destroy [of "lock_entry e m" st env e] assms(2)
    by (cases preserve) simp_all
  then show ?thesis
    using assms(1) by (auto simp: same_core_def lock_entry_def unlock_entry_def update_entry_def)
qed

text \<open>The hooks of entries, which have a mutex of their own.\<close>

definition activity_only :: "'s manager \<Rightarrow> 's manager \<Rightarrow> bool" where
  "activity_only m m' \<longleftrightarrow>
     m_sessions m' = m_sessions m \<and> m_next m' = m_next m \<and> m_max_active_sessions m' = m_max_active_sessions m \<and>
     m_max_active_per_namespace m' = m_max_active_per_namespace m \<and>
     (\<forall>d. up_to_hook (entry m d) (entry m' d))"

lemma up_to_hook_trans: "up_to_hook x y \<Longrightarrow> up_to_hook y z \<Longrightarrow> up_to_hook x z"
  by (auto simp: up_to_hook_def)

lemma activity_only_trans: "activity_only a b \<Longrightarrow> activity_only b c \<Longrightarrow> activity_only a c"
  using up_to_hook_trans by (fastforce simp: activity_only_def)

lemma hook_activity:
  "SetActivityHook key hook m = (target, m') \<Longrightarrow> activity_only m m'"
  "activity_only m (clear_activity target m)"
  by (auto simp: SetActivityHook_def clear_activity_def activity_only_def
      split: if_splits option.splits)

lemma step_ok_hook:
  assumes "sys_inv s" and "activity_only (sy_mgr s) m'"
  shows "step_ok (sy_mgr s) (sy_pc s t) m' (sy_pc s t)"
proof -
  let ?m = "sy_mgr s"
  have e: "ms_key (entry m' d) = ms_key (entry ?m d)" "ms_locked (entry m' d) = ms_locked (entry ?m d)"
    "entry_complete (entry m' d) = entry_complete (entry ?m d)" for d
    using assms(2) up_to_hookD by (auto simp: activity_only_def)
  have f: "m_sessions m' = m_sessions ?m" "m_next m' = m_next ?m"
    "m_max_active_sessions m' = m_max_active_sessions ?m"
    "m_max_active_per_namespace m' = m_max_active_per_namespace ?m" "\<forall>d. up_to_hook (entry ?m d) (entry m' d)"
    using assms(2) by (simp_all add: activity_only_def)
  have "mgr_wf m'" "capacity_ok m'"
    using mgr_wf_frame [OF sys_invD(1) [OF assms(1)] f(1,2) e(1)]
      capacity_ok_frame [OF sys_invD(2) [OF assms(1)] f(1,3,4)] .
  moreover have "pc_ok m' (sy_pc s t)"
    using pc_ok_mono [OF sys_invD(7) [OF assms(1)], of m'] e f by simp
  ultimately show ?thesis using sys_invD(3) [OF assms(1)] e f by (auto simp: step_ok_def)
qed

text \<open>The manager's part of a step is \<open>step_ok\<close> between the goroutine's program counters.\<close>

lemma step_goto:
  assumes "sys_step st a t s s'"
  shows "s' = goto t (sy_pc s' t) (sy_mgr s') s"
  using assms by cases simp_all

lemma core_dest:
  "acquire_load st now key spec m = (out, m') \<Longrightarrow> same_core m m'"
  "removeStoredSession st env d key r m = (er, m') \<Longrightarrow> same_core m m'"
  "createSessionWithContext env call answer m = (res, m') \<Longrightarrow> same_core m m'"
  "store_delete st key m = (er, m') \<Longrightarrow> same_core m m'"
  "destroyPersistentSession st env e m = (er, m') \<Longrightarrow> same_core m m'"
  by (metis core_intros snd_conv)+

text \<open>Between the load of the stored record and the runtime session, only the store and the runtime are called.\<close>

fun restoring :: "pc \<Rightarrow> bool" where
  "restoring (Loading _ _ _ _) = True"
| "restoring (Removing _ _ _ _ _ _) = True"
| "restoring (Resuming _ _ _) = True"
| "restoring (Dropping _ _) = True"
| "restoring (Making _ _ _) = True"
| "restoring _ = False"

lemma restoring_step:
  assumes "sys_step st a t s s'" and "restoring (sy_pc s t)" and "a = ActRun"
  shows "same_core (sy_mgr s) (sy_mgr s') \<and> holds (sy_pc s' t) = holds (sy_pc s t) \<and>
    creating (sy_pc s t) \<subseteq> creating (sy_pc s' t) \<and> (pc_ok m (sy_pc s t) \<longrightarrow> pc_ok m (sy_pc s' t))"
  using assms by cases (auto dest: core_dest)

text \<open>An entry in the map that a goroutine holds and does not create is complete.\<close>

lemma own_complete:
  assumes "sys_inv s" and "is_current (sy_mgr s) k e" and "e \<in> holds (sy_pc s t)" and "e \<notin> creating (sy_pc s t)"
  shows "entry_complete (entry (sy_mgr s) e)"
proof -
  have "(k, e) \<in> set (m_sessions (sy_mgr s))"
    using assms(2) mgr_wf_current [OF sys_invD(1) [OF assms(1)]] by (simp add: is_current_def)
  then consider "entry_complete (entry (sy_mgr s) e)" | t' where "e \<in> creating (sy_pc s t')"
    using sys_invD(6) [OF assms(1)] by blast
  then show ?thesis
  proof cases
    case 2
    then have "t = t'" using sys_invD(4) [OF assms(1,3)] creating_holds by blast
    with 2 assms(4) show ?thesis by simp
  qed simp
qed

text \<open>The steps of \<open>Acquire\<close> up to the lock or the new entry.\<close>

fun looking_up :: "pc \<Rightarrow> bool" where
  "looking_up (Entering _ _ _) = True"
| "looking_up (Waiting _ _ _ _) = True"
| "looking_up (Holding _ _ _ _) = True"
| "looking_up _ = False"

lemma lookup_step_ok:
  assumes inv: "sys_inv s" and step: "sys_step st a t s s'" and "looking_up (sy_pc s t)" and "a \<noteq> ActCall"
  shows "step_ok (sy_mgr s) (sy_pc s t) (sy_mgr s') (sy_pc s' t)"
proof -
  note wc = sys_invD(1,2) [OF inv]
  have H: "\<forall>e \<in> holds (sy_pc s t). e < m_next (sy_mgr s) \<and> ms_locked (entry (sy_mgr s) e)"
    using sys_invD(3) [OF inv] by blast
  note P = sys_invD(7) [OF inv, of t]
  note same = step_ok_same_core [OF wc _ _ H]
  show ?thesis using step
  proof cases
    case (enter_error key spec d er m)
    then show ?thesis using acquire_enter_error [OF enter_error(4)] P by - (rule same; auto)
  next
    case (enter_wait key spec d e m)
    then show ?thesis
      using acquire_enter_wait [OF enter_wait(4)] P mgr_wf_entry [OF wc(1)]
      by - (rule same; auto simp: named_def)
  next
    case (enter_create key spec d e m)
    then show ?thesis using step_ok_create [OF wc] P by simp
  next
    case (wait_cancel key spec d e)
    then show ?thesis by - (rule same; auto)
  next
    case (wait_lock key spec d e)
    then show ?thesis using step_ok_wait [OF wc] P by simp
  next
    case (recheck_ok key spec d e now m)
    then have "is_current (sy_mgr s) key e" by (simp add: acquire_recheck_def split: if_splits)
    then show ?thesis
      using step_ok_recheck [OF wc _ _ recheck_ok(4)] own_complete [OF inv, of key e t] recheck_ok P H by simp
  next
    case (recheck_retry key spec d e now m)
    then show ?thesis using step_ok_recheck [OF wc _ _ recheck_retry(4)] P H by simp
  qed (use assms(3,4) in simp_all)
qed

text \<open>The steps that start an operation.\<close>

lemma call_step_ok:
  assumes inv: "sys_inv s" and step: "sys_step st ActCall t s s'"
  shows "step_ok (sy_mgr s) (sy_pc s t) (sy_mgr s') (sy_pc s' t)"
proof -
  note wc = sys_invD(1,2) [OF inv]
  have H: "\<forall>e \<in> holds (sy_pc s t). e < m_next (sy_mgr s) \<and> ms_locked (entry (sy_mgr s) e)"
    using sys_invD(3) [OF inv] by blast
  note same = step_ok_same_core [OF wc _ _ H]
  show ?thesis using step
  proof cases
    case (call_acquire key spec d)
    then show ?thesis by - (rule same; auto)
  next
    case (call_cleanup now es m)
    then show ?thesis using step_ok_sweep [OF wc] by simp
  next
    case (call_close preserve)
    then show ?thesis using step_ok_close [OF wc] by simp
  next
    case (ephemeral_ok env sess m)
    then show ?thesis by - (rule same; auto dest: core_dest)
  next
    case (ephemeral_error env er m)
    then show ?thesis by - (rule same; auto dest: core_dest)
  next
    case (set_hook key hook target m)
    then show ?thesis using step_ok_hook [OF inv hook_activity(1)] by simp
  next
    case (clear_hook target)
    then show ?thesis using step_ok_hook [OF inv hook_activity(2)] by simp
  qed
qed

lemma sys_step_ok:
  assumes inv: "sys_inv s" and step: "sys_step st a t s s'"
  shows "step_ok (sy_mgr s) (sy_pc s t) (sy_mgr s') (sy_pc s' t)"
proof -
  note wc = sys_invD(1,2) [OF inv]
  have H: "\<forall>e \<in> holds (sy_pc s t). e < m_next (sy_mgr s) \<and> ms_locked (entry (sy_mgr s) e)"
    using sys_invD(3) [OF inv] by blast
  note P = sys_invD(7) [OF inv, of t]
  note same = step_ok_same_core [OF wc _ _ H]
  consider "a = ActCall" | "a \<noteq> ActCall" "looking_up (sy_pc s t)" | "a = ActRun" "restoring (sy_pc s t)"
    | "a \<noteq> ActCall" "\<not> looking_up (sy_pc s t)" "\<not> restoring (sy_pc s t)"
    using step by cases auto
  then show ?thesis
  proof cases
    case 1
    then show ?thesis using call_step_ok [OF inv] step by simp
  next
    case 2
    then show ?thesis using lookup_step_ok [OF inv step] by simp
  next
    case 3
    then show ?thesis using restoring_step [OF step, where m = "sy_mgr s"] P by (auto intro: same)
  next
    case rest: 4
    show ?thesis using step
    proof cases
      case (finish_ok key e sess created p m1 now m)
      then show ?thesis using step_ok_finish(1) [OF wc] P H by simp
    next
      case (finish_error key e sess created p m1 now er m)
      then show ?thesis using step_ok_finish(2) [OF wc] P H by simp
    next
      case (close_one preserve e es env er m)
      then show ?thesis using close_one_core [OF close_one(4,5)] P by - (rule same; auto)
    next
      case (ephemeral_close sess)
      then show ?thesis using same_core_log by - (rule same; auto)
    next
      case sweep_done
      then show ?thesis by - (rule same; auto)
    next
      case (close_done preserve)
      then show ?thesis by - (rule same; auto)
    next
      case (close_skip preserve e es)
      then show ?thesis using P by - (rule same; auto)
    qed (use rest P H step_ok_abort [OF wc] step_ok_release [OF wc] step_ok_discard [OF wc] in
      \<open>auto intro!: step_ok_unlock [OF wc] dest!: core_dest(5) simp: unmapped_def\<close>)
  qed
qed

text \<open>The invariant holds in every reachable state.\<close>

lemma sys_inv_init: "sys_inv (init_sys (NewManagerWithStore ttl limits store))"
  by (simp add: sys_inv_def init_sys_def mgr_wf_def capacity_ok_def NewManagerWithStore_def
      active_in_namespace_def)

lemma sys_inv_reachable:
  assumes "reachable st (NewManagerWithStore ttl limits store) s"
  shows "sys_inv s"
  using assms
proof induction
  case start
  show ?case by (rule sys_inv_init)
next
  case (step s a t s')
  then show ?case
    using step_ok_inv [OF step.IH sys_step_ok [OF step.IH step.hyps(2)]] step_goto by metis
qed

section \<open>What the invariant gives\<close>

lemma reachable_holds:
  assumes "reachable st (NewManagerWithStore ttl limits store) s" and "e \<in> holds (sy_pc s t)"
  shows "ms_locked (entry (sy_mgr s) e)" and "e \<in> holds (sy_pc s t') \<Longrightarrow> t = t'"
  using sys_inv_reachable [OF assms(1)] assms(2) unfolding sys_inv_def Let_def by blast+

lemma limits_kept:
  assumes "reachable st (NewManagerWithStore ttl limits store) s"
  shows "m_max_active_sessions (sy_mgr s) = MaxActiveSessions limits \<and>
    m_max_active_per_namespace (sy_mgr s) = MaxActivePerNamespace limits"
  using assms
proof induction
  case start
  show ?case by (simp add: init_sys_def NewManagerWithStore_def)
next
  case (step s a t s')
  have "step_ok (sy_mgr s) (sy_pc s t) (sy_mgr s') (sy_pc s' t)"
    using sys_step_ok [OF sys_inv_reachable [OF step.hyps(1)] step.hyps(2)] .
  then show ?case using step.IH by (simp add: step_ok_def)
qed

text \<open>A runtime that creates nothing and reports no other error.\<close>

definition quiet_env :: runtime_env where
  "quiet_env = \<lparr>env_ctx_err = None, env_new = Inl (err ErrEOF), env_resume = (\<lambda>_. Inl (err ErrEOF)),
     env_close = (\<lambda>_. None), env_delete = (\<lambda>_. None)\<rparr>"

text \<open>A goroutine that holds an entry's mutex is never blocked.\<close>

lemma restoring_moves:
  assumes "restoring (sy_pc s t)"
  shows "\<exists>s'. sys_step st ActRun t s s'"
proof (cases "sy_pc s t")
  case (Loading key spec d e)
  obtain out m where l: "acquire_load st 0 key spec (sy_mgr s) = (out, m)" by fastforce
  show ?thesis
    using sys_step.load_error [OF Loading] sys_step.load_none [OF Loading]
      sys_step.load_mismatch [OF Loading] sys_step.load_expired [OF Loading]
      sys_step.load_hit [OF Loading] l
    by (cases out) (simp, blast)+
next
  case (Removing key spec d e r mismatch)
  obtain er m where "removeStoredSession st quiet_env d key r (sy_mgr s) = (er, m)" by fastforce
  then show ?thesis using sys_step.remove_stored [OF Removing] by blast
next
  case (Resuming key e r)
  then show ?thesis using sys_step.resume_nil by blast
next
  case (Dropping key e)
  obtain er m where "store_delete st key (sy_mgr s) = (er, m)" by fastforce
  then show ?thesis using sys_step.drop_stored [OF Dropping] by blast
next
  case (Making key e p)
  obtain m where "createSessionWithContext quiet_env CallNew (Inl (err ErrEOF)) (sy_mgr s) = (Inl (err ErrEOF), m)"
    by (simp add: createSessionWithContext_def quiet_env_def)
  moreover have "env_new quiet_env = Inl (err ErrEOF)" by (simp add: quiet_env_def)
  ultimately show ?thesis using sys_step.make_error [OF Making] by metis
qed (use assms in auto)

lemma destroying_moves:
  assumes "sy_pc s t = Destroying e \<or> sy_pc s t = Sweeping (e # es)"
  shows "\<exists>s'. sys_step st ActRun t s s'"
proof -
  obtain er m where "destroyPersistentSession st quiet_env e (sy_mgr s) = (er, m)" by fastforce
  then show ?thesis using sys_step.destroy sys_step.sweep_one assms by blast
qed

lemma holder_moves:
  assumes "holds (sy_pc s t) \<noteq> {}"
  shows "\<exists>s'. sys_step st ActRun t s s'"
proof (cases "sy_pc s t")
  case (Holding key spec d e)
  obtain b m where "acquire_recheck 0 key e (sy_mgr s) = (b, m)" by fastforce
  then show ?thesis using sys_step.recheck_ok [OF Holding] sys_step.recheck_retry [OF Holding]
    by (cases b) (simp, blast)+
next
  case (Finishing key e sess created p)
  obtain er m where sv: "store_save st key
      (entry_record 0 (entry (fill_entry 0 e p sess (sy_mgr s)) e))
      (fill_entry 0 e p sess (sy_mgr s)) = (er, m)"
    by fastforce
  show ?thesis
    using sv sys_step.finish_ok [OF Finishing refl] sys_step.finish_error [OF Finishing refl]
    by (cases er) (simp, blast)+
next
  case (Aborting key e)
  then show ?thesis using sys_step.abort by blast
next
  case (Leased key e)
  then show ?thesis using sys_step.discard by blast
next
  case (Destroying e)
  then show ?thesis using destroying_moves by blast
next
  case (Sweeping es)
  then show ?thesis using assms destroying_moves [of s t] by (cases es) (simp, metis)
qed (use assms restoring_moves [of s t] in auto)

text \<open>A goroutine that waits for the entry \<open>e\<close>, in \<open>Acquire\<close> or in a shutdown.\<close>

lemma free_entry_moves:
  assumes "\<not> ms_locked (entry (sy_mgr s) e)"
    and "sy_pc s t = Waiting key spec d e \<or> sy_pc s t = Closing preserve (e # es)"
  shows "\<exists>s'. sys_step st ActRun t s s'"
  using assms(2)
proof
  assume "sy_pc s t = Waiting key spec d e"
  then show ?thesis using sys_step.wait_lock assms(1) by blast
next
  assume c: "sy_pc s t = Closing preserve (e # es)"
  obtain er m where "(if preserve then disconnectPersistentSession quiet_env e (lock_entry e (sy_mgr s))
      else destroyPersistentSession st quiet_env e (lock_entry e (sy_mgr s))) = (er, m)"
    by fastforce
  then show ?thesis using sys_step.close_one [OF c assms(1)] by blast
qed

lemma entering_moves:
  assumes "sy_pc s t = Entering key spec d"
  shows "\<exists>s'. sys_step st ActRun t s s'"
proof -
  obtain out m where o: "acquire_enter d key spec (sy_mgr s) = (out, m)" by fastforce
  show ?thesis
    using sys_step.enter_error [OF assms] sys_step.enter_wait [OF assms] sys_step.enter_create [OF assms] o
    by (cases out) blast+
qed

lemma blocked_by_mover:
  assumes "sys_inv s" and "ms_locked (entry (sy_mgr s) e)" and "e < m_next (sy_mgr s)"
  shows "\<exists>t'. e \<in> holds (sy_pc s t') \<and> (\<exists>s'. sys_step st ActRun t' s s')"
  using sys_invD(5) [OF assms(1,3,2)] holder_moves by fast

section \<open>Properties\<close>

text \<open>C5: A lease is exclusive.  In every reachable state of any number of goroutines using the
  manager, two goroutines that hold a lease on the same entry, or leases for the same key whose
  entries are in the map, are the same goroutine; and a leased entry is locked, carries its
  key and has its runtime session, under the identifier the lease reports.\<close>

theorem lease_exclusive:
  assumes "reachable st (NewManagerWithStore ttl limits store) s"
    and "sy_pc s t = Leased key e"
  shows "(\<forall>t' key' e'. sy_pc s t' = Leased key' e' \<longrightarrow>
            e' = e \<or> (key' = key \<and> is_current (sy_mgr s) key e \<and> is_current (sy_mgr s) key e') \<longrightarrow>
            t' = t) \<and>
    ms_locked (entry (sy_mgr s) e) \<and> ms_key (entry (sy_mgr s) e) = key \<and>
    (\<exists>r. ms_session (entry (sy_mgr s) e) = Some r \<and> ms_session_id (entry (sy_mgr s) e) = rs_id r)"
proof -
  have inv: "sys_inv s" using sys_inv_reachable [OF assms(1)] .
  then have "pc_ok (sy_mgr s) (sy_pc s t)" by (simp add: sys_inv_def Let_def)
  then have n: "ms_key (entry (sy_mgr s) e) = key" "entry_complete (entry (sy_mgr s) e)"
    using assms(2) by (auto simp: named_def)
  have excl: "t' = t" if "sy_pc s t' = Leased key' e" for t' key'
    using reachable_holds(2) [OF assms(1), of e t t'] that assms(2) by simp
  have "ms_locked (entry (sy_mgr s) e)"
    using reachable_holds(1) [OF assms(1), of e t] assms(2) by simp
  then show ?thesis
    using n excl unfolding entry_complete_def is_current_def by (metis option.inject)
qed

text \<open>C6: The capacity limits hold at all times: in every reachable state of the concurrent manager,
  the number of active sessions does not exceed a positive \<open>MaxActiveSessions\<close>, and no key
  namespace exceeds a positive \<open>MaxActivePerNamespace\<close>.\<close>

theorem capacity_always_respected:
  assumes "reachable st (NewManagerWithStore ttl limits store) s"
  shows "(0 < MaxActiveSessions limits \<longrightarrow>
            int (length (m_sessions (sy_mgr s))) \<le> MaxActiveSessions limits) \<and>
    (0 < MaxActivePerNamespace limits \<longrightarrow>
       (\<forall>ns. int (active_in_namespace ns (m_sessions (sy_mgr s))) \<le> MaxActivePerNamespace limits))"
  using sys_inv_reachable [OF assms] limits_kept [OF assms]
  by (simp add: sys_inv_def Let_def capacity_ok_def)

text \<open>While a goroutine holds a lease, no step of another goroutine changes the leased entry but for its activity
  hook, and only the start of a shutdown takes it out of the map.\<close>

theorem lease_undisturbed:
  assumes "reachable st (NewManagerWithStore ttl limits store) s"
    and "sy_pc s t = Leased key e" and "sys_step st a t' s s'" and "t' \<noteq> t"
  shows "sy_pc s' t = Leased key e \<and> up_to_hook (entry (sy_mgr s) e) (entry (sy_mgr s') e) \<and>
    (is_current (sy_mgr s) key e \<longrightarrow> is_current (sy_mgr s') key e \<or>
       (\<exists>preserve es. sy_pc s t' = Idle \<and> sy_pc s' t' = Closing preserve es))"
proof -
  have inv: "sys_inv s" using sys_inv_reachable [OF assms(1)] .
  have ok: "step_ok (sy_mgr s) (sy_pc s t') (sy_mgr s') (sy_pc s' t')"
    using sys_step_ok [OF inv assms(3)] .
  have pc: "sy_pc s' t = sy_pc s t"
    using step_goto [OF assms(3)] assms(4) by (metis goto_simps(2) fun_upd_other)
  note apart = others_apart [OF inv ok assms(4) [symmetric], of e]
  have "(key, e) \<in> set (m_sessions (sy_mgr s)) \<longrightarrow> (key, e) \<in> set (m_sessions (sy_mgr s')) \<or>
      (\<exists>preserve es. sy_pc s t' = Idle \<and> sy_pc s' t' = Closing preserve es)"
    using step_okD(7) [OF ok, of "(key, e)"] apart(1,2) assms(2) by auto
  then show ?thesis
    using pc assms(2) apart(3) mgr_wf_current [OF sys_invD(1) [OF inv]] mgr_wf_current [OF step_ok_parts(1) [OF ok]]
    by (simp add: is_current_def)
qed

text \<open>C20: No deadlock.  In every reachable state, a goroutine that is inside an operation of the
  manager can take a step, or waits for the mutex of an entry whose holder can take one.\<close>

theorem no_deadlock:
  assumes "reachable st (NewManagerWithStore ttl limits store) s" and "sy_pc s t \<noteq> Idle"
  shows "\<exists>s' t'. sys_step st ActRun t' s s' \<and>
    (t' = t \<or> (\<exists>e. e \<in> holds (sy_pc s t') \<and>
       ((\<exists>key spec d. sy_pc s t = Waiting key spec d e) \<or>
        (\<exists>preserve es. sy_pc s t = Closing preserve (e # es)))))"
proof -
  have inv: "sys_inv s" using sys_inv_reachable [OF assms(1)] .
  note ok = sys_invD(7) [OF inv, of t]
  show ?thesis
  proof (cases "sy_pc s t")
    case (Entering key spec d)
    then show ?thesis using entering_moves by blast
  next
    case (Waiting key spec d e)
    then show ?thesis
      using blocked_by_mover [OF inv, where e = e and st = st] ok
        free_entry_moves [where s = s and e = e and t = t and st = st]
      by (cases "ms_locked (entry (sy_mgr s) e)") (fastforce simp: named_def)+
  next
    case (Sweeping es)
    then show ?thesis
      using holder_moves [of s t] sys_step.sweep_done [of s t] by (cases es) auto
  next
    case (Ephemeral sess)
    then show ?thesis using sys_step.ephemeral_close by blast
  next
    case (Closing preserve es)
    show ?thesis
    proof (cases es)
      case Nil
      then show ?thesis using sys_step.close_done Closing by blast
    next
      case (Cons e es')
      then show ?thesis
        using blocked_by_mover [OF inv, where e = e and st = st] ok Closing
          free_entry_moves [where s = s and e = e and t = t and st = st]
        by (cases "ms_locked (entry (sy_mgr s) e)") (fastforce simp: unmapped_def)+
    qed
  qed (use holder_moves [of s t] assms(2) in auto)
qed

end
