(* ===== verification/Session_Races.thy ===== *)
theory Session_Races
  imports Session_Concurrency
begin

text \<open>
  One run of the concurrent session manager on \<open>FileStore\<close>, step by step.  Goroutine 0 creates
  a session and discards its lease; goroutine 1 acquires the same key after \<open>Discard\<close> has
  taken the entry out of the map and before it has destroyed the session.  The run shows that
  the hypotheses of the invariants are met, and what becomes of goroutine 1.
\<close>

section \<open>The states of the run\<close>

definition demo_key :: string where
  "demo_key = ''ns:chat''"

definition demo_spec :: session_spec where
  "demo_spec = \<lparr>sp_model = ''gpt-5'', sp_system_prompt = [], sp_system_prompt_mode = [],
     sp_reasoning_effort = [], sp_agent = [], sp_interactive = False, sp_tools_fingerprint = [],
     sp_permission_mode = ''deny'', sp_provider_fingerprint = [],
     sp_provider_secret_fingerprint = []\<rparr>"

text \<open>A runtime that answers every call, with the Go object \<open>h\<close>.\<close>

definition demo_env :: "nat \<Rightarrow> runtime_env" where
  "demo_env h = \<lparr>env_ctx_err = None, env_new = Inr \<lparr>rs_handle = h, rs_id = ''s1''\<rparr>,
     env_resume = (\<lambda>id. Inr \<lparr>rs_handle = h, rs_id = id\<rparr>), env_close = (\<lambda>_. None),
     env_delete = (\<lambda>_. None)\<rparr>"

definition demo_limits :: session_limits where
  "demo_limits = \<lparr>MaxActiveSessions = 2, MaxActivePerNamespace = 1\<rparr>"

definition demo_record :: stored_session where
  "demo_record = \<lparr>ss_session_id = ''s1'', ss_spec = demo_spec, ss_created_at = 5, ss_updated_at = 5\<rparr>"

definition demo_file :: "(string \<times> stored_session) list \<Rightarrow> file_store" where
  "demo_file rs = \<lparr>fs_path = ''sessions.json'', fs_file = Some (RecordsDoc rs), fs_temp = None,
     fs_faults = []\<rparr>"

definition demo_entry :: "nat \<Rightarrow> managed_session" where
  "demo_entry h = \<lparr>ms_key = demo_key, ms_spec = demo_spec, ms_session_id = ''s1'',
     ms_session = Some \<lparr>rs_handle = h, rs_id = ''s1''\<rparr>, ms_has_delete = True, ms_created_at = 5,
     ms_last_used = 5, ms_locked = True, ms_activity = None, ms_ready = True\<rparr>"

abbreviation fresh_entry :: managed_session where
  "fresh_entry \<equiv> new_entry demo_key demo_spec True"

definition demo_mgr :: "runtime_call list \<Rightarrow> (string \<times> nat) list \<Rightarrow> (nat \<Rightarrow> managed_session) \<Rightarrow> nat \<Rightarrow>
    file_store \<Rightarrow> file_store manager" where
  "demo_mgr cs sess ent n fs = \<lparr>m_ttl = 0, m_max_active_sessions = 2, m_max_active_per_namespace = 1,
     m_sessions = sess, m_entries = ent, m_next = n, m_store = fs, m_calls = cs\<rparr>"

definition demo_sys :: "file_store manager \<Rightarrow> pc \<Rightarrow> pc \<Rightarrow> file_store sys" where
  "demo_sys m p q = \<lparr>sy_mgr = m, sy_pc = (\<lambda>_. Idle)(0 := p, 1 := q)\<rparr>"

abbreviation demo_ops :: "file_store store_ops option" where
  "demo_ops \<equiv> Some file_store_ops"

abbreviation demo_start :: "file_store manager" where
  "demo_start \<equiv> NewManagerWithStore 0 demo_limits (demo_file [])"

abbreviation entries0 :: "nat \<Rightarrow> managed_session" where
  "entries0 \<equiv> (\<lambda>_. no_entry)(0 := demo_entry 0)"

definition leased0 :: "file_store manager" where
  "leased0 = demo_mgr [CallNew] [(demo_key, 0)] entries0 1 (demo_file [(demo_key, demo_record)])"

definition discarding0 :: "file_store manager" where
  "discarding0 = leased0\<lparr>m_sessions := []\<rparr>"

definition leased1 :: "file_store manager" where
  "leased1 = demo_mgr [CallNew, CallResume ''s1''] [(demo_key, 1)] (entries0(1 := demo_entry 7)) 2
     (demo_file [(demo_key, demo_record)])"

definition destroyed0 :: "file_store manager" where
  "destroyed0 = demo_mgr
     [CallNew, CallResume ''s1'', CallClose \<lparr>rs_handle = 0, rs_id = ''s1''\<rparr>, CallDelete ''s1'']
     [(demo_key, 1)] (entries0(1 := demo_entry 7, 0 := (demo_entry 0)\<lparr>ms_locked := False\<rparr>)) 2
     (demo_file [])"

section \<open>The steps\<close>

lemma demo_sys_simps [simp]:
  "sy_mgr (demo_sys m p q) = m" "sy_pc (demo_sys m p q) 0 = p"
  "sy_pc (demo_sys m p q) (Suc 0) = q"
  "goto 0 p' m' (demo_sys m p q) = demo_sys m' p' q"
  "goto (Suc 0) q' m' (demo_sys m p q) = demo_sys m' p q'"
  by (auto simp: demo_sys_def goto_def fun_eq_iff)

lemmas demo_defs = demo_mgr_def demo_spec_def demo_key_def demo_record_def demo_file_def
  demo_limits_def demo_entry_def new_entry_def NewManagerWithStore_def

lemma demo_load: "fs_load k (demo_file rs) = (Inr (map_of rs k), demo_file rs)"
  by (simp add: fs_load_def readAllLocked_def sys_call_def demo_file_def)

lemma demo_save: "fs_save k r (demo_file rs) =
    (None, demo_file (map (\<lambda>(k, r). (k, json_stored r)) (put k r rs)))"
  by (simp add: fs_save_def readAllLocked_def writeAllLocked_def sys_call_def demo_file_def
      remove_temp_def marshal_records_def)

lemma demo_delete: "fs_delete k (demo_file [(k, r)]) = (None, demo_file [])"
  by (simp add: fs_delete_def readAllLocked_def writeAllLocked_def sys_call_def demo_file_def
      remove_temp_def marshal_records_def del_def)

lemma demo_json: "json_stored demo_record = demo_record"
  by (simp add: json_stored_def demo_record_def demo_spec_def)

lemma reach_start: "reachable demo_ops demo_start (demo_sys demo_start Idle Idle)"
proof -
  have "demo_sys demo_start Idle Idle = init_sys demo_start"
    by (auto simp: demo_sys_def init_sys_def fun_eq_iff)
  then show ?thesis using reachable.start by metis
qed

lemma demo_key_nonempty [simp]: "demo_key \<noteq> []"
  by (simp add: demo_key_def)

text \<open>An \<open>Acquire\<close> of goroutine 0 creates the session.\<close>

lemma reach_leased0: "reachable demo_ops demo_start (demo_sys leased0 (Leased demo_key 0) Idle)"
proof -
  let ?m1 = "demo_mgr [] [(demo_key, 0)] ((\<lambda>_. no_entry)(0 := fresh_entry)) 1 (demo_file [])"
  let ?m2 = "?m1\<lparr>m_calls := [CallNew]\<rparr>"
  let ?s = "demo_sys ?m2 (Finishing demo_key 0 \<lparr>rs_handle = 0, rs_id = ''s1''\<rparr> True None) Idle"
  have "reachable demo_ops demo_start (demo_sys demo_start (Entering demo_key demo_spec True) Idle)"
    using reachable.step [OF reach_start sys_step.call_acquire [where t = 0 and key = demo_key]] by simp
  moreover have "acquire_enter True demo_key demo_spec demo_start = (EnterCreate 0, ?m1)"
    by (simp add: acquire_enter_def validateCapacityLocked_def active_in_namespace_def demo_defs put_def)
  ultimately have "reachable demo_ops demo_start (demo_sys ?m1 (Loading demo_key demo_spec True 0) Idle)"
    using reachable.step [OF _ sys_step.enter_create [where t = 0]] by fastforce
  moreover have "acquire_load demo_ops 0 demo_key demo_spec ?m1 = (LoadNone, ?m1)"
    by (simp add: acquire_load_def store_load_def file_store_ops_def demo_mgr_def demo_load)
  ultimately have "reachable demo_ops demo_start (demo_sys ?m1 (Making demo_key 0 None) Idle)"
    using reachable.step [OF _ sys_step.load_none [where t = 0]] by fastforce
  moreover have "createSessionWithContext (demo_env 0) CallNew (env_new (demo_env 0)) ?m1
      = (Inr \<lparr>rs_handle = 0, rs_id = ''s1''\<rparr>, ?m2)"
    by (simp add: createSessionWithContext_def demo_env_def log_call_def demo_mgr_def)
  ultimately have f: "reachable demo_ops demo_start ?s"
    using reachable.step [OF _ sys_step.make_ok [where t = 0]] by fastforce
  let ?m3 = "fill_entry 5 0 None \<lparr>rs_handle = 0, rs_id = ''s1''\<rparr> ?m2"
  have "entry_record 5 (entry ?m3 0) = demo_record"
    by (simp add: entry_record_def demo_record_def demo_mgr_def new_entry_def specForStorage_def
        demo_spec_def)
  then have "store_save demo_ops demo_key (entry_record 5 (entry ?m3 0)) ?m3
      = (None, ?m3\<lparr>m_store := demo_file [(demo_key, demo_record)]\<rparr>)"
    by (simp add: store_save_def file_store_ops_def demo_save put_def demo_json)
      (simp add: demo_mgr_def demo_save put_def demo_json)
  moreover have "mark_ready 0 (?m3\<lparr>m_store := demo_file [(demo_key, demo_record)]\<rparr>) = leased0"
    by (simp add: mark_ready_def fill_entry_def update_entry_def leased0_def demo_mgr_def
        new_entry_def demo_entry_def)
  ultimately have "sys_step demo_ops ActRun 0 ?s (demo_sys leased0 (Leased demo_key 0) Idle)"
    using sys_step.finish_ok [of ?s 0, where st = demo_ops and now = 5] by fastforce
  then show ?thesis using reachable.step [OF f] by blast
qed

text \<open>It starts \<open>Discard\<close>; goroutine 1 resumes the stored session.\<close>

lemma reach_leased1:
  "reachable demo_ops demo_start (demo_sys leased1 (Destroying 0) (Leased demo_key 1))"
proof -
  let ?fs = "demo_file [(demo_key, demo_record)]"
  let ?m1 = "demo_mgr [CallNew] [(demo_key, 1)] (entries0(1 := fresh_entry)) 2 ?fs"
  let ?m2 = "?m1\<lparr>m_calls := [CallNew, CallResume ''s1'']\<rparr>"
  let ?s = "demo_sys ?m2 (Destroying 0)
      (Finishing demo_key 1 \<lparr>rs_handle = 7, rs_id = ''s1''\<rparr> False (Some demo_record))"
  have "unmap_entry demo_key 0 leased0 = discarding0"
    by (simp add: unmap_entry_def is_current_def leased0_def discarding0_def demo_mgr_def del_def)
  then have "reachable demo_ops demo_start (demo_sys discarding0 (Destroying 0) Idle)"
    using reachable.step [OF reach_leased0 sys_step.discard [where t = 0]] by simp
  then have "reachable demo_ops demo_start
      (demo_sys discarding0 (Destroying 0) (Entering demo_key demo_spec True))"
    using reachable.step [OF _ sys_step.call_acquire [where t = 1 and key = demo_key]] by fastforce
  moreover have "acquire_enter True demo_key demo_spec discarding0 = (EnterCreate 1, ?m1)"
    by (simp add: acquire_enter_def validateCapacityLocked_def active_in_namespace_def put_def
        discarding0_def leased0_def demo_mgr_def)
  ultimately have "reachable demo_ops demo_start
      (demo_sys ?m1 (Destroying 0) (Loading demo_key demo_spec True 1))"
    using reachable.step [OF _ sys_step.enter_create [where t = 1]] by fastforce
  moreover have "acquire_load demo_ops 0 demo_key demo_spec ?m1 = (LoadHit demo_record, ?m1)"
    by (simp add: acquire_load_def store_load_def file_store_ops_def demo_mgr_def demo_load
        persistedSpecMatches_def specForStorage_def demo_record_def demo_spec_def)
  ultimately have "reachable demo_ops demo_start
      (demo_sys ?m1 (Destroying 0) (Resuming demo_key 1 demo_record))"
    using reachable.step [OF _ sys_step.load_hit [where t = 1]] by fastforce
  moreover have "createSessionWithContext (demo_env 7) (CallResume (ss_session_id demo_record))
      (env_resume (demo_env 7) (ss_session_id demo_record)) ?m1
      = (Inr \<lparr>rs_handle = 7, rs_id = ''s1''\<rparr>, ?m2)"
    by (simp add: createSessionWithContext_def demo_env_def log_call_def demo_mgr_def demo_record_def)
  ultimately have f: "reachable demo_ops demo_start ?s"
    using reachable.step [OF _ sys_step.resume_ok [where t = 1]] by fastforce
  let ?m3 = "fill_entry 5 1 (Some demo_record) \<lparr>rs_handle = 7, rs_id = ''s1''\<rparr> ?m2"
  have "entry_record 5 (entry ?m3 1) = demo_record"
    by (simp add: entry_record_def demo_record_def demo_mgr_def new_entry_def specForStorage_def
        demo_spec_def zero_time_def)
  then have "store_save demo_ops demo_key (entry_record 5 (entry ?m3 1)) ?m3 = (None, ?m3)"
    by (simp add: store_save_def file_store_ops_def demo_save put_def demo_json)
      (simp add: demo_mgr_def fill_entry_def update_entry_def demo_save put_def demo_json)
  moreover have "mark_ready 1 ?m3 = leased1"
    by (simp add: mark_ready_def fill_entry_def update_entry_def leased1_def demo_mgr_def
        new_entry_def demo_entry_def demo_record_def zero_time_def)
  ultimately have "sys_step demo_ops ActRun 1 ?s (demo_sys leased1 (Destroying 0) (Leased demo_key 1))"
    using sys_step.finish_ok [of ?s 1, where st = demo_ops and now = 5] by fastforce
  then show ?thesis using reachable.step [OF f] by blast
qed

text \<open>Goroutine 0 destroys the session that goroutine 1 is using.\<close>

lemma step_destroy0:
  "sys_step demo_ops ActRun 0 (demo_sys leased1 (Destroying 0) (Leased demo_key 1))
     (demo_sys destroyed0 Idle (Leased demo_key 1))"
proof -
  obtain er m where d: "destroyPersistentSession demo_ops (demo_env 0) 0 leased1 = (er, m)"
    by fastforce
  then have u: "unlock_entry 0 m = destroyed0"
    by (auto simp: destroyPersistentSession_def Let_def close_session_def delete_by_id_def
        store_delete_def file_store_ops_def leased1_def destroyed0_def demo_mgr_def demo_entry_def
        demo_delete demo_env_def reportable_def log_call_def unlock_entry_def update_entry_def)
  show ?thesis
    using sys_step.destroy [of "demo_sys leased1 (Destroying 0) (Leased demo_key 1)" 0 0 demo_ops
        "demo_env 0" er m] d u by simp
qed

lemma reach_destroyed0:
  "reachable demo_ops demo_start (demo_sys destroyed0 Idle (Leased demo_key 1))"
  using reachable.step [OF reach_leased1 step_destroy0] .

section \<open>Properties of the run\<close>

text \<open>A lease can lose its session to a concurrent \<open>Discard\<close>.  \<open>Discard\<close> takes its entry out of the
  map before it destroys the session, so an \<open>Acquire\<close> of the same key in between resumes the
  stored session; the destruction then closes and deletes that session and removes its record.
  Here goroutine 1 holds a lease in a state where the last call on the runtime was the deletion
  of its session, after the resumption, and the store has lost the record.\<close>

theorem discard_destroys_resumed_session:
  "\<exists>s calls. reachable (Some file_store_ops) demo_start s \<and>
     sy_pc s 1 = Leased demo_key 1 \<and> sy_pc s 0 = Idle \<and>
     is_current (sy_mgr s) demo_key 1 \<and> ms_session_id (entry (sy_mgr s) 1) = ''s1'' \<and>
     m_calls (sy_mgr s) = calls @ [CallDelete ''s1''] \<and> CallResume ''s1'' \<in> set calls \<and>
     fst (fs_load demo_key (m_store (sy_mgr s))) = Inr None"
  by (rule exI [where x = "demo_sys destroyed0 Idle (Leased demo_key 1)"])
    (use reach_destroyed0 in \<open>simp add: destroyed0_def demo_mgr_def is_current_def demo_entry_def
      demo_load\<close>)

lemma lease_exclusive_witness:
  "sy_pc (demo_sys leased1 (Destroying 0) (Leased demo_key 1)) 1 = Leased demo_key 1 \<and>
   ms_locked (entry leased1 1) \<and> ms_key (entry leased1 1) = demo_key"
  using lease_exclusive [OF reach_leased1, of 1 demo_key 1] by simp

lemma capacity_always_respected_witness:
  "int (length (m_sessions leased1)) \<le> 2 \<and> int (active_in_namespace ''ns'' (m_sessions leased1)) \<le> 1"
  using capacity_always_respected [OF reach_leased1] by (simp add: demo_limits_def)

lemma lease_undisturbed_witness:
  "up_to_hook (entry leased1 1) (entry destroyed0 1)"
proof -
  have "sys_step demo_ops ActRun 0 (demo_sys leased1 (Destroying 0) (Leased demo_key 1))
      (demo_sys destroyed0 Idle (Leased demo_key 1))"
    by (rule step_destroy0)
  from lease_undisturbed [OF reach_leased1 _ this, of 1 demo_key 1] show ?thesis by simp
qed

lemma no_deadlock_witness:
  "\<exists>s' t'. sys_step demo_ops ActRun t' (demo_sys leased0 (Leased demo_key 0) Idle) s'"
  using no_deadlock [OF reach_leased0, of 0] by auto

end
