(* ===== verification/Session_Properties.thy ===== *)
theory Session_Properties
  imports Session_Races
begin

text \<open>
  The properties of the session manager on \<open>FileStore\<close>: the facts of the locales
  \<open>session_store\<close> and \<open>reliable_store\<close> at their interpretation, and the behaviour of the
  manager's operations on success and on error, each with a concrete instance.
\<close>

section \<open>The file store\<close>

text \<open>C21: A write of \<open>FileStore\<close> is atomic and durable: whatever operating system calls fail, \<open>Save\<close> and
  \<open>Delete\<close> either report no error and have exactly their effect on the stored records (up to the
  fields that JSON drops), or report an error and leave the records as they were; no temporary
  file survives.\<close>

theorem file_store_atomic:
  assumes "fs_inv s"
  shows "(case fs_save k r s of (e, s') \<Rightarrow> fs_inv s' \<and> fs_contents s' =
            (if e = None then (fs_contents s)(k \<mapsto> json_stored r) else fs_contents s)) \<and>
    (case fs_delete k s of (e, s') \<Rightarrow> fs_inv s' \<and> fs_contents s' =
            (if e = None then (fs_contents s)(k := None) else fs_contents s))"
  using fs_save_effect [OF assms, of k r] fs_delete_effect [OF assms, of k]
  by (simp add: case_prod_beta)

text \<open>The fifth operating system call of the save, the rename, fails.\<close>

definition failing_rename :: file_store where
  "failing_rename = (demo_file [(demo_key, demo_record)])
     \<lparr>fs_faults := [None, None, None, None, None, Some (errors_new ''rename'')]\<rparr>"

lemma file_store_atomic_witness:
  "fst (fs_save ''other'' demo_record failing_rename) = Some (errors_new ''rename'') \<and>
   fs_contents (snd (fs_save ''other'' demo_record failing_rename)) = [demo_key \<mapsto> demo_record]"
proof -
  have i: "fs_inv failing_rename"
    by (simp add: fs_inv_def failing_rename_def demo_file_def demo_json)
  have f: "fst (fs_save ''other'' demo_record failing_rename) = Some (errors_new ''rename'')"
    by (simp add: fs_save_def readAllLocked_def writeAllLocked_def sys_call_def failing_rename_def
        demo_file_def remove_temp_def)
  show ?thesis
    using file_store_atomic [OF i, of "''other''" demo_record] f
    by (simp add: case_prod_beta) (simp add: fs_contents_def failing_rename_def demo_file_def)
qed

text \<open>C22: What was saved is what is loaded: after a \<open>Save\<close> that reports no error, a \<open>Load\<close> of the key
  that reports no error returns the record without its secret fingerprint, and a \<open>Load\<close> of
  another key returns what it held before.\<close>

theorem file_store_roundtrip:
  assumes "fs_inv s" and "fst (fs_save k r s) = None"
    and "fst (fs_load j (snd (fs_save k r s))) = Inr x"
  shows "x = (if j = k then Some (json_stored r) else fs_contents s j)"
  using fs.load_after_save [OF assms(1,2)] fs.load_after_save_other [OF assms(1,2), of j] assms(3)
  by auto

lemma file_store_roundtrip_witness:
  "fst (fs_load demo_key (snd (fs_save demo_key demo_record (demo_file [])))) = Inr (Some demo_record)"
proof -
  have "fs_inv (demo_file [])" by (simp add: fs_inv_def demo_file_def)
  moreover have "fst (fs_save demo_key demo_record (demo_file [])) = None" by (simp add: demo_save)
  moreover obtain x where "fst (fs_load demo_key (snd (fs_save demo_key demo_record (demo_file [])))) = Inr x"
    by (simp add: demo_save demo_load)
  ultimately show ?thesis
    using file_store_roundtrip [of "demo_file []" demo_key demo_record demo_key x] demo_json by simp
qed

section \<open>Acquire, Release and Discard\<close>

text \<open>Every operation of the session manager keeps its invariant (distinct keys, every entry under its
  key in the allocated heap, both capacity limits, and a runtime session in every unlocked entry of
  the map), whatever the runtime, the store and the clock answer.\<close>

theorem manager_operations_preserve_inv:
  assumes "mgr_inv m"
  shows "mgr_inv (snd (Acquire st env werr now hr dl key spec m)) \<and>
    (lease_live l m \<longrightarrow> mgr_inv (snd (snd (Release st env now l m)))) \<and>
    (lease_live l m \<longrightarrow> mgr_inv (snd (snd (Discard st env l m)))) \<and>
    mgr_inv (snd (CleanupExpired st env now m)) \<and>
    mgr_inv (snd (CloseContext st env werr m)) \<and>
    mgr_inv (snd (DisconnectContext st env werr m)) \<and>
    mgr_inv (snd (SetActivityHook key hook m))"
proof -
  have a: "mgr_inv (snd (Acquire st env werr now hr dl key spec m))"
    using Acquire_preserves_inv [OF assms] by (metis prod.collapse)
  have r: "mgr_inv (snd (snd (Release st env now l m)))" if "lease_live l m"
    using Release_preserves_inv [OF assms, of l st env now] that by (metis prod.collapse)
  have d: "mgr_inv (snd (snd (Discard st env l m)))" if "lease_live l m"
    using Discard_preserves_inv [OF assms, of l st env] that by (metis prod.collapse)
  have c: "mgr_inv (snd (CleanupExpired st env now m))"
    using CleanupExpired_preserves_inv [OF assms] by (metis prod.collapse)
  have x: "mgr_inv (snd (closeContext st env werr p m))" for p
    using closeContext_preserves_inv [OF assms] by (metis prod.collapse)
  have h: "mgr_inv (snd (SetActivityHook key hook m))"
    using assms
    by (auto simp: SetActivityHook_def mgr_inv_def mgr_wf_def capacity_ok_def mgr_ready_def
        entry_complete_def split: option.splits)
  show ?thesis using a r d c x h by (simp add: CloseContext_def DisconnectContext_def)
qed

lemma demo_start_inv: "mgr_inv demo_start"
  by (rule mgr_inv_NewManagerWithStore)

lemma manager_operations_preserve_inv_witness:
  "mgr_inv (snd (Acquire demo_ops (demo_env 0) (err ErrCanceled) 5 True True demo_key demo_spec demo_start))"
  using manager_operations_preserve_inv [OF demo_start_inv] by blast

text \<open>An \<open>Acquire\<close> that returns an error leaves no trace in the manager: the map of sessions is
  what it was, so a failed creation frees its place, and no existing entry has changed.\<close>

theorem acquire_error_no_trace:
  assumes "mgr_inv m" and "Acquire st env werr now hr dl key spec m = (Inl er, m')"
  shows "m_sessions m' = m_sessions m \<and> (\<forall>e < m_next m. entry m' e = entry m e)"
  by (rule Acquire_error_outcome [OF assms])

text \<open>The runtime refuses to create a session.\<close>

definition refusing_env :: runtime_env where
  "refusing_env = (demo_env 0)\<lparr>env_new := Inl (err ErrUnauthorized)\<rparr>"

lemma acquire_error_no_trace_witness:
  "fst (Acquire demo_ops refusing_env (err ErrCanceled) 5 True True demo_key demo_spec demo_start)
     = Inl (err ErrUnauthorized) \<and>
   m_sessions (snd (Acquire demo_ops refusing_env (err ErrCanceled) 5 True True demo_key demo_spec demo_start)) = []"
proof -
  obtain r m' where a: "Acquire demo_ops refusing_env (err ErrCanceled) 5 True True demo_key demo_spec
      demo_start = (r, m')"
    by fastforce
  then have r: "r = Inl (err ErrUnauthorized)"
    by (auto simp: Acquire_def acquire_enter_def validateCapacityLocked_def demo_limits_def
        NewManagerWithStore_def active_in_namespace_def acquire_create_def acquire_persisted_def
        acquire_load_def store_load_def file_store_ops_def demo_load acquire_session_def
        createSessionWithContext_def refusing_env_def demo_env_def)
  show ?thesis using acquire_error_no_trace [OF demo_start_inv] a r by (simp add: NewManagerWithStore_def)
qed

text \<open>A successful \<open>Acquire\<close> of a key returns a live lease on the entry now in the map under the key,
  with the requested settings: the entry is locked by the lease and has the lease's session.  An
  entry that was there before was unlocked, and the lease has its session.\<close>

theorem acquire_success_lease:
  assumes "mgr_inv m" and "key \<noteq> []"
    and "Acquire st env werr now hr dl key spec m = (Inr l, m')"
  shows "lease_live l m' \<and> (\<exists>e. le_target l = EntryLease key e \<and>
           map_of (m_sessions m') key = Some e \<and> ms_spec (entry m' e) = spec \<and>
           (e < m_next m \<longrightarrow> map_of (m_sessions m) key = Some e \<and> \<not> ms_locked (entry m e) \<and>
              \<not> le_created l \<and> le_session l = ms_session (entry m e)))"
  by (rule Acquire_success_outcome [OF assms])

lemma demo_acquire:
  "\<exists>l m'. Acquire demo_ops (demo_env 0) (err ErrCanceled) 5 True True demo_key demo_spec demo_start
     = (Inr l, m') \<and> le_created l"
  by (simp add: Acquire_def acquire_enter_def validateCapacityLocked_def demo_limits_def
      NewManagerWithStore_def active_in_namespace_def acquire_create_def acquire_persisted_def
      acquire_load_def store_load_def file_store_ops_def demo_load acquire_session_def
      createSessionWithContext_def demo_env_def acquire_finish_def Let_def store_save_def
      fill_entry_def update_entry_def log_call_def newLease_def demo_save)

lemma acquire_success_lease_witness:
  "\<exists>l m'. Acquire demo_ops (demo_env 0) (err ErrCanceled) 5 True True demo_key demo_spec demo_start
     = (Inr l, m') \<and> lease_live l m'"
  using acquire_success_lease [OF demo_start_inv demo_key_nonempty] demo_acquire by metis

text \<open>A conversation survives a restart: after the \<open>Release\<close> of a live lease on a store whose calls
  succeed, a new manager on the same store, asked within the time to live for the same key with
  the same settings (up to the provider secret), resumes the runtime session of the lease under
  its identifier and creates no new one.\<close>

theorem restart_resumes_session:
  assumes "fs_inv (m_store m)" and "fs_ok (m_store m)"
    and "lease_live l m" and "le_target l = EntryLease key e" and "key \<noteq> []"
    and "Release (Some file_store_ops) env0 now l m = (er, l', m1)"
    and "ttl \<le> 0 \<or> later - now < ttl"
    and "specForStorage spec = specForStorage (ms_spec (entry m e))"
    and "env_ctx_err env = None" and "env_resume env (ms_session_id (entry m e)) = Inr s"
  shows "er = None \<and>
    (\<exists>l2 m2. Acquire (Some file_store_ops) env werr later True dl key spec
        (NewManagerWithStore ttl limits (m_store m1)) = (Inr l2, m2) \<and>
      le_created l2 = False \<and> le_session l2 = Some s \<and>
      m_calls m2 = [CallResume (le_session_id l)])"
  using fs.release_then_restart [OF assms(1-5) _ assms(7-10), of env0 er l' m1 werr dl limits] assms(6)
  by simp

definition demo_lease :: lease where
  "demo_lease = newLease demo_key 0 True leased0"

lemma leased0_ok:
  "fs_inv (m_store leased0)" "fs_ok (m_store leased0)" "lease_live demo_lease leased0"
  "le_target demo_lease = EntryLease demo_key 0" "mgr_inv leased0"
  by (simp_all add: leased0_def demo_mgr_def fs_inv_def fs_ok_def demo_file_def demo_json
      demo_lease_def newLease_def lease_live_def demo_entry_def entry_complete_def mgr_inv_def
      mgr_wf_def capacity_ok_def mgr_ready_def active_in_namespace_def)

lemma restart_resumes_session_witness:
  "\<exists>l2 m2. Acquire demo_ops (demo_env 9) (err ErrCanceled) 20 True True demo_key demo_spec
      (NewManagerWithStore 100 demo_limits
        (m_store (snd (snd (Release demo_ops (demo_env 0) 10 demo_lease leased0))))) = (Inr l2, m2) \<and>
    le_session l2 = Some \<lparr>rs_handle = 9, rs_id = ''s1''\<rparr> \<and> m_calls m2 = [CallResume ''s1'']"
proof -
  obtain er l' m1 where r: "Release demo_ops (demo_env 0) 10 demo_lease leased0 = (er, l', m1)"
    by (metis prod_cases3)
  have e: "ms_session_id (entry leased0 0) = ''s1''" "ms_spec (entry leased0 0) = demo_spec"
    "le_session_id demo_lease = ''s1''"
    by (simp_all add: leased0_def demo_mgr_def demo_entry_def demo_lease_def newLease_def)
  have "env_ctx_err (demo_env 9) = None"
    "env_resume (demo_env 9) (ms_session_id (entry leased0 0)) = Inr \<lparr>rs_handle = 9, rs_id = ''s1''\<rparr>"
    by (simp_all add: demo_env_def e)
  from restart_resumes_session [OF leased0_ok(1-4) demo_key_nonempty r _ _ this,
      of 100 20 demo_spec "err ErrCanceled" True demo_limits]
  show ?thesis using r e by auto
qed

text \<open>An expired session is not resumed: when the stored record is as old as the time to live, \<open>Acquire\<close>
  deletes the old session at the runtime and its record, creates a new one and stores it.\<close>

theorem expired_session_replaced:
  assumes "fs_inv (m_store m)" and "fs_ok (m_store m)" and "key \<noteq> []"
    and "map_of (m_sessions m) key = None" and "validateCapacityLocked m key = None"
    and "fs_contents (m_store m) key = Some r" and "ss_spec r = specForStorage spec"
    and "0 < m_ttl m" and "m_ttl m \<le> now - ss_updated_at r"
    and "env_ctx_err env = None" and "env_new env = Inr s"
    and "reportable (env_delete env (ss_session_id r)) = None"
  shows "\<exists>l m'. Acquire (Some file_store_ops) env werr now True True key spec m = (Inr l, m') \<and>
    le_created l = True \<and> le_session l = Some s \<and>
    m_calls m' = m_calls m @ [CallDelete (ss_session_id r), CallNew] \<and>
    fs_contents (m_store m') = (fs_contents (m_store m))(key \<mapsto>
      \<lparr>ss_session_id = rs_id s, ss_spec = specForStorage spec, ss_created_at = now,
       ss_updated_at = now\<rparr>)"
  using fs.Acquire_expired [OF assms] by simp

text \<open>A gateway started on a file with the record of \<open>demo_record\<close>.\<close>

definition restarted :: "file_store manager" where
  "restarted = NewManagerWithStore 100 demo_limits (demo_file [(demo_key, demo_record)])"

lemma restarted_ok:
  "fs_inv (m_store restarted)" "fs_ok (m_store restarted)" "map_of (m_sessions restarted) k = None"
  "validateCapacityLocked restarted k = None"
  "fs_contents (m_store restarted) demo_key = Some demo_record"
  "ss_spec demo_record = specForStorage demo_spec" "m_ttl restarted = 100" "m_calls restarted = []"
  "ss_session_id demo_record = ''s1''" "ss_updated_at demo_record = 5"
  "mgr_inv restarted" "m_sessions restarted = []"
  by (simp_all add: restarted_def fs_inv_def fs_ok_def demo_file_def demo_json fs_contents_def
      mgr_inv_NewManagerWithStore)
    (simp_all add: demo_record_def specForStorage_def demo_spec_def)

lemma demo_env_answers:
  "env_ctx_err (demo_env h) = None" "env_new (demo_env h) = Inr \<lparr>rs_handle = h, rs_id = ''s1''\<rparr>"
  "reportable (env_delete (demo_env h) sid) = None"
  by (simp_all add: demo_env_def reportable_def)

lemma expired_session_replaced_witness:
  "\<exists>l m'. Acquire demo_ops (demo_env 3) (err ErrCanceled) 105 True True demo_key demo_spec
      restarted = (Inr l, m') \<and>
    le_created l = True \<and> m_calls m' = [CallDelete ''s1'', CallNew]"
  using expired_session_replaced [OF restarted_ok(1,2) demo_key_nonempty restarted_ok(3,4,5,6) _ _
      demo_env_answers(1,2,3), of 105 3 "err ErrCanceled"]
  by (auto simp: restarted_ok)

text \<open>A stored session with other settings is destroyed and the request refused: \<open>Acquire\<close> with a
  different specification than the stored one returns \<open>ErrSessionSpecMismatch\<close>, deletes the record
  and the runtime session and leaves the map of sessions as it was.\<close>

theorem stored_mismatch_destroys:
  assumes "fs_inv (m_store m)" and "fs_ok (m_store m)" and "key \<noteq> []"
    and "map_of (m_sessions m) key = None" and "validateCapacityLocked m key = None"
    and "fs_contents (m_store m) key = Some r" and "ss_spec r \<noteq> specForStorage spec"
    and "reportable (env_delete env (ss_session_id r)) = None"
  shows "\<exists>m'. Acquire (Some file_store_ops) env werr now hr True key spec m
        = (Inl (err ErrSessionSpecMismatch), m') \<and>
    m_sessions m' = m_sessions m \<and> m_calls m' = m_calls m @ [CallDelete (ss_session_id r)] \<and>
    fs_contents (m_store m') = (fs_contents (m_store m))(key := None)"
  using fs.Acquire_stored_mismatch [OF assms] by simp

lemma stored_mismatch_destroys_witness:
  "\<exists>m'. Acquire demo_ops (demo_env 3) (err ErrCanceled) 6 True True demo_key
      (demo_spec\<lparr>sp_model := ''other''\<rparr>) restarted = (Inl (err ErrSessionSpecMismatch), m') \<and>
    m_calls m' = [CallDelete ''s1''] \<and> fs_contents (m_store m') demo_key = None"
proof -
  have "ss_spec demo_record \<noteq> specForStorage (demo_spec\<lparr>sp_model := ''other''\<rparr>)"
    by (simp add: demo_record_def specForStorage_def demo_spec_def)
  from stored_mismatch_destroys [OF restarted_ok(1,2) demo_key_nonempty restarted_ok(3,4,5) this
      demo_env_answers(3), of 3 "err ErrCanceled" 6 True]
  show ?thesis by (auto simp: restarted_ok)
qed

text \<open>\<open>Discard\<close> destroys a session for good: the entry leaves the map and is unlocked, the session is
  closed and deleted at the runtime, and its record leaves the store.\<close>

theorem discard_destroys:
  assumes "fs_inv (m_store m)" and "fs_ok (m_store m)" and "mgr_inv m"
    and "lease_live l m" and "le_target l = EntryLease key e" and "key \<noteq> []"
    and "ms_has_delete (entry m e)" and "le_session l = Some s" and "le_session_id l \<noteq> []"
    and "Discard (Some file_store_ops) env l m = (er, l', m')"
  shows "fs_contents (m_store m') = (fs_contents (m_store m))(key := None) \<and>
    m_calls m' = m_calls m @ [CallClose s, CallDelete (le_session_id l)] \<and>
    map_of (m_sessions m') key \<noteq> Some e \<and> \<not> ms_locked (entry m' e)"
  using fs.Discard_destroys [OF assms(1-9), of env er l' m'] assms(10) by simp

lemma discard_destroys_witness:
  "\<exists>m'. snd (snd (Discard demo_ops (demo_env 0) demo_lease leased0)) = m' \<and>
     fs_contents (m_store m') demo_key = None \<and>
     m_calls m' = [CallNew, CallClose \<lparr>rs_handle = 0, rs_id = ''s1''\<rparr>, CallDelete ''s1'']"
proof -
  obtain er l' m' where d: "Discard demo_ops (demo_env 0) demo_lease leased0 = (er, l', m')"
    by (metis prod_cases3)
  have e: "ms_has_delete (entry leased0 0)" "le_session demo_lease = Some \<lparr>rs_handle = 0, rs_id = ''s1''\<rparr>"
    "le_session_id demo_lease \<noteq> []" "le_session_id demo_lease = ''s1''" "m_calls leased0 = [CallNew]"
    by (simp_all add: leased0_def demo_mgr_def demo_entry_def demo_lease_def newLease_def)
  show ?thesis
    using discard_destroys [OF leased0_ok(1,2,5,3,4) demo_key_nonempty e(1-3) d] d e by simp
qed

text \<open>A lease is finished once: after a \<open>Release\<close> or a \<open>Discard\<close>, any further \<open>Release\<close> or \<open>Discard\<close> returns
  the first one's error and changes nothing.\<close>

theorem lease_finished_once:
  assumes "Release st env now l m = (er, l1, m1) \<or> Discard st env l m = (er, l1, m1)"
    and "\<not> le_done l"
  shows "Release st env' now' l1 m' = (er, l1, m') \<and> Discard st env' l1 m' = (er, l1, m')"
  using assms by (auto simp: Release_def Discard_def finish_lease_def)

lemma lease_finished_once_witness:
  "Discard demo_ops (demo_env 0) (fst (snd (Release demo_ops (demo_env 0) 10 demo_lease leased0))) leased0
     = (fst (Release demo_ops (demo_env 0) 10 demo_lease leased0),
        fst (snd (Release demo_ops (demo_env 0) 10 demo_lease leased0)), leased0)"
proof -
  obtain er l' m' where r: "Release demo_ops (demo_env 0) 10 demo_lease leased0 = (er, l', m')"
    by (metis prod_cases3)
  have "\<not> le_done demo_lease" by (simp add: demo_lease_def newLease_def)
  then show ?thesis using lease_finished_once [OF disjI1 [OF r]] r by simp
qed

section \<open>Expiry and shutdown\<close>

text \<open>C25: \<open>CleanupExpired\<close> removes from the map exactly the sessions that have been idle for the time to live
  and that nobody holds, and leaves every entry as it found it, unlocked.\<close>

theorem cleanup_removes_exactly_stale:
  assumes "mgr_inv m" and "0 < m_ttl m" and "CleanupExpired st env now m = (er, m')"
  shows "m_sessions m' = filter (\<lambda>(k, e). \<not> (m_ttl m \<le> now - ms_last_used (entry m e) \<and>
      \<not> ms_locked (entry m e))) (m_sessions m) \<and> (\<forall>e. entry m' e = entry m e)"
proof -
  have "mgr_wf m" using assms(1) by (simp add: mgr_inv_def)
  from CleanupExpired_effect [OF this assms(2,3)] show ?thesis
    by (simp add: stale_def last_used_at_def not_less)
qed

text \<open>An idle session and a leased one, both last used at time 5.\<close>

definition two_sessions :: "file_store manager" where
  "two_sessions = (demo_mgr [] [(demo_key, 0), (''b:c'', 1)]
     ((\<lambda>_. no_entry)(0 := (demo_entry 0)\<lparr>ms_locked := False\<rparr>,
        1 := (demo_entry 1)\<lparr>ms_key := ''b:c''\<rparr>)) 2 (demo_file []))\<lparr>m_ttl := 100\<rparr>"

lemma cleanup_removes_exactly_stale_witness:
  "m_sessions (snd (CleanupExpired demo_ops (demo_env 0) 105 two_sessions)) = [(''b:c'', 1)]"
proof -
  have i: "mgr_inv two_sessions"
    by (auto simp: two_sessions_def demo_mgr_def mgr_inv_def mgr_wf_def capacity_ok_def mgr_ready_def
        active_in_namespace_def demo_entry_def demo_key_def entry_complete_def sessionNamespace_def)
  have t: "0 < m_ttl two_sessions" by (simp add: two_sessions_def)
  obtain er m' where c: "CleanupExpired demo_ops (demo_env 0) 105 two_sessions = (er, m')" by fastforce
  show ?thesis
    using cleanup_removes_exactly_stale [OF i t c] c
    by (simp add: two_sessions_def demo_mgr_def demo_entry_def)
qed

text \<open>A shutdown that preserves sessions is harmless to them: \<open>DisconnectContext\<close> empties the map, leaves
  the store untouched, and calls nothing on the runtime but \<open>Close\<close>.\<close>

theorem disconnect_preserves_store:
  assumes "DisconnectContext st env werr m = (er, m')"
  shows "m_sessions m' = [] \<and> m_store m' = m_store m \<and>
    (\<exists>cs. m_calls m' = m_calls m @ cs \<and> (\<forall>c \<in> set cs. \<exists>s. c = CallClose s))"
  using close_all_preserve_store [of st env werr "map snd (m_sessions m)" None "m\<lparr>m_sessions := []\<rparr>" er m']
    close_all_effect [of st env werr True "map snd (m_sessions m)" None "m\<lparr>m_sessions := []\<rparr>" er m'] assms
  by (simp add: DisconnectContext_def closeContext_def)

lemma disconnect_preserves_store_witness:
  "m_store (snd (DisconnectContext demo_ops (demo_env 0) (err ErrCanceled) two_sessions)) = demo_file []"
proof -
  obtain er m' where d: "DisconnectContext demo_ops (demo_env 0) (err ErrCanceled) two_sessions = (er, m')"
    by fastforce
  show ?thesis using disconnect_preserves_store [OF d] d by (simp add: two_sessions_def demo_mgr_def)
qed

end
