(* ===== verification/Api_Auth.thy ===== *)
theory Api_Auth
  imports Session_Properties
begin

text \<open>
  Authentication and the keys of sessions: \<open>internal/auth/apikey.go\<close>, and of
  \<open>internal/httpapi/server.go\<close> the functions \<open>sessionKeyFromRequest\<close>, \<open>validateSessionKey\<close>,
  \<open>scopedSessionKey\<close> and \<open>validateAnthropicVersion\<close>.

  The headers of a request are the function \<open>Header.Get\<close>, which gives the empty string for an
  absent header.  SHA-256 (\<open>crypto/sha256\<close>) is modelled in full, on words of 32 bits, and its
  hexadecimal form as well.
\<close>

unbundle bit_operations_syntax

section \<open>SHA-256\<close>

definition sha_k :: "32 word list" where
  "sha_k =
     [0x428a2f98, 0x71374491, 0xb5c0fbcf, 0xe9b5dba5, 0x3956c25b, 0x59f111f1, 0x923f82a4, 0xab1c5ed5,
      0xd807aa98, 0x12835b01, 0x243185be, 0x550c7dc3, 0x72be5d74, 0x80deb1fe, 0x9bdc06a7, 0xc19bf174,
      0xe49b69c1, 0xefbe4786, 0x0fc19dc6, 0x240ca1cc, 0x2de92c6f, 0x4a7484aa, 0x5cb0a9dc, 0x76f988da,
      0x983e5152, 0xa831c66d, 0xb00327c8, 0xbf597fc7, 0xc6e00bf3, 0xd5a79147, 0x06ca6351, 0x14292967,
      0x27b70a85, 0x2e1b2138, 0x4d2c6dfc, 0x53380d13, 0x650a7354, 0x766a0abb, 0x81c2c92e, 0x92722c85,
      0xa2bfe8a1, 0xa81a664b, 0xc24b8b70, 0xc76c51a3, 0xd192e819, 0xd6990624, 0xf40e3585, 0x106aa070,
      0x19a4c116, 0x1e376c08, 0x2748774c, 0x34b0bcb5, 0x391c0cb3, 0x4ed8aa4a, 0x5b9cca4f, 0x682e6ff3,
      0x748f82ee, 0x78a5636f, 0x84c87814, 0x8cc70208, 0x90befffa, 0xa4506ceb, 0xbef9a3f7, 0xc67178f2]"

definition sha_h0 :: "32 word list" where
  "sha_h0 = [0x6a09e667, 0xbb67ae85, 0x3c6ef372, 0xa54ff53a, 0x510e527f, 0x9b05688c, 0x1f83d9ab, 0x5be0cd19]"

definition rotr :: "nat \<Rightarrow> 32 word \<Rightarrow> 32 word" where
  "rotr n x = (drop_bit n x) OR (push_bit (32 - n) x)"

text \<open>Padding to blocks of 64 bytes: a one bit, zeros, the length in bits as 8 bytes.\<close>

definition be_bytes :: "nat \<Rightarrow> int \<Rightarrow> int list" where
  "be_bytes n v = map (\<lambda>i. v div 256 ^ i mod 256) (rev [0 ..< n])"

definition sha_pad :: "int list \<Rightarrow> int list" where
  "sha_pad m = m @ [128] @ replicate ((119 - length m mod 64) mod 64) 0 @ be_bytes 8 (8 * int (length m))"

text \<open>The message schedule, newest word first.\<close>

definition sha_extend :: "32 word list \<Rightarrow> 32 word list" where
  "sha_extend ws =
     (let w15 = ws ! 14; w2 = ws ! 1;
          s0 = rotr 7 w15 XOR rotr 18 w15 XOR drop_bit 3 w15;
          s1 = rotr 17 w2 XOR rotr 19 w2 XOR drop_bit 10 w2
      in (ws ! 15 + s0 + ws ! 6 + s1) # ws)"

definition sha_schedule :: "32 word list \<Rightarrow> 32 word list" where
  "sha_schedule block = rev ((sha_extend ^^ 48) (rev block))"

fun sha_round :: "32 word \<times> 32 word \<Rightarrow> 32 word list \<Rightarrow> 32 word list" where
  "sha_round (k, w) [a, b, c, d, e, f, g, h] =
     (let s1 = rotr 6 e XOR rotr 11 e XOR rotr 25 e;
          ch = (e AND f) XOR (NOT e AND g);
          t1 = h + s1 + ch + k + w;
          s0 = rotr 2 a XOR rotr 13 a XOR rotr 22 a;
          maj = (a AND b) XOR (a AND c) XOR (b AND c);
          t2 = s0 + maj
      in [t1 + t2, a, b, c, d + t1, e, f, g])"
| "sha_round _ xs = xs"

definition sha_compress :: "32 word list \<Rightarrow> 32 word list \<Rightarrow> 32 word list" where
  "sha_compress block hs = map2 (+) hs (fold sha_round (zip sha_k (sha_schedule block)) hs)"

definition bytes_word :: "int list \<Rightarrow> 32 word" where
  "bytes_word bs = word_of_int (fold (\<lambda>b acc. acc * 256 + b) bs 0)"

fun chunks :: "nat \<Rightarrow> nat \<Rightarrow> 'a list \<Rightarrow> 'a list list" where
  "chunks 0 n xs = []"
| "chunks (Suc fuel) n xs = (if xs = [] then [] else take n xs # chunks fuel n (drop n xs))"

definition sha256_words :: "int list \<Rightarrow> 32 word list" where
  "sha256_words m =
     (let p = sha_pad m; blocks = chunks (length p) 64 p
      in fold (\<lambda>blk hs. sha_compress (map bytes_word (chunks (length blk) 4 blk)) hs) blocks sha_h0)"

definition sha256 :: "string \<Rightarrow> int list" where
  "sha256 s = concat (map (\<lambda>w. be_bytes 4 (uint w)) (sha256_words (map of_char s)))"

text \<open>\<open>hex.EncodeToString\<close>.\<close>

definition hex_digit :: "int \<Rightarrow> char" where
  "hex_digit n = ''0123456789abcdef'' ! nat (n mod 16)"

definition hex_encode :: "int list \<Rightarrow> string" where
  "hex_encode bs = concat (map (\<lambda>b. [hex_digit (b div 16), hex_digit b]) bs)"

section \<open>API keys\<close>

record api_key =
  ak_label :: string
  ak_secret :: string

record identity =
  id_label :: string
  id_session_namespace :: string

record stored_key =
  sk_secret :: string
  sk_identity :: identity

definition namespaceForSecret :: "string \<Rightarrow> string" where
  "namespaceForSecret secret = hex_encode (take 8 (sha256 secret))"

definition NewStore :: "api_key list \<Rightarrow> stored_key list" where
  "NewStore keys = map (\<lambda>k. \<lparr>sk_secret = ak_secret k,
     sk_identity = \<lparr>id_label = ak_label k, id_session_namespace = namespaceForSecret (ak_secret k)\<rparr>\<rparr>) keys"

type_synonym headers = "string \<Rightarrow> string"

definition extractToken :: "headers \<Rightarrow> string" where
  "extractToken hdr =
     (let authorization = trim_space (hdr ''Authorization'');
          fallback = trim_space (hdr ''X-API-Key'')
      in if authorization \<noteq> []
         then (case cut_prefix authorization ''Bearer '' of
                 Some token \<Rightarrow> trim_space token
               | None \<Rightarrow> fallback)
         else fallback)"

text \<open>\<open>subtle.ConstantTimeCompare\<close> is equality; the loop returns at the first match.\<close>

definition AuthenticateRequest :: "stored_key list \<Rightarrow> headers \<Rightarrow> go_error + identity" where
  "AuthenticateRequest keys hdr =
     (let token = extractToken hdr in
      if token = [] then Inl (err ErrUnauthorized)
      else (case find (\<lambda>k. sk_secret k = token) keys of
              Some k \<Rightarrow> Inr (sk_identity k)
            | None \<Rightarrow> Inl (err ErrUnauthorized)))"

section \<open>Session keys\<close>

definition sessionKeyFromRequest :: "headers \<Rightarrow> string" where
  "sessionKeyFromRequest hdr =
     (let value = trim_space (hdr ''X-Session-ID'') in
      if value \<noteq> [] then value else trim_space (hdr ''X-Copilot-Session-ID''))"

definition session_key_char :: "char \<Rightarrow> bool" where
  "session_key_char c =
     (let n = of_char c :: nat in
      (97 \<le> n \<and> n \<le> 122) \<or> (65 \<le> n \<and> n \<le> 90) \<or> (48 \<le> n \<and> n \<le> 57) \<or> c \<in> set ''-_.:'')"

text \<open>The loop is over runes; one outside ASCII is refused, as each of its bytes is here.\<close>

definition validateSessionKey :: "string \<Rightarrow> go_error option" where
  "validateSessionKey key =
     (if key = [] then None
      else if length key > 128 then Some (err_with ErrInvalidSessionKey ''max length is 128'')
      else if list_all session_key_char key then None
      else Some (err_with ErrInvalidSessionKey
        ''only letters, digits, dot, underscore, colon, and dash are allowed''))"

definition scopedSessionKey :: "identity \<Rightarrow> string \<Rightarrow> string" where
  "scopedSessionKey identity publicSessionKey =
     (if publicSessionKey = [] then [] else id_session_namespace identity @ '':'' @ publicSessionKey)"

definition validateAnthropicVersion :: "string \<Rightarrow> go_error option" where
  "validateAnthropicVersion value =
     (if trim_space value \<noteq> ''2023-06-01''
      then Some (err_with ErrInvalidAnthropicVersion ''expected 2023-06-01'') else None)"

section \<open>Facts\<close>

lemma hex_digit_set: "hex_digit n \<in> set ''0123456789abcdef''"
proof -
  have "n mod 16 < 16" by simp
  then have "nat (n mod 16) < length ''0123456789abcdef''" by simp
  then show ?thesis unfolding hex_digit_def by (rule nth_mem)
qed

lemma hex_encode_chars: "set (hex_encode bs) \<subseteq> set ''0123456789abcdef''"
proof
  fix x
  assume "x \<in> set (hex_encode bs)"
  then have "\<exists>n. x = hex_digit n" by (auto simp: hex_encode_def)
  then show "x \<in> set ''0123456789abcdef''" using hex_digit_set by blast
qed

lemma namespace_no_colon: "CHR '':'' \<notin> set (namespaceForSecret s)"
  using hex_encode_chars [of "take 8 (sha256 s)"] by (auto simp: namespaceForSecret_def)

lemma store_identity:
  assumes "k \<in> set (NewStore keys)"
  shows "id_session_namespace (sk_identity k) = namespaceForSecret (sk_secret k)"
  using assms by (auto simp: NewStore_def)

lemma sessionNamespace_scoped:
  assumes "CHR '':'' \<notin> set (id_session_namespace i)" and "k \<noteq> []"
  shows "sessionNamespace (scopedSessionKey i k) = id_session_namespace i"
  using assms by (simp add: sessionNamespace_def scopedSessionKey_def)

lemma authenticated_key:
  assumes "AuthenticateRequest keys hdr = Inr i"
  shows "\<exists>k \<in> set keys. sk_secret k = extractToken hdr \<and> sk_identity k = i \<and> extractToken hdr \<noteq> []"
  using assms
  by (auto simp: AuthenticateRequest_def Let_def find_Some_iff split: if_splits option.splits)

lemma extractToken_cut:
  assumes "trim_space (hdr ''Authorization'') = a" and "cut_prefix a ''Bearer '' = Some t" and "a \<noteq> []"
  shows "extractToken hdr = trim_space t"
  using assms(2,3) unfolding extractToken_def Let_def assms(1) by simp

section \<open>Properties\<close>

text \<open>Authentication is sound: an accepted request carries, after trimming, the non-empty secret of a
  configured key, and the identity it gets is that key's, with the namespace of that secret.\<close>

theorem authentication_sound:
  assumes "AuthenticateRequest (NewStore keys) hdr = Inr i"
  shows "extractToken hdr \<noteq> [] \<and>
    (\<exists>k \<in> set keys. ak_secret k = extractToken hdr \<and> id_label i = ak_label k \<and>
       id_session_namespace i = namespaceForSecret (extractToken hdr))"
  using authenticated_key [OF assms] by (auto simp: NewStore_def)

definition bearer :: "string \<Rightarrow> headers" where
  "bearer t = (\<lambda>h. if h = ''Authorization'' then ''Bearer '' @ t else [])"

definition demo_keys :: "api_key list" where
  "demo_keys = [\<lparr>ak_label = ''alice'', ak_secret = ''s3cret-a''\<rparr>, \<lparr>ak_label = ''bob'', ak_secret = ''s3cret-b''\<rparr>]"

lemma demo_bearer: "extractToken (bearer ''s3cret-b'') = ''s3cret-b''"
  unfolding bearer_def extractToken_def by code_simp

lemma authentication_sound_witness:
  "\<exists>i. AuthenticateRequest (NewStore demo_keys) (bearer ''s3cret-b'') = Inr i \<and>
     id_session_namespace i = namespaceForSecret ''s3cret-b''"
proof -
  obtain i where a: "AuthenticateRequest (NewStore demo_keys) (bearer ''s3cret-b'') = Inr i"
    by (simp add: AuthenticateRequest_def demo_bearer NewStore_def demo_keys_def Let_def)
  from authentication_sound [OF a] a show ?thesis by (auto simp: demo_bearer)
qed

text \<open>Authentication is complete: a request that presents a configured, non-blank, trimmed secret as a
  bearer token is accepted, with the session namespace of that secret and the label of the first
  key that has it.\<close>

theorem authentication_complete:
  assumes "k \<in> set keys" and "ak_secret k = t" and "t \<noteq> []" and "trim_space t = t"
    and "trim_space (hdr ''Authorization'') = ''Bearer '' @ t"
  shows "\<exists>i. AuthenticateRequest (NewStore keys) hdr = Inr i \<and>
    id_session_namespace i = namespaceForSecret t \<and>
    Some (id_label i) = map_option ak_label (find (\<lambda>k. ak_secret k = t) keys)"
proof -
  have tok: "extractToken hdr = t"
    using extractToken_cut [where hdr = hdr and t = t, OF assms(5)] cut_prefix_append [of "''Bearer ''" t] assms(4)
    by (metis append_is_Nil_conv list.distinct(1))
  have f: "find (\<lambda>k. sk_secret k = t) (NewStore keys) =
      map_option (\<lambda>k. \<lparr>sk_secret = ak_secret k, sk_identity =
        \<lparr>id_label = ak_label k, id_session_namespace = namespaceForSecret (ak_secret k)\<rparr>\<rparr>)
        (find (\<lambda>k. ak_secret k = t) keys)" for keys
    by (induction keys) (simp_all add: NewStore_def)
  have "find (\<lambda>k. ak_secret k = t) keys \<noteq> None" using assms(1,2) by (auto simp: find_None_iff)
  then obtain k' where k': "find (\<lambda>k. ak_secret k = t) keys = Some k'" by blast
  have "find (\<lambda>k. sk_secret k = t) (NewStore keys) = Some \<lparr>sk_secret = ak_secret k', sk_identity =
        \<lparr>id_label = ak_label k', id_session_namespace = namespaceForSecret (ak_secret k')\<rparr>\<rparr>"
    unfolding f k' by simp
  moreover have "ak_secret k' = t" using k' by (auto simp: find_Some_iff)
  ultimately show ?thesis using assms(3) unfolding AuthenticateRequest_def Let_def tok k' by simp
qed

lemma authentication_complete_witness:
  "\<exists>i. AuthenticateRequest (NewStore demo_keys) (bearer ''s3cret-b'') = Inr i \<and>
     id_label i = ''bob''"
proof -
  have k: "\<lparr>ak_label = ''bob'', ak_secret = ''s3cret-b''\<rparr> \<in> set demo_keys" by (simp add: demo_keys_def)
  have t: "trim_space ''s3cret-b'' = ''s3cret-b''" by code_simp
  have h: "trim_space (bearer ''s3cret-b'' ''Authorization'') = ''Bearer '' @ ''s3cret-b''"
    unfolding bearer_def by code_simp
  show ?thesis
    using authentication_complete [of _ demo_keys "''s3cret-b''" "bearer ''s3cret-b''", OF k _ _ t h]
    by (auto simp: demo_keys_def)
qed



text \<open>The public session key that reaches the session manager is bounded and printable: an accepted key
  has at most 128 bytes, each a letter, a digit or one of dash, underscore, dot and colon, and no
  such key is refused.\<close>

theorem session_key_accepted_exact:
  "(validateSessionKey key = None) = (length key \<le> 128 \<and> list_all session_key_char key)"
  by (auto simp: validateSessionKey_def)

end
