(* ===== verification/Json_Doc.thy ===== *)
theory Json_Doc
  imports Runtime_Types
begin

text \<open>
  What the gateway uses of \<open>encoding/json\<close>.  A \<open>doc\<close> is the syntax tree of a JSON text: a number and
  a string keep their literal, an object its members in order; only white space between tokens
  is not kept.  That is what a \<open>json.RawMessage\<close> is used for here: a test for \<open>null\<close>, further
  decoding, and \<open>json.Compact\<close>.

  \<open>decode_ok\<close> says whether \<open>Unmarshal\<close> into a Go type succeeds, \<open>value_of\<close> is the \<open>any\<close> value, and
  \<open>get_string\<close>, \<open>get_bool\<close> and \<open>get_opt\<close> read the fields of a decoded struct.  Members match fields
  by case folding, as in Go.  Of a field that occurs twice the last one counts (Go merges the two
  when both are structs or maps; this is not modelled).  The text of a decoding error is one
  constant.
\<close>

section \<open>Sequences of fallible steps\<close>

text \<open>When a chain of steps with early returns succeeds.\<close>

named_theorems result_simps

lemma sum_step [result_simps]:
  "((case x of Inl e \<Rightarrow> Inl (g e) | Inr y \<Rightarrow> f y) = Inr c) = (\<exists>y. x = Inr y \<and> f y = Inr c)"
  by (cases x) auto

lemma error_step [result_simps]:
  "((case x of None \<Rightarrow> y | Some e \<Rightarrow> Inl (g e)) = Inr c) = (x = None \<and> y = Inr c)"
  by (cases x) auto

lemma absent_step [result_simps]:
  "((case x of None \<Rightarrow> Inl e | Some y \<Rightarrow> f y) = Inr c) = (\<exists>y. x = Some y \<and> f y = Inr c)"
  by (cases x) auto

lemma guard_step [result_simps]:
  "((if b then Inl e else y) = Inr c) = (\<not> b \<and> y = Inr c)"
  by auto

section \<open>Documents\<close>

datatype doc =
    DNull | DBool bool | DNum string | DStr string string
  | DArr "doc list" | DObj "(string \<times> string \<times> doc) list"

text \<open>The text that \<open>json.Compact\<close> gives.\<close>

fun compact_text :: "doc \<Rightarrow> string" where
  "compact_text DNull = ''null''"
| "compact_text (DBool b) = (if b then ''true'' else ''false'')"
| "compact_text (DNum l) = l"
| "compact_text (DStr l v) = l"
| "compact_text (DArr ds) = ''['' @ join_with '','' (map compact_text ds) @ '']''"
| "compact_text (DObj ms) =
     ''{'' @ join_with '','' (map (\<lambda>(l, k, d). l @ '':'' @ compact_text d) ms) @ ''}''"

text \<open>Decoding into \<open>any\<close>; a repeated key of an object keeps its last value.\<close>

definition go_map :: "(string \<times> 'a) list \<Rightarrow> (string \<times> 'a) list" where
  "go_map ms = fold (\<lambda>(k, v). put k v) ms []"

fun value_of :: "doc \<Rightarrow> json" where
  "value_of DNull = JNull"
| "value_of (DBool b) = JBool b"
| "value_of (DNum l) = JNum l"
| "value_of (DStr l v) = JStr v"
| "value_of (DArr ds) = JArr (map value_of ds)"
| "value_of (DObj ms) = JObj (go_map (map (\<lambda>(l, k, d). (k, value_of d)) ms))"

lemma distinct_go_map: "distinct (map fst (go_map ms))"
proof -
  have "distinct (map fst (fold (\<lambda>(k, v). put k v) ms acc))" if "distinct (map fst acc)" for acc
    using that by (induction ms arbitrary: acc) auto
  then show ?thesis by (simp add: go_map_def)
qed

section \<open>Numbers\<close>

definition is_digit :: "char \<Rightarrow> bool" where
  "is_digit c \<longleftrightarrow> (let n = of_char c :: nat in 48 \<le> n \<and> n \<le> 57)"

definition digits_value :: "string \<Rightarrow> int" where
  "digits_value cs = fold (\<lambda>c acc. 10 * acc + (of_char c - 48)) cs 0"

text \<open>\<open>strconv.ParseInt\<close> of a JSON number literal: only an integer of 64 bits.\<close>

definition literal_int :: "string \<Rightarrow> int option" where
  "literal_int l =
     (let neg = (take 1 l = ''-''); ds = (if neg then drop 1 l else l);
          n = (if neg then - digits_value ds else digits_value ds)
      in if ds \<noteq> [] \<and> list_all is_digit ds \<and> - (2 ^ 63) \<le> n \<and> n < 2 ^ 63 then Some n else None)"

text \<open>
  \<open>strconv.ParseFloat\<close> of a JSON number literal fails when the value is too large for a
  \<open>float64\<close>: at least \<open>2 ^ 1024 - 2 ^ 970\<close>, where rounding reaches infinity.
\<close>

definition exponent_value :: "string \<Rightarrow> int" where
  "exponent_value e =
     (if take 1 e = ''-'' then - digits_value (drop 1 e)
      else if take 1 e = ''+'' then digits_value (drop 1 e) else digits_value e)"

definition literal_float_ok :: "string \<Rightarrow> bool" where
  "literal_float_ok l =
     (let mant = takeWhile (\<lambda>c. c \<noteq> CHR ''e'' \<and> c \<noteq> CHR ''E'') l;
          expo = exponent_value (drop (Suc (length mant)) l);
          int_part = takeWhile (\<lambda>c. c \<noteq> CHR ''.'') (filter (\<lambda>c. c \<noteq> CHR ''-'') mant);
          frac = drop (Suc (length int_part)) (filter (\<lambda>c. c \<noteq> CHR ''-'') mant);
          n = digits_value (int_part @ frac); e = expo - int (length frac);
          bound = 2 ^ 1024 - 2 ^ 970 :: int
      in if e \<ge> 0 then n * 10 ^ nat e < bound else n < bound * 10 ^ nat (- e))"

section \<open>Decoding\<close>

text \<open>The key of a struct field, as \<open>foldName\<close> compares it.\<close>

fun fold_name :: "string \<Rightarrow> string" where
  "fold_name [] = []"
| "fold_name (c # cs) =
     (if c = CHR 0xC5 \<and> take 1 cs = [CHR 0xBF] then CHR ''s'' # fold_name (drop 1 cs)
      else if c = CHR 0xE2 \<and> take 2 cs = [CHR 0x84, CHR 0xAA] then CHR ''k'' # fold_name (drop 2 cs)
      else lower_byte c # fold_name cs)"

datatype go_type =
    GString | GBool | GInt | GFloat | GAny | GRaw
  | GPtr go_type | GSlice go_type | GMap go_type | GStruct "(string \<times> go_type) list"

definition field_type :: "(string \<times> go_type) list \<Rightarrow> string \<Rightarrow> go_type option" where
  "field_type fs key = map_option snd (find (\<lambda>f. fold_name (fst f) = fold_name key) fs)"

text \<open>\<open>any\<close> holds a number as a \<open>float64\<close>.\<close>

fun any_ok :: "doc \<Rightarrow> bool" where
  "any_ok (DNum l) = literal_float_ok l"
| "any_ok (DArr ds) = list_all any_ok ds"
| "any_ok (DObj ms) = list_all (\<lambda>m. any_ok (snd (snd m))) ms"
| "any_ok _ = True"

fun decode_ok :: "go_type \<Rightarrow> doc \<Rightarrow> bool" where
  "decode_ok GRaw d = True"
| "decode_ok GAny d = any_ok d"
| "decode_ok (GPtr t) d = decode_ok t d"
| "decode_ok t DNull = True"
| "decode_ok GString (DStr l v) = True"
| "decode_ok GBool (DBool b) = True"
| "decode_ok GInt (DNum l) = (literal_int l \<noteq> None)"
| "decode_ok GFloat (DNum l) = literal_float_ok l"
| "decode_ok (GSlice t) (DArr ds) = list_all (decode_ok t) ds"
| "decode_ok (GMap t) (DObj ms) = list_all (\<lambda>m. decode_ok t (snd (snd m))) ms"
| "decode_ok (GStruct fs) (DObj ms) =
     list_all (\<lambda>m. case field_type fs (fst (snd m)) of
        None \<Rightarrow> True | Some t \<Rightarrow> decode_ok t (snd (snd m))) ms"
| "decode_ok t d = False"

definition type_error :: go_error where
  "type_error = GoError [JsonTypeError] ''json: cannot unmarshal value''"

section \<open>Fields of a struct\<close>

fun members :: "doc \<Rightarrow> (string \<times> string \<times> doc) list" where
  "members (DObj ms) = ms"
| "members _ = []"

fun elements :: "doc \<Rightarrow> doc list" where
  "elements (DArr ds) = ds"
| "elements _ = []"

definition occurrences :: "string \<Rightarrow> doc \<Rightarrow> doc list" where
  "occurrences name d = map (\<lambda>m. snd (snd m)) (filter (\<lambda>m. fold_name (fst (snd m)) = fold_name name) (members d))"

text \<open>A pointer, slice, map, \<open>any\<close> or raw field: \<open>None\<close> when absent or \<open>null\<close>.\<close>

definition get_opt :: "string \<Rightarrow> doc \<Rightarrow> doc option" where
  "get_opt name d =
     (case occurrences name d of [] \<Rightarrow> None
      | os \<Rightarrow> if last os = DNull then None else Some (last os))"

text \<open>A string or bool field: \<open>null\<close> leaves what is there.\<close>

fun doc_string :: "doc \<Rightarrow> string" where
  "doc_string (DStr l v) = v"
| "doc_string _ = []"

fun doc_bool :: "doc \<Rightarrow> bool" where
  "doc_bool (DBool b) = b"
| "doc_bool _ = False"

fun doc_int :: "doc \<Rightarrow> int" where
  "doc_int (DNum l) = (case literal_int l of Some n \<Rightarrow> n | None \<Rightarrow> 0)"
| "doc_int _ = 0"

definition last_value :: "string \<Rightarrow> doc \<Rightarrow> doc" where
  "last_value name d =
     (case filter (\<lambda>x. x \<noteq> DNull) (occurrences name d) of [] \<Rightarrow> DNull | os \<Rightarrow> last os)"

definition get_string :: "string \<Rightarrow> doc \<Rightarrow> string" where
  "get_string name d = doc_string (last_value name d)"

definition get_bool :: "string \<Rightarrow> doc \<Rightarrow> bool" where
  "get_bool name d = doc_bool (last_value name d)"

definition get_list :: "string \<Rightarrow> doc \<Rightarrow> doc list" where
  "get_list name d = (case get_opt name d of None \<Rightarrow> [] | Some x \<Rightarrow> elements x)"

definition get_map :: "string \<Rightarrow> doc \<Rightarrow> (string \<times> json) list option" where
  "get_map name d =
     (case get_opt name d of
        None \<Rightarrow> None
      | Some x \<Rightarrow> Some (go_map (map (\<lambda>(l, k, y). (k, value_of y)) (members x))))"

text \<open>\<open>hasNonNullJSON\<close> and \<open>compactJSON\<close> of a raw field.\<close>

definition hasNonNullJSON :: "doc option \<Rightarrow> bool" where
  "hasNonNullJSON raw \<longleftrightarrow> (case raw of None \<Rightarrow> False | Some d \<Rightarrow> d \<noteq> DNull)"

definition compactJSON :: "doc option \<Rightarrow> string" where
  "compactJSON raw = (if hasNonNullJSON raw then compact_text (the raw) else [])"

end
