(* ===== verification/Compat_Common.thy ===== *)
theory Compat_Common
  imports Json_Doc
begin

text \<open>
  \<open>internal/compat/common.go\<close>: conversation turns, the prompt built from them, message content and
  images.  A byte slice is a string.  The image decoders, the sniffing of \<open>net/http\<close> and
  \<open>url.Parse\<close> are an argument, the record \<open>content_lib\<close>; base64 is written out.
\<close>

section \<open>Requests\<close>

record image_attachment =
  ia_media_type :: string
  ia_data :: string
  ia_url :: string

record turn =
  tn_role :: string
  tn_content :: string
  tn_attachments :: "image_attachment list"

record copilot_tool =
  ct_name :: string
  ct_description :: string
  ct_parameters :: "(string \<times> json) list option"
  ct_override_builtin :: bool
  ct_skip_permission :: bool

record copilot_attachment =
  ca_name :: string
  ca_media_type :: string
  ca_data :: string
  ca_text :: string
  ca_url :: string

record copilot_provider =
  cp_type :: string
  cp_wire_api :: string
  cp_base_url :: string
  cp_api_key :: string
  cp_bearer_token :: string
  cp_azure :: "string option"

record section_override =
  so_action :: string
  so_content :: string

record copilot_extension =
  ce_agent :: string
  ce_system_message_mode :: string
  ce_system_message_sections :: "(string \<times> section_override) list"
  ce_include_reasoning :: bool
  ce_include_runtime_events :: bool
  ce_interactive :: bool
  ce_permission_mode :: string
  ce_tools :: "copilot_tool list"
  ce_attachments :: "copilot_attachment list"
  ce_provider :: "copilot_provider option"

definition no_extension :: copilot_extension where
  "no_extension = \<lparr>ce_agent = [], ce_system_message_mode = [], ce_system_message_sections = [],
     ce_include_reasoning = False, ce_include_runtime_events = False, ce_interactive = False,
     ce_permission_mode = [], ce_tools = [], ce_attachments = [], ce_provider = None\<rparr>"

record conversation =
  cv_model :: string
  cv_system_prompt :: string
  cv_reasoning_effort :: string
  cv_stream :: bool
  cv_include_usage :: bool
  cv_turns :: "turn list"
  cv_copilot :: copilot_extension

section \<open>Roles and prompts\<close>

definition normalizeRole :: "string \<Rightarrow> string" where
  "normalizeRole role =
     (let r = to_lower (trim_space role) in
      if r = ''system'' then ''system''
      else if r = ''developer'' then ''developer''
      else if r = ''assistant'' then ''assistant''
      else if r = ''tool'' then ''tool''
      else ''user'')"

definition displayRole :: "string \<Rightarrow> string" where
  "displayRole role =
     (let r = normalizeRole role in
      if r = ''assistant'' then ''Assistant''
      else if r = ''developer'' then ''Developer''
      else if r = ''system'' then ''System''
      else if r = ''tool'' then ''Tool''
      else ''User'')"

definition newline :: string where
  "newline = [CHR 0x0A]"

definition BuildPrompt :: "turn list \<Rightarrow> string" where
  "BuildPrompt turns =
     ''Continue the following conversation and reply as the assistant.'' @ newline @ newline
     @ concat (map (\<lambda>t. displayRole (tn_role t) @ '': '' @ tn_content t @ newline @ newline) turns)
     @ ''Assistant:''"

definition LatestUserTurn :: "turn list \<Rightarrow> go_error + turn" where
  "LatestUserTurn turns =
     (if turns = [] then Inl (err ErrNoTurns)
      else if normalizeRole (tn_role (last turns)) \<noteq> ''user'' then Inl (err ErrFinalTurnNotUser)
      else Inr (last turns))"

definition LatestUserPrompt :: "turn list \<Rightarrow> go_error + string" where
  "LatestUserPrompt turns =
     (if turns = [] then Inl (err ErrNoTurns)
      else if normalizeRole (tn_role (last turns)) \<noteq> ''user'' then Inl (err ErrFinalTurnNotUser)
      else Inr (tn_content (last turns)))"

definition ValidateAttachmentPlacement :: "turn list \<Rightarrow> bool \<Rightarrow> go_error option" where
  "ValidateAttachmentPlacement turns allowHistorical =
     (if turns = [] then None
      else if \<not> allowHistorical \<and> list_ex (\<lambda>t. tn_attachments t \<noteq> []) (butlast turns)
      then Some (err ErrUnsupportedImages)
      else if normalizeRole (tn_role (last turns)) \<noteq> ''user'' \<and> tn_attachments (last turns) \<noteq> []
      then Some (err ErrUnsupportedImages)
      else None)"

definition joinPromptParts :: "string list \<Rightarrow> string" where
  "joinPromptParts parts =
     join_with (newline @ newline) (filter (\<lambda>p. p \<noteq> []) (map trim_space parts))"

section \<open>Base64\<close>

definition b64_alphabet :: string where
  "b64_alphabet = ''ABCDEFGHIJKLMNOPQRSTUVWXYZabcdefghijklmnopqrstuvwxyz0123456789+/''"

definition b64_char :: "nat \<Rightarrow> char" where
  "b64_char n = b64_alphabet ! n"

definition b64_val :: "char \<Rightarrow> nat option" where
  "b64_val c =
     (let i = length (takeWhile (\<lambda>x. x \<noteq> c) b64_alphabet) in if i < 64 then Some i else None)"

text \<open>\<open>base64.StdEncoding.EncodeToString\<close>.\<close>

definition b64_group :: "nat \<Rightarrow> string" where
  "b64_group n = [b64_char (n div 262144), b64_char (n div 4096 mod 64), b64_char (n div 64 mod 64),
     b64_char (n mod 64)]"

fun b64_encode :: "string \<Rightarrow> string" where
  "b64_encode (a # b # c # rest) =
     b64_group (of_char a * 65536 + of_char b * 256 + of_char c) @ b64_encode rest"
| "b64_encode [a, b] = take 3 (b64_group (of_char a * 65536 + of_char b * 256)) @ ''=''"
| "b64_encode [a] = take 2 (b64_group (of_char a * 65536)) @ ''==''"
| "b64_encode [] = []"

text \<open>
  \<open>base64.StdEncoding.DecodeString\<close>: line breaks are skipped, the last group may be padded, the
  unused low bits of a padded group are not looked at.
\<close>

definition b64_vals :: "char list \<Rightarrow> nat option" where
  "b64_vals cs = fold (\<lambda>c acc. case acc of None \<Rightarrow> None
      | Some n \<Rightarrow> (case b64_val c of None \<Rightarrow> None | Some v \<Rightarrow> Some (64 * n + v))) cs (Some 0)"

fun b64_groups :: "string \<Rightarrow> string option" where
  "b64_groups [] = Some []"
| "b64_groups (a # b # c # d # rest) =
     (if c = CHR ''='' then
        (if d = CHR ''='' \<and> rest = []
         then map_option (\<lambda>n. [char_of (n div 16)]) (b64_vals [a, b]) else None)
      else if d = CHR ''='' then
        (if rest = []
         then map_option (\<lambda>n. [char_of (n div 1024), char_of (n div 4 mod 256)]) (b64_vals [a, b, c]) else None)
      else
        (case b64_vals [a, b, c, d] of
           None \<Rightarrow> None
         | Some n \<Rightarrow> map_option (\<lambda>r. char_of (n div 65536) # char_of (n div 256 mod 256) # char_of (n mod 256) # r)
             (b64_groups rest)))"
| "b64_groups _ = None"

definition b64_decode :: "string \<Rightarrow> string option" where
  "b64_decode s = b64_groups (filter (\<lambda>c. c \<noteq> CHR 0x0A \<and> c \<noteq> CHR 0x0D) s)"

definition b64_error_text :: string where
  "b64_error_text = ''illegal base64 data''"

section \<open>Images\<close>

text \<open>
  \<open>cl_detect\<close> is \<open>http.DetectContentType\<close>, \<open>cl_format\<close> the format of \<open>image.DecodeConfig\<close> or its
  error text, \<open>cl_scheme\<close> the scheme of \<open>url.Parse\<close> or its error text.
\<close>

record content_lib =
  cl_detect :: "string \<Rightarrow> string"
  cl_format :: "string \<Rightarrow> string + string"
  cl_scheme :: "string \<Rightarrow> string + string"

definition normalizeImageMediaType :: "string \<Rightarrow> string" where
  "normalizeImageMediaType mediaType =
     (let m = to_lower (trim_space mediaType) in if m = ''image/jpg'' then ''image/jpeg'' else m)"

definition bad_image :: "string \<Rightarrow> go_error" where
  "bad_image detail = err_with ErrInvalidImageData detail"

definition validateImagePayload :: "content_lib \<Rightarrow> string \<Rightarrow> string \<Rightarrow> go_error option" where
  "validateImagePayload lib mediaType data =
     (let m = normalizeImageMediaType mediaType in
      if \<not> has_prefix m ''image/'' then Some (bad_image (''media type '' @ m))
      else if m \<notin> {''image/png'', ''image/jpeg'', ''image/gif'', ''image/webp''}
      then Some (bad_image (''media type '' @ m))
      else if data = [] then Some (err ErrInvalidImageData)
      else if m = ''image/webp'' then
        (let detected = to_lower (trim_space (cl_detect lib data)) in
         if detected \<noteq> ''image/webp''
         then Some (bad_image (''declared '' @ m @ '' but detected '' @ detected)) else None)
      else
        (case cl_format lib data of
           Inl e \<Rightarrow> Some (bad_image e)
         | Inr format \<Rightarrow>
             (let expected = (if m = ''image/png'' then ''png'' else if m = ''image/jpeg'' then ''jpeg''
                              else ''gif'')
              in if format \<noteq> expected
                 then Some (bad_image (''declared '' @ m @ '' but decoded '' @ format)) else None)))"

definition decode_image :: "content_lib \<Rightarrow> string \<Rightarrow> string \<Rightarrow> go_error + image_attachment" where
  "decode_image lib mediaType encoded =
     (case b64_decode encoded of
        None \<Rightarrow> Inl (bad_image b64_error_text)
      | Some decoded \<Rightarrow>
          (case validateImagePayload lib mediaType decoded of
             Some e \<Rightarrow> Inl e
           | None \<Rightarrow> Inr \<lparr>ia_media_type = normalizeImageMediaType mediaType, ia_data = decoded, ia_url = []\<rparr>))"

definition parseDataURLImage :: "content_lib \<Rightarrow> string \<Rightarrow> go_error + image_attachment" where
  "parseDataURLImage lib raw =
     (case cl_scheme lib raw of
        Inl e \<Rightarrow> Inl (bad_image e)
      | Inr scheme \<Rightarrow>
          (if scheme \<noteq> ''data'' then Inl (bad_image ''only data URLs are supported'')
           else (case cut_at (CHR '','') (trim_prefix raw ''data:'') of
                   None \<Rightarrow> Inl (err ErrInvalidImageData)
                 | Some (header, encoded) \<Rightarrow>
                     (case cut_at (CHR '';'') header of
                        None \<Rightarrow> Inl (err ErrInvalidImageData)
                      | Some (mediaType, encoding) \<Rightarrow>
                          (if encoding \<noteq> ''base64'' \<or> mediaType = [] then Inl (err ErrInvalidImageData)
                           else decode_image lib mediaType encoded)))))"

definition is_http_url :: "content_lib \<Rightarrow> string \<Rightarrow> bool" where
  "is_http_url lib raw \<longleftrightarrow> cl_scheme lib raw \<in> {Inr ''http'', Inr ''https''}"

text \<open>Members of an \<open>any\<close> object.\<close>

fun obj_get :: "string \<Rightarrow> json \<Rightarrow> json option" where
  "obj_get k (JObj ms) = map_of ms k"
| "obj_get k _ = None"

fun json_string :: "json option \<Rightarrow> string option" where
  "json_string (Some (JStr s)) = Some s"
| "json_string _ = None"

definition string_member :: "string \<Rightarrow> json \<Rightarrow> string" where
  "string_member k v = (case json_string (obj_get k v) of Some s \<Rightarrow> s | None \<Rightarrow> [])"

fun json_object :: "json option \<Rightarrow> json option" where
  "json_object (Some (JObj ms)) = Some (JObj ms)"
| "json_object _ = None"

definition url_image :: "string \<Rightarrow> image_attachment" where
  "url_image raw = \<lparr>ia_media_type = [], ia_data = [], ia_url = raw\<rparr>"

definition parseOpenAIImage :: "content_lib \<Rightarrow> json \<Rightarrow> go_error + image_attachment" where
  "parseOpenAIImage lib item =
     (case json_object (obj_get ''image_url'' item) of
        None \<Rightarrow> Inl (err ErrInvalidImageData)
      | Some o1 \<Rightarrow>
          (case json_string (obj_get ''url'' o1) of
             None \<Rightarrow> Inl (err ErrInvalidImageData)
           | Some raw \<Rightarrow>
               (if blank raw then Inl (err ErrInvalidImageData)
                else if is_http_url lib raw then Inr (url_image raw)
                else parseDataURLImage lib raw)))"

definition parseClaudeImage :: "content_lib \<Rightarrow> json \<Rightarrow> go_error + image_attachment" where
  "parseClaudeImage lib item =
     (case json_object (obj_get ''source'' item) of
        None \<Rightarrow> Inl (err ErrInvalidImageData)
      | Some source \<Rightarrow>
          (let sourceType = string_member ''type'' source in
           if sourceType = ''url'' then
             (let raw = string_member ''url'' source in
              if blank raw then Inl (err ErrInvalidImageData)
              else if is_http_url lib raw then Inr (url_image raw)
              else Inl (bad_image (''source type '' @ sourceType)))
           else if sourceType \<noteq> ''base64'' then Inl (bad_image (''source type '' @ sourceType))
           else
             (let mediaType = string_member ''media_type'' source; data = string_member ''data'' source in
              if mediaType = [] \<or> data = [] then Inl (err ErrInvalidImageData)
              else decode_image lib mediaType data)))"

section \<open>Message content\<close>

text \<open>One item of a content list: its text, or its image.\<close>

definition content_item :: "content_lib \<Rightarrow> json \<Rightarrow> go_error + (string + image_attachment)" where
  "content_item lib item =
     (case item of
        JObj ms \<Rightarrow>
          (let itemType = string_member ''type'' item in
           if itemType = [] \<or> itemType = ''text'' then
             (case json_string (obj_get ''text'' item) of
                None \<Rightarrow> Inl (err ErrUnsupportedContent)
              | Some t \<Rightarrow> Inr (Inl t))
           else if itemType = ''image_url'' then
             (case parseOpenAIImage lib item of Inl e \<Rightarrow> Inl e | Inr a \<Rightarrow> Inr (Inr a))
           else if itemType = ''image'' then
             (case parseClaudeImage lib item of Inl e \<Rightarrow> Inl e | Inr a \<Rightarrow> Inr (Inr a))
           else Inl (err_with ErrUnsupportedContent itemType))
      | _ \<Rightarrow> Inl (err ErrUnsupportedContent))"

fun content_items ::
    "content_lib \<Rightarrow> json list \<Rightarrow> string \<Rightarrow> image_attachment list \<Rightarrow> go_error + string \<times> image_attachment list" where
  "content_items lib [] parts atts = Inr (parts, atts)"
| "content_items lib (item # rest) parts atts =
     (case content_item lib item of
        Inl e \<Rightarrow> Inl e
      | Inr (Inl t) \<Rightarrow> content_items lib rest (parts @ t) atts
      | Inr (Inr a) \<Rightarrow> content_items lib rest parts (atts @ [a]))"

definition extractConversationContent :: "content_lib \<Rightarrow> json \<Rightarrow> go_error + string \<times> image_attachment list" where
  "extractConversationContent lib v =
     (case v of
        JNull \<Rightarrow> Inr ([], [])
      | JStr s \<Rightarrow> Inr (s, [])
      | JArr items \<Rightarrow> content_items lib items [] []
      | _ \<Rightarrow> Inl (err ErrUnsupportedContent))"

definition extractTextContent :: "content_lib \<Rightarrow> json \<Rightarrow> go_error + string" where
  "extractTextContent lib v =
     (case extractConversationContent lib v of
        Inl e \<Rightarrow> Inl e
      | Inr (text, atts) \<Rightarrow> if atts \<noteq> [] then Inl (err ErrUnsupportedContent) else Inr text)"

end
