(* ===== verification/Compat_Requests.thy ===== *)
theory Compat_Requests
  imports Compat_Common
begin

text \<open>
  Parsing of the request bodies: \<open>internal/compat/openai.go\<close> and \<open>internal/compat/claude.go\<close>.  The
  body is the JSON document that the client sent, or the error of reading it or of its syntax.
  Each Go struct is its list of fields with their types; a document that does not fit is the type
  error of \<open>Unmarshal\<close>, and the fields of one that does are read by name.
\<close>

section \<open>The x_copilot extension\<close>

definition copilot_tool_fields :: "(string \<times> go_type) list" where
  "copilot_tool_fields = [(''name'', GString), (''description'', GString), (''parameters'', GMap GAny),
     (''override_builtin'', GBool), (''skip_permission'', GBool)]"

definition copilot_attachment_fields :: "(string \<times> go_type) list" where
  "copilot_attachment_fields = [(''name'', GString), (''media_type'', GString), (''data'', GString),
     (''text'', GString), (''url'', GString)]"

definition copilot_provider_fields :: "(string \<times> go_type) list" where
  "copilot_provider_fields = [(''type'', GString), (''wire_api'', GString), (''base_url'', GString),
     (''api_key'', GString), (''bearer_token'', GString),
     (''azure'', GPtr (GStruct [(''api_version'', GString)]))]"

definition copilot_extension_fields :: "(string \<times> go_type) list" where
  "copilot_extension_fields = [(''agent'', GString), (''system_message_mode'', GString),
     (''system_message_sections'', GMap (GStruct [(''action'', GString), (''content'', GString)])),
     (''include_reasoning'', GBool), (''include_runtime_events'', GBool), (''interactive'', GBool),
     (''permission_mode'', GString), (''tools'', GSlice (GStruct copilot_tool_fields)),
     (''attachments'', GSlice (GStruct copilot_attachment_fields)),
     (''provider'', GPtr (GStruct copilot_provider_fields))]"

definition read_tool :: "doc \<Rightarrow> copilot_tool" where
  "read_tool d = \<lparr>ct_name = get_string ''name'' d, ct_description = get_string ''description'' d,
     ct_parameters = get_map ''parameters'' d, ct_override_builtin = get_bool ''override_builtin'' d,
     ct_skip_permission = get_bool ''skip_permission'' d\<rparr>"

definition read_attachment :: "doc \<Rightarrow> copilot_attachment" where
  "read_attachment d = \<lparr>ca_name = get_string ''name'' d, ca_media_type = get_string ''media_type'' d,
     ca_data = get_string ''data'' d, ca_text = get_string ''text'' d, ca_url = get_string ''url'' d\<rparr>"

definition read_provider :: "doc \<Rightarrow> copilot_provider" where
  "read_provider d = \<lparr>cp_type = get_string ''type'' d, cp_wire_api = get_string ''wire_api'' d,
     cp_base_url = get_string ''base_url'' d, cp_api_key = get_string ''api_key'' d,
     cp_bearer_token = get_string ''bearer_token'' d,
     cp_azure = map_option (get_string ''api_version'') (get_opt ''azure'' d)\<rparr>"

definition read_sections :: "doc option \<Rightarrow> (string \<times> section_override) list" where
  "read_sections d =
     (case d of None \<Rightarrow> []
      | Some x \<Rightarrow> go_map (map (\<lambda>(l, k, y). (k, \<lparr>so_action = get_string ''action'' y,
                     so_content = get_string ''content'' y\<rparr>)) (members x)))"

definition read_extension :: "doc \<Rightarrow> copilot_extension" where
  "read_extension d =
     \<lparr>ce_agent = get_string ''agent'' d, ce_system_message_mode = get_string ''system_message_mode'' d,
      ce_system_message_sections = read_sections (get_opt ''system_message_sections'' d),
      ce_include_reasoning = get_bool ''include_reasoning'' d,
      ce_include_runtime_events = get_bool ''include_runtime_events'' d,
      ce_interactive = get_bool ''interactive'' d, ce_permission_mode = get_string ''permission_mode'' d,
      ce_tools = map read_tool (get_list ''tools'' d),
      ce_attachments = map read_attachment (get_list ''attachments'' d),
      ce_provider = map_option read_provider (get_opt ''provider'' d)\<rparr>"

definition request_extension :: "doc \<Rightarrow> copilot_extension" where
  "request_extension body =
     (case get_opt ''x_copilot'' body of None \<Rightarrow> no_extension | Some d \<Rightarrow> read_extension d)"

section \<open>OpenAI: tools and tool choice\<close>

definition controls :: "string \<Rightarrow> go_error" where
  "controls detail = err_with ErrUnsupportedControls detail"

definition function_fields :: "(string \<times> go_type) list" where
  "function_fields = [(''name'', GString), (''description'', GString), (''parameters'', GMap GAny)]"

definition functionDefinitionToCopilotTool :: "doc \<Rightarrow> copilot_tool" where
  "functionDefinitionToCopilotTool f =
     \<lparr>ct_name = trim_space (get_string ''name'' f), ct_description = trim_space (get_string ''description'' f),
      ct_parameters = get_map ''parameters'' f, ct_override_builtin = False, ct_skip_permission = False\<rparr>"

text \<open>A loop that converts each element and stops at the first error.\<close>

fun map_error :: "('a \<Rightarrow> 'e + 'b) \<Rightarrow> 'a list \<Rightarrow> 'e + 'b list" where
  "map_error f [] = Inr []"
| "map_error f (x # xs) =
     (case f x of Inl e \<Rightarrow> Inl e
      | Inr y \<Rightarrow> (case map_error f xs of Inl e \<Rightarrow> Inl e | Inr ys \<Rightarrow> Inr (y # ys)))"

definition parse_chat_tool :: "doc \<Rightarrow> go_error + copilot_tool" where
  "parse_chat_tool raw =
     (if \<not> decode_ok (GStruct [(''type'', GString), (''function'', GPtr (GStruct function_fields))]) raw
      then Inl (wrap_prefix ''decode OpenAI tool'' type_error)
      else
        (let t = to_lower (trim_space (get_string ''type'' raw)) in
         if t \<noteq> [] \<and> t \<noteq> ''function''
         then Inl (err_with ErrUnsupportedTools (''OpenAI tool type '' @ get_string ''type'' raw))
         else (case get_opt ''function'' raw of
                 None \<Rightarrow> Inl (err_with ErrUnsupportedTools ''OpenAI function tool is missing function metadata'')
               | Some f \<Rightarrow> Inr (functionDefinitionToCopilotTool f))))"

definition parseOpenAIChatTools :: "doc list \<Rightarrow> go_error + copilot_tool list" where
  "parseOpenAIChatTools raws = map_error parse_chat_tool raws"

definition parse_function :: "doc \<Rightarrow> go_error + copilot_tool" where
  "parse_function raw =
     (if \<not> decode_ok (GStruct function_fields) raw
      then Inl (wrap_prefix ''decode OpenAI function'' type_error)
      else Inr (functionDefinitionToCopilotTool raw))"

definition parseOpenAIFunctionDefinitions :: "doc list \<Rightarrow> go_error + copilot_tool list" where
  "parseOpenAIFunctionDefinitions raws = map_error parse_function raws"

definition mapOpenAICompatibleTools :: "doc list \<Rightarrow> doc list \<Rightarrow> go_error + copilot_tool list" where
  "mapOpenAICompatibleTools rawTools rawFunctions =
     (case parseOpenAIChatTools rawTools of
        Inl e \<Rightarrow> Inl e
      | Inr ts \<Rightarrow> (case parseOpenAIFunctionDefinitions rawFunctions of
                     Inl e \<Rightarrow> Inl e | Inr fs \<Rightarrow> Inr (ts @ fs)))"

record tool_directive =
  td_disable_all :: bool
  td_required_tool :: string

definition no_directive :: tool_directive where
  "no_directive = \<lparr>td_disable_all = False, td_required_tool = []\<rparr>"

definition disable_all :: tool_directive where
  "disable_all = \<lparr>td_disable_all = True, td_required_tool = []\<rparr>"

definition require_tool :: "string \<Rightarrow> tool_directive" where
  "require_tool name = \<lparr>td_disable_all = False, td_required_tool = name\<rparr>"

definition directive_fields :: "(string \<times> go_type) list" where
  "directive_fields = [(''type'', GString), (''name'', GString), (''function'', GPtr (GStruct [(''name'', GString)]))]"

fun is_object :: "doc \<Rightarrow> bool" where
  "is_object (DObj ms) = True" | "is_object _ = False"

fun is_string :: "doc \<Rightarrow> bool" where
  "is_string (DStr l v) = True" | "is_string _ = False"

text \<open>The keys of a \<open>map[string]json.RawMessage\<close> are compared exactly.\<close>

definition has_key :: "string \<Rightarrow> doc \<Rightarrow> bool" where
  "has_key k d \<longleftrightarrow> list_ex (\<lambda>m. fst (snd m) = k) (members d)"

definition parseSingleOpenAIToolDirective :: "doc option \<Rightarrow> go_error + tool_directive" where
  "parseSingleOpenAIToolDirective raw =
     (if \<not> hasNonNullJSON raw then Inr no_directive
      else
        (let d = the raw; typ = trim_space (get_string ''type'' d) in
         if is_string d then
           (if equal_fold (trim_space (doc_string d)) ''none'' then Inr disable_all else Inr no_directive)
         else if \<not> is_object d then Inl (controls ''tool_choice/function_call must be a string or object'')
         else if members d = [] then Inr no_directive
         else if \<not> decode_ok (GStruct directive_fields) d
         then Inl (controls ''tool_choice/function_call must use OpenAI-compatible string fields'')
         else if equal_fold typ ''none'' then Inr disable_all
         else
           (case get_opt ''function'' d of
              Some f \<Rightarrow>
                (let name = trim_space (get_string ''name'' f) in
                 if name \<noteq> [] then Inr (require_tool name)
                 else Inl (controls ''tool_choice/function_call function selection requires a non-empty function name''))
            | None \<Rightarrow>
                (if has_key ''name'' d then
                   (let name = trim_space (get_string ''name'' d) in
                    if name \<noteq> [] then Inr (require_tool name)
                    else Inl (controls ''tool_choice/function_call name selection requires a non-empty function name''))
                 else if equal_fold typ ''function''
                 then Inl (controls ''tool_choice/function_call type=function requires a function name'')
                 else Inr no_directive))))"

definition parseOpenAIToolDirective :: "doc option \<Rightarrow> doc option \<Rightarrow> go_error + tool_directive" where
  "parseOpenAIToolDirective rawToolChoice rawFunctionCall =
     (case parseSingleOpenAIToolDirective rawToolChoice of
        Inl e \<Rightarrow> Inl e
      | Inr t \<Rightarrow>
          (if td_disable_all t \<or> td_required_tool t \<noteq> [] then Inr t
           else parseSingleOpenAIToolDirective rawFunctionCall))"

definition filterCopilotToolsByName :: "copilot_tool list \<Rightarrow> string \<Rightarrow> copilot_tool list" where
  "filterCopilotToolsByName tools name =
     (let n = trim_space name in
      if n = [] then tools else filter (\<lambda>t. trim_space (ct_name t) = n) tools)"

text \<open>The standard tools that remain after the tool choice.\<close>

definition select_tools ::
    "tool_directive \<Rightarrow> copilot_tool list \<Rightarrow> copilot_tool list \<Rightarrow> go_error + copilot_tool list" where
  "select_tools dir standard native =
     (let missing = err_with ErrUnsupportedTools (''requested tool '' @ td_required_tool dir @ '' was not provided'') in
      if td_disable_all dir then Inr []
      else if td_required_tool dir = [] then Inr standard
      else if standard = [] then
        (if filterCopilotToolsByName native (td_required_tool dir) = [] then Inl missing else Inr standard)
      else
        (let chosen = filterCopilotToolsByName standard (td_required_tool dir) in
         if chosen = [] then Inl missing else Inr chosen))"

section \<open>OpenAI: controls\<close>

definition requestsOpenAIAudioOutput :: "string list \<Rightarrow> doc option \<Rightarrow> bool" where
  "requestsOpenAIAudioOutput modalities audio \<longleftrightarrow>
     hasNonNullJSON audio \<or>
     list_ex (\<lambda>m. let n = to_lower (trim_space m) in n \<noteq> [] \<and> n \<noteq> ''text'') modalities"

definition reasoning_fields :: "(string \<times> go_type) list" where
  "reasoning_fields = [(''effort'', GString), (''max_tokens'', GPtr GInt), (''exclude'', GPtr GBool),
     (''enabled'', GPtr GBool)]"

definition parseOpenAIReasoningEffort :: "string \<Rightarrow> doc option \<Rightarrow> go_error + string" where
  "parseOpenAIReasoningEffort topLevel raw =
     (let effort = trim_space topLevel in
      if \<not> hasNonNullJSON raw then Inr effort
      else
        (let d = the raw; configured = trim_space (get_string ''effort'' d);
             enabled = map_option doc_bool (get_opt ''enabled'' d) in
         if \<not> decode_ok (GStruct reasoning_fields) d then Inl (controls ''reasoning must be an object'')
         else if get_opt ''max_tokens'' d \<noteq> None
         then Inl (controls ''reasoning.max_tokens is not supported by this gateway yet'')
         else if get_opt ''exclude'' d \<noteq> None
         then Inl (controls ''reasoning.exclude is not supported by this gateway yet'')
         else if enabled = Some False then
           (if effort \<noteq> [] \<or> configured \<noteq> []
            then Inl (controls ''reasoning.enabled=false conflicts with reasoning_effort settings'')
            else Inr [])
         else if effort \<noteq> [] then Inr effort
         else if enabled = Some True \<and> configured = [] then Inr ''medium''
         else Inr configured))"

text \<open>The value of an exact key of a raw map: the last one.\<close>

definition raw_key :: "string \<Rightarrow> doc \<Rightarrow> doc option" where
  "raw_key k d = map_of (rev (map (\<lambda>(l, k, y). (k, y)) (members d))) k"

definition parseOpenAIStreamIncludeUsage :: "doc option \<Rightarrow> go_error + bool" where
  "parseOpenAIStreamIncludeUsage raw =
     (if \<not> hasNonNullJSON raw then Inr False
      else if \<not> is_object (the raw) then Inl (controls ''stream_options must be an object'')
      else
        (let v = raw_key ''include_usage'' (the raw) in
         if \<not> hasNonNullJSON v then Inr False
         else (case the v of
                 DBool b \<Rightarrow> Inr b
               | _ \<Rightarrow> Inl (controls ''stream_options.include_usage must be a boolean''))))"

definition effectiveOpenAIModel :: "string \<Rightarrow> string list \<Rightarrow> string" where
  "effectiveOpenAIModel model models =
     (if trim_space model \<noteq> [] then trim_space model
      else (case filter (\<lambda>c. trim_space c \<noteq> []) models of [] \<Rightarrow> [] | c # _ \<Rightarrow> trim_space c))"

definition json_instruction :: string where
  "json_instruction =
     ''Return only valid JSON. Do not wrap it in markdown fences or surrounding prose.''"

definition schema_fields :: "(string \<times> go_type) list" where
  "schema_fields = [(''name'', GString), (''strict'', GPtr GBool), (''schema'', GRaw)]"

definition buildOpenAIResponseFormatInstruction :: "doc option \<Rightarrow> go_error + string" where
  "buildOpenAIResponseFormatInstruction raw =
     (if \<not> hasNonNullJSON raw then Inr []
      else
        (let d = the raw in
         if is_string d then
           (if to_lower (trim_space (doc_string d)) = ''json_object'' then Inr json_instruction else Inr [])
         else if \<not> is_object d then Inl (controls ''response_format must be a string or object'')
         else if \<not> decode_ok (GStruct [(''type'', GString), (''json_schema'', GPtr (GStruct schema_fields))]) d
         then Inl (controls ''response_format must use OpenAI-compatible field types'')
         else
           (let t = to_lower (trim_space (get_string ''type'' d)) in
            if t = ''json_object'' then Inr json_instruction
            else if t = ''json_schema'' then
              (case get_opt ''json_schema'' d of
                 None \<Rightarrow> Inr (joinPromptParts [json_instruction])
               | Some s \<Rightarrow>
                   (if map_option doc_bool (get_opt ''strict'' s) = Some True
                    then Inl (controls ''response_format json_schema strict enforcement is not supported by this gateway yet'')
                    else
                      (let name = trim_space (get_string ''name'' s);
                           schema = compactJSON (get_opt ''schema'' s)
                       in Inr (joinPromptParts
                            ([json_instruction]
                             @ (if name \<noteq> [] then [''JSON schema name: '' @ name] else [])
                             @ (if schema \<noteq> [] then [''Match this JSON Schema:'' @ newline @ schema] else []))))))
            else Inr [])))"

section \<open>OpenAI: messages\<close>

definition message_fields :: "(string \<times> go_type) list" where
  "message_fields = [(''role'', GString), (''content'', GAny), (''name'', GString), (''tool_calls'', GRaw),
     (''tool_call_id'', GString), (''function_call'', GRaw), (''refusal'', GString), (''reasoning'', GString),
     (''reasoning_content'', GString), (''reasoning_details'', GRaw)]"

definition labelled :: "string \<Rightarrow> string \<Rightarrow> string list" where
  "labelled l text = (if text = [] then [] else [l @ text])"

definition renderOpenAIMessageContent :: "string \<Rightarrow> string \<Rightarrow> doc \<Rightarrow> string" where
  "renderOpenAIMessageContent role content m =
     (let reasoning = trim_space (get_string ''reasoning'' m);
          reasoning' = (if reasoning = [] then trim_space (get_string ''reasoning_content'' m) else reasoning)
      in joinPromptParts
           (labelled (if role = ''tool'' then ''Tool name: '' else ''Name: '') (trim_space (get_string ''name'' m))
            @ labelled ''Tool call ID: '' (trim_space (get_string ''tool_call_id'' m))
            @ labelled (if role = ''tool'' then ''Result:'' @ newline else []) (trim_space content)
            @ labelled ''Refusal: '' (trim_space (get_string ''refusal'' m))
            @ labelled (''Reasoning:'' @ newline) reasoning'
            @ labelled (''Reasoning details:'' @ newline) (compactJSON (get_opt ''reasoning_details'' m))
            @ labelled (''Tool calls:'' @ newline) (compactJSON (get_opt ''tool_calls'' m))
            @ labelled (''Function call:'' @ newline) (compactJSON (get_opt ''function_call'' m))))"

definition content_value :: "doc \<Rightarrow> json" where
  "content_value m = (case get_opt ''content'' m of None \<Rightarrow> JNull | Some d \<Rightarrow> value_of d)"

definition parseOpenAIMessage :: "content_lib \<Rightarrow> doc \<Rightarrow> go_error + turn" where
  "parseOpenAIMessage lib raw =
     (if \<not> decode_ok (GStruct message_fields) raw
      then Inl (wrap_prefix ''decode OpenAI message'' type_error)
      else
        (let role = to_lower (trim_space (get_string ''role'' raw)) in
         if role \<notin> {''system'', ''developer'', ''user'', ''assistant'', ''tool''}
         then Inl (err_with ErrUnsupportedMessageFields (''role '' @ get_string ''role'' raw))
         else
           (case extractConversationContent lib (content_value raw) of
              Inl e \<Rightarrow> Inl e
            | Inr (content, atts) \<Rightarrow>
                Inr \<lparr>tn_role = role, tn_content = renderOpenAIMessageContent role content raw,
                     tn_attachments = atts\<rparr>)))"

text \<open>The loop over the messages: system texts apart, turns in order.\<close>

fun openai_messages ::
    "content_lib \<Rightarrow> doc list \<Rightarrow> string list \<Rightarrow> turn list \<Rightarrow> go_error + string list \<times> turn list" where
  "openai_messages lib [] sys turns = Inr (sys, turns)"
| "openai_messages lib (raw # rest) sys turns =
     (case parseOpenAIMessage lib raw of
        Inl e \<Rightarrow> Inl e
      | Inr t \<Rightarrow>
          (if tn_role t = ''system'' \<or> tn_role t = ''developer'' then
             (if tn_attachments t \<noteq> [] then Inl (err ErrUnsupportedImages)
              else openai_messages lib rest
                     (if blank (tn_content t) then sys else sys @ [tn_content t]) turns)
           else openai_messages lib rest sys (turns @ [t])))"

section \<open>OpenAI: the request\<close>

definition openai_fields :: "(string \<times> go_type) list" where
  "openai_fields =
     [(''model'', GString), (''models'', GSlice GString), (''messages'', GSlice GRaw), (''prompt'', GString),
      (''stream'', GBool), (''max_tokens'', GPtr GInt), (''max_completion_tokens'', GPtr GInt),
      (''temperature'', GPtr GFloat), (''top_p'', GPtr GFloat), (''presence_penalty'', GPtr GFloat),
      (''frequency_penalty'', GPtr GFloat), (''top_k'', GPtr GInt), (''repetition_penalty'', GPtr GFloat),
      (''min_p'', GPtr GFloat), (''top_a'', GPtr GFloat), (''seed'', GPtr GInt), (''n'', GPtr GInt),
      (''stop'', GAny), (''user'', GString), (''service_tier'', GString), (''store'', GPtr GBool),
      (''response_format'', GRaw), (''stream_options'', GRaw), (''metadata'', GRaw), (''logit_bias'', GRaw),
      (''logprobs'', GPtr GBool), (''top_logprobs'', GPtr GInt), (''modalities'', GSlice GString),
      (''audio'', GRaw), (''reasoning_effort'', GString), (''reasoning'', GRaw), (''tools'', GSlice GRaw),
      (''tool_choice'', GRaw), (''parallel_tool_calls'', GPtr GBool), (''functions'', GSlice GRaw),
      (''function_call'', GRaw), (''plugins'', GSlice GRaw), (''provider'', GRaw), (''route'', GString),
      (''transforms'', GSlice GString), (''prediction'', GRaw), (''structured_outputs'', GPtr GBool),
      (''adaptive_thinking'', GRaw), (''thinking_budget'', GRaw), (''verbosity'', GString), (''debug'', GRaw),
      (''x_copilot'', GPtr (GStruct copilot_extension_fields))]"

text \<open>The controls that are refused before anything else is looked at.\<close>

definition openai_control_error :: "doc \<Rightarrow> go_error option" where
  "openai_control_error r =
     (if get_opt ''n'' r \<noteq> None \<and> doc_int (the (get_opt ''n'' r)) \<noteq> 1
      then Some (controls ''only n=1 is supported'')
      else if requestsOpenAIAudioOutput (map doc_string (get_list ''modalities'' r)) (get_opt ''audio'' r)
      then Some (controls ''audio output is not supported by this gateway yet'')
      else if map_option doc_bool (get_opt ''structured_outputs'' r) = Some True
      then Some (controls ''structured_outputs strict enforcement is not supported by this gateway yet'')
      else if hasNonNullJSON (get_opt ''adaptive_thinking'' r)
      then Some (controls ''adaptive_thinking is not supported by this gateway yet'')
      else if hasNonNullJSON (get_opt ''thinking_budget'' r)
      then Some (controls ''thinking_budget is not supported by this gateway yet'')
      else None)"

text \<open>The tools of the request: the selected standard ones, then the native ones.\<close>

definition openai_tools :: "doc \<Rightarrow> copilot_extension \<Rightarrow> go_error + copilot_tool list" where
  "openai_tools r ext =
     (case parseOpenAIToolDirective (get_opt ''tool_choice'' r) (get_opt ''function_call'' r) of
        Inl e \<Rightarrow> Inl e
      | Inr dir \<Rightarrow>
          (case mapOpenAICompatibleTools (get_list ''tools'' r) (get_list ''functions'' r) of
             Inl e \<Rightarrow> Inl e
           | Inr standard \<Rightarrow>
               (case select_tools dir standard (ce_tools ext) of
                  Inl e \<Rightarrow> Inl e
                | Inr chosen \<Rightarrow>
                    (if map_option doc_bool (get_opt ''parallel_tool_calls'' r) = Some True \<and> chosen \<noteq> []
                     then Inl (controls ''parallel_tool_calls is not supported by this gateway yet'')
                     else Inr (chosen @ ce_tools ext)))))"

definition openai_turns :: "content_lib \<Rightarrow> doc \<Rightarrow> go_error + string list \<times> turn list" where
  "openai_turns lib r =
     (let messages = get_list ''messages'' r in
      if messages = [] then
        (if blank (get_string ''prompt'' r) then Inl (err ErrNoTurns)
         else Inr ([], [\<lparr>tn_role = ''user'', tn_content = get_string ''prompt'' r, tn_attachments = []\<rparr>]))
      else openai_messages lib messages [] [])"

text \<open>The checks common to both protocols: the last turn is the user's, and where images are.\<close>

definition turns_error :: "turn list \<Rightarrow> go_error option" where
  "turns_error turns =
     (case LatestUserPrompt turns of
        Inl e \<Rightarrow> Some e
      | Inr _ \<Rightarrow> ValidateAttachmentPlacement turns True)"

definition ParseOpenAIChatCompletionRequest :: "content_lib \<Rightarrow> go_error + doc \<Rightarrow> go_error + conversation" where
  "ParseOpenAIChatCompletionRequest lib body =
     (case body of
        Inl e \<Rightarrow> Inl e
      | Inr r \<Rightarrow>
          (if \<not> decode_ok (GStruct openai_fields) r then Inl (wrap_prefix ''decode OpenAI request'' type_error)
           else (case openai_control_error r of
             Some e \<Rightarrow> Inl e
           | None \<Rightarrow>
          (let ext = request_extension r in
           case parseOpenAIReasoningEffort (get_string ''reasoning_effort'' r) (get_opt ''reasoning'' r) of
             Inl e \<Rightarrow> Inl e
           | Inr effort \<Rightarrow>
          (case parseOpenAIStreamIncludeUsage (get_opt ''stream_options'' r) of
             Inl e \<Rightarrow> Inl e
           | Inr includeUsage \<Rightarrow>
          (case openai_tools r ext of
             Inl e \<Rightarrow> Inl e
           | Inr tools \<Rightarrow>
          (case buildOpenAIResponseFormatInstruction (get_opt ''response_format'' r) of
             Inl e \<Rightarrow> Inl e
           | Inr instruction \<Rightarrow>
          (case openai_turns lib r of
             Inl e \<Rightarrow> Inl e
           | Inr (sys, turns) \<Rightarrow>
          (case turns_error turns of
             Some e \<Rightarrow> Inl e
           | None \<Rightarrow> Inr
               \<lparr>cv_model = effectiveOpenAIModel (get_string ''model'' r) (map doc_string (get_list ''models'' r)),
                cv_system_prompt = trim_space (join_with (newline @ newline)
                  (sys @ (if instruction \<noteq> [] then [instruction] else []))),
                cv_reasoning_effort = effort, cv_stream = get_bool ''stream'' r,
                cv_include_usage = includeUsage, cv_turns = turns,
                cv_copilot = ext\<lparr>ce_tools := tools\<rparr>\<rparr>)))))))))"

section \<open>Claude messages\<close>

definition claude_fields :: "(string \<times> go_type) list" where
  "claude_fields = [(''model'', GString), (''max_tokens'', GPtr GInt), (''system'', GAny),
     (''messages'', GSlice GRaw), (''stream'', GBool), (''reasoning_effort'', GString), (''tools'', GSlice GRaw),
     (''x_copilot'', GPtr (GStruct copilot_extension_fields))]"

definition claudeAllowedFields :: "string list" where
  "claudeAllowedFields = [''model'', ''max_tokens'', ''system'', ''messages'', ''stream'', ''reasoning_effort'',
     ''tools'', ''x_copilot'']"

definition parse_claude_tool :: "doc \<Rightarrow> go_error + copilot_tool" where
  "parse_claude_tool raw =
     (if \<not> decode_ok (GStruct [(''type'', GString), (''name'', GString), (''description'', GString),
            (''input_schema'', GMap GAny)]) raw
      then Inl (wrap_prefix ''decode Claude tool'' type_error)
      else if \<not> blank (get_string ''type'' raw)
      then Inl (err_with ErrUnsupportedTools (''Claude server tool type '' @ get_string ''type'' raw))
      else Inr \<lparr>ct_name = trim_space (get_string ''name'' raw),
                ct_description = trim_space (get_string ''description'' raw),
                ct_parameters = get_map ''input_schema'' raw, ct_override_builtin = False,
                ct_skip_permission = False\<rparr>)"

definition parseClaudeToolDefinitions :: "doc list \<Rightarrow> go_error + copilot_tool list" where
  "parseClaudeToolDefinitions raws = map_error parse_claude_tool raws"

text \<open>
  The first member that is not allowed; the order of Go's map iteration is that of the document.
\<close>

definition unknown_member :: "string list \<Rightarrow> doc \<Rightarrow> string option" where
  "unknown_member allowed d = find (\<lambda>k. k \<notin> set allowed) (map (\<lambda>m. fst (snd m)) (members d))"

text \<open>A document that does not decode into a map: neither an object nor \<open>null\<close>.\<close>

definition not_a_map :: "doc \<Rightarrow> bool" where
  "not_a_map d \<longleftrightarrow> \<not> is_object d \<and> d \<noteq> DNull"

definition parseClaudeMessage :: "content_lib \<Rightarrow> doc \<Rightarrow> go_error + turn" where
  "parseClaudeMessage lib raw =
     (if not_a_map raw then Inl (wrap_prefix ''decode Claude message'' type_error)
      else (case unknown_member [''role'', ''content''] raw of
        Some key \<Rightarrow> Inl (err_with ErrUnsupportedMessageFields key)
      | None \<Rightarrow>
          (if \<not> decode_ok (GStruct [(''role'', GString), (''content'', GAny)]) raw
           then Inl (wrap_prefix ''decode Claude message'' type_error)
           else
             (let role = to_lower (trim_space (get_string ''role'' raw)) in
              if role \<notin> {''user'', ''assistant''}
              then Inl (err_with ErrUnsupportedMessageFields (''role '' @ get_string ''role'' raw))
              else
                (case extractConversationContent lib (content_value raw) of
                   Inl e \<Rightarrow> Inl e
                 | Inr (content, atts) \<Rightarrow>
                     Inr \<lparr>tn_role = role, tn_content = content, tn_attachments = atts\<rparr>)))))"

definition ParseClaudeMessagesRequest :: "content_lib \<Rightarrow> go_error + doc \<Rightarrow> go_error + conversation" where
  "ParseClaudeMessagesRequest lib body =
     (case body of
        Inl e \<Rightarrow> Inl e
      | Inr r \<Rightarrow>
          (if not_a_map r then Inl (wrap_prefix ''decode Claude request'' type_error)
           else (case unknown_member claudeAllowedFields r of
             Some key \<Rightarrow> Inl (controls key)
           | None \<Rightarrow>
          (if \<not> decode_ok (GStruct claude_fields) r then Inl (wrap_prefix ''decode Claude request'' type_error)
           else if get_opt ''max_tokens'' r \<noteq> None then Inl (err ErrUnsupportedControls)
           else if get_list ''messages'' r = [] then Inl (err ErrNoTurns)
           else
          (case extractTextContent lib
                  (case get_opt ''system'' r of None \<Rightarrow> JNull | Some d \<Rightarrow> value_of d) of
             Inl e \<Rightarrow> Inl e
           | Inr systemPrompt \<Rightarrow>
          (case map_error (parseClaudeMessage lib) (get_list ''messages'' r) of
             Inl e \<Rightarrow> Inl e
           | Inr turns \<Rightarrow>
          (case turns_error turns of
             Some e \<Rightarrow> Inl e
           | None \<Rightarrow>
          (let ext = request_extension r in
           case parseClaudeToolDefinitions (get_list ''tools'' r) of
             Inl e \<Rightarrow> Inl e
           | Inr tools \<Rightarrow> Inr
               \<lparr>cv_model = get_string ''model'' r, cv_system_prompt = trim_space systemPrompt,
                cv_reasoning_effort = trim_space (get_string ''reasoning_effort'' r),
                cv_stream = get_bool ''stream'' r, cv_include_usage = False, cv_turns = turns,
                cv_copilot = ext\<lparr>ce_tools := tools @ ce_tools ext\<rparr>\<rparr>))))))))"

end
