(* ===== verification/Compat_Facts.thy ===== *)
theory Compat_Facts
  imports Compat_Requests
begin

text \<open>
  Facts on request parsing: base64, the shape of parsed turns and images, the choice of tools.
\<close>

section \<open>Base64\<close>

lemma b64_alphabet_facts:
  "distinct b64_alphabet" "length b64_alphabet = 64"
  "CHR ''='' \<notin> set b64_alphabet" "CHR 0x0A \<notin> set b64_alphabet" "CHR 0x0D \<notin> set b64_alphabet"
  by (simp_all add: b64_alphabet_def)

lemma b64_val_char: "n < 64 \<Longrightarrow> b64_val (b64_char n) = Some n"
proof -
  assume n: "n < 64"
  have "takeWhile (\<lambda>x. x \<noteq> b64_alphabet ! n) b64_alphabet = take n b64_alphabet"
    using n b64_alphabet_facts(1,2)
    by (intro takeWhile_eq_take_P_nth) (auto simp: nth_eq_iff_index_eq)
  then show ?thesis using n b64_alphabet_facts(2) by (simp add: b64_val_def b64_char_def)
qed

lemma b64_char_plain: "n < 64 \<Longrightarrow> b64_char n \<noteq> CHR ''='' \<and> b64_char n \<noteq> CHR 0x0A \<and> b64_char n \<noteq> CHR 0x0D"
  using b64_alphabet_facts nth_mem [of n b64_alphabet] unfolding b64_char_def by metis

lemma b64_char_ne [simp]:
  "n < 64 \<Longrightarrow> b64_char n \<noteq> CHR ''=''" "n < 64 \<Longrightarrow> b64_char n \<noteq> CHR 0x0A"
  "n < 64 \<Longrightarrow> b64_char n \<noteq> CHR 0x0D"
  using b64_char_plain by auto

lemma b64_vals_chars:
  "w < 64 \<Longrightarrow> x < 64 \<Longrightarrow> b64_vals [b64_char w, b64_char x] = Some (64 * w + x)"
  "w < 64 \<Longrightarrow> x < 64 \<Longrightarrow> y < 64 \<Longrightarrow>
     b64_vals [b64_char w, b64_char x, b64_char y] = Some (64 * (64 * w + x) + y)"
  "w < 64 \<Longrightarrow> x < 64 \<Longrightarrow> y < 64 \<Longrightarrow> z < 64 \<Longrightarrow>
     b64_vals [b64_char w, b64_char x, b64_char y, b64_char z] = Some (64 * (64 * (64 * w + x) + y) + z)"
  by (simp_all add: b64_vals_def b64_val_char)

lemma div_steps:
  fixes n :: nat
  shows "n div 4096 = n div 64 div 64" "n div 262144 = n div 64 div 64 div 64"
    "n div 65536 = n div 256 div 256"
  by (simp_all add: div_mult2_eq [symmetric])

lemma b64_recombine:
  fixes n :: nat
  assumes "n < 16777216"
  shows "64 * (64 * (64 * (n div 262144) + n div 4096 mod 64) + n div 64 mod 64) + n mod 64 = n"
    "n div 262144 < 64"
    "64 * (64 * (n div 262144) + n div 4096 mod 64) + n div 64 mod 64 = n div 64"
    "64 * (n div 262144) + n div 4096 mod 64 = n div 4096"
proof -
  show a: "64 * (n div 262144) + n div 4096 mod 64 = n div 4096"
    unfolding div_steps by (rule mult_div_mod_eq)
  show b: "64 * (64 * (n div 262144) + n div 4096 mod 64) + n div 64 mod 64 = n div 64"
    unfolding a unfolding div_steps by (rule mult_div_mod_eq)
  show "64 * (64 * (64 * (n div 262144) + n div 4096 mod 64) + n div 64 mod 64) + n mod 64 = n"
    unfolding b by (rule mult_div_mod_eq)
  show "n div 262144 < 64" using assms by (simp add: less_mult_imp_div_less)
qed

lemma byte_lt: "(of_char c :: nat) < 256"
  by simp

lemma char_of_of_char: "char_of (of_char c :: nat) = c"
  by simp

lemma byte_join:
  fixes x c :: nat
  assumes "c < 256"
  shows "(x * 256 + c) div 256 = x" "(x * 256 + c) mod 256 = c"
  using assms by simp_all

lemma bytes3:
  fixes a b c :: nat
  assumes "a < 256" "b < 256" "c < 256"
  shows "a * 65536 + b * 256 + c < 16777216" "(a * 65536 + b * 256 + c) div 65536 = a"
    "(a * 65536 + b * 256 + c) div 256 mod 256 = b" "(a * 65536 + b * 256 + c) mod 256 = c"
proof -
  have e: "a * 65536 + b * 256 + c = (a * 256 + b) * 256 + c" by simp
  show "a * 65536 + b * 256 + c < 16777216" using assms by linarith
  show "(a * 65536 + b * 256 + c) div 65536 = a"
    unfolding div_steps e byte_join [OF assms(3)] byte_join [OF assms(2)] ..
  show "(a * 65536 + b * 256 + c) div 256 mod 256 = b"
    unfolding e byte_join [OF assms(3)] byte_join [OF assms(2)] ..
  show "(a * 65536 + b * 256 + c) mod 256 = c" unfolding e byte_join [OF assms(3)] ..
qed

lemma padded_bytes:
  fixes a b :: nat
  assumes "a < 256" "b < 256"
  shows "(a * 65536 + b * 256) div 64 div 1024 = a" "(a * 65536 + b * 256) div 64 div 4 mod 256 = b"
    "(a * 65536) div 4096 div 16 = a"
proof -
  have d: "n div 64 div 1024 = n div 65536" "n div 64 div 4 = n div 256" for n :: nat
    by (simp_all add: div_mult2_eq [symmetric])
  show "(a * 65536 + b * 256) div 64 div 1024 = a" "(a * 65536 + b * 256) div 64 div 4 mod 256 = b"
    using bytes3(2,3) [OF assms, of 0] by (simp_all add: d)
  show "(a * 65536) div 4096 div 16 = a" by (simp add: div_mult2_eq [symmetric])
qed

lemma b64_groups_group:
  assumes "n < 16777216"
  shows "b64_groups (b64_group n @ rest) =
      map_option (\<lambda>r. char_of (n div 65536) # char_of (n div 256 mod 256) # char_of (n mod 256) # r) (b64_groups rest)"
    "b64_groups (take 3 (b64_group n) @ ''='') = Some [char_of (n div 64 div 1024), char_of (n div 64 div 4 mod 256)]"
    "b64_groups (take 2 (b64_group n) @ ''=='') = Some [char_of (n div 4096 div 16)]"
  using b64_recombine [OF assms] by (simp_all add: b64_group_def b64_vals_chars del: char_of_mod_256)

lemma b64_groups_encode: "b64_groups (b64_encode s) = Some s"
proof (induction s rule: b64_encode.induct)
  case (1 a b c rest)
  show ?case
    unfolding b64_encode.simps b64_groups_group [OF bytes3(1) [OF byte_lt byte_lt byte_lt]] 1
      bytes3 [OF byte_lt byte_lt byte_lt] by simp
next
  case (2 a b)
  have lt: "(of_char a * 65536 + of_char b * 256 :: nat) < 16777216"
    using bytes3(1) [OF byte_lt [of a] byte_lt [of b], of 0] by simp
  show ?case
    unfolding b64_encode.simps b64_groups_group [OF lt] padded_bytes [OF byte_lt byte_lt] by simp
next
  case (3 a)
  have lt: "(of_char a * 65536 :: nat) < 16777216" using byte_lt [of a] by linarith
  show ?case
    unfolding b64_encode.simps b64_groups_group [OF lt] padded_bytes(3) [OF byte_lt [of a] byte_lt [of a]] by simp
qed simp

lemma b64_group_plain:
  assumes "n < 16777216" and "c \<in> set (b64_group n)"
  shows "c \<noteq> CHR 0x0A \<and> c \<noteq> CHR 0x0D"
  using b64_recombine(2) [OF assms(1)] assms(2) by (auto simp: b64_group_def)

lemma b64_encode_plain: "c \<in> set (b64_encode s) \<Longrightarrow> c \<noteq> CHR 0x0A \<and> c \<noteq> CHR 0x0D"
proof (induction s rule: b64_encode.induct)
  case (1 x y z rest)
  then show ?case
    using b64_group_plain [OF bytes3(1) [OF byte_lt [of x] byte_lt [of y] byte_lt [of z]]]
    unfolding b64_encode.simps set_append Un_iff by blast
next
  case (2 x y)
  have "(of_char x * 65536 + of_char y * 256 :: nat) < 16777216"
    using bytes3(1) [OF byte_lt [of x] byte_lt [of y], of 0] by simp
  from b64_group_plain [OF this] 2 show ?case by (auto dest: in_set_takeD)
next
  case (3 x)
  have "(of_char x * 65536 :: nat) < 16777216" using byte_lt [of x] by linarith
  from b64_group_plain [OF this] 3 show ?case by (auto dest: in_set_takeD)
qed simp

lemma b64_decode_encode: "b64_decode (b64_encode s) = Some s"
proof -
  have "filter (\<lambda>c. c \<noteq> CHR 0x0A \<and> c \<noteq> CHR 0x0D) (b64_encode s) = b64_encode s"
    using b64_encode_plain by (auto simp: filter_id_conv)
  then show ?thesis by (simp add: b64_decode_def b64_groups_encode)
qed

lemma b64_encode_nil [simp]: "b64_encode s = [] \<longleftrightarrow> s = []"
  by (cases s rule: b64_encode.cases) (auto simp: b64_group_def)

section \<open>Images and turns\<close>

text \<open>An image of a parsed request: a remote \<open>http\<close> URL, or bytes that match their media type.\<close>

definition image_ok :: "content_lib \<Rightarrow> image_attachment \<Rightarrow> bool" where
  "image_ok lib a \<longleftrightarrow>
     (ia_url a \<noteq> [] \<and> is_http_url lib (ia_url a) \<and> ia_data a = []) \<or>
     (ia_url a = [] \<and> ia_data a \<noteq> [] \<and>
      ia_media_type a \<in> {''image/png'', ''image/jpeg'', ''image/gif'', ''image/webp''} \<and>
      validateImagePayload lib (ia_media_type a) (ia_data a) = None)"

definition turn_ok :: "content_lib \<Rightarrow> turn \<Rightarrow> bool" where
  "turn_ok lib t \<longleftrightarrow> list_all (image_ok lib) (tn_attachments t)"

lemma normalize_known:
  "m \<in> {''image/png'', ''image/jpeg'', ''image/gif'', ''image/webp''} \<Longrightarrow> normalizeImageMediaType m = m"
proof -
  have "normalizeImageMediaType ''image/png'' = ''image/png''" "normalizeImageMediaType ''image/jpeg'' = ''image/jpeg''"
    "normalizeImageMediaType ''image/gif'' = ''image/gif''" "normalizeImageMediaType ''image/webp'' = ''image/webp''"
    by code_simp+
  then show "m \<in> {''image/png'', ''image/jpeg'', ''image/gif'', ''image/webp''} \<Longrightarrow> ?thesis" by blast
qed

lemma payload_ok:
  assumes "validateImagePayload lib m d = None"
  shows "normalizeImageMediaType m \<in> {''image/png'', ''image/jpeg'', ''image/gif'', ''image/webp''} \<and> d \<noteq> [] \<and>
    validateImagePayload lib (normalizeImageMediaType m) d = None"
proof -
  have n: "normalizeImageMediaType m \<in> {''image/png'', ''image/jpeg'', ''image/gif'', ''image/webp''}" and "d \<noteq> []"
    using assms unfolding validateImagePayload_def Let_def by (metis option.distinct(1))+
  moreover have "validateImagePayload lib (normalizeImageMediaType m) d = None"
    using assms unfolding validateImagePayload_def normalize_known [OF n] .
  ultimately show ?thesis by blast
qed

lemma decode_image_ok: "decode_image lib m x = Inr a \<Longrightarrow> image_ok lib a"
  using payload_ok [of lib m] by (auto simp: decode_image_def image_ok_def split: option.splits)

lemma data_url_ok: "parseDataURLImage lib raw = Inr a \<Longrightarrow> image_ok lib a"
  by (auto simp: parseDataURLImage_def decode_image_ok split: sum.splits if_splits option.splits)

lemma url_image_ok: "is_http_url lib raw \<Longrightarrow> \<not> blank raw \<Longrightarrow> image_ok lib (url_image raw)"
  by (auto simp: image_ok_def url_image_def)

lemma openai_image_ok: "parseOpenAIImage lib v = Inr a \<Longrightarrow> image_ok lib a"
  by (auto simp: parseOpenAIImage_def data_url_ok url_image_ok split: option.splits if_splits)

lemma claude_image_ok: "parseClaudeImage lib v = Inr a \<Longrightarrow> image_ok lib a"
  unfolding parseClaudeImage_def Let_def
  by (auto simp: decode_image_ok url_image_ok split: option.splits if_splits)

lemma content_item_ok: "content_item lib v = Inr (Inr a) \<Longrightarrow> image_ok lib a"
  unfolding content_item_def Let_def
  by (auto simp: openai_image_ok claude_image_ok split: json.splits option.splits if_splits sum.splits)

lemma content_items_ok:
  "content_items lib vs parts atts = Inr (t, as) \<Longrightarrow> list_all (image_ok lib) atts \<Longrightarrow> list_all (image_ok lib) as"
  by (induction vs arbitrary: parts atts) (auto simp: content_item_ok split: sum.splits)

lemma content_ok: "extractConversationContent lib v = Inr (t, as) \<Longrightarrow> list_all (image_ok lib) as"
  using content_items_ok by (auto simp: extractConversationContent_def split: json.splits)

lemma openai_message_ok:
  assumes "parseOpenAIMessage lib raw = Inr t"
  shows "tn_role t \<in> {''system'', ''developer'', ''user'', ''assistant'', ''tool''} \<and> turn_ok lib t"
  using assms content_ok unfolding parseOpenAIMessage_def Let_def turn_ok_def
  by (auto split: if_splits sum.splits prod.splits)

lemma claude_message_ok:
  assumes "parseClaudeMessage lib raw = Inr t"
  shows "tn_role t \<in> {''user'', ''assistant''} \<and> turn_ok lib t"
  using assms content_ok unfolding parseClaudeMessage_def Let_def turn_ok_def
  by (auto split: if_splits sum.splits prod.splits option.splits)

lemma openai_messages_ok:
  assumes "openai_messages lib raws sys turns = Inr (sys', turns')"
    and "\<forall>t \<in> set turns. tn_role t \<in> {''user'', ''assistant'', ''tool''} \<and> turn_ok lib t"
  shows "\<forall>t \<in> set turns'. tn_role t \<in> {''user'', ''assistant'', ''tool''} \<and> turn_ok lib t"
  using assms
proof (induction raws arbitrary: sys turns)
  case (Cons raw raws)
  show ?case
  proof (cases "parseOpenAIMessage lib raw")
    case (Inr t)
    note m = openai_message_ok [OF Inr]
    show ?thesis
    proof (cases "tn_role t = ''system'' \<or> tn_role t = ''developer''")
      case True
      have "openai_messages lib raws (if blank (tn_content t) then sys else sys @ [tn_content t]) turns = Inr (sys', turns')"
        using Cons.prems(1) unfolding openai_messages.simps Inr sum.case if_P [OF True]
        by (cases "tn_attachments t = []") (simp_all only: simp_thms if_True if_False sum.distinct)
      then show ?thesis by (rule Cons.IH [OF _ Cons.prems(2)])
    next
      case False
      then show ?thesis using Cons.prems Inr m by (intro Cons.IH [of sys "turns @ [t]"]) auto
    qed
  qed (use Cons.prems in auto)
qed simp

lemma map_error_set: "map_error f xs = Inr ys \<Longrightarrow> y \<in> set ys \<Longrightarrow> \<exists>x \<in> set xs. f x = Inr y"
  by (induction xs arbitrary: ys) (auto simp: result_simps)

text \<open>What a successful parse went through.\<close>

lemma openai_parsed:
  assumes "ParseOpenAIChatCompletionRequest lib body = Inr c"
  shows "\<exists>r sys instruction. body = Inr r \<and> openai_turns lib r = Inr (sys, cv_turns c) \<and>
    turns_error (cv_turns c) = None \<and> openai_control_error r = None \<and>
    openai_tools r (request_extension r) = Inr (ce_tools (cv_copilot c)) \<and>
    cv_system_prompt c = trim_space (join_with (newline @ newline) (sys @ instruction))"
proof -
  from assms obtain r effort usage tools instruction sys turns where
    "body = Inr r" "openai_control_error r = None" "openai_tools r (request_extension r) = Inr tools"
    "openai_turns lib r = Inr (sys, turns)" "turns_error turns = None"
    and c: "c = \<lparr>cv_model = effectiveOpenAIModel (get_string ''model'' r) (map doc_string (get_list ''models'' r)),
      cv_system_prompt = trim_space (join_with (newline @ newline)
        (sys @ (if instruction \<noteq> [] then [instruction] else []))),
      cv_reasoning_effort = effort, cv_stream = get_bool ''stream'' r, cv_include_usage = usage,
      cv_turns = turns, cv_copilot = (request_extension r)\<lparr>ce_tools := tools\<rparr>\<rparr>"
    unfolding ParseOpenAIChatCompletionRequest_def Let_def
    by (simp add: result_simps split_paired_Ex del: split_paired_Ex) (auto simp: result_simps)
  then show ?thesis
    by (intro exI [of _ r] exI [of _ sys] exI [of _ "if instruction \<noteq> [] then [instruction] else []"]) simp
qed

lemma claude_parsed:
  assumes "ParseClaudeMessagesRequest lib body = Inr c"
  shows "\<exists>r s. body = Inr r \<and> map_error (parseClaudeMessage lib) (get_list ''messages'' r) = Inr (cv_turns c) \<and>
    turns_error (cv_turns c) = None \<and> cv_system_prompt c = trim_space s"
  using assms unfolding ParseClaudeMessagesRequest_def Let_def by (auto simp: result_simps)

lemma turns_error_None:
  assumes "turns_error turns = None"
  shows "turns \<noteq> [] \<and> LatestUserTurn turns = Inr (last turns)"
  using assms by (auto simp: turns_error_def LatestUserPrompt_def LatestUserTurn_def split: sum.splits if_splits)

lemma openai_turns_ok:
  assumes "openai_turns lib r = Inr (sys, turns)"
  shows "\<forall>t \<in> set turns. tn_role t \<in> {''user'', ''assistant'', ''tool''} \<and> turn_ok lib t"
  using assms openai_messages_ok [of lib _ "[]" "[]" sys turns]
  by (auto simp: openai_turns_def Let_def turn_ok_def split: if_splits)

section \<open>Tool choice\<close>

lemma select_tools_required:
  assumes "select_tools dir standard native = Inr chosen" and "\<not> td_disable_all dir" and "trim_space (td_required_tool dir) = n"
    and "n \<noteq> []"
  shows "list_all (\<lambda>t. trim_space (ct_name t) = n) chosen \<and>
    list_ex (\<lambda>t. trim_space (ct_name t) = n) (chosen @ native)"
  using assms
  by (auto simp: select_tools_def filterCopilotToolsByName_def Let_def list_all_iff list_ex_iff filter_empty_conv
      filter_eq_Cons_iff neq_Nil_conv split: if_splits)

lemma directive_trimmed:
  "parseSingleOpenAIToolDirective raw = Inr dir \<Longrightarrow> trim_space (td_required_tool dir) = td_required_tool dir"
  unfolding parseSingleOpenAIToolDirective_def Let_def
  by (auto simp: no_directive_def disable_all_def require_tool_def split: if_splits option.splits)

section \<open>A request for the witnesses\<close>

definition demo_lib :: content_lib where
  "demo_lib = \<lparr>cl_detect = (\<lambda>_. ''image/png''), cl_format = (\<lambda>_. Inr ''png''), cl_scheme = (\<lambda>_. Inr ''https'')\<rparr>"

text \<open>A string token without escapes, and an object.\<close>

definition str :: "string \<Rightarrow> doc" where
  "str s = DStr (''\"'' @ s @ ''\"'') s"

definition obj :: "(string \<times> doc) list \<Rightarrow> doc" where
  "obj ms = DObj (map (\<lambda>(k, d). (''\"'' @ k @ ''\"'', k, d)) ms)"

definition demo_chat :: doc where
  "demo_chat = obj [(''messages'', DArr [obj [(''role'', str ''user''), (''content'', str ''Hi'')]]),
     (''tool_choice'', str ''none''), (''functions'', DArr [obj [(''name'', str ''lookup'')]])]"

definition demo_conversation :: conversation where
  "demo_conversation = \<lparr>cv_model = [], cv_system_prompt = [], cv_reasoning_effort = [],
     cv_stream = False, cv_include_usage = False,
     cv_turns = [\<lparr>tn_role = ''user'', tn_content = ''Hi'', tn_attachments = []\<rparr>],
     cv_copilot = no_extension\<rparr>"

lemma demo_chat_parsed: "ParseOpenAIChatCompletionRequest demo_lib (Inr demo_chat) = Inr demo_conversation"
  by code_simp

lemma demo_directive:
  "parseOpenAIToolDirective (get_opt ''tool_choice'' demo_chat) (get_opt ''function_call'' demo_chat) = Inr disable_all"
  by code_simp

section \<open>Properties\<close>

text \<open>Inline image data arrives unchanged: an image that the checks of its media type accept, sent in
  base64, is parsed to exactly its bytes and its normalised media type.\<close>

theorem inline_image_roundtrip:
  assumes "validateImagePayload lib m d = None"
  shows "decode_image lib m (b64_encode d) =
    Inr \<lparr>ia_media_type = normalizeImageMediaType m, ia_data = d, ia_url = []\<rparr>"
  using assms by (simp add: decode_image_def b64_decode_encode)

lemma inline_image_roundtrip_witness:
  "decode_image demo_lib ''image/png'' (b64_encode ''abc'') =
    Inr \<lparr>ia_media_type = ''image/png'', ia_data = ''abc'', ia_url = []\<rparr>"
proof -
  have v: "validateImagePayload demo_lib ''image/png'' ''abc'' = None" by code_simp
  have n: "normalizeImageMediaType ''image/png'' = ''image/png''" by code_simp
  from inline_image_roundtrip [OF v] show ?thesis by (simp only: n)
qed

text \<open>C16: A parsed request is well formed, whichever protocol it came by: it has a turn, the last one is
  the user's, every turn is a user's, an assistant's or a tool's (system texts are in the system
  prompt, which is trimmed), and every image is a remote \<open>http\<close> URL or bytes that the checks of its
  declared media type accept.\<close>

theorem parsed_request_wellformed:
  assumes "ParseOpenAIChatCompletionRequest lib body = Inr c \<or> ParseClaudeMessagesRequest lib body = Inr c"
  shows "LatestUserTurn (cv_turns c) = Inr (last (cv_turns c)) \<and>
    (\<forall>t \<in> set (cv_turns c). tn_role t \<in> {''user'', ''assistant'', ''tool''} \<and>
       (\<forall>a \<in> set (tn_attachments t). image_ok lib a)) \<and>
    trim_space (cv_system_prompt c) = cv_system_prompt c"
  using assms
proof
  assume "ParseOpenAIChatCompletionRequest lib body = Inr c"
  from openai_parsed [OF this] show ?thesis
    using turns_error_None openai_turns_ok by (fastforce simp: turn_ok_def list_all_iff)
next
  assume "ParseClaudeMessagesRequest lib body = Inr c"
  from claude_parsed [OF this] obtain r s where
    r: "map_error (parseClaudeMessage lib) (get_list ''messages'' r) = Inr (cv_turns c)"
      "turns_error (cv_turns c) = None" "cv_system_prompt c = trim_space s" by blast
  have "tn_role t \<in> {''user'', ''assistant''} \<and> turn_ok lib t" if "t \<in> set (cv_turns c)" for t
    using map_error_set [OF r(1) that] claude_message_ok by blast
  then show ?thesis using turns_error_None [OF r(2)] r(3) by (auto simp: turn_ok_def list_all_iff)
qed

lemma parsed_request_wellformed_witness:
  "LatestUserTurn (cv_turns demo_conversation) = Inr (last (cv_turns demo_conversation))"
  using parsed_request_wellformed [OF disjI1 [OF demo_chat_parsed]] by blast



text \<open>Nothing in a Claude request is ignored in silence: a request, or a message of it, with a member that
  the gateway does not know is refused, as an unsupported control or message field.\<close>

theorem claude_unknown_member_refused:
  assumes "is_object d" and "k \<in> set (map (\<lambda>m. fst (snd m)) (members d))"
  shows "(k \<notin> set claudeAllowedFields \<longrightarrow>
      (\<exists>e. ParseClaudeMessagesRequest lib (Inr d) = Inl e \<and> errors_is e ErrUnsupportedControls)) \<and>
    (k \<notin> {''role'', ''content''} \<longrightarrow>
      (\<exists>e. parseClaudeMessage lib d = Inl e \<and> errors_is e ErrUnsupportedMessageFields))"
proof -
  have u: "\<exists>k'. unknown_member allowed d = Some k'" if "k \<notin> set allowed" for allowed
    using assms(2) that unfolding unknown_member_def by (metis find_None_iff not_None_eq)
  have m: "\<not> not_a_map d" using assms(1) by (simp add: not_a_map_def)
  show ?thesis
    using u [of claudeAllowedFields] u [of "[''role'', ''content'']"] m
    by (auto simp: ParseClaudeMessagesRequest_def parseClaudeMessage_def controls_def)
qed

lemma claude_unknown_member_refused_witness:
  "\<exists>e. ParseClaudeMessagesRequest demo_lib (Inr (obj [(''temperature'', DNum ''1'')])) = Inl e \<and>
     errors_is e ErrUnsupportedControls"
  using claude_unknown_member_refused [of "obj [(''temperature'', DNum ''1'')]" "''temperature''" demo_lib]
  by (simp add: obj_def claudeAllowedFields_def)

end
