(* ===== verification/Copilot_Events.thy ===== *)
theory Copilot_Events
  imports Runtime_Types Complex_Main
begin

text \<open>
  The data that \<open>internal/runtime/copilot.go\<close> takes from the Copilot SDK's session events, and
  the helpers that copy it into the gateway's own types (\<open>deref\<close>, \<open>boolPtr\<close>, \<open>cloneMap\<close>,
  \<open>firstNonEmpty\<close>, \<open>permissionSummary\<close>, \<open>userInputSummary\<close>, \<open>runtimeErrorFromEvent\<close>, ...).

  The SDK's \<open>Data\<close> is a record of the fields the gateway reads.  A pointer that may be nil is an
  option; a nil slice or map is an empty list.  A \<open>float64\<close> is a rational number.
\<close>

section \<open>SDK data\<close>

record sdk_permission_request =
  qp_kind :: string
  qp_tool_name :: "string option"
  qp_server_name :: "string option"
  qp_path :: "string option"
  qp_url :: "string option"
  qp_intention :: "string option"
  qp_warning :: "string option"
  qp_read_only :: "bool option"
  qp_commands :: "string list"

record sdk_schema =
  sc_type :: string
  sc_properties :: "(string \<times> json) list"
  sc_required :: "string list"

record sdk_result =
  sr_content :: "string option"
  sr_detailed_content :: "string option"

text \<open>\<open>ErrorUnion\<close>: a string, an object with a message, or neither.\<close>

record error_union =
  eu_string :: "string option"
  eu_class_message :: "string option"

record event_data =
  ev_request_id :: "string option"
  ev_tool_call_id :: "string option"
  ev_tool_name :: "string option"
  ev_arguments :: json
  ev_permission_request :: "sdk_permission_request option"
  ev_question :: "string option"
  ev_choices :: "string list"
  ev_allow_freeform :: "bool option"
  ev_requested_schema :: "sdk_schema option"
  ev_delta_content :: "string option"
  ev_content :: "string option"
  ev_reasoning_text :: "string option"
  ev_mcp_server_name :: "string option"
  ev_mcp_tool_name :: "string option"
  ev_success :: "bool option"
  ev_result :: "sdk_result option"
  ev_tool_telemetry :: "(string \<times> json) list"
  ev_error :: "error_union option"
  ev_summary_content :: "string option"
  ev_tokens_removed :: "rat option"
  ev_role :: "string option"
  ev_name :: "string option"
  ev_allowed_tools :: "string list"
  ev_agent_name :: "string option"
  ev_agent_display_name :: "string option"
  ev_agent_description :: "string option"
  ev_tools :: "string list"
  ev_intent :: "string option"
  ev_turn_id :: "string option"
  ev_model :: "string option"
  ev_message :: "string option"
  ev_warning_type :: "string option"
  ev_new_model :: "string option"
  ev_previous_model :: "string option"
  ev_progress_message :: "string option"
  ev_partial_output :: "string option"
  ev_input_tokens :: "rat option"
  ev_output_tokens :: "rat option"
  ev_cache_read_tokens :: "rat option"
  ev_cache_write_tokens :: "rat option"
  ev_error_type :: "string option"
  ev_status_code :: "int option"

text \<open>Every field absent: what a test or a run starts from.\<close>

definition empty_data :: event_data where
  "empty_data = \<lparr>ev_request_id = None, ev_tool_call_id = None, ev_tool_name = None,
     ev_arguments = JNull, ev_permission_request = None, ev_question = None, ev_choices = [],
     ev_allow_freeform = None, ev_requested_schema = None, ev_delta_content = None,
     ev_content = None, ev_reasoning_text = None, ev_mcp_server_name = None,
     ev_mcp_tool_name = None, ev_success = None, ev_result = None, ev_tool_telemetry = [],
     ev_error = None, ev_summary_content = None, ev_tokens_removed = None, ev_role = None,
     ev_name = None, ev_allowed_tools = [], ev_agent_name = None, ev_agent_display_name = None,
     ev_agent_description = None, ev_tools = [], ev_intent = None, ev_turn_id = None,
     ev_model = None, ev_message = None, ev_warning_type = None, ev_new_model = None,
     ev_previous_model = None, ev_progress_message = None, ev_partial_output = None,
     ev_input_tokens = None, ev_output_tokens = None, ev_cache_read_tokens = None,
     ev_cache_write_tokens = None, ev_error_type = None, ev_status_code = None\<rparr>"

section \<open>Helpers\<close>

definition deref :: "string option \<Rightarrow> string" where
  "deref v = (case v of None \<Rightarrow> [] | Some s \<Rightarrow> s)"

definition boolPtr :: "bool option \<Rightarrow> bool option" where
  "boolPtr v = (case v of None \<Rightarrow> None | Some b \<Rightarrow> Some b)"

text \<open>\<open>enumString\<close>: the SDK's enumerations are string types.\<close>

definition enumString :: "string option \<Rightarrow> string" where
  "enumString v = (case v of None \<Rightarrow> [] | Some s \<Rightarrow> s)"

definition cloneMap :: "(string \<times> json) list \<Rightarrow> (string \<times> json) list option" where
  "cloneMap m = (if m = [] then None else Some m)"

fun firstNonEmpty :: "string list \<Rightarrow> string" where
  "firstNonEmpty [] = []"
| "firstNonEmpty (v # vs) = (if trim_space v \<noteq> [] then v else firstNonEmpty vs)"

definition resultContent :: "sdk_result option \<Rightarrow> string" where
  "resultContent r = (case r of None \<Rightarrow> [] | Some x \<Rightarrow> deref (sr_content x))"

definition resultDetailedContent :: "sdk_result option \<Rightarrow> string" where
  "resultDetailedContent r = (case r of None \<Rightarrow> [] | Some x \<Rightarrow> deref (sr_detailed_content x))"

definition errorUnionMessage :: "error_union option \<Rightarrow> string" where
  "errorUnionMessage v =
     (case v of None \<Rightarrow> []
      | Some u \<Rightarrow>
          (case eu_string u of
             Some s \<Rightarrow> s
           | None \<Rightarrow> (case eu_class_message u of Some m \<Rightarrow> m | None \<Rightarrow> [])))"

text \<open>
  \<open>math.Round\<close> rounds half away from zero; the conversion of a \<open>float64\<close> outside the range of
  \<open>int64\<close> gives the smallest \<open>int64\<close> (the behaviour of amd64, which the language leaves open).
\<close>

definition go_round :: "rat \<Rightarrow> int" where
  "go_round x = (if 0 \<le> x then \<lfloor>x + 1 / 2\<rfloor> else \<lceil>x - 1 / 2\<rceil>)"

definition int64FromFloat :: "rat option \<Rightarrow> 64 word" where
  "int64FromFloat v =
     (case v of None \<Rightarrow> 0
      | Some x \<Rightarrow>
          (if - (2 ^ 63) \<le> go_round x \<and> go_round x < 2 ^ 63 then word_of_int (go_round x)
           else word_of_int (- (2 ^ 63))))"

definition intFromInt64 :: "int option \<Rightarrow> int" where
  "intFromInt64 v = (case v of None \<Rightarrow> 0 | Some n \<Rightarrow> n)"

definition permissionSummary :: "sdk_permission_request option \<Rightarrow> permission_summary option" where
  "permissionSummary request =
     (case request of None \<Rightarrow> None
      | Some r \<Rightarrow> Some \<lparr>ps_kind = qp_kind r, ps_tool_name = deref (qp_tool_name r),
          ps_server_name = deref (qp_server_name r), ps_path = deref (qp_path r),
          ps_url = deref (qp_url r), ps_intention = deref (qp_intention r),
          ps_warning = deref (qp_warning r), ps_read_only = boolPtr (qp_read_only r),
          ps_commands = qp_commands r\<rparr>)"

definition schema_object :: "sdk_schema \<Rightarrow> json" where
  "schema_object s = JObj
     ([(''type'', JStr (sc_type s)),
       (''properties'', (case cloneMap (sc_properties s) of None \<Rightarrow> JNull | Some m \<Rightarrow> JObj m))]
      @ (if sc_required s \<noteq> [] then [(''required'', JArr (map JStr (sc_required s)))] else []))"

definition userInputSummary :: "event_data \<Rightarrow> user_input_summary option" where
  "userInputSummary d =
     (if ev_question d = None \<and> ev_choices d = [] \<and> ev_requested_schema d = None then None
      else Some \<lparr>us_question = deref (ev_question d), us_choices = ev_choices d,
        us_allow_freeform = boolPtr (ev_allow_freeform d),
        us_requested_schema = map_option schema_object (ev_requested_schema d)\<rparr>)"

definition statusCodeForErrorType :: "string \<Rightarrow> int" where
  "statusCodeForErrorType errorType =
     (let t = to_lower (trim_space errorType) in
      if t = ''authentication'' then 401
      else if t = ''authorization'' then 403
      else if t = ''rate_limit'' \<or> t = ''quota'' then 429
      else if t = ''query'' \<or> t = ''invalid_request'' then 400
      else 502)"

fun firstNonZeroStatus :: "int list \<Rightarrow> int" where
  "firstNonZeroStatus [] = 0"
| "firstNonZeroStatus (v # vs) = (if v > 0 then v else firstNonZeroStatus vs)"

definition runtimeErrorFromEvent :: "event_data \<Rightarrow> response_error" where
  "runtimeErrorFromEvent d =
     (let errorType = trim_space (deref (ev_error_type d));
          message = trim_space (deref (ev_message d));
          message' = (if message = [] then ''copilot session error'' else message)
      in \<lparr>re_type = errorType, re_message = message',
          re_status = firstNonZeroStatus
            [intFromInt64 (ev_status_code d), statusCodeForErrorType errorType]\<rparr>)"

definition wrapSessionLookupError :: "go_error option \<Rightarrow> go_error option" where
  "wrapSessionLookupError e =
     (case e of None \<Rightarrow> None
      | Some x \<Rightarrow>
          (if errors_is x ErrSessionNotFound then Some x
           else (let message = to_lower (err_text x) in
                 if str_contains message ''unknown session''
                   \<or> str_contains message ''session not found''
                   \<or> str_contains message ''session does not exist''
                 then Some (wrap_suffix (err ErrSessionNotFound) (err_text x))
                 else Some x)))"

section \<open>What the helpers guarantee\<close>

lemma runtime_error_status_positive: "re_status (runtimeErrorFromEvent d) > 0"
  by (simp add: runtimeErrorFromEvent_def Let_def statusCodeForErrorType_def)

lemma runtime_error_message_nonempty: "re_message (runtimeErrorFromEvent d) \<noteq> []"
  by (simp add: runtimeErrorFromEvent_def Let_def)

lemma firstNonEmpty_blank: "firstNonEmpty vs = [] \<or> \<not> blank (firstNonEmpty vs)"
  by (induction vs) auto

lemma go_round_int [simp]: "go_round (of_int n) = n"
proof (cases "0 \<le> n")
  case True
  have "\<lfloor>(of_int n :: rat) + 1 / 2\<rfloor> = n" by linarith
  then show ?thesis using True by (simp add: go_round_def)
next
  case False
  have "\<lceil>(of_int n :: rat) - 1 / 2\<rceil> = n" by linarith
  then show ?thesis using False by (simp add: go_round_def)
qed

lemma int64FromFloat_int:
  "- (2 ^ 63) \<le> n \<Longrightarrow> n < 2 ^ 63 \<Longrightarrow> int64FromFloat (Some (of_int n)) = word_of_int n"
  by (simp add: int64FromFloat_def)

end
