(* ===== verification/Interactive_Bridge.thy ===== *)
theory Interactive_Bridge
  imports Copilot_Events
begin

text \<open>
  The \<open>interactiveBridge\<close> of \<open>internal/runtime/copilot.go\<close>: it matches the requests for tools,
  user input and permissions that the runtime announces by events with the handlers that the
  runtime calls for them, and both with the answers of the HTTP client.

  The \<open>*pendingResolution\<close> objects live in a heap and are compared by address; the buffered
  channel of capacity one is an option, the value in its buffer.  Every operation under
  \<open>b.mu\<close> is one function.  A handler is a goroutine of the SDK: it polls for its pending
  request (\<open>poll_*\<close>), then blocks on the channel (\<open>receive\<close>), and turns what it got into its
  answer (\<open>*_result\<close>).
\<close>

section \<open>State\<close>

datatype resolution = Answered pending_response | Failed go_error

record pending_resolution =
  pd_request :: pending_request
  pd_chan :: "resolution option"

record bridge =
  br_heap :: "nat \<Rightarrow> pending_resolution"
  br_next :: nat
  br_pending :: "(string \<times> nat) list"
  br_tool_calls :: "(string \<times> string) list"
  br_permission_queue :: "string list"
  br_user_queue :: "string list"
  br_active_ctx :: "nat option"

definition empty_request :: pending_request where
  "empty_request = \<lparr>pr_id = [], pr_kind = PendingRequestTool, pr_call_id = [], pr_tool_name = [],
     pr_arguments = JNull, pr_permission = None, pr_user_input = None\<rparr>"

definition newInteractiveBridge :: bridge where
  "newInteractiveBridge = \<lparr>br_heap = (\<lambda>_. \<lparr>pd_request = empty_request, pd_chan = None\<rparr>),
     br_next = 0, br_pending = [], br_tool_calls = [], br_permission_queue = [],
     br_user_queue = [], br_active_ctx = None\<rparr>"

definition update_pending ::
    "nat \<Rightarrow> (pending_resolution \<Rightarrow> pending_resolution) \<Rightarrow> bridge \<Rightarrow> bridge" where
  "update_pending p f b = b\<lparr>br_heap := (br_heap b)(p := f (br_heap b p))\<rparr>"

text \<open>A new object with an empty channel, entered in \<open>pendingByRequest\<close>.\<close>

definition add_pending :: "pending_request \<Rightarrow> bridge \<Rightarrow> bridge" where
  "add_pending r b = b\<lparr>br_heap := (br_heap b)(br_next b := \<lparr>pd_request = r, pd_chan = None\<rparr>),
     br_next := Suc (br_next b), br_pending := put (pr_id r) (br_next b) (br_pending b)\<rparr>"

text \<open>The non-blocking send of a \<open>select\<close> with a \<open>default\<close>: is there room in the buffer?\<close>

definition try_send :: "nat \<Rightarrow> resolution \<Rightarrow> bridge \<Rightarrow> bool \<times> bridge" where
  "try_send p v b =
     (case pd_chan (br_heap b p) of
        None \<Rightarrow> (True, update_pending p (\<lambda>x. x\<lparr>pd_chan := Some v\<rparr>) b)
      | Some _ \<Rightarrow> (False, b))"

section \<open>Registering requests\<close>

definition hasOutstandingKindLocked :: "pending_kind \<Rightarrow> string \<Rightarrow> bridge \<Rightarrow> bool" where
  "hasOutstandingKindLocked kind excluded b \<longleftrightarrow>
     list_ex (\<lambda>(rid, p). rid \<noteq> excluded \<and> pr_kind (pd_request (br_heap b p)) = kind) (br_pending b)"

definition concurrent_user_input_error :: go_error where
  "concurrent_user_input_error = errors_new ''concurrent user input requests are not supported''"

definition concurrent_permission_error :: go_error where
  "concurrent_permission_error = errors_new ''concurrent permission requests are not supported''"

definition registerExternalToolRequest :: "event_data \<Rightarrow> bridge \<Rightarrow> bridge" where
  "registerExternalToolRequest d b =
     (let rid = deref (ev_request_id d); call = deref (ev_tool_call_id d) in
      if rid = [] then b
      else (let b1 = (case map_of (br_pending b) rid of
                        Some p \<Rightarrow> update_pending p (\<lambda>x. x\<lparr>pd_request := (pd_request x)
                            \<lparr>pr_call_id := call, pr_tool_name := deref (ev_tool_name d),
                             pr_arguments := ev_arguments d\<rparr>\<rparr>) b
                      | None \<Rightarrow> add_pending \<lparr>pr_id = rid, pr_kind = PendingRequestTool,
                            pr_call_id = call, pr_tool_name = deref (ev_tool_name d),
                            pr_arguments = ev_arguments d, pr_permission = None,
                            pr_user_input = None\<rparr> b)
            in if call \<noteq> [] then b1\<lparr>br_tool_calls := put call rid (br_tool_calls b1)\<rparr> else b1))"

definition registerUserInputRequest :: "event_data \<Rightarrow> bridge \<Rightarrow> bridge" where
  "registerUserInputRequest d b =
     (let rid = deref (ev_request_id d) in
      if rid = [] then b
      else (case map_of (br_pending b) rid of
              Some p \<Rightarrow> update_pending p (\<lambda>x. x\<lparr>pd_request := (pd_request x)
                  \<lparr>pr_user_input := userInputSummary d\<rparr>\<rparr>) b
            | None \<Rightarrow>
                (let b1 = add_pending \<lparr>pr_id = rid, pr_kind = PendingRequestUserInput,
                            pr_call_id = [], pr_tool_name = [], pr_arguments = JNull,
                            pr_permission = None, pr_user_input = userInputSummary d\<rparr> b;
                     b2 = b1\<lparr>br_user_queue := br_user_queue b1 @ [rid]\<rparr>
                 in if hasOutstandingKindLocked PendingRequestUserInput rid b2
                    then snd (try_send (br_next b) (Failed concurrent_user_input_error) b2)
                    else b2)))"

definition registerPermissionRequest :: "event_data \<Rightarrow> bridge \<Rightarrow> bridge" where
  "registerPermissionRequest d b =
     (let rid = deref (ev_request_id d); call = deref (ev_tool_call_id d) in
      if rid = [] then b
      else (case map_of (br_pending b) rid of
              Some p \<Rightarrow> update_pending p (\<lambda>x. x\<lparr>pd_request := (pd_request x)
                  \<lparr>pr_call_id := call, pr_permission := permissionSummary (ev_permission_request d)\<rparr>\<rparr>) b
            | None \<Rightarrow>
                (let b1 = add_pending \<lparr>pr_id = rid, pr_kind = PendingRequestPermission,
                            pr_call_id = call, pr_tool_name = [], pr_arguments = JNull,
                            pr_permission = permissionSummary (ev_permission_request d),
                            pr_user_input = None\<rparr> b;
                     b2 = b1\<lparr>br_permission_queue := br_permission_queue b1 @ [rid]\<rparr>
                 in if hasOutstandingKindLocked PendingRequestPermission rid b2
                    then snd (try_send (br_next b) (Failed concurrent_permission_error) b2)
                    else b2)))"

section \<open>Answers, completions and cancellation\<close>

text \<open>
  \<open>resolve\<close>: the look-up under the mutex, then the check of the kind and the send.  The kind of a
  pending request never changes.
\<close>

definition resolve_lookup :: "pending_response \<Rightarrow> bridge \<Rightarrow> go_error + nat" where
  "resolve_lookup rsp b =
     (let rid = trim_space (rsp_request_id rsp) in
      if rid = [] then Inl (err ErrPendingRequestNotFound)
      else (case map_of (br_pending b) rid of
              None \<Rightarrow> Inl (err ErrPendingRequestNotFound)
            | Some p \<Rightarrow>
                (let kind = pr_kind (pd_request (br_heap b p)) in
                 if kind \<noteq> rsp_kind rsp
                 then Inl (errors_new (''pending request '' @ rid @ '' expects kind ''
                             @ pending_kind_text kind))
                 else Inr p)))"

definition resolve_send :: "pending_response \<Rightarrow> nat \<Rightarrow> bridge \<Rightarrow> go_error option \<times> bridge" where
  "resolve_send rsp p b =
     (case try_send p (Answered rsp) b of
        (True, b1) \<Rightarrow> (None, b1)
      | (False, b1) \<Rightarrow> (Some (errors_new (''pending request '' @ trim_space (rsp_request_id rsp)
                                @ '' already resolved'')), b1))"

definition resolve :: "pending_response \<Rightarrow> bridge \<Rightarrow> go_error option \<times> bridge" where
  "resolve rsp b =
     (case resolve_lookup rsp b of
        Inl e \<Rightarrow> (Some e, b)
      | Inr p \<Rightarrow> resolve_send rsp p b)"

definition forgetRequest :: "string \<Rightarrow> bridge \<Rightarrow> bridge" where
  "forgetRequest requestID b =
     (let rid = trim_space requestID in
      if rid = [] then b
      else (case map_of (br_pending b) rid of
              None \<Rightarrow> b
            | Some p \<Rightarrow>
                (let r = pd_request (br_heap b p);
                     b1 = b\<lparr>br_pending := del rid (br_pending b)\<rparr>;
                     b2 = (if pr_call_id r \<noteq> []
                           then b1\<lparr>br_tool_calls := del (pr_call_id r) (br_tool_calls b1)\<rparr> else b1);
                     b3 = (if pr_kind r = PendingRequestUserInput
                           then b2\<lparr>br_user_queue := filter (\<lambda>q. q \<noteq> rid) (br_user_queue b2)\<rparr> else b2)
                 in if pr_kind r = PendingRequestPermission
                    then b3\<lparr>br_permission_queue := filter (\<lambda>q. q \<noteq> rid) (br_permission_queue b3)\<rparr>
                    else b3)))"

fun send_all :: "go_error \<Rightarrow> (string \<times> nat) list \<Rightarrow> bridge \<Rightarrow> bridge" where
  "send_all e [] b = b"
| "send_all e ((rid, p) # rest) b =
     (let b1 = snd (try_send p (Failed e) b)
      in send_all e rest (b1\<lparr>br_pending := del rid (br_pending b1)\<rparr>))"

definition cancelAll :: "go_error \<Rightarrow> bridge \<Rightarrow> bridge" where
  "cancelAll e b =
     (send_all e (br_pending b) b)\<lparr>br_tool_calls := [], br_permission_queue := [], br_user_queue := []\<rparr>"

section \<open>Handlers\<close>

text \<open>
  One pass of the polling loops: the request found; a queued request that is no longer pending
  (\<open>continue\<close>); or nothing, and the goroutine sleeps.  The loops give up when the context is
  done or five seconds have passed.
\<close>

datatype poll = PollFound nat | PollRetry | PollEmpty

definition poll_tool :: "string \<Rightarrow> bridge \<Rightarrow> poll \<times> bridge" where
  "poll_tool call b =
     (let rid = (case map_of (br_tool_calls b) call of None \<Rightarrow> [] | Some x \<Rightarrow> x) in
      case map_of (br_pending b) rid of None \<Rightarrow> (PollEmpty, b) | Some p \<Rightarrow> (PollFound p, b))"

definition poll_user_input :: "bridge \<Rightarrow> poll \<times> bridge" where
  "poll_user_input b =
     (case br_user_queue b of
        [] \<Rightarrow> (PollEmpty, b)
      | rid # rest \<Rightarrow>
          ((case map_of (br_pending b) rid of Some p \<Rightarrow> PollFound p | None \<Rightarrow> PollRetry),
           b\<lparr>br_user_queue := rest\<rparr>))"

definition poll_permission :: "bridge \<Rightarrow> poll \<times> bridge" where
  "poll_permission b =
     (case br_permission_queue b of
        [] \<Rightarrow> (PollEmpty, b)
      | rid # rest \<Rightarrow>
          ((case map_of (br_pending b) rid of Some p \<Rightarrow> PollFound p | None \<Rightarrow> PollRetry),
           b\<lparr>br_permission_queue := rest\<rparr>))"

text \<open>The receive \<open><-pending.responseCh\<close>: \<open>None\<close> is a goroutine that stays blocked.\<close>

definition receive :: "nat \<Rightarrow> bridge \<Rightarrow> (resolution \<times> bridge) option" where
  "receive p b =
     (case pd_chan (br_heap b p) of
        None \<Rightarrow> None
      | Some v \<Rightarrow> Some (v, update_pending p (\<lambda>x. x\<lparr>pd_chan := None\<rparr>) b))"

text \<open>What \<open>handlePermission\<close>, \<open>handleUserInput\<close> and \<open>awaitToolResult\<close> answer the SDK.\<close>

definition permission_result :: "resolution \<Rightarrow> go_error + string \<times> json list" where
  "permission_result v =
     (case v of
        Failed e \<Rightarrow> Inl e
      | Answered r \<Rightarrow>
          (case rsp_permission r of
             None \<Rightarrow> Inl (errors_new ''permission continuation missing response'')
           | Some p \<Rightarrow> Inr (pm_result_kind p, pm_rules p)))"

definition user_input_result :: "resolution \<Rightarrow> go_error + string \<times> bool" where
  "user_input_result v =
     (case v of
        Failed e \<Rightarrow> Inl e
      | Answered r \<Rightarrow>
          (case rsp_user_input r of
             None \<Rightarrow> Inl (errors_new ''user input continuation missing response'')
           | Some u \<Rightarrow> Inr (ui_answer u, ui_was_freeform u)))"

definition await_tool_result :: "resolution \<Rightarrow> go_error + tool_result" where
  "await_tool_result v =
     (case v of
        Failed e \<Rightarrow> Inl e
      | Answered r \<Rightarrow>
          (if rsp_tool_error r \<noteq> [] then Inl (errors_new (rsp_tool_error r))
           else (case rsp_tool_result r of
                   None \<Rightarrow> Inl (errors_new ''tool continuation missing result'')
                 | Some t \<Rightarrow>
                     Inr (t\<lparr>tr_telemetry := (case tr_telemetry t of
                            None \<Rightarrow> None | Some m \<Rightarrow> cloneMap m)\<rparr>))))"

definition setActiveContext :: "nat \<Rightarrow> bridge \<Rightarrow> bridge" where
  "setActiveContext c b = b\<lparr>br_active_ctx := Some c\<rparr>"

definition clearActiveContext :: "bridge \<Rightarrow> bridge" where
  "clearActiveContext b = b\<lparr>br_active_ctx := None\<rparr>"

section \<open>Operations and histories\<close>

text \<open>
  One operation of any goroutine on the bridge.  \<open>OpResolve\<close> is the whole of \<open>resolve\<close>, taken as
  one step; \<open>OpContext\<close> sets or clears the context of the running \<open>Send\<close>.
\<close>

datatype bridge_op =
    OpTool event_data | OpUserInput event_data | OpPermission event_data
  | OpResolve pending_response | OpForget string | OpCancel go_error
  | OpPollTool string | OpPollUserInput | OpPollPermission | OpReceive nat
  | OpContext "nat option"

fun bridge_step :: "bridge_op \<Rightarrow> bridge \<Rightarrow> bridge" where
  "bridge_step (OpTool d) b = registerExternalToolRequest d b"
| "bridge_step (OpUserInput d) b = registerUserInputRequest d b"
| "bridge_step (OpPermission d) b = registerPermissionRequest d b"
| "bridge_step (OpResolve r) b = snd (resolve r b)"
| "bridge_step (OpForget i) b = forgetRequest i b"
| "bridge_step (OpCancel e) b = cancelAll e b"
| "bridge_step (OpPollTool c) b = snd (poll_tool c b)"
| "bridge_step OpPollUserInput b = snd (poll_user_input b)"
| "bridge_step OpPollPermission b = snd (poll_permission b)"
| "bridge_step (OpReceive p) b = (case receive p b of None \<Rightarrow> b | Some (_, b1) \<Rightarrow> b1)"
| "bridge_step (OpContext None) b = clearActiveContext b"
| "bridge_step (OpContext (Some c)) b = setActiveContext c b"

definition bridge_run :: "bridge_op list \<Rightarrow> bridge \<Rightarrow> bridge" where
  "bridge_run ops b = fold bridge_step ops b"

section \<open>The invariant\<close>

text \<open>
  Every pending request is an allocated object registered under its own, non-empty identifier;
  each queue lists, without repetition, pending requests of its kind; and what a channel holds
  answers the kind of its request.
\<close>

definition queue_ok :: "pending_kind \<Rightarrow> string list \<Rightarrow> bridge \<Rightarrow> bool" where
  "queue_ok kind q b \<longleftrightarrow> distinct q \<and>
     (\<forall>i \<in> set q. \<exists>p. map_of (br_pending b) i = Some p \<and> pr_kind (pd_request (br_heap b p)) = kind)"

definition chan_ok :: "pending_resolution \<Rightarrow> bool" where
  "chan_ok x \<longleftrightarrow> (\<forall>r. pd_chan x = Some (Answered r) \<longrightarrow> rsp_kind r = pr_kind (pd_request x) \<and>
      trim_space (rsp_request_id r) = pr_id (pd_request x))"

definition bridge_inv :: "bridge \<Rightarrow> bool" where
  "bridge_inv b \<longleftrightarrow> distinct (map fst (br_pending b)) \<and>
     (\<forall>(i, p) \<in> set (br_pending b). p < br_next b \<and> pr_id (pd_request (br_heap b p)) = i \<and> i \<noteq> []) \<and>
     queue_ok PendingRequestUserInput (br_user_queue b) b \<and>
     queue_ok PendingRequestPermission (br_permission_queue b) b \<and>
     (\<forall>p. chan_ok (br_heap b p))"

end
