(* ===== verification/Bridge_Facts.thy ===== *)
theory Bridge_Facts
  imports Interactive_Bridge
begin

text \<open>
  The invariant of the interactive bridge and its preservation by every operation, and what the
  operations guarantee to the handlers and to the HTTP client: answers of the right kind, one
  request of a kind at a time, no blocked handler after a cancellation; and two ways in which
  \<open>forgetRequest\<close> breaks a handler.
\<close>

section \<open>Frames\<close>

lemma update_pending_simps [simp]:
  "br_next (update_pending p f b) = br_next b"
  "br_pending (update_pending p f b) = br_pending b"
  "br_tool_calls (update_pending p f b) = br_tool_calls b"
  "br_permission_queue (update_pending p f b) = br_permission_queue b"
  "br_user_queue (update_pending p f b) = br_user_queue b"
  "br_active_ctx (update_pending p f b) = br_active_ctx b"
  "br_heap (update_pending p f b) q = (if q = p then f (br_heap b p) else br_heap b q)"
  by (simp_all add: update_pending_def)

lemma try_send_effect:
  assumes "try_send p v b = (sent, b')"
  shows "sent \<longleftrightarrow> pd_chan (br_heap b p) = None"
    and "b' = (if sent then update_pending p (\<lambda>x. x\<lparr>pd_chan := Some v\<rparr>) b else b)"
  using assms by (auto simp: try_send_def split: option.splits)

text \<open>An object keeps its identifier and its kind, and the queues and maps are left alone.\<close>

definition same_shape :: "bridge \<Rightarrow> bridge \<Rightarrow> bool" where
  "same_shape b b' \<longleftrightarrow> br_next b' = br_next b \<and> br_pending b' = br_pending b \<and>
     br_user_queue b' = br_user_queue b \<and> br_permission_queue b' = br_permission_queue b \<and>
     (\<forall>p. pr_id (pd_request (br_heap b' p)) = pr_id (pd_request (br_heap b p)) \<and>
          pr_kind (pd_request (br_heap b' p)) = pr_kind (pd_request (br_heap b p)))"

lemma inv_same_shape:
  assumes "bridge_inv b" and "same_shape b b'" and "\<And>p. chan_ok (br_heap b' p)"
  shows "bridge_inv b'"
  using assms by (auto simp: bridge_inv_def same_shape_def queue_ok_def)

lemma inv_update_pending:
  assumes "bridge_inv b" and "pr_id (pd_request (f (br_heap b p))) = pr_id (pd_request (br_heap b p))"
    and "pr_kind (pd_request (f (br_heap b p))) = pr_kind (pd_request (br_heap b p))"
    and "chan_ok (f (br_heap b p))"
  shows "bridge_inv (update_pending p f b)"
  by (rule inv_same_shape [OF assms(1)])
    (use assms in \<open>auto simp: same_shape_def bridge_inv_def\<close>)

lemma inv_pending:
  assumes "bridge_inv b" and "map_of (br_pending b) i = Some p"
  shows "p < br_next b \<and> pr_id (pd_request (br_heap b p)) = i \<and> i \<noteq> []"
  using assms map_of_SomeD [OF assms(2)] by (auto simp: bridge_inv_def)

text \<open>Every operation but \<open>cancelAll\<close> and \<open>forgetRequest\<close> leaves the pending requests where they are.\<close>

lemma inv_try_send:
  assumes "bridge_inv b" and "chan_ok ((br_heap b p)\<lparr>pd_chan := Some v\<rparr>)"
  shows "bridge_inv (snd (try_send p v b))"
  using assms
  by (auto simp: try_send_def split: option.splits intro!: inv_update_pending)

lemma queue_ok_add:
  assumes "queue_ok kind q b" and "bridge_inv b" and "map_of (br_pending b) (pr_id r) = None"
  shows "queue_ok kind q (add_pending r b)"
  unfolding queue_ok_def
proof (intro conjI ballI)
  show "distinct q" using assms(1) by (simp add: queue_ok_def)
  fix i
  assume "i \<in> set q"
  then obtain p where p: "map_of (br_pending b) i = Some p" "pr_kind (pd_request (br_heap b p)) = kind"
    using assms(1) by (auto simp: queue_ok_def)
  moreover have "p < br_next b" using inv_pending [OF assms(2) p(1)] by simp
  moreover have "i \<noteq> pr_id r" using assms(3) p(1) by auto
  ultimately show "\<exists>p. map_of (br_pending (add_pending r b)) i = Some p \<and>
      pr_kind (pd_request (br_heap (add_pending r b) p)) = kind"
    by (simp add: add_pending_def)
qed

lemma inv_add_pending:
  assumes "bridge_inv b" and "pr_id r \<noteq> []" and "map_of (br_pending b) (pr_id r) = None"
  shows "bridge_inv (add_pending r b)"
proof -
  have "queue_ok PendingRequestUserInput (br_user_queue b) (add_pending r b)"
    "queue_ok PendingRequestPermission (br_permission_queue b) (add_pending r b)"
    using queue_ok_add [OF _ assms(1,3)] assms(1) by (simp_all add: bridge_inv_def)
  then show ?thesis
    using assms by (auto simp: bridge_inv_def add_pending_def chan_ok_def)
qed

text \<open>Appending the new request to the queue of its kind.\<close>

lemma queue_ok_append:
  assumes "queue_ok kind q b" and "map_of (br_pending b) i = Some p"
    and "pr_kind (pd_request (br_heap b p)) = kind" and "i \<notin> set q"
  shows "queue_ok kind (q @ [i]) b"
  using assms by (auto simp: queue_ok_def)

lemma queue_ok_cong:
  "br_pending b' = br_pending b \<Longrightarrow> br_heap b' = br_heap b \<Longrightarrow> queue_ok k q b' = queue_ok k q b"
  by (simp add: queue_ok_def)

lemma queue_pending: "queue_ok k q b \<Longrightarrow> map_of (br_pending b) i = None \<Longrightarrow> i \<notin> set q"
  by (auto simp: queue_ok_def)

section \<open>Registering\<close>

lemma inv_register_tool:
  assumes "bridge_inv b"
  shows "bridge_inv (registerExternalToolRequest d b)"
proof -
  have c: "bridge_inv (x\<lparr>br_tool_calls := y\<rparr>)" if "bridge_inv x" for x y
    using that by (auto simp: bridge_inv_def queue_ok_def)
  show ?thesis
    using assms
    by (auto simp: registerExternalToolRequest_def Let_def chan_ok_def bridge_inv_def [of b]
        split: option.splits intro!: c inv_update_pending inv_add_pending)
qed

text \<open>A state with the new request appended to one queue.\<close>

lemma inv_enqueue:
  assumes "bridge_inv b" and "map_of (br_pending b) i = Some p"
  shows "pr_kind (pd_request (br_heap b p)) = PendingRequestUserInput \<Longrightarrow> i \<notin> set (br_user_queue b) \<Longrightarrow>
      bridge_inv (b\<lparr>br_user_queue := br_user_queue b @ [i]\<rparr>)"
    and "pr_kind (pd_request (br_heap b p)) = PendingRequestPermission \<Longrightarrow>
      i \<notin> set (br_permission_queue b) \<Longrightarrow>
      bridge_inv (b\<lparr>br_permission_queue := br_permission_queue b @ [i]\<rparr>)"
  using assms by (auto simp: bridge_inv_def queue_ok_def)

lemma add_pending_simps [simp]:
  "map_of (br_pending (add_pending r b)) (pr_id r) = Some (br_next b)"
  "br_heap (add_pending r b) (br_next b) = \<lparr>pd_request = r, pd_chan = None\<rparr>"
  "br_user_queue (add_pending r b) = br_user_queue b"
  "br_permission_queue (add_pending r b) = br_permission_queue b"
  "br_tool_calls (add_pending r b) = br_tool_calls b"
  "br_next (add_pending r b) = Suc (br_next b)"
  by (simp_all add: add_pending_def)

lemma inv_register_user_input:
  assumes "bridge_inv b"
  shows "bridge_inv (registerUserInputRequest d b)"
proof (cases "deref (ev_request_id d) = []")
  case True
  then show ?thesis using assms by (simp add: registerUserInputRequest_def)
next
  case False
  show ?thesis
  proof (cases "map_of (br_pending b) (deref (ev_request_id d))")
    case (Some p)
    then show ?thesis
      using False assms
      by (auto simp: registerUserInputRequest_def Let_def chan_ok_def bridge_inv_def [of b]
          intro!: inv_update_pending)
  next
    case None
    let ?r = "\<lparr>pr_id = deref (ev_request_id d), pr_kind = PendingRequestUserInput, pr_call_id = [],
        pr_tool_name = [], pr_arguments = JNull, pr_permission = None,
        pr_user_input = userInputSummary d\<rparr>"
    have a: "bridge_inv (add_pending ?r b)" using inv_add_pending [OF assms] None False by simp
    have q: "deref (ev_request_id d) \<notin> set (br_user_queue b)"
      using queue_pending None assms by (auto simp: bridge_inv_def)
    have "bridge_inv ((add_pending ?r b)\<lparr>br_user_queue := br_user_queue (add_pending ?r b) @ [deref (ev_request_id d)]\<rparr>)"
      using inv_enqueue(1) [OF a, of "deref (ev_request_id d)" "br_next b"] q
        add_pending_simps(1) [of ?r b] by simp
    then show ?thesis
      using False None
      by (auto simp: registerUserInputRequest_def Let_def chan_ok_def intro!: inv_try_send)
  qed
qed

lemma inv_register_permission:
  assumes "bridge_inv b"
  shows "bridge_inv (registerPermissionRequest d b)"
proof (cases "deref (ev_request_id d) = []")
  case True
  then show ?thesis using assms by (simp add: registerPermissionRequest_def)
next
  case False
  show ?thesis
  proof (cases "map_of (br_pending b) (deref (ev_request_id d))")
    case (Some p)
    then show ?thesis
      using False assms
      by (auto simp: registerPermissionRequest_def Let_def chan_ok_def bridge_inv_def [of b]
          intro!: inv_update_pending)
  next
    case None
    let ?r = "\<lparr>pr_id = deref (ev_request_id d), pr_kind = PendingRequestPermission,
        pr_call_id = deref (ev_tool_call_id d), pr_tool_name = [], pr_arguments = JNull,
        pr_permission = permissionSummary (ev_permission_request d), pr_user_input = None\<rparr>"
    have a: "bridge_inv (add_pending ?r b)" using inv_add_pending [OF assms] None False by simp
    have q: "deref (ev_request_id d) \<notin> set (br_permission_queue b)"
      using queue_pending None assms by (auto simp: bridge_inv_def)
    have "bridge_inv ((add_pending ?r b)\<lparr>br_permission_queue := br_permission_queue (add_pending ?r b) @ [deref (ev_request_id d)]\<rparr>)"
      using inv_enqueue(2) [OF a, of "deref (ev_request_id d)" "br_next b"] q
        add_pending_simps(1) [of ?r b] by simp
    then show ?thesis
      using False None
      by (auto simp: registerPermissionRequest_def Let_def chan_ok_def intro!: inv_try_send)
  qed
qed

section \<open>Answers, completions and cancellation\<close>

lemma resolve_lookup_ok:
  assumes "resolve_lookup r b = Inr p"
  shows "map_of (br_pending b) (trim_space (rsp_request_id r)) = Some p \<and>
    pr_kind (pd_request (br_heap b p)) = rsp_kind r"
  using assms by (auto simp: resolve_lookup_def Let_def split: if_splits option.splits)

lemma resolve_effect:
  assumes "resolve r b = (e, b')"
  shows "(\<exists>x. e = Some x \<and> b' = b) \<or>
    (\<exists>p. e = None \<and> resolve_lookup r b = Inr p \<and> pd_chan (br_heap b p) = None \<and>
       b' = update_pending p (\<lambda>x. x\<lparr>pd_chan := Some (Answered r)\<rparr>) b)"
  using assms
  by (auto simp: resolve_def resolve_send_def try_send_def split: sum.splits option.splits)

lemma inv_resolve:
  assumes "bridge_inv b"
  shows "bridge_inv (snd (resolve r b))"
proof -
  obtain e b' where x: "resolve r b = (e, b')" by fastforce
  from resolve_effect [OF this] show ?thesis
  proof
    assume "\<exists>p. e = None \<and> resolve_lookup r b = Inr p \<and> pd_chan (br_heap b p) = None \<and>
       b' = update_pending p (\<lambda>x. x\<lparr>pd_chan := Some (Answered r)\<rparr>) b"
    then obtain p where p: "resolve_lookup r b = Inr p"
      "b' = update_pending p (\<lambda>x. x\<lparr>pd_chan := Some (Answered r)\<rparr>) b"
      by blast
    note l = resolve_lookup_ok [OF p(1)]
    then show ?thesis
      using p(2) x inv_pending [OF assms, of _ p] assms
      by (auto simp: chan_ok_def intro!: inv_update_pending)
  qed (use x assms in auto)
qed

lemma queue_ok_forget:
  assumes "queue_ok kind q b" and "i \<notin> set q"
  shows "queue_ok kind q (b\<lparr>br_pending := del i (br_pending b)\<rparr>)"
  using assms by (auto simp: queue_ok_def)

text \<open>What \<open>forgetRequest\<close> does to a registered request.\<close>

lemma forget_effect:
  assumes "map_of (br_pending b) i = Some p" and "i \<noteq> []" and "trim_space i = i"
  shows "br_heap (forgetRequest i b) = br_heap b" "br_next (forgetRequest i b) = br_next b"
    "br_pending (forgetRequest i b) = del i (br_pending b)"
    "br_tool_calls (forgetRequest i b) =
       (if pr_call_id (pd_request (br_heap b p)) \<noteq> []
        then del (pr_call_id (pd_request (br_heap b p))) (br_tool_calls b) else br_tool_calls b)"
    "br_user_queue (forgetRequest i b) =
       (if pr_kind (pd_request (br_heap b p)) = PendingRequestUserInput
        then filter (\<lambda>q. q \<noteq> i) (br_user_queue b) else br_user_queue b)"
    "br_permission_queue (forgetRequest i b) =
       (if pr_kind (pd_request (br_heap b p)) = PendingRequestPermission
        then filter (\<lambda>q. q \<noteq> i) (br_permission_queue b) else br_permission_queue b)"
  using assms by (auto simp: forgetRequest_def Let_def)

lemma queue_kind:
  assumes "queue_ok kind q b" and "i \<in> set q" and "map_of (br_pending b) i = Some p"
  shows "pr_kind (pd_request (br_heap b p)) = kind"
  using assms by (force simp: queue_ok_def)

lemma inv_forget:
  assumes "bridge_inv b"
  shows "bridge_inv (forgetRequest i b)"
proof -
  let ?i = "trim_space i"
  have same: "forgetRequest i b = forgetRequest ?i b" by (simp add: forgetRequest_def)
  show ?thesis
  proof (cases "?i = [] \<or> map_of (br_pending b) ?i = None")
    case True
    then show ?thesis using assms by (auto simp: forgetRequest_def Let_def)
  next
    case False
    then obtain p where p: "map_of (br_pending b) ?i = Some p" "?i \<noteq> []" by blast
    note f = forget_effect [OF p trim_space_idem]
    let ?b = "forgetRequest ?i b"
    have q: "queue_ok kind (if pr_kind (pd_request (br_heap b p)) = kind
        then filter (\<lambda>q. q \<noteq> ?i) xs else xs) ?b" if "queue_ok kind xs b" for kind xs
    proof -
      have "?i \<notin> set xs" if "pr_kind (pd_request (br_heap b p)) \<noteq> kind"
        using queue_kind [OF \<open>queue_ok kind xs b\<close> _ p(1)] that by blast
      moreover have "queue_ok kind (filter (\<lambda>q. q \<noteq> ?i) xs) b" using that by (auto simp: queue_ok_def)
      ultimately have "queue_ok kind (if pr_kind (pd_request (br_heap b p)) = kind
        then filter (\<lambda>q. q \<noteq> ?i) xs else xs) (b\<lparr>br_pending := del ?i (br_pending b)\<rparr>)"
        using that by (auto intro!: queue_ok_forget)
      then show ?thesis using f(1,3) by (simp add: queue_ok_def)
    qed
    show ?thesis
      unfolding same bridge_inv_def
      using assms f q [of PendingRequestUserInput "br_user_queue b"]
        q [of PendingRequestPermission "br_permission_queue b"]
      by (auto simp: bridge_inv_def)
  qed
qed

lemma send_all_effect:
  "br_next (send_all e ps b) = br_next b \<and>
   (\<forall>p. pd_request (br_heap (send_all e ps b) p) = pd_request (br_heap b p) \<and>
      pd_chan (br_heap (send_all e ps b) p) =
        (if p \<in> snd ` set ps \<and> pd_chan (br_heap b p) = None then Some (Failed e)
         else pd_chan (br_heap b p))) \<and>
   set (br_pending (send_all e ps b)) = {q \<in> set (br_pending b). fst q \<notin> fst ` set ps}"
proof (induction e ps b rule: send_all.induct)
  case (2 e rid p rest b)
  let ?b1 = "snd (try_send p (Failed e) b)"
  have t: "?b1 = (if pd_chan (br_heap b p) = None
      then update_pending p (\<lambda>x. x\<lparr>pd_chan := Some (Failed e)\<rparr>) b else b)"
    by (auto simp: try_send_def split: option.splits)
  show ?case using 2 [OF refl] t by (auto simp: Let_def)
qed simp

lemma cancel_effect:
  shows "br_pending (cancelAll e b) = []"
    and "br_tool_calls (cancelAll e b) = []" and "br_user_queue (cancelAll e b) = []"
    and "br_permission_queue (cancelAll e b) = []"
    and "pd_request (br_heap (cancelAll e b) p) = pd_request (br_heap b p)"
    and "pd_chan (br_heap (cancelAll e b) p) =
      (if p \<in> snd ` set (br_pending b) \<and> pd_chan (br_heap b p) = None then Some (Failed e)
       else pd_chan (br_heap b p))"
proof -
  note s = send_all_effect [of e "br_pending b" b]
  then have "set (br_pending (send_all e (br_pending b) b)) =
      {q \<in> set (br_pending b). fst q \<notin> fst ` set (br_pending b)}"
    by (elim conjE)
  also have "\<dots> = {}" by auto
  finally have "set (br_pending (send_all e (br_pending b) b)) = {}" .
  then show "br_pending (cancelAll e b) = []" by (simp add: cancelAll_def)
qed (use send_all_effect [of e "br_pending b" b] in \<open>auto simp: cancelAll_def\<close>)

lemma inv_cancel:
  assumes "bridge_inv b"
  shows "bridge_inv (cancelAll e b)"
  using assms cancel_effect [of e b]
  by (auto simp: bridge_inv_def queue_ok_def chan_ok_def)

lemma inv_polls:
  assumes "bridge_inv b"
  shows "bridge_inv (snd (poll_tool c b))" "bridge_inv (snd (poll_user_input b))"
    "bridge_inv (snd (poll_permission b))"
  using assms
  by (auto simp: poll_tool_def poll_user_input_def poll_permission_def bridge_inv_def queue_ok_def
      Let_def split: option.splits list.splits)

lemma inv_receive:
  assumes "bridge_inv b" and "receive p b = Some (v, b')"
  shows "bridge_inv b'"
  using assms by (auto simp: receive_def chan_ok_def split: option.splits intro!: inv_update_pending)

lemma bridge_step_inv:
  assumes "bridge_inv b"
  shows "bridge_inv (bridge_step p b)"
proof (cases p)
  case (OpContext c)
  then show ?thesis
    using assms
    by (cases c) (auto simp: clearActiveContext_def setActiveContext_def bridge_inv_def queue_ok_def)
qed (use assms inv_receive [OF assms] in \<open>auto simp: inv_register_tool inv_register_user_input
      inv_register_permission inv_resolve inv_forget inv_cancel inv_polls split: option.splits\<close>)

lemma bridge_run_inv: "bridge_inv b \<Longrightarrow> bridge_inv (bridge_run ops b)"
  unfolding bridge_run_def by (induction ops arbitrary: b) (simp_all add: bridge_step_inv)

lemma bridge_inv_init: "bridge_inv newInteractiveBridge"
  by (simp add: bridge_inv_def newInteractiveBridge_def queue_ok_def chan_ok_def)

section \<open>Objects that are no longer registered\<close>

definition orphan :: "nat \<Rightarrow> bridge \<Rightarrow> bool" where
  "orphan p b \<longleftrightarrow> p < br_next b \<and> p \<notin> snd ` set (br_pending b) \<and> pd_chan (br_heap b p) = None"

lemma orphan_update: "orphan p b \<Longrightarrow> q \<noteq> p \<Longrightarrow> orphan p (update_pending q f b)"
  by (simp add: orphan_def)

lemma orphan_try_send: "orphan p b \<Longrightarrow> q \<noteq> p \<Longrightarrow> orphan p (snd (try_send q v b))"
  by (auto simp: try_send_def orphan_update split: option.splits)

lemma orphan_add: "orphan p b \<Longrightarrow> orphan p (add_pending r b)"
  by (auto simp: orphan_def add_pending_def)

lemma orphan_mapped: "orphan p b \<Longrightarrow> map_of (br_pending b) i = Some q \<Longrightarrow> q \<noteq> p"
  by (force simp: orphan_def dest: map_of_SomeD)

lemma orphan_frame:
  "orphan p b \<Longrightarrow> orphan p (b\<lparr>br_tool_calls := x\<rparr>)"
  "orphan p b \<Longrightarrow> orphan p (b\<lparr>br_user_queue := y\<rparr>)"
  "orphan p b \<Longrightarrow> orphan p (b\<lparr>br_permission_queue := y\<rparr>)"
  "orphan p b \<Longrightarrow> orphan p (b\<lparr>br_active_ctx := z\<rparr>)"
  "orphan p b \<Longrightarrow> orphan p (b\<lparr>br_pending := del i (br_pending b)\<rparr>)"
  by (auto simp: orphan_def)

lemmas orphan_intros = orphan_update orphan_try_send orphan_add orphan_frame

lemma orphan_step:
  assumes "orphan p b"
  shows "orphan p (bridge_step op b)"
proof (cases op)
  case (OpTool d)
  then show ?thesis
    using assms orphan_mapped [OF assms]
    by (auto simp: registerExternalToolRequest_def Let_def split: option.splits
        intro!: orphan_intros)
next
  case (OpUserInput d)
  have "br_next b \<noteq> p" using assms by (simp add: orphan_def)
  then show ?thesis
    using OpUserInput assms orphan_mapped [OF assms]
    by (auto simp: registerUserInputRequest_def Let_def split: option.splits
        intro!: orphan_intros)
next
  case (OpPermission d)
  have "br_next b \<noteq> p" using assms by (simp add: orphan_def)
  then show ?thesis
    using OpPermission assms orphan_mapped [OF assms]
    by (auto simp: registerPermissionRequest_def Let_def split: option.splits
        intro!: orphan_intros)
next
  case (OpResolve r)
  obtain e b' where x: "resolve r b = (e, b')" by fastforce
  have "q \<noteq> p" if "resolve_lookup r b = Inr q" for q
    using resolve_lookup_ok [OF that] orphan_mapped [OF assms] by blast
  then show ?thesis
    using OpResolve assms resolve_effect [OF x] x by (auto intro!: orphan_intros)
next
  case (OpForget i)
  then show ?thesis
    using assms
    by (auto simp: forgetRequest_def Let_def orphan_def split: option.splits)
next
  case (OpCancel e)
  then show ?thesis
    using assms cancel_effect [of e b] send_all_effect [of e "br_pending b" b]
    by (auto simp: orphan_def cancelAll_def)
next
  case (OpReceive q)
  have "q = p \<Longrightarrow> receive q b = None" using assms by (simp add: orphan_def receive_def)
  then show ?thesis
    using OpReceive assms
    by (cases "q = p") (auto simp: receive_def split: option.splits intro!: orphan_intros)
next
  case (OpContext c)
  then show ?thesis using assms
    by (cases c) (simp_all add: clearActiveContext_def setActiveContext_def orphan_def)
qed (use assms in \<open>auto simp: poll_tool_def poll_user_input_def poll_permission_def orphan_def
      Let_def split: option.splits list.splits\<close>)

lemma orphan_run: "orphan p b \<Longrightarrow> orphan p (bridge_run ops b)"
  unfolding bridge_run_def by (induction ops arbitrary: b) (simp_all add: orphan_step)

lemma forget_orphan:
  assumes "bridge_inv b" and "map_of (br_pending b) i = Some p" and "trim_space i = i"
    and "pd_chan (br_heap b p) = None"
  shows "orphan p (forgetRequest i b)"
proof -
  have i: "p < br_next b" "i \<noteq> []" "pr_id (pd_request (br_heap b p)) = i"
    using inv_pending [OF assms(1,2)] by auto
  note f = forget_effect [OF assms(2) i(2) assms(3)]
  have "p \<notin> snd ` set (del i (br_pending b))"
    using assms(1) i(3) by (auto simp: bridge_inv_def)
  then show ?thesis using f i assms(4) by (simp add: orphan_def)
qed

section \<open>Properties\<close>

text \<open>C11: In every history of the bridge, a handler that finds a queued request finds a pending one of its
  own kind (the branch that skips a queued request is never taken), and whatever the handler then
  receives on its channel is an error or an answer given for that kind and that request.\<close>

theorem handler_gets_own_kind:
  assumes "b = bridge_run ops newInteractiveBridge"
  shows "fst (poll_permission b) \<noteq> PollRetry \<and> fst (poll_user_input b) \<noteq> PollRetry \<and>
    (\<forall>p. fst (poll_permission b) = PollFound p \<longrightarrow>
        pr_kind (pd_request (br_heap b p)) = PendingRequestPermission) \<and>
    (\<forall>p. fst (poll_user_input b) = PollFound p \<longrightarrow>
        pr_kind (pd_request (br_heap b p)) = PendingRequestUserInput) \<and>
    (\<forall>p r b'. receive p b = Some (Answered r, b') \<longrightarrow>
        rsp_kind r = pr_kind (pd_request (br_heap b p)) \<and>
        trim_space (rsp_request_id r) = pr_id (pd_request (br_heap b p)))"
proof -
  have i: "bridge_inv b" unfolding assms by (rule bridge_run_inv [OF bridge_inv_init])
  then have "queue_ok PendingRequestUserInput (br_user_queue b) b"
    "queue_ok PendingRequestPermission (br_permission_queue b) b" "\<forall>p. chan_ok (br_heap b p)"
    by (auto simp: bridge_inv_def)
  then show ?thesis
    by (auto simp: poll_permission_def poll_user_input_def receive_def chan_ok_def queue_ok_def
        split: list.splits option.splits)
qed

text \<open>Events for request \<open>i\<close>, about tool call \<open>c\<close>; and an answer to a permission request.\<close>

definition demo_event :: "string \<Rightarrow> string \<Rightarrow> event_data" where
  "demo_event i c = empty_data\<lparr>ev_request_id := Some i, ev_tool_call_id := Some c\<rparr>"

definition demo_grant :: "string \<Rightarrow> pending_response" where
  "demo_grant i = \<lparr>rsp_request_id = i, rsp_kind = PendingRequestPermission, rsp_tool_result = None,
     rsp_tool_error = [], rsp_user_input = None,
     rsp_permission = Some \<lparr>pm_result_kind = ''approved'', pm_rules = []\<rparr>\<rparr>"

lemma handler_gets_own_kind_witness:
  "fst (poll_permission (bridge_run [OpPermission (demo_event ''p1'' ''c1'')] newInteractiveBridge))
     = PollFound 0 \<and>
   pr_kind (pd_request (br_heap (bridge_run [OpPermission (demo_event ''p1'' ''c1'')]
     newInteractiveBridge) 0)) = PendingRequestPermission"
proof -
  have f: "fst (poll_permission (bridge_run [OpPermission (demo_event ''p1'' ''c1'')]
      newInteractiveBridge)) = PollFound 0"
    by (simp add: bridge_run_def registerPermissionRequest_def demo_event_def empty_data_def deref_def
        newInteractiveBridge_def add_pending_def poll_permission_def hasOutstandingKindLocked_def
        try_send_def put_def Let_def)
  then show ?thesis using handler_gets_own_kind [OF refl] by blast
qed

text \<open>Permission requests are bridged one at a time: a request that arrives while another permission
  request is pending is registered with the error of concurrent requests already in its channel,
  so its handler fails at once and no answer of the client can reach it.\<close>

theorem concurrent_permission_rejected:
  assumes "bridge_inv b" and "deref (ev_request_id d) = i" and "i \<noteq> []"
    and "map_of (br_pending b) i = None"
    and "map_of (br_pending b) j = Some q"
    and "pr_kind (pd_request (br_heap b q)) = PendingRequestPermission"
  shows "\<exists>p. map_of (br_pending (registerPermissionRequest d b)) i = Some p \<and>
    pd_chan (br_heap (registerPermissionRequest d b) p) = Some (Failed concurrent_permission_error) \<and>
    (\<forall>r. trim_space (rsp_request_id r) = i \<longrightarrow>
       fst (resolve r (registerPermissionRequest d b)) \<noteq> None)"
proof -
  let ?r = "\<lparr>pr_id = i, pr_kind = PendingRequestPermission, pr_call_id = deref (ev_tool_call_id d),
      pr_tool_name = [], pr_arguments = JNull,
      pr_permission = permissionSummary (ev_permission_request d), pr_user_input = None\<rparr>"
  let ?b2 = "(add_pending ?r b)\<lparr>br_permission_queue := br_permission_queue b @ [i]\<rparr>"
  have q: "q < br_next b" "j \<noteq> i" using inv_pending [OF assms(1,5)] assms(4,5) by auto
  have m: "map_of (br_pending (add_pending ?r b)) j = Some q"
    using assms(5) q by (simp add: add_pending_def)
  have k: "pr_kind (pd_request (br_heap (add_pending ?r b) q)) = PendingRequestPermission"
    using assms(6) q by (simp add: add_pending_def)
  have "hasOutstandingKindLocked PendingRequestPermission i ?b2"
    using map_of_SomeD [OF m] q k by (auto simp: hasOutstandingKindLocked_def list_ex_iff)
  then have r: "registerPermissionRequest d b =
      update_pending (br_next b) (\<lambda>x. x\<lparr>pd_chan := Some (Failed concurrent_permission_error)\<rparr>) ?b2"
    using assms(2-4) add_pending_simps(2) [of ?r b]
    by (simp add: registerPermissionRequest_def Let_def try_send_def)
  have p: "map_of (br_pending (registerPermissionRequest d b)) i = Some (br_next b)"
    "pd_chan (br_heap (registerPermissionRequest d b) (br_next b)) = Some (Failed concurrent_permission_error)"
    unfolding r by (simp_all add: add_pending_def)
  moreover have "fst (resolve r (registerPermissionRequest d b)) \<noteq> None"
    if "trim_space (rsp_request_id r) = i" for r
  proof
    assume "fst (resolve r (registerPermissionRequest d b)) = None"
    then obtain p' where "resolve_lookup r (registerPermissionRequest d b) = Inr p'"
      "pd_chan (br_heap (registerPermissionRequest d b) p') = None"
      using resolve_effect [of r "registerPermissionRequest d b"] by (metis option.distinct(1) prod.collapse)
    then show False using resolve_lookup_ok p that by fastforce
  qed
  ultimately show ?thesis by blast
qed

lemma demo_register:
  "registerPermissionRequest (demo_event ''p1'' ''c1'') newInteractiveBridge =
     (add_pending \<lparr>pr_id = ''p1'', pr_kind = PendingRequestPermission, pr_call_id = ''c1'',
        pr_tool_name = [], pr_arguments = JNull, pr_permission = None, pr_user_input = None\<rparr>
        newInteractiveBridge)\<lparr>br_permission_queue := [''p1'']\<rparr>"
  by (simp add: registerPermissionRequest_def demo_event_def empty_data_def deref_def
      newInteractiveBridge_def add_pending_def hasOutstandingKindLocked_def put_def Let_def
      permissionSummary_def)

lemma demo_registered:
  "bridge_inv (registerPermissionRequest (demo_event ''p1'' ''c1'') newInteractiveBridge)"
  "map_of (br_pending (registerPermissionRequest (demo_event ''p1'' ''c1'') newInteractiveBridge)) ''p1'' = Some 0"
  "map_of (br_pending (registerPermissionRequest (demo_event ''p1'' ''c1'') newInteractiveBridge)) ''p2'' = None"
  "pr_kind (pd_request (br_heap (registerPermissionRequest (demo_event ''p1'' ''c1'') newInteractiveBridge) 0))
     = PendingRequestPermission"
  "pd_chan (br_heap (registerPermissionRequest (demo_event ''p1'' ''c1'') newInteractiveBridge) 0) = None"
  using inv_register_permission [OF bridge_inv_init, of "demo_event ''p1'' ''c1''"]
  by (simp_all add: demo_register) (simp_all add: add_pending_def newInteractiveBridge_def put_def)

lemma concurrent_permission_rejected_witness:
  "fst (resolve (demo_grant ''p2'') (registerPermissionRequest (demo_event ''p2'' ''c2'')
     (registerPermissionRequest (demo_event ''p1'' ''c1'') newInteractiveBridge))) \<noteq> None"
proof -
  have "deref (ev_request_id (demo_event ''p2'' ''c2'')) = ''p2''"
    by (simp add: demo_event_def empty_data_def deref_def)
  moreover have "trim_space (rsp_request_id (demo_grant ''p2'')) = ''p2''"
    unfolding demo_grant_def by simp code_simp
  ultimately show ?thesis
    using concurrent_permission_rejected [OF demo_registered(1) _ _ demo_registered(3,2,4)] by blast
qed

text \<open>The first answer counts: once \<open>resolve\<close> has accepted an answer, every further answer to the request
  is refused and changes nothing, until the handler has taken the first one; the handler gets
  exactly that one.\<close>

theorem first_answer_wins:
  assumes "resolve r b = (None, b1)" and "trim_space (rsp_request_id r') = trim_space (rsp_request_id r)"
  shows "fst (resolve r' b1) \<noteq> None \<and> snd (resolve r' b1) = b1 \<and>
    (\<exists>p b2. map_of (br_pending b) (trim_space (rsp_request_id r)) = Some p \<and>
       receive p b1 = Some (Answered r, b2))"
proof -
  obtain p where p: "resolve_lookup r b = Inr p" "pd_chan (br_heap b p) = None"
    "b1 = update_pending p (\<lambda>x. x\<lparr>pd_chan := Some (Answered r)\<rparr>) b"
    using resolve_effect [OF assms(1)] by auto
  note l = resolve_lookup_ok [OF p(1)]
  have "\<not> (\<exists>p'. resolve_lookup r' b1 = Inr p' \<and> pd_chan (br_heap b1 p') = None)"
  proof
    assume "\<exists>p'. resolve_lookup r' b1 = Inr p' \<and> pd_chan (br_heap b1 p') = None"
    then obtain p' where p': "resolve_lookup r' b1 = Inr p'" "pd_chan (br_heap b1 p') = None" by blast
    then have "p' = p" using resolve_lookup_ok [OF p'(1)] l p(3) assms(2) by simp
    then show False using p' p(3) by simp
  qed
  then have "\<exists>x. resolve r' b1 = (Some x, b1)"
    using resolve_effect [of r' b1] by (metis prod.collapse)
  then show ?thesis using l p(3) by (auto simp: receive_def)
qed

lemma demo_resolve:
  "resolve (demo_grant ''p1'') (registerPermissionRequest (demo_event ''p1'' ''c1'') newInteractiveBridge)
   = (None, update_pending 0 (\<lambda>x. x\<lparr>pd_chan := Some (Answered (demo_grant ''p1''))\<rparr>)
       (registerPermissionRequest (demo_event ''p1'' ''c1'') newInteractiveBridge))"
proof -
  have t: "trim_space (rsp_request_id (demo_grant ''p1'')) = ''p1''"
    unfolding demo_grant_def by simp code_simp
  have "rsp_kind (demo_grant ''p1'') = PendingRequestPermission" by (simp add: demo_grant_def)
  then show ?thesis
    using t demo_registered(2,4,5)
    by (simp add: resolve_def resolve_lookup_def resolve_send_def try_send_def Let_def)
qed

lemma first_answer_wins_witness:
  "fst (resolve (demo_grant ''p1'') (snd (resolve (demo_grant ''p1'')
     (registerPermissionRequest (demo_event ''p1'' ''c1'') newInteractiveBridge)))) \<noteq> None"
  using first_answer_wins [OF demo_resolve refl] by (simp add: demo_resolve)

text \<open>But a duplicate answer is accepted after the handler has taken the first one and before the runtime
  has announced the completion: \<open>resolve\<close> then reports success for an answer that no handler will
  read, although it means to refuse a request that is already resolved.\<close>

theorem duplicate_answer_accepted:
  assumes "resolve r b = (None, b1)" and "map_of (br_pending b) (trim_space (rsp_request_id r)) = Some p"
    and "receive p b1 = Some (v, b2)"
  shows "v = Answered r \<and> fst (resolve r b2) = None"
proof -
  obtain p' where p': "resolve_lookup r b = Inr p'" "pd_chan (br_heap b p') = None"
    "b1 = update_pending p' (\<lambda>x. x\<lparr>pd_chan := Some (Answered r)\<rparr>) b"
    using resolve_effect [OF assms(1)] by auto
  note l = resolve_lookup_ok [OF p'(1)]
  have p: "p' = p" using l assms(2) by simp
  have b2: "v = Answered r" "b2 = update_pending p (\<lambda>x. x\<lparr>pd_chan := None\<rparr>) b1"
    using assms(3) p'(3) p by (auto simp: receive_def)
  have "resolve_lookup r b2 = Inr p"
    using p'(1) assms(2) unfolding b2 p'(3) p
    by (auto simp: resolve_lookup_def Let_def split: if_splits)
  then show ?thesis using b2 by (simp add: resolve_def resolve_send_def try_send_def)
qed

lemma duplicate_answer_accepted_witness:
  "\<exists>b2. receive 0 (snd (resolve (demo_grant ''p1'') (registerPermissionRequest
      (demo_event ''p1'' ''c1'') newInteractiveBridge))) = Some (Answered (demo_grant ''p1''), b2) \<and>
    fst (resolve (demo_grant ''p1'') b2) = None"
proof -
  have "trim_space (rsp_request_id (demo_grant ''p1'')) = ''p1''"
    unfolding demo_grant_def by simp code_simp
  then have "map_of (br_pending (registerPermissionRequest (demo_event ''p1'' ''c1'') newInteractiveBridge))
      (trim_space (rsp_request_id (demo_grant ''p1''))) = Some 0" using demo_registered(2) by simp
  from duplicate_answer_accepted [OF demo_resolve this] show ?thesis
    by (simp add: demo_resolve receive_def)
qed



text \<open>A handler whose request is completed elsewhere is blocked for ever: when the runtime announces
  the completion of a request that has no answer yet, \<open>forgetRequest\<close> drops it without a word on
  its channel, and no later operation, cancellation included, ever lets the receive of the
  handler that had found it return.\<close>

theorem forgotten_handler_blocked_forever:
  assumes "bridge_inv b" and "map_of (br_pending b) i = Some p" and "trim_space i = i"
    and "pd_chan (br_heap b p) = None"
  shows "receive p (bridge_run ops (forgetRequest i b)) = None"
  using orphan_run [OF forget_orphan [OF assms]] by (simp add: orphan_def receive_def)

lemma forgotten_handler_blocked_forever_witness:
  "receive 0 (bridge_run [OpCancel (err ErrCanceled)] (forgetRequest ''p1''
     (registerPermissionRequest (demo_event ''p1'' ''c1'') newInteractiveBridge))) = None"
proof -
  have "trim_space ''p1'' = ''p1''" by code_simp
  from forgotten_handler_blocked_forever [OF demo_registered(1,2) this demo_registered(5)]
  show ?thesis .
qed

text \<open>The completion of a permission request for a tool call unregisters the call of the external tool:
  if the tool request of the call is registered before the permission request completes, then
  \<open>forgetRequest\<close> of the permission removes the entry of the call, and the tool's handler
  finds nothing although its request is pending.\<close>

theorem permission_completion_loses_tool_call:
  assumes "bridge_inv b" and "map_of (br_pending b) i = Some p" and "trim_space i = i"
    and "pr_kind (pd_request (br_heap b p)) = PendingRequestPermission"
    and "pr_call_id (pd_request (br_heap b p)) = call" and "call \<noteq> []"
    and "map_of (br_tool_calls b) call = Some j" and "j \<noteq> i" and "map_of (br_pending b) j = Some q"
  shows "poll_tool call b = (PollFound q, b) \<and>
    fst (poll_tool call (forgetRequest i b)) = PollEmpty \<and>
    map_of (br_pending (forgetRequest i b)) j = Some q"
proof -
  have i: "i \<noteq> []" using inv_pending [OF assms(1,2)] by simp
  note f = forget_effect [OF assms(2) i assms(3)]
  have "map_of (del i (br_pending b)) [] = None"
    using assms(1) by (auto simp: bridge_inv_def map_of_eq_None_iff)
  then show ?thesis using f assms(5-9) by (simp add: poll_tool_def Let_def)
qed

lemma permission_completion_loses_tool_call_witness:
  "\<exists>b. fst (poll_tool ''c1'' b) = PollFound 1 \<and> fst (poll_tool ''c1'' (forgetRequest ''p1'' b)) = PollEmpty"
proof -
  let ?b = "registerExternalToolRequest (demo_event ''t1'' ''c1'')
      (registerPermissionRequest (demo_event ''p1'' ''c1'') newInteractiveBridge)"
  have i: "bridge_inv ?b" by (rule inv_register_tool [OF demo_registered(1)])
  have t: "trim_space ''p1'' = ''p1''" by code_simp
  have e: "registerExternalToolRequest (demo_event ''t1'' ''c1'') x =
      (add_pending \<lparr>pr_id = ''t1'', pr_kind = PendingRequestTool, pr_call_id = ''c1'',
        pr_tool_name = [], pr_arguments = JNull, pr_permission = None, pr_user_input = None\<rparr> x)
        \<lparr>br_tool_calls := put ''c1'' ''t1'' (br_tool_calls x)\<rparr>"
    if "map_of (br_pending x) ''t1'' = None" for x
    using that by (simp add: registerExternalToolRequest_def demo_event_def empty_data_def deref_def Let_def)
  have b: "map_of (br_pending ?b) ''p1'' = Some 0"
    "pr_kind (pd_request (br_heap ?b 0)) = PendingRequestPermission"
    "pr_call_id (pd_request (br_heap ?b 0)) = ''c1''" "map_of (br_tool_calls ?b) ''c1'' = Some ''t1''"
    "map_of (br_pending ?b) ''t1'' = Some 1"
    unfolding demo_register
    by (simp_all add: e add_pending_def newInteractiveBridge_def put_def)
  show ?thesis
    by (rule exI [where x = ?b])
      (use permission_completion_loses_tool_call [OF i b(1) t b(2,3) _ b(4) _ b(5)] in simp)
qed

end
