(* ===== verification/Copilot_Send.thy ===== *)
theory Copilot_Send
  imports Bridge_Facts
begin

text \<open>
  \<open>(*copilotSession).Send\<close> of \<open>internal/runtime/copilot.go\<close>: the translation of the SDK's session
  events into the gateway's events, the accumulation of text, reasoning and usage, the dispatch to the
  caller's handler with its errors and the cancellation they cause, and the result.

  The SDK calls the subscribed function with one event after the other; it is the function
  \<open>on_event\<close> on the variables of \<open>Send\<close>, the record \<open>send_state\<close>.  The two buffered channels are
  an option and a flag.  The caller's handler is an argument with a state of its own type.  Where
  Go's \<open>select\<close> chooses among several ready cases, \<open>send_outcomes\<close> lists what each gives.  The end of
  the caller's context is \<open>cancel_send\<close> with its error, between any two events.
\<close>

section \<open>Events of the gateway\<close>

datatype event_type =
    EventMessageDelta | EventMessage | EventReasoningDelta | EventReasoning | EventToolExecutionStart
  | EventToolExecutionComplete | EventPermissionRequested | EventPermissionCompleted
  | EventUserInputRequested | EventExternalToolRequested | EventSessionCompactionStart
  | EventSessionCompactionComplete | EventSystemMessage
  | EventSkillInvoked | EventSubagentSelected | EventSubagentStarted | EventSubagentCompleted
  | EventSubagentFailed | EventAssistantIntent | EventAssistantTurnStart | EventAssistantTurnEnd
  | EventSessionWarning | EventSessionModelChange | EventToolExecutionProgress | EventToolExecutionPartialResult
  | EventUsage | EventError | EventGeneric

primrec event_type_text :: "event_type \<Rightarrow> string" where
  "event_type_text EventMessageDelta = ''message_delta''"
| "event_type_text EventMessage = ''message''"
| "event_type_text EventReasoningDelta = ''reasoning_delta''"
| "event_type_text EventReasoning = ''reasoning''"
| "event_type_text EventToolExecutionStart = ''tool_execution_start''"
| "event_type_text EventToolExecutionComplete = ''tool_execution_complete''"
| "event_type_text EventPermissionRequested = ''permission_requested''"
| "event_type_text EventPermissionCompleted = ''permission_completed''"
| "event_type_text EventUserInputRequested = ''user_input_requested''"
| "event_type_text EventExternalToolRequested = ''external_tool_requested''"
| "event_type_text EventSessionCompactionStart = ''session_compaction_start''"
| "event_type_text EventSessionCompactionComplete = ''session_compaction_complete''"
| "event_type_text EventSystemMessage = ''system_message''"
| "event_type_text EventSkillInvoked = ''skill_invoked''"
| "event_type_text EventSubagentSelected = ''subagent_selected''"
| "event_type_text EventSubagentStarted = ''subagent_started''"
| "event_type_text EventSubagentCompleted = ''subagent_completed''"
| "event_type_text EventSubagentFailed = ''subagent_failed''"
| "event_type_text EventAssistantIntent = ''assistant_intent''"
| "event_type_text EventAssistantTurnStart = ''assistant_turn_start''"
| "event_type_text EventAssistantTurnEnd = ''assistant_turn_end''"
| "event_type_text EventSessionWarning = ''session_warning''"
| "event_type_text EventSessionModelChange = ''session_model_change''"
| "event_type_text EventToolExecutionProgress = ''tool_execution_progress''"
| "event_type_text EventToolExecutionPartialResult = ''tool_execution_partial_result''"
| "event_type_text EventUsage = ''usage''"
| "event_type_text EventError = ''error''"
| "event_type_text EventGeneric = ''generic''"

record runtime_event =
  rv_type :: string
  rv_content :: string
  rv_delta :: string
  rv_role :: string
  rv_name :: string
  rv_request_id :: string
  rv_call_id :: string
  rv_tool_name :: string
  rv_mcp_server_name :: string
  rv_mcp_tool_name :: string
  rv_arguments :: json
  rv_success :: "bool option"
  rv_result :: string
  rv_detailed_result :: string
  rv_telemetry :: "(string \<times> json) list option"
  rv_permission_request :: "permission_summary option"
  rv_user_input_request :: "user_input_summary option"
  rv_summary_content :: string
  rv_tokens_removed :: "64 word"
  rv_agent_name :: string
  rv_agent_display_name :: string
  rv_agent_description :: string
  rv_allowed_tools :: "string list"
  rv_turn_id :: string
  rv_model :: string
  rv_previous_model :: string
  rv_duration_ms :: rat
  rv_total_tokens :: "64 word"
  rv_total_tool_calls :: "64 word"
  rv_data :: "(string \<times> json) list option"

text \<open>A \<open>RuntimeEvent\<close> with only its type set.\<close>

definition blank_event :: "string \<Rightarrow> runtime_event" where
  "blank_event t = \<lparr>rv_type = t, rv_content = [], rv_delta = [], rv_role = [], rv_name = [], 
     rv_request_id = [], rv_call_id = [], rv_tool_name = [], 
     rv_mcp_server_name = [], rv_mcp_tool_name = [], rv_arguments = JNull, 
     rv_success = None, rv_result = [], rv_detailed_result = [], 
     rv_telemetry = None, rv_permission_request = None, 
     rv_user_input_request = None, rv_summary_content = [], 
     rv_tokens_removed = 0, rv_agent_name = [], rv_agent_display_name = [], 
     rv_agent_description = [], rv_allowed_tools = [], rv_turn_id = [], 
     rv_model = [], rv_previous_model = [], rv_duration_ms = 0, 
     rv_total_tokens = 0, rv_total_tool_calls = 0, rv_data = None\<rparr>"

abbreviation event_of :: "event_type \<Rightarrow> runtime_event" where
  "event_of t \<equiv> blank_event (event_type_text t)"

record event =
  evt_type :: event_type
  evt_delta :: string
  evt_content :: string
  evt_usage :: usage
  evt_err :: "response_error option"
  evt_runtime :: "runtime_event option"

definition blank_gateway_event :: "event_type \<Rightarrow> event" where
  "blank_gateway_event t = \<lparr>evt_type = t, evt_delta = [], evt_content = [], evt_usage = zero_usage,
     evt_err = None, evt_runtime = None\<rparr>"

definition runtime_gateway_event :: "event_type \<Rightarrow> runtime_event \<Rightarrow> event" where
  "runtime_gateway_event t r = (blank_gateway_event t)\<lparr>evt_runtime := Some r\<rparr>"

section \<open>Events of the SDK\<close>

text \<open>The SDK's event types that \<open>Send\<close> knows, and any other with its name.\<close>

datatype sdk_event_type =
    SdkExternalToolRequested | SdkExternalToolCompleted | SdkAssistantMessageDelta
  | SdkAssistantMessage | SdkAssistantReasoningDelta | SdkAssistantReasoning
  | SdkToolExecutionStart | SdkToolExecutionComplete | SdkPermissionRequested
  | SdkPermissionCompleted | SdkUserInputRequested | SdkUserInputCompleted
  | SdkSessionCompactionStart | SdkSessionCompactionComplete | SdkSystemMessage
  | SdkSkillInvoked | SdkSubagentSelected | SdkSubagentStarted | SdkSubagentCompleted
  | SdkSubagentFailed | SdkAssistantIntent | SdkAssistantTurnStart | SdkAssistantTurnEnd
  | SdkSessionWarning | SdkSessionModelChange | SdkToolExecutionProgress
  | SdkToolExecutionPartialResult | SdkAssistantUsage | SdkSessionError | SdkSessionIdle
  | SdkOther string

text \<open>
  The cases of the switch that only translate the event and dispatch it.
\<close>

fun translate_event :: "sdk_event_type \<Rightarrow> event_data \<Rightarrow> (event_type \<times> runtime_event) option" where
  "translate_event SdkToolExecutionStart d = Some (EventToolExecutionStart,
     (event_of EventToolExecutionStart)\<lparr>rv_call_id := deref (ev_tool_call_id d),
       rv_tool_name := deref (ev_tool_name d), rv_mcp_server_name := deref (ev_mcp_server_name d),
       rv_mcp_tool_name := deref (ev_mcp_tool_name d), rv_arguments := ev_arguments d\<rparr>)"
| "translate_event SdkToolExecutionComplete d = Some (EventToolExecutionComplete,
     (event_of EventToolExecutionComplete)\<lparr>rv_call_id := deref (ev_tool_call_id d),
       rv_tool_name := deref (ev_tool_name d), rv_mcp_server_name := deref (ev_mcp_server_name d),
       rv_mcp_tool_name := deref (ev_mcp_tool_name d), rv_arguments := ev_arguments d,
       rv_success := boolPtr (ev_success d), rv_result := resultContent (ev_result d),
       rv_detailed_result := resultDetailedContent (ev_result d),
       rv_telemetry := cloneMap (ev_tool_telemetry d), rv_content := errorUnionMessage (ev_error d)\<rparr>)"
| "translate_event SdkSessionCompactionStart d =
     Some (EventSessionCompactionStart, event_of EventSessionCompactionStart)"
| "translate_event SdkSessionCompactionComplete d = Some (EventSessionCompactionComplete,
     (event_of EventSessionCompactionComplete)\<lparr>rv_summary_content := deref (ev_summary_content d),
       rv_tokens_removed := int64FromFloat (ev_tokens_removed d),
       rv_success := boolPtr (ev_success d), rv_content := errorUnionMessage (ev_error d)\<rparr>)"
| "translate_event SdkSystemMessage d = Some (EventSystemMessage,
     (event_of EventSystemMessage)\<lparr>rv_role := enumString (ev_role d),
       rv_content := deref (ev_content d), rv_name := deref (ev_name d)\<rparr>)"
| "translate_event SdkSkillInvoked d = Some (EventSkillInvoked,
     (event_of EventSkillInvoked)\<lparr>rv_name := deref (ev_name d),
       rv_allowed_tools := ev_allowed_tools d\<rparr>)"
| "translate_event SdkSubagentSelected d = Some (EventSubagentSelected,
     (event_of EventSubagentSelected)\<lparr>rv_agent_name := deref (ev_agent_name d),
       rv_agent_display_name := deref (ev_agent_display_name d),
       rv_agent_description := deref (ev_agent_description d), rv_allowed_tools := ev_tools d\<rparr>)"
| "translate_event SdkSubagentStarted d = Some (EventSubagentStarted,
     (event_of EventSubagentStarted)\<lparr>rv_agent_name := deref (ev_agent_name d),
       rv_agent_display_name := deref (ev_agent_display_name d),
       rv_agent_description := deref (ev_agent_description d), rv_allowed_tools := ev_tools d\<rparr>)"
| "translate_event SdkSubagentCompleted d = Some (EventSubagentCompleted,
     (event_of EventSubagentCompleted)\<lparr>rv_agent_name := deref (ev_agent_name d)\<rparr>)"
| "translate_event SdkSubagentFailed d = Some (EventSubagentFailed,
     (event_of EventSubagentFailed)\<lparr>rv_agent_name := deref (ev_agent_name d),
       rv_content := errorUnionMessage (ev_error d)\<rparr>)"
| "translate_event SdkAssistantIntent d = Some (EventAssistantIntent,
     (event_of EventAssistantIntent)\<lparr>rv_content := deref (ev_intent d),
       rv_turn_id := deref (ev_turn_id d)\<rparr>)"
| "translate_event SdkAssistantTurnStart d = Some (EventAssistantTurnStart,
     (event_of EventAssistantTurnStart)\<lparr>rv_turn_id := deref (ev_turn_id d),
       rv_model := deref (ev_model d)\<rparr>)"
| "translate_event SdkAssistantTurnEnd d = Some (EventAssistantTurnEnd,
     (event_of EventAssistantTurnEnd)\<lparr>rv_turn_id := deref (ev_turn_id d)\<rparr>)"
| "translate_event SdkSessionWarning d = Some (EventSessionWarning,
     (event_of EventSessionWarning)\<lparr>rv_content := deref (ev_message d),
       rv_name := deref (ev_warning_type d)\<rparr>)"
| "translate_event SdkSessionModelChange d = Some (EventSessionModelChange,
     (event_of EventSessionModelChange)\<lparr>rv_model := deref (ev_new_model d),
       rv_previous_model := deref (ev_previous_model d)\<rparr>)"
| "translate_event SdkToolExecutionProgress d = Some (EventToolExecutionProgress,
     (event_of EventToolExecutionProgress)\<lparr>rv_call_id := deref (ev_tool_call_id d),
       rv_tool_name := deref (ev_tool_name d), rv_content := deref (ev_progress_message d)\<rparr>)"
| "translate_event SdkToolExecutionPartialResult d = Some (EventToolExecutionPartialResult,
     (event_of EventToolExecutionPartialResult)\<lparr>rv_call_id := deref (ev_tool_call_id d),
       rv_tool_name := deref (ev_tool_name d), rv_content := deref (ev_partial_output d)\<rparr>)"
| "translate_event (SdkOther name) d = Some (EventGeneric,
     (blank_event name)\<lparr>rv_content := deref (ev_content d), rv_name := deref (ev_name d)\<rparr>)"
| "translate_event _ d = None"

section \<open>The state of Send\<close>

record 'h send_state =
  sn_bridge :: "bridge option"
  sn_content :: string
  sn_reasoning :: string
  sn_final_text :: string
  sn_final_reasoning :: string
  sn_usage :: usage
  sn_runtime_events :: "runtime_event list"
  sn_first_err :: "go_error option"
  sn_cause :: "go_error option"
  sn_err_ch :: "go_error option"
  sn_idle :: bool
  sn_handler :: 'h

definition start_send :: "nat \<Rightarrow> bridge option \<Rightarrow> 'h \<Rightarrow> 'h send_state" where
  "start_send ctx b h = \<lparr>sn_bridge = map_option (setActiveContext ctx) b, sn_content = [],
     sn_reasoning = [], sn_final_text = [], sn_final_reasoning = [], sn_usage = zero_usage,
     sn_runtime_events = [], sn_first_err = None, sn_cause = None, sn_err_ch = None,
     sn_idle = False, sn_handler = h\<rparr>"

text \<open>The closures \<open>setError\<close> and \<open>cancelSend\<close>: the first error and the first cause stay.\<close>

definition set_error :: "go_error \<Rightarrow> 'h send_state \<Rightarrow> 'h send_state" where
  "set_error e s = s\<lparr>sn_first_err := first_error (sn_first_err s) (Some e)\<rparr>"

definition cancel_send :: "go_error \<Rightarrow> 'h send_state \<Rightarrow> 'h send_state" where
  "cancel_send e s = s\<lparr>sn_cause := first_error (sn_cause s) (Some e)\<rparr>"

definition send_err :: "go_error \<Rightarrow> 'h send_state \<Rightarrow> 'h send_state" where
  "send_err e s = s\<lparr>sn_err_ch := first_error (sn_err_ch s) (Some e)\<rparr>"

text \<open>The caller's handler, possibly nil: an error or nothing, and its next state.\<close>

type_synonym 'h event_handler = "event \<Rightarrow> 'h \<Rightarrow> go_error option \<times> 'h"

definition dispatch :: "'h event_handler option \<Rightarrow> event \<Rightarrow> 'h send_state \<Rightarrow> 'h send_state" where
  "dispatch handler ev s =
     (let s1 = (case evt_runtime ev of
                  None \<Rightarrow> s
                | Some r \<Rightarrow>
                    (let s' = s\<lparr>sn_runtime_events := sn_runtime_events s @ [r]\<rparr>
                     in if evt_type ev = EventReasoning \<and> rv_content r \<noteq> []
                        then s'\<lparr>sn_final_reasoning := rv_content r\<rparr> else s'))
      in case handler of
           None \<Rightarrow> s1
         | Some h \<Rightarrow>
             (case h ev (sn_handler s1) of
                (None, x) \<Rightarrow> s1\<lparr>sn_handler := x\<rparr>
              | (Some e, x) \<Rightarrow> cancel_send e (set_error e (s1\<lparr>sn_handler := x\<rparr>))))"

definition on_bridge :: "(bridge \<Rightarrow> bridge) \<Rightarrow> 'h send_state \<Rightarrow> 'h send_state" where
  "on_bridge f s = s\<lparr>sn_bridge := map_option f (sn_bridge s)\<rparr>"

text \<open>
  The switch.  \<open>False\<close> in the result is an early \<open>return\<close>, which skips the check of the cause
  after it.
\<close>

fun handle_event ::
    "'h event_handler option \<Rightarrow> sdk_event_type \<Rightarrow> event_data \<Rightarrow> 'h send_state \<Rightarrow> bool \<times> 'h send_state"
  where
  "handle_event h SdkExternalToolRequested d s = (True,
     dispatch h (runtime_gateway_event EventExternalToolRequested
       ((event_of EventExternalToolRequested)\<lparr>rv_request_id := deref (ev_request_id d),
          rv_call_id := deref (ev_tool_call_id d), rv_tool_name := deref (ev_tool_name d),
          rv_arguments := ev_arguments d\<rparr>))
       (on_bridge (registerExternalToolRequest d) s))"
| "handle_event h SdkExternalToolCompleted d s =
     (True, on_bridge (forgetRequest (deref (ev_request_id d))) s)"
| "handle_event h SdkAssistantMessageDelta d s =
     (let delta = deref (ev_delta_content d) in
      if delta = [] then (False, s)
      else (True, dispatch h ((blank_gateway_event EventMessageDelta)\<lparr>evt_delta := delta\<rparr>)
                    (s\<lparr>sn_content := sn_content s @ delta\<rparr>)))"
| "handle_event h SdkAssistantMessage d s =
     (let content = deref (ev_content d) in
      if content = [] then (False, s)
      else (True, dispatch h ((blank_gateway_event EventMessage)\<lparr>evt_content := content\<rparr>)
                    (s\<lparr>sn_final_text := content\<rparr>)))"
| "handle_event h SdkAssistantReasoningDelta d s =
     (let delta = firstNonEmpty [deref (ev_delta_content d), deref (ev_reasoning_text d)] in
      if delta = [] then (False, s)
      else (True, dispatch h (runtime_gateway_event EventReasoningDelta
                    ((event_of EventReasoningDelta)\<lparr>rv_delta := delta\<rparr>))
                    (s\<lparr>sn_reasoning := sn_reasoning s @ delta\<rparr>)))"
| "handle_event h SdkAssistantReasoning d s =
     (let given = firstNonEmpty [deref (ev_content d), deref (ev_reasoning_text d)];
          content = (if given = [] then sn_reasoning s else given) in
      if content = [] then (False, s)
      else (True, dispatch h (runtime_gateway_event EventReasoning
                    ((event_of EventReasoning)\<lparr>rv_content := content\<rparr>)) s))"
| "handle_event h SdkPermissionRequested d s = (True,
     dispatch h (runtime_gateway_event EventPermissionRequested
       ((event_of EventPermissionRequested)\<lparr>rv_request_id := deref (ev_request_id d),
          rv_call_id := deref (ev_tool_call_id d),
          rv_permission_request := permissionSummary (ev_permission_request d)\<rparr>))
       (on_bridge (registerPermissionRequest d) s))"
| "handle_event h SdkPermissionCompleted d s = (True,
     dispatch h (runtime_gateway_event EventPermissionCompleted
       ((event_of EventPermissionCompleted)\<lparr>rv_request_id := deref (ev_request_id d)\<rparr>))
       (on_bridge (forgetRequest (deref (ev_request_id d))) s))"
| "handle_event h SdkUserInputRequested d s = (True,
     dispatch h (runtime_gateway_event EventUserInputRequested
       ((event_of EventUserInputRequested)\<lparr>rv_request_id := deref (ev_request_id d),
          rv_user_input_request := userInputSummary d\<rparr>))
       (on_bridge (registerUserInputRequest d) s))"
| "handle_event h SdkUserInputCompleted d s =
     (True, on_bridge (forgetRequest (deref (ev_request_id d))) s)"
| "handle_event h SdkAssistantUsage d s =
     (let u = \<lparr>input_tokens = int64FromFloat (ev_input_tokens d),
               output_tokens = int64FromFloat (ev_output_tokens d),
               cache_read_tokens = int64FromFloat (ev_cache_read_tokens d),
               cache_write_tokens = int64FromFloat (ev_cache_write_tokens d)\<rparr>
      in (True, dispatch h ((blank_gateway_event EventUsage)\<lparr>evt_usage := u\<rparr>) (s\<lparr>sn_usage := u\<rparr>)))"
| "handle_event h SdkSessionError d s =
     (let r = runtimeErrorFromEvent d
      in (True, send_err (response_err r) (cancel_send (response_err r)
            (dispatch h ((blank_gateway_event EventError)\<lparr>evt_err := Some r\<rparr>) s))))"
| "handle_event h SdkSessionIdle d s = (True, s\<lparr>sn_idle := True\<rparr>)"
| "handle_event h t d s =
     (case translate_event t d of
        Some (k, r) \<Rightarrow> (True, dispatch h (runtime_gateway_event k r) s)
      | None \<Rightarrow> (True, s))"

definition on_event ::
    "'h event_handler option \<Rightarrow> sdk_event_type \<times> event_data \<Rightarrow> 'h send_state \<Rightarrow> 'h send_state" where
  "on_event h ev s =
     (case handle_event h (fst ev) (snd ev) s of
        (False, s1) \<Rightarrow> s1
      | (True, s1) \<Rightarrow> (case sn_cause s1 of None \<Rightarrow> s1 | Some c \<Rightarrow> send_err c s1))"

definition run_events ::
    "'h event_handler option \<Rightarrow> (sdk_event_type \<times> event_data) list \<Rightarrow> 'h send_state \<Rightarrow> 'h send_state" where
  "run_events h evs s = fold (on_event h) evs s"

section \<open>The result\<close>

record send_result =
  rs_session_id :: string
  rs_content :: string
  rs_reasoning :: string
  rs_usage :: usage
  rs_runtime_events :: "runtime_event list"

text \<open>The end of \<open>Send\<close>, when the session is idle.\<close>

definition finish_send :: "string \<Rightarrow> 'h send_state \<Rightarrow> go_error + send_result" where
  "finish_send sid s =
     (case sn_first_err s of
        Some e \<Rightarrow> Inl e
      | None \<Rightarrow> Inr
          \<lparr>rs_session_id = sid,
           rs_content = (if sn_final_text s = [] then sn_content s else sn_final_text s),
           rs_reasoning = (if sn_final_reasoning s = [] then sn_reasoning s else sn_final_reasoning s),
           rs_usage = sn_usage s, rs_runtime_events = sn_runtime_events s\<rparr>)"

text \<open>
  The two \<open>select\<close> statements.  \<open>sent\<close> is what the SDK's \<open>Send\<close> has returned, \<open>None\<close> if it has not
  yet; the list has one outcome for each ready case, and is empty when the goroutine waits.
\<close>

definition after_send_outcomes :: "string \<Rightarrow> 'h send_state \<Rightarrow> (go_error + send_result) list" where
  "after_send_outcomes sid s =
     (case sn_err_ch s of None \<Rightarrow> [] | Some e \<Rightarrow> [Inl e])
     @ (if sn_idle s then [finish_send sid s] else [])
     @ (case sn_cause s of None \<Rightarrow> [] | Some c \<Rightarrow> [Inl (wrap_prefix ''wait for response'' c)])"

definition send_outcomes ::
    "string \<Rightarrow> go_error option option \<Rightarrow> 'h send_state \<Rightarrow> (go_error + send_result) list" where
  "send_outcomes sid sent s =
     (case sent of
        None \<Rightarrow> []
      | Some (Some e) \<Rightarrow> [Inl (wrap_prefix ''send prompt'' e)]
      | Some None \<Rightarrow> after_send_outcomes sid s)
     @ (case sn_cause s of None \<Rightarrow> [] | Some c \<Rightarrow> [Inl (wrap_prefix ''send prompt'' c)])"

text \<open>The deferred calls: \<open>cancelAll\<close>, then \<open>clearActiveContext\<close>.\<close>

definition end_send :: "'h send_state \<Rightarrow> bridge option" where
  "end_send s = map_option (\<lambda>b. clearActiveContext (cancelAll (errors_new ''pending request cancelled'') b))
     (sn_bridge s)"

end
