(* ===== verification/Gateway_Config.thy ===== *)
theory Gateway_Config
  imports Api_Auth Compat_Facts Copilot_Send
begin

text \<open>
  \<open>internal/config/config.go\<close>: the configuration read from the environment.

  \<open>host\<close> is what \<open>Load\<close> asks the operating system and the standard library for: the environment,
  the directories, and the parsers of durations, floating point numbers and JSON texts.  Integers
  and booleans are parsed here.  Durations are nanoseconds.
\<close>

section \<open>Standard parsers\<close>

datatype go_float = NaN | PosInf | NegInf | Finite rat

record host =
  ho_getenv :: "string \<Rightarrow> string"
  ho_getwd :: "go_error + string"
  ho_config_dir :: "go_error + string"
  ho_temp_dir :: string
  ho_join :: "string list \<Rightarrow> string"
  ho_parse_duration :: "string \<Rightarrow> go_error + int"
  ho_parse_float :: "string \<Rightarrow> go_error + go_float"
  ho_parse_json :: "string \<Rightarrow> go_error + doc"

text \<open>\<open>strconv.ParseBool\<close>, and \<open>strconv.ParseInt\<close> in base 10, of which \<open>Atoi\<close> is the \<open>int\<close> version.\<close>

definition parse_bool :: "string \<Rightarrow> bool option" where
  "parse_bool s =
     (if s \<in> {''1'', ''t'', ''T'', ''true'', ''TRUE'', ''True''} then Some True
      else if s \<in> {''0'', ''f'', ''F'', ''false'', ''FALSE'', ''False''} then Some False
      else None)"

definition parse_int :: "string \<Rightarrow> int option" where
  "parse_int s =
     (let signed = take 1 s \<in> {''-'', ''+''}; ds = (if signed then drop 1 s else s);
          n = (if take 1 s = ''-'' then - digits_value ds else digits_value ds)
      in if ds \<noteq> [] \<and> list_all is_digit ds \<and> - (2 ^ 63) \<le> n \<and> n < 2 ^ 63 then Some n else None)"

definition syntax_error :: "string \<Rightarrow> string \<Rightarrow> go_error" where
  "syntax_error fn s = errors_new (''strconv.'' @ fn @ '': parsing '' @ s @ '': invalid syntax'')"

section \<open>The configuration\<close>

record infinite_options =
  is_enabled :: "bool option"
  is_background :: "go_float option"
  is_buffer :: "go_float option"

record custom_agent =
  cu_name :: string
  cu_display_name :: string
  cu_description :: string
  cu_tools :: "string list"
  cu_prompt :: string
  cu_mcp_servers :: "(string \<times> json) list"
  cu_infer :: "bool option"

record telemetry_options =
  te_enabled :: bool
  te_endpoint :: string
  te_file_path :: string
  te_exporter_type :: string
  te_source_name :: string
  te_capture_content :: "bool option"

record config =
  cf_listen_addr :: string
  cf_default_model :: string
  cf_working_directory :: string
  cf_config_dir :: string
  cf_session_store_path :: string
  cf_request_timeout :: int
  cf_session_ttl :: int
  cf_stream_idle_timeout :: int
  cf_log_level :: string
  cf_client_name :: string
  cf_cli_path :: string
  cf_github_token :: string
  cf_use_logged_in_user :: bool
  cf_max_body_bytes :: int
  cf_allow_private_urls :: bool
  cf_max_active_sessions :: int
  cf_max_sessions_per_key :: int
  cf_available_tools :: "string list"
  cf_excluded_tools :: "string list"
  cf_skill_dirs :: "string list"
  cf_disabled_skills :: "string list"
  cf_mcp_servers :: "(string \<times> json) list"
  cf_custom_agents :: "custom_agent list"
  cf_default_agent :: string
  cf_permission_mode :: permission_mode
  cf_infinite_sessions :: "infinite_options option"
  cf_telemetry :: "telemetry_options option"
  cf_api_keys :: "api_key list"
  cf_using_default_api_key :: bool

definition seconds :: "int \<Rightarrow> int" where
  "seconds n = n * 1000000000"

definition defaultSessionStorePath :: "host \<Rightarrow> string" where
  "defaultSessionStorePath h =
     (let base = (case ho_config_dir h of Inl e \<Rightarrow> ho_temp_dir h
                  | Inr d \<Rightarrow> if blank d then ho_temp_dir h else d)
      in ho_join h [base, ''copilot-sdkapi'', ''sessions.json''])"

definition default_config :: "host \<Rightarrow> string \<Rightarrow> config" where
  "default_config h wd =
     \<lparr>cf_listen_addr = '':38095'', cf_default_model = ''gpt-4.1'', cf_working_directory = wd,
      cf_config_dir = [], cf_session_store_path = defaultSessionStorePath h,
      cf_request_timeout = seconds 120, cf_session_ttl = seconds 900, cf_stream_idle_timeout = seconds 120,
      cf_log_level = ''error'', cf_client_name = ''copilot-sdkapi'', cf_cli_path = [], cf_github_token = [],
      cf_use_logged_in_user = False, cf_max_body_bytes = 1048576, cf_allow_private_urls = False,
      cf_max_active_sessions = 256, cf_max_sessions_per_key = 64, cf_available_tools = [],
      cf_excluded_tools = [], cf_skill_dirs = [], cf_disabled_skills = [], cf_mcp_servers = [],
      cf_custom_agents = [], cf_default_agent = [], cf_permission_mode = PermissionModeDeny,
      cf_infinite_sessions = None, cf_telemetry = None, cf_api_keys = [], cf_using_default_api_key = False\<rparr>"

section \<open>Parsers of single settings\<close>

definition parseCSV :: "string \<Rightarrow> string list" where
  "parseCSV raw = filter (\<lambda>p. p \<noteq> []) (map trim_space (split_at (CHR '','') raw))"

definition parseJSONMap :: "host \<Rightarrow> string \<Rightarrow> go_error + (string \<times> json) list" where
  "parseJSONMap h raw =
     (case ho_parse_json h raw of
        Inl e \<Rightarrow> Inl e
      | Inr d \<Rightarrow>
          (if \<not> decode_ok (GMap (GMap GAny)) d then Inl type_error
           else Inr (go_map (map (\<lambda>(l, k, y). (k, value_of y)) (members d)))))"

definition custom_agent_fields :: "(string \<times> go_type) list" where
  "custom_agent_fields = [(''Name'', GString), (''DisplayName'', GString), (''Description'', GString),
     (''Tools'', GSlice GString), (''Prompt'', GString), (''MCPServers'', GMap (GMap GAny)),
     (''Infer'', GPtr GBool)]"

definition read_custom_agent :: "doc \<Rightarrow> custom_agent" where
  "read_custom_agent d =
     \<lparr>cu_name = get_string ''Name'' d, cu_display_name = get_string ''DisplayName'' d,
      cu_description = get_string ''Description'' d, cu_tools = map doc_string (get_list ''Tools'' d),
      cu_prompt = get_string ''Prompt'' d,
      cu_mcp_servers = (case get_map ''MCPServers'' d of None \<Rightarrow> [] | Some m \<Rightarrow> m),
      cu_infer = map_option doc_bool (get_opt ''Infer'' d)\<rparr>"

definition parseCustomAgents :: "host \<Rightarrow> string \<Rightarrow> go_error + custom_agent list" where
  "parseCustomAgents h raw =
     (case ho_parse_json h raw of
        Inl e \<Rightarrow> Inl e
      | Inr d \<Rightarrow>
          (if \<not> decode_ok (GSlice (GStruct custom_agent_fields)) d then Inl type_error
           else Inr (map read_custom_agent (elements d))))"

definition parsePermissionMode :: "string \<Rightarrow> go_error + permission_mode" where
  "parsePermissionMode raw =
     (let m = to_lower (trim_space raw) in
      if m = [] \<or> m = PermissionModeDeny then Inr PermissionModeDeny
      else if m = PermissionModeBridge then Inr PermissionModeBridge
      else if m = PermissionModeAllow then Inr PermissionModeAllow
      else Inl (errors_new (''unsupported permission mode '' @ raw)))"

fun less_zero :: "go_float \<Rightarrow> bool" where
  "less_zero (Finite q) = (q < 0)" | "less_zero NegInf = True" | "less_zero _ = False"

fun above_one :: "go_float \<Rightarrow> bool" where
  "above_one (Finite q) = (q > 1)" | "above_one PosInf = True" | "above_one _ = False"

text \<open>A comparison with a NaN is false.\<close>

definition parseThreshold :: "host \<Rightarrow> string \<Rightarrow> go_error + go_float" where
  "parseThreshold h raw =
     (case ho_parse_float h raw of
        Inl e \<Rightarrow> Inl e
      | Inr x \<Rightarrow> if less_zero x \<or> above_one x then Inl (errors_new ''threshold must be between 0 and 1'') else Inr x)"

text \<open>An optional setting: absent when its variable is blank, else parsed, with its name on an error.\<close>

definition env_value :: "host \<Rightarrow> string \<Rightarrow> string" where
  "env_value h name = trim_space (ho_getenv h name)"

definition optional_setting :: "host \<Rightarrow> string \<Rightarrow> (string \<Rightarrow> go_error + 'a) \<Rightarrow> go_error + 'a option" where
  "optional_setting h name parse =
     (let v = env_value h name in
      if v = [] then Inr None
      else (case parse v of Inl e \<Rightarrow> Inl (wrap_prefix (''parse '' @ name) e) | Inr x \<Rightarrow> Inr (Some x)))"

definition bool_parser :: "string \<Rightarrow> go_error + bool" where
  "bool_parser v = (case parse_bool v of None \<Rightarrow> Inl (syntax_error ''ParseBool'' v) | Some b \<Rightarrow> Inr b)"

definition int_parser :: "string \<Rightarrow> string \<Rightarrow> go_error + int" where
  "int_parser fn v = (case parse_int v of None \<Rightarrow> Inl (syntax_error fn v) | Some n \<Rightarrow> Inr n)"

definition parseInfiniteSessionsFromEnv :: "host \<Rightarrow> go_error + infinite_options option" where
  "parseInfiniteSessionsFromEnv h =
     (if env_value h ''GATEWAY_SDK_INFINITE_SESSIONS_ENABLED'' = [] \<and>
         env_value h ''GATEWAY_SDK_INFINITE_SESSIONS_BACKGROUND_COMPACTION_THRESHOLD'' = [] \<and>
         env_value h ''GATEWAY_SDK_INFINITE_SESSIONS_BUFFER_EXHAUSTION_THRESHOLD'' = [] then Inr None
      else
        (case optional_setting h ''GATEWAY_SDK_INFINITE_SESSIONS_ENABLED'' bool_parser of
           Inl e \<Rightarrow> Inl e
         | Inr enabled \<Rightarrow>
        (case optional_setting h ''GATEWAY_SDK_INFINITE_SESSIONS_BACKGROUND_COMPACTION_THRESHOLD''
                (parseThreshold h) of
           Inl e \<Rightarrow> Inl e
         | Inr background \<Rightarrow>
        (case optional_setting h ''GATEWAY_SDK_INFINITE_SESSIONS_BUFFER_EXHAUSTION_THRESHOLD''
                (parseThreshold h) of
           Inl e \<Rightarrow> Inl e
         | Inr buffer \<Rightarrow>
             Inr (Some \<lparr>is_enabled = enabled, is_background = background, is_buffer = buffer\<rparr>)))))"

definition parseTelemetryFromEnv :: "host \<Rightarrow> telemetry_options option" where
  "parseTelemetryFromEnv h =
     (let enabled = env_value h ''GATEWAY_OTEL_ENABLED''; endpoint = env_value h ''GATEWAY_OTEL_ENDPOINT'';
          filePath = env_value h ''GATEWAY_OTEL_FILE_PATH'' in
      if enabled = [] \<and> endpoint = [] \<and> filePath = [] then None
      else if enabled \<noteq> [] \<and> parse_bool enabled \<noteq> Some True then None
      else Some \<lparr>te_enabled = True, te_endpoint = endpoint, te_file_path = filePath,
             te_exporter_type = env_value h ''GATEWAY_OTEL_EXPORTER_TYPE'',
             te_source_name = env_value h ''GATEWAY_OTEL_SOURCE_NAME'',
             te_capture_content = parse_bool (env_value h ''GATEWAY_OTEL_CAPTURE_CONTENT'')\<rparr>)"

text \<open>The loop over the agents, with the names seen so far.\<close>

fun check_agents :: "custom_agent list \<Rightarrow> string set \<Rightarrow> go_error + string set" where
  "check_agents [] seen = Inr seen"
| "check_agents (a # rest) seen =
     (let name = trim_space (cu_name a) in
      if name = [] then Inl (errors_new ''custom agent name must not be empty'')
      else if blank (cu_prompt a) then Inl (errors_new (''custom agent '' @ name @ '' must include prompt''))
      else if name \<in> seen then Inl (errors_new (''duplicate custom agent '' @ name))
      else check_agents rest (insert name seen))"

definition validateCustomAgents :: "custom_agent list \<Rightarrow> string \<Rightarrow> go_error option" where
  "validateCustomAgents agents defaultAgent =
     (if agents = [] then
        (if \<not> blank defaultAgent
         then Some (errors_new ''GATEWAY_SDK_DEFAULT_AGENT requires GATEWAY_SDK_CUSTOM_AGENTS_JSON'') else None)
      else (case check_agents agents {} of
              Inl e \<Rightarrow> Some e
            | Inr seen \<Rightarrow>
                (if blank defaultAgent then None
                 else if trim_space defaultAgent \<notin> seen
                 then Some (errors_new (''default custom agent '' @ defaultAgent @ '' is not defined''))
                 else None)))"

definition normalizeListenAddr :: "string \<Rightarrow> string" where
  "normalizeListenAddr value =
     (if value = [] then '':38095'' else if CHR '':'' \<in> set value then value else CHR '':'' # value)"

text \<open>\<open>fmt.Sprintf("key-%d", index+1)\<close>.\<close>

fun decimal :: "nat \<Rightarrow> string" where
  "decimal n = (if n < 10 then [char_of (48 + n)] else decimal (n div 10) @ [char_of (48 + n mod 10)])"

declare decimal.simps [simp del]

fun api_key_entries :: "nat \<Rightarrow> string list \<Rightarrow> go_error + api_key list" where
  "api_key_entries i [] = Inr []"
| "api_key_entries i (raw # rest) =
     (let part = trim_space raw in
      if part = [] then api_key_entries (Suc i) rest
      else
        (let (label, secret) = (case cut_at (CHR ''='') part of
               Some (l, r) \<Rightarrow> (trim_space l, trim_space r)
             | None \<Rightarrow> (''key-'' @ decimal (Suc i), part))
         in if label = [] \<or> secret = [] then Inl (errors_new (''invalid GATEWAY_API_KEYS entry '' @ part))
            else (case api_key_entries (Suc i) rest of
                    Inl e \<Rightarrow> Inl e
                  | Inr ks \<Rightarrow> Inr (\<lparr>ak_label = label, ak_secret = secret\<rparr> # ks))))"

definition parseAPIKeys :: "string \<Rightarrow> go_error + api_key list \<times> bool" where
  "parseAPIKeys raw =
     (if blank raw then Inr ([\<lparr>ak_label = ''default'', ak_secret = ''test-key''\<rparr>], True)
      else (case api_key_entries 0 (split_at (CHR '','') raw) of
              Inl e \<Rightarrow> Inl e
            | Inr ks \<Rightarrow>
                (if ks = [] then Inl (errors_new ''GATEWAY_API_KEYS must contain at least one API key'')
                 else Inr (ks, False))))"

section \<open>Load\<close>

definition text_setting :: "host \<Rightarrow> string \<Rightarrow> string \<Rightarrow> string" where
  "text_setting h name old = (let v = env_value h name in if v \<noteq> [] then v else old)"

definition github_token :: "host \<Rightarrow> string" where
  "github_token h = firstNonEmpty [env_value h ''GATEWAY_GITHUB_TOKEN'', env_value h ''COPILOT_GITHUB_TOKEN'',
     env_value h ''GH_TOKEN'', env_value h ''GITHUB_TOKEN'']"

definition text_settings :: "host \<Rightarrow> config \<Rightarrow> config" where
  "text_settings h c =
     c\<lparr>cf_listen_addr := (let v = env_value h ''GATEWAY_LISTEN_ADDR'' in
          if v \<noteq> [] then normalizeListenAddr v else cf_listen_addr c),
       cf_default_model := text_setting h ''GATEWAY_DEFAULT_MODEL'' (cf_default_model c),
       cf_working_directory := text_setting h ''GATEWAY_WORKING_DIR'' (cf_working_directory c),
       cf_config_dir := text_setting h ''GATEWAY_CONFIG_DIR'' (cf_config_dir c),
       cf_session_store_path := text_setting h ''GATEWAY_SESSION_STORE_PATH'' (cf_session_store_path c),
       cf_log_level := text_setting h ''GATEWAY_LOG_LEVEL'' (cf_log_level c),
       cf_client_name := text_setting h ''GATEWAY_CLIENT_NAME'' (cf_client_name c),
       cf_cli_path := text_setting h ''GATEWAY_CLI_PATH'' (cf_cli_path c),
       cf_github_token := github_token h,
       cf_available_tools := parseCSV (ho_getenv h ''GATEWAY_SDK_AVAILABLE_TOOLS''),
       cf_excluded_tools := parseCSV (ho_getenv h ''GATEWAY_SDK_EXCLUDED_TOOLS''),
       cf_skill_dirs := parseCSV (ho_getenv h ''GATEWAY_SDK_SKILL_DIRECTORIES''),
       cf_disabled_skills := parseCSV (ho_getenv h ''GATEWAY_SDK_DISABLED_SKILLS''),
       cf_default_agent := text_setting h ''GATEWAY_SDK_DEFAULT_AGENT'' (cf_default_agent c)\<rparr>"

text \<open>A step of \<open>Load\<close>: parse an optional setting and update the configuration with it.\<close>

definition setting :: "host \<Rightarrow> string \<Rightarrow> (string \<Rightarrow> go_error + 'a) \<Rightarrow> ('a \<Rightarrow> config \<Rightarrow> config) \<Rightarrow>
    go_error + config \<Rightarrow> go_error + config" where
  "setting h name parse upd r =
     (case r of Inl e \<Rightarrow> Inl e
      | Inr c \<Rightarrow> (case optional_setting h name parse of
                    Inl e \<Rightarrow> Inl e
                  | Inr None \<Rightarrow> Inr c
                  | Inr (Some x) \<Rightarrow> Inr (upd x c)))"

definition parsed_settings :: "host \<Rightarrow> config \<Rightarrow> go_error + config" where
  "parsed_settings h c =
     setting h ''GATEWAY_SDK_PERMISSION_MODE'' parsePermissionMode (\<lambda>x c. c\<lparr>cf_permission_mode := x\<rparr>)
    (setting h ''GATEWAY_SDK_CUSTOM_AGENTS_JSON'' (parseCustomAgents h) (\<lambda>x c. c\<lparr>cf_custom_agents := x\<rparr>)
    (setting h ''GATEWAY_SDK_MCP_SERVERS_JSON'' (parseJSONMap h) (\<lambda>x c. c\<lparr>cf_mcp_servers := x\<rparr>)
    (setting h ''GATEWAY_MAX_ACTIVE_SESSIONS_PER_KEY'' (int_parser ''Atoi'') (\<lambda>x c. c\<lparr>cf_max_sessions_per_key := x\<rparr>)
    (setting h ''GATEWAY_MAX_ACTIVE_SESSIONS'' (int_parser ''Atoi'') (\<lambda>x c. c\<lparr>cf_max_active_sessions := x\<rparr>)
    (setting h ''GATEWAY_ALLOW_PRIVATE_REMOTE_URLS'' bool_parser (\<lambda>x c. c\<lparr>cf_allow_private_urls := x\<rparr>)
    (setting h ''GATEWAY_MAX_BODY_BYTES'' (int_parser ''ParseInt'') (\<lambda>x c. c\<lparr>cf_max_body_bytes := x\<rparr>)
    (setting h ''GATEWAY_REQUEST_TIMEOUT'' (ho_parse_duration h) (\<lambda>x c. c\<lparr>cf_request_timeout := x\<rparr>)
    (setting h ''GATEWAY_STREAM_IDLE_TIMEOUT'' (ho_parse_duration h) (\<lambda>x c. c\<lparr>cf_stream_idle_timeout := x\<rparr>)
    (setting h ''GATEWAY_SESSION_TTL'' (ho_parse_duration h) (\<lambda>x c. c\<lparr>cf_session_ttl := x\<rparr>)
      (Inr c))))))))))"

definition Load :: "host \<Rightarrow> go_error + config" where
  "Load h =
     (case ho_getwd h of
        Inl e \<Rightarrow> Inl (wrap_prefix ''resolve working directory'' e)
      | Inr wd \<Rightarrow>
     (case parsed_settings h (text_settings h (default_config h wd)) of
        Inl e \<Rightarrow> Inl e
      | Inr c \<Rightarrow>
     (case parseInfiniteSessionsFromEnv h of
        Inl e \<Rightarrow> Inl e
      | Inr infinite_opts \<Rightarrow>
     (case validateCustomAgents (cf_custom_agents c) (cf_default_agent c) of
        Some e \<Rightarrow> Inl e
      | None \<Rightarrow>
     (case optional_setting h ''GATEWAY_USE_LOGGED_IN_USER'' bool_parser of
        Inl e \<Rightarrow> Inl e
      | Inr logged_in \<Rightarrow>
     (case parseAPIKeys (ho_getenv h ''GATEWAY_API_KEYS'') of
        Inl e \<Rightarrow> Inl e
      | Inr (keys, using_default) \<Rightarrow> Inr
          (c\<lparr>cf_infinite_sessions := infinite_opts,
             cf_use_logged_in_user := (case logged_in of None \<Rightarrow> cf_github_token c = [] | Some b \<Rightarrow> b),
             cf_api_keys := keys, cf_using_default_api_key := using_default,
             cf_telemetry := parseTelemetryFromEnv h\<rparr>)))))))"

end
