(* ===== verification/Net_Policy.thy ===== *)
theory Net_Policy
  imports Runtime_Types
begin

text \<open>
  The network policy of \<open>internal/httpapi/server.go\<close>: which remote attachment URLs and which
  provider base URLs a client may name (\<open>validateRemoteAttachmentURL\<close>, \<open>validateRemoteAttachmentIP\<close>,
  \<open>validateProviderBaseURL\<close>, \<open>validateProviderIP\<close>, \<open>isLocalhostHostname\<close>,
  \<open>isTrustedProviderHostname\<close>, \<open>blockedRemoteIPPrefixes\<close>), with the parts of the packages \<open>net\<close> and
  \<open>netip\<close> it uses: addresses, prefixes, and the parser of IP literals.

  An address is its number.  A \<open>net.IP\<close> is a slice of 4 or of 16 bytes, or of another length.  A
  parsed URL is the record of what the policy asks it for.
\<close>

section \<open>Addresses\<close>

datatype net_ip = IP4 "32 word" | IP16 "128 word" | IPOther

datatype addr = V4 "32 word" | V6 "128 word"

fun AddrFromSlice :: "net_ip \<Rightarrow> addr option" where
  "AddrFromSlice (IP4 x) = Some (V4 x)"
| "AddrFromSlice (IP16 x) = Some (V6 x)"
| "AddrFromSlice IPOther = None"

text \<open>The IPv4-mapped address \<open>::ffff:a.b.c.d\<close>, and \<open>Unmap\<close>.\<close>

definition mapped :: "32 word \<Rightarrow> 128 word" where
  "mapped x = word_of_int (0xFFFF * 2 ^ 32 + uint x)"

fun Unmap :: "addr \<Rightarrow> addr" where
  "Unmap (V4 x) = V4 x"
| "Unmap (V6 x) = (if uint x div 2 ^ 32 = 0xFFFF then V4 (word_of_int (uint x mod 2 ^ 32)) else V6 x)"

datatype prefix = P4 "32 word" nat | P6 "128 word" nat

text \<open>\<open>Prefix.Contains\<close>: the same family, and the same leading bits.\<close>

fun prefix_contains :: "prefix \<Rightarrow> addr \<Rightarrow> bool" where
  "prefix_contains (P4 base bits) (V4 x) = (uint x div 2 ^ (32 - bits) = uint base div 2 ^ (32 - bits))"
| "prefix_contains (P6 base bits) (V6 x) = (uint x div 2 ^ (128 - bits) = uint base div 2 ^ (128 - bits))"
| "prefix_contains _ _ = False"

text \<open>\<open>Addr.IsGlobalUnicast\<close>: neither unspecified, broadcast, loopback, multicast nor link-local.\<close>

fun IsGlobalUnicast :: "addr \<Rightarrow> bool" where
  "IsGlobalUnicast (V4 x) \<longleftrightarrow> x \<noteq> 0 \<and> x \<noteq> 0xFFFFFFFF \<and> \<not> prefix_contains (P4 0x7F000000 8) (V4 x) \<and>
     \<not> prefix_contains (P4 0xE0000000 4) (V4 x) \<and> \<not> prefix_contains (P4 0xA9FE0000 16) (V4 x)"
| "IsGlobalUnicast (V6 x) \<longleftrightarrow> x \<noteq> 0 \<and> x \<noteq> 1 \<and>
     \<not> prefix_contains (P6 (0xFF * 2 ^ 120) 8) (V6 x) \<and>
     \<not> prefix_contains (P6 (0xFE80 * 2 ^ 112) 10) (V6 x)"

section \<open>IP literals\<close>

definition digit_value :: "char \<Rightarrow> int option" where
  "digit_value c = (let n = of_char c :: int in if 48 \<le> n \<and> n \<le> 57 then Some (n - 48) else None)"

definition hex_value :: "char \<Rightarrow> int option" where
  "hex_value c =
     (let n = of_char c :: int in
      if 48 \<le> n \<and> n \<le> 57 then Some (n - 48)
      else if 97 \<le> n \<and> n \<le> 102 then Some (n - 87)
      else if 65 \<le> n \<and> n \<le> 70 then Some (n - 55)
      else None)"

fun digits_number :: "(char \<Rightarrow> int option) \<Rightarrow> int \<Rightarrow> string \<Rightarrow> int \<Rightarrow> int option" where
  "digits_number f base [] acc = Some acc"
| "digits_number f base (c # cs) acc =
     (case f c of None \<Rightarrow> None | Some d \<Rightarrow> digits_number f base cs (acc * base + d))"

text \<open>One field of a dotted quad: at most 255, no leading zero.\<close>

definition parse_octet :: "string \<Rightarrow> int option" where
  "parse_octet s =
     (if s = [] \<or> (length s > 1 \<and> hd s = CHR ''0'') then None
      else (case digits_number digit_value 10 s 0 of
              None \<Rightarrow> None | Some n \<Rightarrow> if n \<le> 255 then Some n else None))"

definition parse_v4 :: "string \<Rightarrow> int option" where
  "parse_v4 s =
     (case map parse_octet (split_at (CHR ''.'') s) of
        [Some a, Some b, Some c, Some d] \<Rightarrow> Some (((a * 256 + b) * 256 + c) * 256 + d)
      | _ \<Rightarrow> None)"

text \<open>
  The loop over the groups of an IPv6 literal: how many groups may follow, the place of the
  ellipsis, the groups read.
\<close>

fun parse_v6_groups :: "nat \<Rightarrow> nat option \<Rightarrow> int list \<Rightarrow> string \<Rightarrow> (int list \<times> nat option) option" where
  "parse_v6_groups 0 ell acc s = None"
| "parse_v6_groups (Suc n) ell acc s =
     (let ds = takeWhile (\<lambda>c. hex_value c \<noteq> None) s; rest = dropWhile (\<lambda>c. hex_value c \<noteq> None) s in
      if ds = [] \<or> length ds > 4 then None
      else (let acc' = acc @ [the (digits_number hex_value 16 ds 0)] in
        case rest of
          [] \<Rightarrow> Some (acc', ell)
        | c # cs \<Rightarrow>
            (if c = CHR ''.'' then
               (if (ell = None \<and> length acc \<noteq> 6) \<or> length acc > 6 then None
                else (case parse_v4 s of
                        None \<Rightarrow> None
                      | Some w \<Rightarrow> Some (acc @ [w div 65536, w mod 65536], ell)))
             else if c \<noteq> CHR '':'' \<or> cs = [] then None
             else if hd cs = CHR '':'' then
               (if ell \<noteq> None then None
                else if tl cs = [] then Some (acc', Some (length acc'))
                else parse_v6_groups n (Some (length acc')) acc' (tl cs))
             else parse_v6_groups n ell acc' cs)))"

definition groups_number :: "int list \<Rightarrow> int" where
  "groups_number gs = fold (\<lambda>g acc. acc * 65536 + g) gs 0"

definition expand_groups :: "int list \<times> nat option \<Rightarrow> int option" where
  "expand_groups r =
     (case r of
        (gs, None) \<Rightarrow> if length gs = 8 then Some (groups_number gs) else None
      | (gs, Some k) \<Rightarrow>
          if length gs < 8
          then Some (groups_number (take k gs @ replicate (8 - length gs) 0 @ drop k gs)) else None)"

definition parse_v6 :: "string \<Rightarrow> int option" where
  "parse_v6 s =
     (if take 2 s = ''::'' then
        (if drop 2 s = [] then Some 0
         else (case parse_v6_groups 8 (Some 0) [] (drop 2 s) of None \<Rightarrow> None | Some r \<Rightarrow> expand_groups r))
      else (case parse_v6_groups 8 None [] s of None \<Rightarrow> None | Some r \<Rightarrow> expand_groups r))"

text \<open>
  \<open>net.ParseIP\<close>: the first of \<open>.\<close>, \<open>:\<close> and \<open>%\<close> decides the form; an address with a zone is refused; the
  result has 16 bytes.
\<close>

definition ParseIP :: "string \<Rightarrow> net_ip option" where
  "ParseIP s =
     (case filter (\<lambda>c. c \<in> set ''.:%'') s of
        [] \<Rightarrow> None
      | c # _ \<Rightarrow>
          (if c = CHR ''.'' then map_option (\<lambda>n. IP16 (mapped (word_of_int n))) (parse_v4 s)
           else if c = CHR ''%'' \<or> CHR ''%'' \<in> set s then None
           else map_option (\<lambda>n. IP16 (word_of_int n)) (parse_v6 s)))"

section \<open>The blocked prefixes\<close>

definition blockedRemoteIPPrefixes :: "prefix list" where
  "blockedRemoteIPPrefixes =
     [P4 0x00000000 8,     \<comment> \<open>0.0.0.0/8\<close>
      P4 0x0A000000 8,     \<comment> \<open>10.0.0.0/8\<close>
      P4 0x64400000 10,    \<comment> \<open>100.64.0.0/10\<close>
      P4 0x7F000000 8,     \<comment> \<open>127.0.0.0/8\<close>
      P4 0xA9FE0000 16,    \<comment> \<open>169.254.0.0/16\<close>
      P4 0xAC100000 12,    \<comment> \<open>172.16.0.0/12\<close>
      P4 0xC0000000 24,    \<comment> \<open>192.0.0.0/24\<close>
      P4 0xC0000200 24,    \<comment> \<open>192.0.2.0/24\<close>
      P4 0xC0586300 24,    \<comment> \<open>192.88.99.0/24\<close>
      P4 0xC0A80000 16,    \<comment> \<open>192.168.0.0/16\<close>
      P4 0xC6120000 15,    \<comment> \<open>198.18.0.0/15\<close>
      P4 0xC6336400 24,    \<comment> \<open>198.51.100.0/24\<close>
      P4 0xCB007100 24,    \<comment> \<open>203.0.113.0/24\<close>
      P4 0xE0000000 4,     \<comment> \<open>224.0.0.0/4\<close>
      P4 0xF0000000 4,     \<comment> \<open>240.0.0.0/4\<close>
      P6 0 128,                         \<comment> \<open>::/128\<close>
      P6 1 128,                         \<comment> \<open>::1/128\<close>
      P6 (0x0100 * 2 ^ 112) 64,         \<comment> \<open>100::/64\<close>
      P6 (0x20010002 * 2 ^ 96) 48,      \<comment> \<open>2001:2::/48\<close>
      P6 (0x20010010 * 2 ^ 96) 28,      \<comment> \<open>2001:10::/28\<close>
      P6 (0x20010DB8 * 2 ^ 96) 32,      \<comment> \<open>2001:db8::/32\<close>
      P6 (0xFC00 * 2 ^ 112) 7,          \<comment> \<open>fc00::/7\<close>
      P6 (0xFE80 * 2 ^ 112) 10,         \<comment> \<open>fe80::/10\<close>
      P6 (0xFF00 * 2 ^ 112) 8]          \<comment> \<open>ff00::/8\<close>"

section \<open>The checks of an address\<close>

definition attachment_blocked :: go_error where
  "attachment_blocked = err_with ErrInvalidCopilotAttachment ''private or special-use remote URLs are disabled''"

definition provider_blocked :: go_error where
  "provider_blocked = err_with ErrInvalidCopilotProvider ''private or special-use provider URLs are disabled''"

definition validateRemoteAttachmentIP :: "net_ip option \<Rightarrow> go_error option" where
  "validateRemoteAttachmentIP ip =
     (case ip of
        None \<Rightarrow> Some (err_with ErrInvalidCopilotAttachment ''invalid remote IP address'')
      | Some x \<Rightarrow>
          (case AddrFromSlice x of
             None \<Rightarrow> Some (err_with ErrInvalidCopilotAttachment ''invalid remote IP address'')
           | Some a \<Rightarrow>
               (let addr = Unmap a in
                if \<not> IsGlobalUnicast addr then Some attachment_blocked
                else if list_ex (\<lambda>p. prefix_contains p addr) blockedRemoteIPPrefixes
                then Some attachment_blocked else None)))"

definition validateProviderIP :: "net_ip option \<Rightarrow> go_error option" where
  "validateProviderIP ip =
     (case ip of
        None \<Rightarrow> Some (err_with ErrInvalidCopilotProvider ''invalid provider IP address'')
      | Some x \<Rightarrow>
          (case AddrFromSlice x of
             None \<Rightarrow> Some (err_with ErrInvalidCopilotProvider ''invalid provider IP address'')
           | Some a \<Rightarrow>
               (let addr = Unmap a in
                if \<not> IsGlobalUnicast addr then Some provider_blocked
                else if list_ex (\<lambda>p. prefix_contains p addr) blockedRemoteIPPrefixes
                then Some provider_blocked else None)))"

section \<open>The checks of a URL\<close>

definition isLocalhostHostname :: "string \<Rightarrow> bool" where
  "isLocalhostHostname host =
     (let h = to_lower (trim_space host) in h = ''localhost'' \<or> has_suffix h ''.localhost'')"

definition isTrustedProviderHostname :: "string \<Rightarrow> string \<Rightarrow> bool" where
  "isTrustedProviderHostname providerType host =
     (let h = to_lower (trim_space host) in
      if providerType = ''openai'' then h = ''api.openai.com''
      else if providerType = ''anthropic'' then h = ''api.anthropic.com''
      else if providerType = ''azure'' then
        (if has_prefix h ''.'' \<or> \<not> has_suffix h ''.openai.azure.com'' then False
         else (let p = trim_suffix h ''.openai.azure.com''
               in p \<noteq> [] \<and> CHR ''.'' \<notin> set p))
      else False)"

text \<open>What the policy asks a parsed \<open>*url.URL\<close>: \<open>Scheme\<close> and \<open>Hostname()\<close>.\<close>

record parsed_url =
  pu_scheme :: string
  pu_hostname :: string

definition IsAbs :: "parsed_url \<Rightarrow> bool" where
  "IsAbs u \<longleftrightarrow> pu_scheme u \<noteq> []"

definition validateRemoteAttachmentURL :: "parsed_url option \<Rightarrow> bool \<Rightarrow> go_error option" where
  "validateRemoteAttachmentURL parsed allowPrivate =
     (case parsed of
        None \<Rightarrow> Some (err_with ErrInvalidCopilotAttachment ''remote URL is required'')
      | Some u \<Rightarrow>
          (if pu_scheme u \<noteq> ''http'' \<and> pu_scheme u \<noteq> ''https''
           then Some (err_with ErrInvalidCopilotAttachment (''unsupported URL scheme '' @ pu_scheme u))
           else (let hostname = trim_space (pu_hostname u) in
             if hostname = [] then Some (err_with ErrInvalidCopilotAttachment ''remote URL host is required'')
             else if allowPrivate then None
             else if isLocalhostHostname hostname then Some attachment_blocked
             else (case ParseIP hostname of
                     Some ip \<Rightarrow> validateRemoteAttachmentIP (Some ip)
                   | None \<Rightarrow> None))))"

definition validateProviderBaseURL :: "bool \<Rightarrow> string \<Rightarrow> parsed_url option \<Rightarrow> go_error option" where
  "validateProviderBaseURL allowPrivate providerType parsed =
     (case parsed of
        None \<Rightarrow> Some (err_with ErrInvalidCopilotProvider ''x_copilot.provider.base_url must be an absolute URL'')
      | Some u \<Rightarrow>
          (if \<not> IsAbs u
           then Some (err_with ErrInvalidCopilotProvider ''x_copilot.provider.base_url must be an absolute URL'')
           else if pu_scheme u \<noteq> ''http'' \<and> pu_scheme u \<noteq> ''https''
           then Some (err_with ErrInvalidCopilotProvider ''x_copilot.provider.base_url must use http or https'')
           else (let hostname = trim_space (pu_hostname u) in
             if hostname = []
             then Some (err_with ErrInvalidCopilotProvider ''x_copilot.provider.base_url host is required'')
             else if allowPrivate then None
             else if isLocalhostHostname hostname then Some provider_blocked
             else (case ParseIP hostname of
                     Some ip \<Rightarrow> validateProviderIP (Some ip)
                   | None \<Rightarrow>
                       (if isTrustedProviderHostname providerType hostname then None
                        else Some (err_with ErrInvalidCopilotProvider
                          ''arbitrary provider hostnames are unsupported; use an official trusted host or an IP literal''))))))"

section \<open>Dialling a remote attachment\<close>

text \<open>
  The \<open>DialContext\<close> of \<open>newRemoteFetchClient\<close>: \<open>resolved\<close> is what the resolver answered and \<open>dials\<close>
  says whether a connection to an address succeeds.  The result is the address connected to.
\<close>

fun dial_resolved ::
    "bool \<Rightarrow> (net_ip \<Rightarrow> bool) \<Rightarrow> net_ip list \<Rightarrow> nat \<Rightarrow> net_ip + nat" where
  "dial_resolved allowPrivate dials [] blocked = Inr blocked"
| "dial_resolved allowPrivate dials (ip # rest) blocked =
     (if \<not> allowPrivate \<and> validateRemoteAttachmentIP (Some ip) \<noteq> None
      then dial_resolved allowPrivate dials rest (Suc blocked)
      else if dials ip then Inl ip
      else dial_resolved allowPrivate dials rest blocked)"

definition DialContext :: "bool \<Rightarrow> (net_ip \<Rightarrow> bool) \<Rightarrow> go_error + net_ip list \<Rightarrow> go_error + net_ip" where
  "DialContext allowPrivate dials resolved =
     (case resolved of
        Inl e \<Rightarrow> Inl e
      | Inr ips \<Rightarrow>
          (case dial_resolved allowPrivate dials ips 0 of
             Inl ip \<Rightarrow> Inr ip
           | Inr blocked \<Rightarrow>
               (if blocked = length ips \<and> blocked > 0 then Inl attachment_blocked
                else Inl (err_with ErrInvalidCopilotAttachment ''unable to connect to remote attachment host''))))"

text \<open>\<open>CheckRedirect\<close>: at most ten redirects, each checked like the first URL.\<close>

definition CheckRedirect :: "bool \<Rightarrow> parsed_url option \<Rightarrow> nat \<Rightarrow> go_error option" where
  "CheckRedirect allowPrivate target via =
     (if via \<ge> 10 then Some (errors_new ''stopped after 10 redirects'')
      else validateRemoteAttachmentURL target allowPrivate)"

end
