(* ===== verification/Server_Policy.thy ===== *)
theory Server_Policy
  imports Gateway_Config Net_Policy
begin

text \<open>
  The request policy of \<open>internal/httpapi/server.go\<close>: permission modes, the features a request may
  use, the provider it may name, and the status that an error is answered with.

  \<open>models\<close> is what the runtime's \<open>ListModels\<close> answers.  \<open>url.Parse\<close> is an argument; so is the text
  that \<open>json.Marshal\<close> gives for the fingerprints.
\<close>

section \<open>Models\<close>

record vision_limits =
  vl_media_types :: "string list"
  vl_max_images :: int
  vl_max_image_size :: int

record model =
  mo_id :: string
  mo_name :: string
  mo_vision :: bool
  mo_reasoning_effort :: bool
  mo_max_prompt_tokens :: "int option"
  mo_max_output_tokens :: "int option"
  mo_max_context_window :: int
  mo_vision_limits :: "vision_limits option"
  mo_efforts :: "string list"
  mo_default_effort :: string

section \<open>Permission modes\<close>

definition permissionModeRank :: "permission_mode \<Rightarrow> nat" where
  "permissionModeRank mode =
     (if mode = PermissionModeAllow then 2 else if mode = PermissionModeBridge then 1 else 0)"

definition server_mode :: "permission_mode \<Rightarrow> permission_mode" where
  "server_mode mode = (if mode = [] \<or> mode = PermissionModeInherit then PermissionModeDeny else mode)"

definition effectivePermissionMode :: "string \<Rightarrow> permission_mode \<Rightarrow> go_error + permission_mode" where
  "effectivePermissionMode requestMode defaultMode =
     (let server = server_mode defaultMode; m = to_lower (trim_space requestMode) in
      if m = [] \<or> m = PermissionModeInherit then Inr server
      else if m = PermissionModeAllow \<or> m = PermissionModeDeny \<or> m = PermissionModeBridge then
        (if permissionModeRank m > permissionModeRank server
         then Inl (err_with ErrCopilotPermissionEscalation (''requested='' @ m @ '' server='' @ server))
         else Inr m)
      else Inl (err_with ErrInvalidCopilotPermissionMode requestMode))"

section \<open>Agents, system messages, extensions\<close>

definition resolveModel :: "config \<Rightarrow> string \<Rightarrow> string" where
  "resolveModel c m = (if trim_space m \<noteq> [] then trim_space m else cf_default_model c)"

definition hasCustomAgent :: "config \<Rightarrow> string \<Rightarrow> bool" where
  "hasCustomAgent c agent \<longleftrightarrow>
     (let a = trim_space agent in
      a \<noteq> [] \<and> list_ex (\<lambda>x. trim_space (cu_name x) = a) (cf_custom_agents c))"

definition effectiveSystemMessageMode :: "string \<Rightarrow> string" where
  "effectiveSystemMessageMode mode =
     (let m = to_lower (trim_space mode) in
      if m = ''replace'' then ''replace''
      else if m = ''customize'' then ''customize''
      else if m = [] \<or> m = ''append'' then ''append''
      else m)"

definition effectiveAgent :: "string \<Rightarrow> string \<Rightarrow> string" where
  "effectiveAgent requestAgent defaultAgent =
     (if \<not> blank requestAgent then trim_space requestAgent else trim_space defaultAgent)"

definition hasCopilotRequestExtension :: "copilot_extension \<Rightarrow> bool" where
  "hasCopilotRequestExtension x \<longleftrightarrow>
     ce_include_reasoning x \<or> ce_include_runtime_events x \<or> ce_interactive x \<or>
     \<not> blank (ce_permission_mode x) \<or> ce_provider x \<noteq> None \<or> ce_attachments x \<noteq> [] \<or>
     ce_tools x \<noteq> [] \<or> ce_system_message_sections x \<noteq> [] \<or> \<not> blank (ce_agent x) \<or>
     \<not> blank (ce_system_message_mode x)"

definition requires_continuation :: "copilot_extension \<Rightarrow> permission_mode \<Rightarrow> bool" where
  "requires_continuation x mode \<longleftrightarrow> ce_interactive x \<or> ce_tools x \<noteq> [] \<or> mode = PermissionModeBridge"

definition validate_tool :: "copilot_tool \<Rightarrow> go_error option" where
  "validate_tool t =
     (if blank (ct_name t) then Some (err_with ErrInvalidCopilotTool ''name is required'')
      else (case ct_parameters t of
              None \<Rightarrow> None
            | Some ps \<Rightarrow>
                (case json_string (map_of ps ''type'') of
                   Some ty \<Rightarrow>
                     (if ty \<noteq> [] \<and> ty \<noteq> ''object''
                      then Some (err_with ErrInvalidCopilotTool (''tool '' @ ct_name t @ '' parameters.type must be object''))
                      else None)
                 | None \<Rightarrow> None)))"

fun validateCopilotTools :: "copilot_tool list \<Rightarrow> go_error option" where
  "validateCopilotTools [] = None"
| "validateCopilotTools (t # ts) =
     (case validate_tool t of Some e \<Rightarrow> Some e | None \<Rightarrow> validateCopilotTools ts)"

section \<open>Features of a request\<close>

definition attachmentCount :: "turn list \<Rightarrow> nat" where
  "attachmentCount turns = sum_list (map (\<lambda>t. length (tn_attachments t)) turns)"

definition lookupModel :: "go_error + model list \<Rightarrow> string \<Rightarrow> go_error + model option" where
  "lookupModel models modelID =
     (case models of Inl e \<Rightarrow> Inl e | Inr ms \<Rightarrow> Inr (find (\<lambda>m. mo_id m = modelID) ms))"

definition unknownModelCapabilitiesError :: "string \<Rightarrow> bool \<Rightarrow> bool \<Rightarrow> go_error option" where
  "unknownModelCapabilitiesError modelID hasReasoning hasImages =
     (let features = (if hasReasoning then [''reasoning_effort''] else []) @ (if hasImages then [''image input''] else [])
      in if features = [] then None
         else Some (err_with ErrUnknownModelCapabilities (''cannot validate '' @ join_with '' and '' features
           @ '' for model '' @ modelID
           @ ''; list the model in /v1/models first or retry without those features'')))"

definition limits_error :: "string \<Rightarrow> go_error" where
  "limits_error d = err_with ErrModelLimitsExceeded d"

definition media_key :: "string \<Rightarrow> string" where
  "media_key m = to_lower (trim_space m)"

text \<open>The first attachment whose media type the model does not list.\<close>

definition media_type_error :: "vision_limits \<Rightarrow> string list \<Rightarrow> go_error option" where
  "media_type_error l types =
     (if vl_media_types l = [] then None
      else (case find (\<lambda>m. media_key m \<notin> set (map media_key (vl_media_types l))) types of
              None \<Rightarrow> None
            | Some m \<Rightarrow> Some (limits_error (''unsupported media type '' @ m))))"

definition image_error :: "model \<Rightarrow> image_attachment list \<Rightarrow> go_error option" where
  "image_error m atts =
     (if atts = [] then None
      else if \<not> mo_vision m then Some (err ErrUnsupportedVisionModel)
      else (case mo_vision_limits m of
        None \<Rightarrow> None
      | Some l \<Rightarrow>
          (if vl_max_images l > 0 \<and> int (length atts) > vl_max_images l
           then Some (limits_error (''max_prompt_images='' @ decimal (nat (vl_max_images l))))
           else if list_ex (\<lambda>a. ia_data a = []) atts then None
           else (case media_type_error l (map ia_media_type atts) of
             Some e \<Rightarrow> Some e
           | None \<Rightarrow>
               (if vl_max_image_size l > 0 \<and>
                   list_ex (\<lambda>a. int (length (ia_data a)) > vl_max_image_size l) atts
                then Some (limits_error ''image exceeds max_prompt_image_size'') else None)))))"

definition effort_error :: "model \<Rightarrow> string \<Rightarrow> go_error option" where
  "effort_error m effort =
     (if effort = [] then None
      else if \<not> mo_reasoning_effort m then Some (err ErrUnsupportedReasoningEffort)
      else if mo_efforts m \<noteq> [] \<and> effort \<notin> set (mo_efforts m)
      then Some (err_with ErrUnsupportedReasoningEffort effort)
      else None)"

text \<open>The checks of the system message mode and the agent.\<close>

definition system_message_error :: "config \<Rightarrow> conversation \<Rightarrow> go_error option" where
  "system_message_error c r =
     (let x = cv_copilot r; mode = effectiveSystemMessageMode (ce_system_message_mode x); agent = trim_space (ce_agent x) in
      if mode \<notin> {''append'', ''replace'', ''customize''}
      then Some (err_with ErrInvalidSystemMessageMode (ce_system_message_mode x))
      else if mode = ''replace'' \<and> blank (cv_system_prompt r)
      then Some (err_with ErrInvalidSystemMessageMode ''replace mode requires a non-empty system prompt'')
      else if mode = ''customize'' \<and> ce_system_message_sections x = []
      then Some (err_with ErrInvalidSystemMessageMode ''customize mode requires at least one section override in x_copilot.system_message_sections'')
      else if agent \<noteq> [] \<and> \<not> hasCustomAgent c agent then Some (err_with ErrUnknownAgent agent)
      else None)"

definition model_error :: "go_error + model list \<Rightarrow> string \<Rightarrow> conversation \<Rightarrow> go_error option" where
  "model_error models modelID r =
     (if cv_reasoning_effort r = [] \<and> attachmentCount (cv_turns r) = 0 then None
      else if ce_provider (cv_copilot r) \<noteq> None then None
      else (case lookupModel models modelID of
        Inl e \<Rightarrow> Some e
      | Inr None \<Rightarrow> unknownModelCapabilitiesError modelID (cv_reasoning_effort r \<noteq> []) (attachmentCount (cv_turns r) > 0)
      | Inr (Some m) \<Rightarrow>
          (case effort_error m (cv_reasoning_effort r) of
             Some e \<Rightarrow> Some e
           | None \<Rightarrow>
               (case LatestUserTurn (cv_turns r) of
                  Inl e \<Rightarrow> Some e
                | Inr latest \<Rightarrow> image_error m (tn_attachments latest)))))"

definition validateConversationFeatures ::
    "config \<Rightarrow> go_error + model list \<Rightarrow> string \<Rightarrow> conversation \<Rightarrow> go_error option" where
  "validateConversationFeatures c models modelID r =
     (case system_message_error c r of
        Some e \<Rightarrow> Some e
      | None \<Rightarrow>
     (case effectivePermissionMode (ce_permission_mode (cv_copilot r)) (cf_permission_mode c) of
        Inl e \<Rightarrow> Some e
      | Inr mode \<Rightarrow>
          (if requires_continuation (cv_copilot r) mode \<and> \<not> cv_stream r then Some (err ErrInteractiveRequiresStream)
           else (case validateCopilotTools (ce_tools (cv_copilot r)) of
             Some e \<Rightarrow> Some e
           | None \<Rightarrow>
          (case ValidateAttachmentPlacement (cv_turns r) False of
             Some e \<Rightarrow> Some e
           | None \<Rightarrow> model_error models modelID r)))))"

section \<open>Tools and providers for the runtime\<close>

record provider_config =
  pc_type :: string
  pc_wire_api :: string
  pc_base_url :: string
  pc_api_key :: string
  pc_bearer_token :: string
  pc_azure_api_version :: string

fun cloneAny :: "json \<Rightarrow> json" where
  "cloneAny (JObj ms) = JObj (map (\<lambda>(k, v). (k, cloneAny v)) ms)"
| "cloneAny (JArr vs) = JArr (map cloneAny vs)"
| "cloneAny v = v"

definition clone_members :: "(string \<times> json) list \<Rightarrow> (string \<times> json) list" where
  "clone_members ms = map (\<lambda>(k, v). (k, cloneAny v)) ms"

definition toRuntimeTools :: "copilot_tool list \<Rightarrow> copilot_tool list" where
  "toRuntimeTools tools = map (\<lambda>t. t\<lparr>ct_parameters := map_option clone_members (ct_parameters t)\<rparr>) tools"

definition toRuntimeSectionOverrides ::
    "(string \<times> section_override) list \<Rightarrow> (string \<times> section_override) list" where
  "toRuntimeSectionOverrides sections =
     map (\<lambda>(k, v). (k, \<lparr>so_action = so_action v, so_content = so_content v\<rparr>)) sections"

definition bad_provider :: "string \<Rightarrow> go_error" where
  "bad_provider d = err_with ErrInvalidCopilotProvider d"

definition wire_api :: "string \<Rightarrow> copilot_provider \<Rightarrow> go_error + string" where
  "wire_api ptype p =
     (let w = to_lower (trim_space (cp_wire_api p)) in
      if ptype = ''anthropic'' then
        (if w \<noteq> [] then Inl (bad_provider ''x_copilot.provider.wire_api is only valid for openai or azure providers'')
         else Inr w)
      else if w = [] then Inr ''completions''
      else if w = ''completions'' \<or> w = ''responses'' then Inr w
      else Inl (bad_provider (''unsupported x_copilot.provider.wire_api '' @ cp_wire_api p)))"

definition azure_version :: "string \<Rightarrow> copilot_provider \<Rightarrow> go_error + string" where
  "azure_version ptype p =
     (case cp_azure p of
        None \<Rightarrow> Inr []
      | Some v \<Rightarrow>
          (if trim_space v \<noteq> [] \<and> ptype \<noteq> ''azure''
           then Inl (bad_provider ''x_copilot.provider.azure requires type=azure'') else Inr (trim_space v)))"

text \<open>A field with \<open>omitempty\<close>; the hexadecimal SHA-256 of a marshalled payload.\<close>

definition omit_empty :: "string \<Rightarrow> string \<Rightarrow> (string \<times> json) list" where
  "omit_empty k v = (if v = [] then [] else [(k, JStr v)])"

definition fingerprint :: "string \<Rightarrow> string" where
  "fingerprint payload = hex_encode (sha256 payload)"

definition public_payload :: "provider_config \<Rightarrow> json" where
  "public_payload p = JObj ([(''type'', JStr (pc_type p))] @ omit_empty ''wire_api'' (pc_wire_api p)
     @ [(''base_url'', JStr (pc_base_url p))] @ omit_empty ''azure_api_version'' (pc_azure_api_version p))"

definition secret_payload :: "provider_config \<Rightarrow> json" where
  "secret_payload p = JObj (omit_empty ''api_key'' (pc_api_key p) @ omit_empty ''bearer_token'' (pc_bearer_token p))"

definition toRuntimeProvider ::
    "config \<Rightarrow> (string \<Rightarrow> parsed_url option) \<Rightarrow> (json \<Rightarrow> string) \<Rightarrow> copilot_provider option \<Rightarrow>
     go_error + provider_config option \<times> string \<times> string" where
  "toRuntimeProvider c parse_url marshal provider =
     (case provider of
        None \<Rightarrow> Inr (None, [], [])
      | Some p \<Rightarrow>
     (let baseURL = trim_space (cp_base_url p); given = to_lower (trim_space (cp_type p));
          ptype = (if given = [] then ''openai'' else given) in
      if baseURL = [] then Inl (bad_provider ''x_copilot.provider.base_url is required'')
      else if ptype \<notin> {''openai'', ''azure'', ''anthropic''}
      then Inl (bad_provider (''unsupported x_copilot.provider.type '' @ cp_type p))
      else if parse_url baseURL = None
      then Inl (bad_provider ''x_copilot.provider.base_url must be an absolute URL'')
      else (case validateProviderBaseURL (cf_allow_private_urls c) ptype (parse_url baseURL) of
        Some e \<Rightarrow> Inl e
      | None \<Rightarrow>
     (case wire_api ptype p of
        Inl e \<Rightarrow> Inl e
      | Inr wire \<Rightarrow>
     (case azure_version ptype p of
        Inl e \<Rightarrow> Inl e
      | Inr version \<Rightarrow>
     (let rp = \<lparr>pc_type = ptype, pc_wire_api = wire, pc_base_url = baseURL,
                pc_api_key = trim_space (cp_api_key p), pc_bearer_token = trim_space (cp_bearer_token p),
                pc_azure_api_version = version\<rparr>
      in Inr (Some rp, fingerprint (marshal (public_payload rp)), fingerprint (marshal (secret_payload rp)))))))))"

definition tool_payload :: "copilot_tool \<Rightarrow> json" where
  "tool_payload t = JObj (omit_empty ''name'' (ct_name t) @ omit_empty ''description'' (ct_description t)
     @ (case ct_parameters t of None \<Rightarrow> [] | Some [] \<Rightarrow> [] | Some ps \<Rightarrow> [(''parameters'', JObj ps)])
     @ (if ct_override_builtin t then [(''override_builtin'', JBool True)] else [])
     @ (if ct_skip_permission t then [(''skip_permission'', JBool True)] else []))"

text \<open>\<open>sort.Strings\<close> orders by bytes.\<close>

definition byte_order :: "string \<Rightarrow> nat list" where
  "byte_order s = map of_char s"

fun lex_le :: "nat list \<Rightarrow> nat list \<Rightarrow> bool" where
  "lex_le [] ys = True"
| "lex_le (x # xs) [] = False"
| "lex_le (x # xs) (y # ys) = (x < y \<or> (x = y \<and> lex_le xs ys))"

fun insert_sorted :: "string \<Rightarrow> string list \<Rightarrow> string list" where
  "insert_sorted s [] = [s]"
| "insert_sorted s (t # ts) =
     (if lex_le (byte_order s) (byte_order t) then s # t # ts else t # insert_sorted s ts)"

definition sort_strings :: "string list \<Rightarrow> string list" where
  "sort_strings ss = foldr insert_sorted ss []"

definition toolDefinitionsFingerprint :: "(json \<Rightarrow> string) \<Rightarrow> copilot_tool list \<Rightarrow> string" where
  "toolDefinitionsFingerprint marshal tools =
     (if tools = [] then []
      else fingerprint (marshal (JArr (map JStr (sort_strings (map (\<lambda>t. marshal (tool_payload t)) tools))))))"

section \<open>Errors\<close>

definition is_any :: "go_error \<Rightarrow> sentinel list \<Rightarrow> bool" where
  "is_any e ss \<longleftrightarrow> list_ex (errors_is e) ss"

definition classifyError :: "go_error \<Rightarrow> int \<times> string \<times> string" where
  "classifyError e =
     (case first_response (causes e) of
        Some r \<Rightarrow>
          (if re_status r = 0 then 502 else re_status r,
           if re_type r = [] then ''upstream_error'' else re_type r, re_message r)
      | None \<Rightarrow>
          (let bad = (400, ''invalid_request_error'', err_text e) in
           if is_any e [ErrStreamIdleTimeout, ErrDeadlineExceeded] then (504, ''timeout_error'', err_text e)
           else if errors_is e ErrCanceled then (503, ''cancelled'', ''request cancelled'')
           else if errors_is e ErrUnauthorized then (401, ''authentication_error'', ''invalid API key'')
           else if is_any e [ErrUnsupportedTools, ErrUnsupportedControls, ErrUnsupportedMessageFields]
           then (400, ''unsupported_feature'', err_text e)
           else if is_any e [ErrUnsupportedContent, ErrNoTurns, ErrFinalTurnNotUser, ErrUnsupportedImages, ErrInvalidImageData]
           then bad
           else if MaxBytesError \<in> set (causes e) then (413, ''invalid_request_error'', err_text e)
           else if is_any e [ErrEOF, ErrUnexpectedEOF]
           then (400, ''invalid_request_error'', ''request body must be valid JSON'')
           else if JsonSyntaxError \<in> set (causes e) \<or> JsonTypeError \<in> set (causes e) then bad
           else if is_any e [ErrInvalidSessionKey, ErrMissingSessionKey, ErrInvalidAnthropicVersion] then bad
           else if is_any e [ErrInvalidSystemMessageMode, ErrUnknownAgent] then bad
           else if is_any e [ErrInteractiveRequiresStream, ErrInteractiveRequiresSessionKey,
             ErrInvalidCopilotPermissionMode, ErrInvalidCopilotProvider, ErrCopilotPermissionEscalation,
             ErrInvalidCopilotTool, ErrInvalidCopilotResponse, ErrInvalidCopilotAttachment] then bad
           else if is_any e [ErrUnsupportedReasoningEffort, ErrUnsupportedVisionModel, ErrModelLimitsExceeded,
             ErrUnknownModelCapabilities] then bad
           else if errors_is e ErrSessionSpecMismatch then (409, ''session_conflict'', err_text e)
           else if errors_is e ErrTooManySessionsForNamespace then (429, ''session_limit_exceeded'', err_text e)
           else if errors_is e ErrTooManySessions then (503, ''session_capacity_exceeded'', err_text e)
           else if errors_is e ErrPendingRequestNotFound then (404, ''invalid_request_error'', err_text e)
           else if errors_is e ErrPendingRequestsUnsupported then (409, ''session_conflict'', err_text e)
           else (502, ''upstream_error'', err_text e)))"

end
