(* ===== verification/Server_Attachments.thy ===== *)
theory Server_Attachments
  imports Server_Policy
begin

text \<open>
  Attachments of \<open>internal/httpapi/server.go\<close>: images and files of a request are fetched, decoded
  and written to temporary directories for the runtime, or sent inline.

  \<open>temp_fs\<close> holds the live temporary directories and a script of the failures of the system calls
  that create and write; removal does not fail.  A written file is its directory, the fixed part
  of its name and its contents.  \<open>web\<close> is the network: \<open>url.Parse\<close>, the path of a URL, and what
  the restricted client's \<open>Do\<close> answers.
\<close>

section \<open>Names and types\<close>

text \<open>\<open>filepath.Base\<close> and \<open>filepath.Ext\<close>.\<close>

definition base_name :: "string \<Rightarrow> string" where
  "base_name p =
     (if p = [] then ''.''
      else (let q = rev (dropWhile (\<lambda>c. c = CHR ''/'') (rev p)) in
            if q = [] then ''/'' else rev (takeWhile (\<lambda>c. c \<noteq> CHR ''/'') (rev q))))"

definition extension :: "string \<Rightarrow> string" where
  "extension p =
     (let name = rev (takeWhile (\<lambda>c. c \<noteq> CHR ''/'') (rev p));
          tail = takeWhile (\<lambda>c. c \<noteq> CHR ''.'') (rev name)
      in if length tail = length name then [] else CHR ''.'' # rev tail)"

definition name_char :: "char \<Rightarrow> bool" where
  "name_char c \<longleftrightarrow>
     (let n = of_char c :: nat in
      (97 \<le> n \<and> n \<le> 122) \<or> (65 \<le> n \<and> n \<le> 90) \<or> (48 \<le> n \<and> n \<le> 57) \<or> n = 45 \<or> n = 95)"

text \<open>
  \<open>strings.Map\<close> works on runes.  \<open>rune_width\<close> is the number of bytes that \<open>utf8.DecodeRune\<close> takes from
  the front: those of a valid encoding, or one byte.
\<close>

definition in_range :: "nat \<Rightarrow> nat \<Rightarrow> nat \<Rightarrow> bool" where
  "in_range lo hi n \<longleftrightarrow> lo \<le> n \<and> n \<le> hi"

definition follows :: "(nat \<times> nat) list \<Rightarrow> nat list \<Rightarrow> bool" where
  "follows ranges bs \<longleftrightarrow>
     length ranges \<le> length bs \<and> list_all (\<lambda>((lo, hi), n). in_range lo hi n) (zip ranges bs)"

definition rune_tails :: "nat \<Rightarrow> (nat \<times> nat) list" where
  "rune_tails b =
     (if in_range 0xC2 0xDF b then [(0x80, 0xBF)]
      else if b = 0xE0 then [(0xA0, 0xBF), (0x80, 0xBF)]
      else if b = 0xED then [(0x80, 0x9F), (0x80, 0xBF)]
      else if in_range 0xE1 0xEF b then [(0x80, 0xBF), (0x80, 0xBF)]
      else if b = 0xF0 then [(0x90, 0xBF), (0x80, 0xBF), (0x80, 0xBF)]
      else if in_range 0xF1 0xF3 b then [(0x80, 0xBF), (0x80, 0xBF), (0x80, 0xBF)]
      else if b = 0xF4 then [(0x80, 0x8F), (0x80, 0xBF), (0x80, 0xBF)]
      else [])"

text \<open>How many bytes of the tail belong to the rune that starts with the first one.\<close>

definition rune_rest :: "char \<Rightarrow> string \<Rightarrow> nat" where
  "rune_rest c s =
     (let ranges = rune_tails (of_char c) in
      if follows ranges (map of_char s) then length ranges else 0)"

fun clean_name :: "string \<Rightarrow> string" where
  "clean_name [] = []"
| "clean_name (c # s) = (if name_char c then c else CHR ''-'') # clean_name (drop (rune_rest c s) s)"

definition trim_dashes :: "string \<Rightarrow> string" where
  "trim_dashes s = rev (dropWhile (\<lambda>c. c = CHR ''-'') (rev (dropWhile (\<lambda>c. c = CHR ''-'') s)))"

definition sanitizeAttachmentName :: "string \<Rightarrow> string" where
  "sanitizeAttachmentName name =
     (let n = trim_space name in
      if n = [] then ''attachment''
      else (let b = base_name n; t = trim_dashes (clean_name (trim_suffix b (extension b)))
            in if t = [] then ''attachment'' else t))"

definition extensionForMediaType :: "string \<Rightarrow> string" where
  "extensionForMediaType mediaType =
     (let m = to_lower (trim_space mediaType) in
      if m = ''image/png'' then ''.png''
      else if m = ''image/jpeg'' \<or> m = ''image/jpg'' then ''.jpg''
      else if m = ''image/gif'' then ''.gif''
      else if m = ''image/webp'' then ''.webp''
      else if m = ''text/plain'' then ''.txt''
      else if m = ''text/markdown'' then ''.md''
      else if m = ''application/json'' then ''.json''
      else if m = ''application/pdf'' then ''.pdf''
      else ''.bin'')"

section \<open>Temporary files\<close>

record temp_fs =
  tf_live :: "nat list"
  tf_next :: nat
  tf_faults :: "go_error option list"

definition os_call :: "temp_fs \<Rightarrow> go_error option \<times> temp_fs" where
  "os_call s = (case tf_faults s of [] \<Rightarrow> (None, s) | f # fs \<Rightarrow> (f, s\<lparr>tf_faults := fs\<rparr>))"

definition MkdirTemp :: "temp_fs \<Rightarrow> (go_error + nat) \<times> temp_fs" where
  "MkdirTemp s =
     (case os_call s of
        (Some e, s1) \<Rightarrow> (Inl e, s1)
      | (None, s1) \<Rightarrow> (Inr (tf_next s1), s1\<lparr>tf_live := tf_next s1 # tf_live s1, tf_next := Suc (tf_next s1)\<rparr>))"

definition RemoveAll :: "nat \<Rightarrow> temp_fs \<Rightarrow> temp_fs" where
  "RemoveAll d s = s\<lparr>tf_live := removeAll d (tf_live s)\<rparr>"

record attachment =
  at_file :: "(nat \<times> string \<times> string) option"
  at_media_type :: string
  at_blob :: string

definition bad_attachment :: "string \<Rightarrow> go_error" where
  "bad_attachment d = err_with ErrInvalidCopilotAttachment d"

text \<open>Create, write and close: the first failure is returned, and the file is removed.\<close>

definition write_calls :: "temp_fs \<Rightarrow> go_error option \<times> temp_fs" where
  "write_calls s =
     (case os_call s of
        (Some e, s1) \<Rightarrow> (Some e, s1)
      | (None, s1) \<Rightarrow> (case os_call s1 of
            (Some e, s2) \<Rightarrow> (Some e, s2)
          | (None, s2) \<Rightarrow> os_call s2))"

definition writeAttachmentFile ::
    "content_lib \<Rightarrow> nat \<Rightarrow> string \<Rightarrow> string \<Rightarrow> string \<Rightarrow> temp_fs \<Rightarrow> (go_error + attachment) \<times> temp_fs" where
  "writeAttachmentFile lib dir nameHint mediaType data s =
     (if data = [] then (Inl (bad_attachment ''attachment content must not be empty''), s)
      else (let m = (if blank mediaType then to_lower (trim_space (cl_detect lib data)) else mediaType);
                name = sanitizeAttachmentName nameHint @ ''-*'' @ extensionForMediaType m
            in (case write_calls s of
                  (Some e, s1) \<Rightarrow> (Inl e, s1)
                | (None, s1) \<Rightarrow> (Inr \<lparr>at_file = Some (dir, name, data), at_media_type = m, at_blob = []\<rparr>, s1))))"

section \<open>Remote content\<close>

record web =
  wb_parse :: "string \<Rightarrow> parsed_url option"
  wb_path :: "string \<Rightarrow> string"
  wb_get :: "string \<Rightarrow> go_error + int \<times> string \<times> string \<times> go_error option"

definition fetchRemoteAttachment ::
    "config \<Rightarrow> content_lib \<Rightarrow> web \<Rightarrow> string \<Rightarrow> go_error + string \<times> string \<times> string" where
  "fetchRemoteAttachment c lib w rawURL =
     (let raw = trim_space rawURL in
      if wb_parse w raw = None then Inl (bad_attachment raw)
      else (case validateRemoteAttachmentURL (wb_parse w raw) (cf_allow_private_urls c) of
        Some e \<Rightarrow> Inl e
      | None \<Rightarrow>
     (case wb_get w raw of
        Inl e \<Rightarrow> Inl e
      | Inr (status, contentType, body, broken) \<Rightarrow>
          (if status < 200 \<or> status \<ge> 300
           then Inl (bad_attachment (''unexpected status '' @ decimal (nat status)))
           else
             (let data = take (nat (cf_max_body_bytes c + 1)) body in
              if broken \<noteq> None \<and> int (length body) \<le> cf_max_body_bytes c then Inl (the broken)
              else if int (length data) > cf_max_body_bytes c
              then Inl (bad_attachment ''remote attachment exceeds max body size'')
              else
                (let given = to_lower (trim_space contentType);
                     cut = (case cut_at (CHR '';'') given of Some (m, _) \<Rightarrow> m | None \<Rightarrow> given);
                     mediaType = (if cut = [] then to_lower (trim_space (cl_detect lib data)) else cut);
                     base = base_name (wb_path w raw);
                     name = (if base = ''.'' \<or> base = ''/'' \<or> blank base then ''attachment'' else base)
                 in Inr (mediaType, data, name)))))))"

section \<open>Images\<close>

text \<open>
  The loop of \<open>materializeAttachments\<close>; \<open>dir\<close> is its temporary directory, once there is one.
\<close>

definition drop_dir :: "nat option \<Rightarrow> temp_fs \<Rightarrow> temp_fs" where
  "drop_dir dir s = (case dir of None \<Rightarrow> s | Some d \<Rightarrow> RemoveAll d s)"

fun materialize_images ::
    "config \<Rightarrow> content_lib \<Rightarrow> web \<Rightarrow> image_attachment list \<Rightarrow> nat option \<Rightarrow> attachment list \<Rightarrow> temp_fs \<Rightarrow>
     (go_error + attachment list \<times> nat option) \<times> temp_fs" where
  "materialize_images c lib w [] dir acc s = (Inr (acc, dir), s)"
| "materialize_images c lib w (img # rest) dir acc s =
     (case (if blank (ia_url img) then Inr (ia_media_type img, ia_data img, [])
            else fetchRemoteAttachment c lib w (ia_url img)) of
        Inl e \<Rightarrow> (Inl e, drop_dir dir s)
      | Inr (mediaType, data, _) \<Rightarrow>
          (if data \<noteq> [] then
             materialize_images c lib w rest dir
               (acc @ [\<lparr>at_file = None, at_media_type = mediaType, at_blob = b64_encode data\<rparr>]) s
           else
             (case (case dir of Some d \<Rightarrow> (Inr d, s) | None \<Rightarrow> MkdirTemp s) of
                (Inl e, s1) \<Rightarrow> (Inl e, s1)
              | (Inr d, s1) \<Rightarrow>
                  (case writeAttachmentFile lib d ''image'' mediaType data s1 of
                     (Inl e, s2) \<Rightarrow> (Inl e, RemoveAll d s2)
                   | (Inr a, s2) \<Rightarrow> materialize_images c lib w rest (Some d) (acc @ [a]) s2))))"

text \<open>The result has the directories that the cleanup removes.\<close>

definition materializeAttachments ::
    "config \<Rightarrow> content_lib \<Rightarrow> web \<Rightarrow> image_attachment list \<Rightarrow> temp_fs \<Rightarrow>
     (go_error + attachment list \<times> nat option) \<times> temp_fs" where
  "materializeAttachments c lib w images s =
     (if images = [] then (Inr ([], None), s) else materialize_images c lib w images None [] s)"

section \<open>Files\<close>

definition materializeCopilotAttachment ::
    "config \<Rightarrow> content_lib \<Rightarrow> web \<Rightarrow> nat \<Rightarrow> copilot_attachment \<Rightarrow> temp_fs \<Rightarrow> (go_error + attachment) \<times> temp_fs"
  where
  "materializeCopilotAttachment c lib w dir input s =
     (let nameHint = (if blank (ca_name input) then ''attachment'' else trim_space (ca_name input));
          mediaType = trim_space (ca_media_type input) in
      if \<not> blank (ca_data input) then
        (case b64_decode (ca_data input) of
           None \<Rightarrow> (Inl (bad_attachment b64_error_text), s)
         | Some decoded \<Rightarrow> writeAttachmentFile lib dir nameHint mediaType decoded s)
      else if \<not> blank (ca_text input) then
        writeAttachmentFile lib dir nameHint (if mediaType = [] then ''text/plain'' else mediaType) (ca_text input) s
      else if \<not> blank (ca_url input) then
        (case fetchRemoteAttachment c lib w (ca_url input) of
           Inl e \<Rightarrow> (Inl e, s)
         | Inr (fetchedType, fetchedData, fetchedName) \<Rightarrow>
             writeAttachmentFile lib dir (if blank (ca_name input) then fetchedName else nameHint)
               (if mediaType = [] then fetchedType else mediaType) fetchedData s)
      else (Inl (bad_attachment ''attachment must include data, text, or url''), s))"

fun materialize_files ::
    "config \<Rightarrow> content_lib \<Rightarrow> web \<Rightarrow> nat \<Rightarrow> copilot_attachment list \<Rightarrow> attachment list \<Rightarrow> temp_fs \<Rightarrow>
     (go_error + attachment list) \<times> temp_fs" where
  "materialize_files c lib w dir [] acc s = (Inr acc, s)"
| "materialize_files c lib w dir (input # rest) acc s =
     (case materializeCopilotAttachment c lib w dir input s of
        (Inl e, s1) \<Rightarrow> (Inl e, RemoveAll dir s1)
      | (Inr a, s1) \<Rightarrow> materialize_files c lib w dir rest (acc @ [a]) s1)"

definition materializeCopilotAttachments ::
    "config \<Rightarrow> content_lib \<Rightarrow> web \<Rightarrow> copilot_attachment list \<Rightarrow> temp_fs \<Rightarrow>
     (go_error + attachment list \<times> nat option) \<times> temp_fs" where
  "materializeCopilotAttachments c lib w inputs s =
     (if inputs = [] then (Inr ([], None), s)
      else (case MkdirTemp s of
              (Inl e, s1) \<Rightarrow> (Inl e, s1)
            | (Inr dir, s1) \<Rightarrow>
                (case materialize_files c lib w dir inputs [] s1 of
                   (Inl e, s2) \<Rightarrow> (Inl e, s2)
                 | (Inr as, s2) \<Rightarrow> (Inr (as, Some dir), s2))))"

text \<open>\<open>combineCleanup\<close>: the directories of both closures, removed in turn.\<close>

definition combineCleanup :: "nat option list \<Rightarrow> nat list" where
  "combineCleanup cleanups = List.map_filter (\<lambda>x. x) cleanups"

definition run_cleanup :: "nat list \<Rightarrow> temp_fs \<Rightarrow> temp_fs" where
  "run_cleanup dirs s = fold RemoveAll dirs s"

section \<open>The model's limits on materialized images\<close>

definition attachment_size :: "attachment \<Rightarrow> go_error + int" where
  "attachment_size a =
     (if at_blob a \<noteq> [] then
        (case b64_decode (at_blob a) of
           None \<Rightarrow> Inl (errors_new b64_error_text) | Some d \<Rightarrow> Inr (int (length d)))
      else (case at_file a of
              None \<Rightarrow> Inl (errors_new ''stat : no such file or directory'')
            | Some (_, _, data) \<Rightarrow> Inr (int (length data))))"

fun size_error :: "int \<Rightarrow> attachment list \<Rightarrow> go_error option" where
  "size_error limit [] = None"
| "size_error limit (a # rest) =
     (case attachment_size a of
        Inl e \<Rightarrow> Some e
      | Inr n \<Rightarrow> if n > limit then Some (limits_error ''image exceeds max_prompt_image_size'')
                else size_error limit rest)"

definition validateMaterializedImageAttachments ::
    "go_error + model list \<Rightarrow> string \<Rightarrow> attachment list \<Rightarrow> bool \<Rightarrow> go_error option" where
  "validateMaterializedImageAttachments models modelID attachments skip =
     (if attachments = [] \<or> skip then None
      else (case lookupModel models modelID of
        Inl e \<Rightarrow> Some e
      | Inr None \<Rightarrow> unknownModelCapabilitiesError modelID False True
      | Inr (Some m) \<Rightarrow>
          (case mo_vision_limits m of
             None \<Rightarrow> None
           | Some l \<Rightarrow>
               (case media_type_error l (map at_media_type attachments) of
                  Some e \<Rightarrow> Some e
                | None \<Rightarrow> if vl_max_image_size l > 0 then size_error (vl_max_image_size l) attachments else None))))"

section \<open>The attachments of a request\<close>

text \<open>
  The part of \<open>prepareConversation\<close> from the images of the latest turn on: an error removes what was
  written before it; otherwise the message's attachments and the directories of its cleanup are given.
\<close>

definition remove_dir :: "nat option \<Rightarrow> temp_fs \<Rightarrow> temp_fs" where
  "remove_dir dir = run_cleanup (combineCleanup [dir])"

definition prepare_attachments ::
    "config \<Rightarrow> content_lib \<Rightarrow> web \<Rightarrow> go_error + model list \<Rightarrow> string \<Rightarrow> copilot_extension \<Rightarrow>
     image_attachment list \<Rightarrow> temp_fs \<Rightarrow> (go_error + attachment list \<times> nat list) \<times> temp_fs" where
  "prepare_attachments c lib w models modelID x images s =
     (case materializeAttachments c lib w images s of
        (Inl e, s1) \<Rightarrow> (Inl e, s1)
      | (Inr (imageAttachments, imageDir), s1) \<Rightarrow>
     (case materializeCopilotAttachments c lib w (ce_attachments x) s1 of
        (Inl e, s2) \<Rightarrow> (Inl e, remove_dir imageDir s2)
      | (Inr (extraAttachments, extraDir), s2) \<Rightarrow>
     (let cleanup = combineCleanup [imageDir, extraDir] in
      case validateMaterializedImageAttachments models modelID imageAttachments (ce_provider x \<noteq> None) of
        Some e \<Rightarrow> (Inl e, run_cleanup cleanup s2)
      | None \<Rightarrow> (Inr (imageAttachments @ extraAttachments, cleanup), s2))))"

end
