(* ===== verification/Copilot_Provider.thy ===== *)
theory Copilot_Provider
  imports Server_Policy
begin

text \<open>
  The Copilot provider of \<open>internal/runtime/copilot.go\<close>: starting and stopping the SDK client, the
  list of models, and the configuration of new and resumed sessions.  The SDK's records have the
  fields the gateway sets; its answers are arguments.
\<close>

section \<open>Options\<close>

record runtime_options =
  ro_cli_path :: string
  ro_github_token :: string
  ro_use_logged_in_user :: bool
  ro_log_level :: string
  ro_client_name :: string
  ro_working_directory :: string
  ro_config_dir :: string
  ro_default_model :: string
  ro_available_tools :: "string list"
  ro_excluded_tools :: "string list"
  ro_skill_directories :: "string list"
  ro_disabled_skills :: "string list"
  ro_mcp_servers :: "(string \<times> json) list"
  ro_custom_agents :: "custom_agent list"
  ro_default_agent :: string
  ro_permission_mode :: permission_mode
  ro_infinite_sessions :: "infinite_options option"
  ro_telemetry :: "telemetry_options option"

record session_options =
  op_session_id :: string
  op_model :: string
  op_system_prompt :: string
  op_system_prompt_mode :: string
  op_sections :: "(string \<times> section_override) list"
  op_reasoning_effort :: string
  op_agent :: string
  op_interactive :: bool
  op_tools :: "copilot_tool list"
  op_permission_mode :: permission_mode
  op_provider :: "provider_config option"

section \<open>The client\<close>

record client_options =
  co_cli_path :: string
  co_log_level :: string
  co_cwd :: string
  co_github_token :: string
  co_use_logged_in_user :: bool
  co_telemetry :: "(string \<times> string \<times> string \<times> string \<times> bool option) option"

text \<open>The provider: its options and the options of the running client, if one runs.\<close>

record provider =
  pv_options :: runtime_options
  pv_client :: "client_options option"

definition NewCopilotProvider :: "runtime_options \<Rightarrow> provider" where
  "NewCopilotProvider options = \<lparr>pv_options = options, pv_client = None\<rparr>"

definition client_options_of :: "runtime_options \<Rightarrow> client_options" where
  "client_options_of o1 =
     \<lparr>co_cli_path = ro_cli_path o1, co_log_level = ro_log_level o1, co_cwd = ro_working_directory o1,
      co_github_token = ro_github_token o1, co_use_logged_in_user = ro_use_logged_in_user o1,
      co_telemetry = (case ro_telemetry o1 of
          Some t \<Rightarrow> if te_enabled t then Some (te_endpoint t, te_file_path t, te_exporter_type t,
                          te_source_name t, te_capture_content t) else None
        | None \<Rightarrow> None)\<rparr>"

definition StartProvider :: "go_error option \<Rightarrow> provider \<Rightarrow> go_error option \<times> provider" where
  "StartProvider answer p =
     (if pv_client p \<noteq> None then (None, p)
      else (case answer of
              Some e \<Rightarrow> (Some (wrap_prefix ''start copilot client'' e), p)
            | None \<Rightarrow> (None, p\<lparr>pv_client := Some (client_options_of (pv_options p))\<rparr>)))"

definition CloseProvider :: "go_error option \<Rightarrow> provider \<Rightarrow> go_error option \<times> provider" where
  "CloseProvider answer p =
     (if pv_client p = None then (None, p) else (answer, p\<lparr>pv_client := None\<rparr>))"

definition not_started :: go_error where
  "not_started = errors_new ''copilot client is not started''"

definition sessionClient :: "provider \<Rightarrow> go_error + client_options" where
  "sessionClient p = (case pv_client p of None \<Rightarrow> Inl not_started | Some c \<Rightarrow> Inr c)"

text \<open>The SDK's model is a \<open>model\<close> too, whose name may be empty.\<close>

definition model_of_sdk :: "model \<Rightarrow> model" where
  "model_of_sdk m = m\<lparr>mo_name := (if mo_name m = [] then mo_id m else mo_name m), mo_max_output_tokens := None\<rparr>"

definition ListModels :: "go_error + model list \<Rightarrow> provider \<Rightarrow> go_error + model list" where
  "ListModels answer p =
     (if pv_client p = None then Inl not_started
      else (case answer of
              Inl e \<Rightarrow> Inl (wrap_prefix ''list models'' e)
            | Inr ms \<Rightarrow> Inr (map model_of_sdk ms)))"

section \<open>Session configuration\<close>

datatype permission_handler = AllowAllPermissions | DenyAllPermissions | BridgePermissions

definition permissionHandlerForMode :: "permission_mode \<Rightarrow> permission_handler" where
  "permissionHandlerForMode mode =
     (if mode = PermissionModeAllow then AllowAllPermissions
      else if mode = PermissionModeBridge then BridgePermissions
      else DenyAllPermissions)"

text \<open>What a handler answers at once; the bridge waits for the client.\<close>

definition handler_answer :: "permission_handler \<Rightarrow> string option" where
  "handler_answer h =
     (case h of AllowAllPermissions \<Rightarrow> Some ''approved'' | DenyAllPermissions \<Rightarrow> Some ''denied-by-rules''
      | BridgePermissions \<Rightarrow> None)"

record sdk_provider =
  sp_type :: string
  sp_wire_api :: string
  sp_base_url :: string
  sp_api_key :: string
  sp_bearer_token :: string
  sp_azure :: "string option"

definition copyProviderConfig :: "provider_config option \<Rightarrow> sdk_provider option" where
  "copyProviderConfig provider =
     (case provider of None \<Rightarrow> None
      | Some p \<Rightarrow> Some \<lparr>sp_type = pc_type p, sp_wire_api = pc_wire_api p, sp_base_url = pc_base_url p,
          sp_api_key = pc_api_key p, sp_bearer_token = pc_bearer_token p,
          sp_azure = (if pc_azure_api_version p \<noteq> [] then Some (pc_azure_api_version p) else None)\<rparr>)"

definition normalizeSystemMessageMode :: "string \<Rightarrow> string" where
  "normalizeSystemMessageMode mode =
     (if to_lower (trim_space mode) = ''replace'' then ''replace'' else ''append'')"

record system_message =
  sm_mode :: string
  sm_content :: string
  sm_sections :: "(string \<times> section_override) list"

definition system_message_config :: "session_options \<Rightarrow> system_message option" where
  "system_message_config so =
     (if op_system_prompt_mode so = ''customize'' \<and> op_sections so \<noteq> []
      then Some \<lparr>sm_mode = ''customize'', sm_content = op_system_prompt so, sm_sections = op_sections so\<rparr>
      else if op_system_prompt so \<noteq> []
      then Some \<lparr>sm_mode = normalizeSystemMessageMode (op_system_prompt_mode so),
                 sm_content = op_system_prompt so, sm_sections = []\<rparr>
      else None)"

record session_config =
  sc_session_id :: string
  sc_client_name :: string
  sc_model :: string
  sc_config_dir :: string
  sc_working_directory :: string
  sc_streaming :: bool
  sc_permission_handler :: permission_handler
  sc_available_tools :: "string list"
  sc_excluded_tools :: "string list"
  sc_skill_directories :: "string list"
  sc_disabled_skills :: "string list"
  sc_reasoning_effort :: string
  sc_provider :: "sdk_provider option"
  sc_mcp_servers :: "(string \<times> json) list"
  sc_custom_agents :: "custom_agent list"
  sc_infinite_sessions :: "infinite_options option"
  sc_system_message :: "system_message option"
  sc_tools :: "copilot_tool list"
  sc_user_input :: bool
  sc_agent :: string

definition resolved_mode :: "runtime_options \<Rightarrow> session_options \<Rightarrow> permission_mode" where
  "resolved_mode o1 so =
     (let m = (if op_permission_mode so = [] \<or> op_permission_mode so = PermissionModeInherit
               then ro_permission_mode o1 else op_permission_mode so)
      in if m = [] then PermissionModeDeny else m)"

text \<open>\<open>buildTools\<close>: each tool's handler is \<open>awaitToolResult\<close> of the bridge.\<close>

definition buildTools :: "copilot_tool list \<Rightarrow> copilot_tool list" where
  "buildTools tools = map (\<lambda>t. t\<lparr>ct_parameters :=
     (case ct_parameters t of None \<Rightarrow> None | Some m \<Rightarrow> cloneMap m)\<rparr>) tools"

definition copyCustomAgents :: "custom_agent list \<Rightarrow> custom_agent list" where
  "copyCustomAgents agents = map (\<lambda>a. a) agents"

text \<open>A resumed session has no identifier in its configuration.\<close>

definition session_config_of :: "runtime_options \<Rightarrow> session_options \<Rightarrow> string \<Rightarrow> session_config" where
  "session_config_of o1 so sid =
     \<lparr>sc_session_id = sid, sc_client_name = ro_client_name o1,
      sc_model = firstNonEmpty [op_model so, ro_default_model o1],
      sc_config_dir = ro_config_dir o1, sc_working_directory = ro_working_directory o1, sc_streaming = True,
      sc_permission_handler = permissionHandlerForMode (resolved_mode o1 so),
      sc_available_tools = ro_available_tools o1, sc_excluded_tools = ro_excluded_tools o1,
      sc_skill_directories = ro_skill_directories o1, sc_disabled_skills = ro_disabled_skills o1,
      sc_reasoning_effort = op_reasoning_effort so, sc_provider = copyProviderConfig (op_provider so),
      sc_mcp_servers = ro_mcp_servers o1, sc_custom_agents = copyCustomAgents (ro_custom_agents o1),
      sc_infinite_sessions = ro_infinite_sessions o1, sc_system_message = system_message_config so,
      sc_tools = buildTools (op_tools so), sc_user_input = op_interactive so,
      sc_agent = firstNonEmpty [op_agent so, ro_default_agent o1]\<rparr>"

text \<open>
  A session of the provider: the configuration it was made with and its bridge.  \<open>answer\<close> is what
  the SDK returns, a session identifier or an error.
\<close>

record copilot_session =
  cs_id :: string
  cs_config :: session_config
  cs_bridge :: "bridge option"

definition NewSession ::
    "go_error + string \<Rightarrow> provider \<Rightarrow> session_options \<Rightarrow> go_error + copilot_session" where
  "NewSession answer p so =
     (case sessionClient p of
        Inl e \<Rightarrow> Inl e
      | Inr _ \<Rightarrow>
          (case answer of
             Inl e \<Rightarrow> Inl (wrap_prefix ''create copilot session'' e)
           | Inr sid \<Rightarrow> Inr \<lparr>cs_id = sid,
               cs_config = session_config_of (pv_options p) so (op_session_id so),
               cs_bridge = Some newInteractiveBridge\<rparr>))"

definition quoted :: "string \<Rightarrow> string" where
  "quoted s = CHR 0x22 # s @ [CHR 0x22]"

definition ResumeSession ::
    "go_error + string \<Rightarrow> provider \<Rightarrow> string \<Rightarrow> session_options \<Rightarrow> go_error + copilot_session" where
  "ResumeSession answer p sessionID so =
     (case sessionClient p of
        Inl e \<Rightarrow> Inl e
      | Inr _ \<Rightarrow>
          (case answer of
             Inl e \<Rightarrow> Inl (the (wrapSessionLookupError
                 (Some (wrap_prefix (''resume copilot session '' @ quoted sessionID) e))))
           | Inr sid \<Rightarrow> Inr \<lparr>cs_id = sid, cs_config = session_config_of (pv_options p) so [],
               cs_bridge = Some newInteractiveBridge\<rparr>))"

definition DeleteSession :: "go_error option \<Rightarrow> provider \<Rightarrow> string \<Rightarrow> go_error option" where
  "DeleteSession answer p sessionID =
     (case sessionClient p of
        Inl e \<Rightarrow> Some e
      | Inr _ \<Rightarrow>
          (case answer of
             None \<Rightarrow> None
           | Some e \<Rightarrow> wrapSessionLookupError
               (Some (wrap_prefix (''delete copilot session '' @ quoted sessionID) e))))"

definition ResolvePending :: "pending_response \<Rightarrow> copilot_session \<Rightarrow> go_error option \<times> copilot_session" where
  "ResolvePending r s =
     (case cs_bridge s of
        None \<Rightarrow> (Some (err ErrPendingRequestsUnsupported), s)
      | Some b \<Rightarrow> (case resolve r b of (e, b1) \<Rightarrow> (e, s\<lparr>cs_bridge := Some b1\<rparr>)))"

section \<open>The options that \<open>main\<close> passes\<close>

definition options_of_config :: "config \<Rightarrow> runtime_options" where
  "options_of_config c =
     \<lparr>ro_cli_path = cf_cli_path c, ro_github_token = cf_github_token c,
      ro_use_logged_in_user = cf_use_logged_in_user c, ro_log_level = cf_log_level c,
      ro_client_name = cf_client_name c, ro_working_directory = cf_working_directory c,
      ro_config_dir = cf_config_dir c, ro_default_model = cf_default_model c,
      ro_available_tools = cf_available_tools c, ro_excluded_tools = cf_excluded_tools c,
      ro_skill_directories = cf_skill_dirs c, ro_disabled_skills = cf_disabled_skills c,
      ro_mcp_servers = cf_mcp_servers c, ro_custom_agents = cf_custom_agents c,
      ro_default_agent = cf_default_agent c, ro_permission_mode = cf_permission_mode c,
      ro_infinite_sessions = cf_infinite_sessions c, ro_telemetry = cf_telemetry c\<rparr>"

end
