(* ===== verification/Server_Prepare.thy ===== *)
theory Server_Prepare
  imports Server_Attachments Copilot_Provider Session_Manager Api_Auth
begin

text \<open>
  \<open>prepareConversation\<close> of \<open>internal/httpapi/server.go\<close>: from a parsed request to a lease on a session
  and the message for it.

  \<open>runtime_world\<close> is what the runtime and the context of the request answer; the session options are
  arguments of the two factories.  \<open>gateway_env\<close> collects the other answers from outside: the content
  library, the network, \<open>url.Parse\<close>, \<open>json.Marshal\<close>, and the list of models, which is asked for twice.
\<close>

section \<open>The specification of a session\<close>

text \<open>The checks before \<open>Acquire\<close>, the \<open>session.Spec\<close> and the options that both factories pass on.\<close>

definition plan_conversation ::
    "config \<Rightarrow> (string \<Rightarrow> parsed_url option) \<Rightarrow> (json \<Rightarrow> string) \<Rightarrow> go_error + model list \<Rightarrow> string \<Rightarrow>
     conversation \<Rightarrow> go_error + session_spec \<times> session_options" where
  "plan_conversation c parse_url marshal models key r =
     (let x = cv_copilot r; model = resolveModel c (cv_model r) in
      case effectivePermissionMode (ce_permission_mode x) (cf_permission_mode c) of
        Inl e \<Rightarrow> Inl e
      | Inr mode \<Rightarrow>
     (if key = [] \<and> requires_continuation x mode then Inl (err ErrInteractiveRequiresSessionKey)
      else (case validateConversationFeatures c models model r of
        Some e \<Rightarrow> Inl e
      | None \<Rightarrow>
     (let system_mode = effectiveSystemMessageMode (ce_system_message_mode x);
          agent = effectiveAgent (ce_agent x) (cf_default_agent c) in
      case toRuntimeProvider c parse_url marshal (ce_provider x) of
        Inl e \<Rightarrow> Inl e
      | Inr (runtime_provider, provider_fp, secret_fp) \<Rightarrow> Inr
          (\<lparr>sp_model = model, sp_system_prompt = cv_system_prompt r, sp_system_prompt_mode = system_mode,
            sp_reasoning_effort = cv_reasoning_effort r, sp_agent = agent, sp_interactive = ce_interactive x,
            sp_tools_fingerprint = toolDefinitionsFingerprint marshal (ce_tools x),
            sp_permission_mode = mode, sp_provider_fingerprint = provider_fp,
            sp_provider_secret_fingerprint = secret_fp\<rparr>,
           \<lparr>op_session_id = key, op_model = model, op_system_prompt = cv_system_prompt r,
            op_system_prompt_mode = system_mode,
            op_sections = toRuntimeSectionOverrides (ce_system_message_sections x),
            op_reasoning_effort = cv_reasoning_effort r, op_agent = agent, op_interactive = ce_interactive x,
            op_tools = toRuntimeTools (ce_tools x), op_permission_mode = mode,
            op_provider = runtime_provider\<rparr>)))))"

section \<open>The runtime behind the manager\<close>

record runtime_world =
  rw_ctx_err :: "go_error option"
  rw_new :: "session_options \<Rightarrow> go_error + rt_session"
  rw_resume :: "string \<Rightarrow> session_options \<Rightarrow> go_error + rt_session"
  rw_close :: "rt_session \<Rightarrow> go_error option"
  rw_delete :: "string \<Rightarrow> go_error option"

text \<open>The factory closures over the options; the resuming one sets the session identifier.\<close>

definition factories :: "runtime_world \<Rightarrow> session_options \<Rightarrow> runtime_env" where
  "factories w so =
     \<lparr>env_ctx_err = rw_ctx_err w, env_new = rw_new w so,
      env_resume = (\<lambda>sid. rw_resume w sid (so\<lparr>op_session_id := sid\<rparr>)),
      env_close = rw_close w, env_delete = rw_delete w\<rparr>"

section \<open>prepareConversation\<close>

record prepared_conversation =
  pp_lease :: lease
  pp_model :: string
  pp_prompt :: string
  pp_attachments :: "attachment list"
  pp_cleanup :: "nat list"
  pp_agent :: string
  pp_system_message_mode :: string
  pp_include_reasoning :: bool
  pp_include_runtime_events :: bool
  pp_include_usage :: bool
  pp_copilot_requested :: bool

record gateway_env =
  ge_lib :: content_lib
  ge_web :: web
  ge_parse_url :: "string \<Rightarrow> parsed_url option"
  ge_marshal :: "json \<Rightarrow> string"
  ge_models :: "go_error + model list"
  ge_models_later :: "go_error + model list"
  ge_runtime :: runtime_world
  ge_wait_err :: go_error

text \<open>A session that is kept has the earlier turns; a fresh one gets them in the prompt.\<close>

definition prompt_for :: "lease \<Rightarrow> turn list \<Rightarrow> go_error + string" where
  "prompt_for l turns =
     (if le_persistent l \<and> \<not> le_created l then LatestUserPrompt turns else Inr (BuildPrompt turns))"

definition release_lease ::
    "'s store_ops option \<Rightarrow> runtime_env \<Rightarrow> int \<Rightarrow> lease \<Rightarrow> 's manager \<Rightarrow> 's manager" where
  "release_lease st env now l m = snd (snd (Release st env now l m))"

text \<open>
  The state is the manager's and the temporary files'; \<open>now\<close> is the instant of \<open>Acquire\<close>, \<open>later\<close> that of a
  \<open>Release\<close> after an error.
\<close>

definition prepareConversation ::
    "config \<Rightarrow> gateway_env \<Rightarrow> 's store_ops option \<Rightarrow> int \<Rightarrow> int \<Rightarrow> string \<Rightarrow> conversation \<Rightarrow>
     's manager \<Rightarrow> temp_fs \<Rightarrow> (go_error + prepared_conversation) \<times> 's manager \<times> temp_fs" where
  "prepareConversation c g st now later key r m fs =
     (case plan_conversation c (ge_parse_url g) (ge_marshal g) (ge_models g) key r of
        Inl e \<Rightarrow> (Inl e, m, fs)
      | Inr (spec, so) \<Rightarrow>
     (let x = cv_copilot r; env = factories (ge_runtime g) so in
      case Acquire st env (ge_wait_err g) now True True key spec m of
        (Inl e, m1) \<Rightarrow> (Inl e, m1, fs)
      | (Inr l, m1) \<Rightarrow>
     (let failed = (\<lambda>e fs'. (Inl e, release_lease st env later l m1, fs')) in
      case prompt_for l (cv_turns r) of
        Inl e \<Rightarrow> failed e fs
      | Inr prompt \<Rightarrow>
     (case LatestUserTurn (cv_turns r) of
        Inl e \<Rightarrow> failed e fs
      | Inr latest \<Rightarrow>
     (case prepare_attachments c (ge_lib g) (ge_web g) (ge_models_later g) (sp_model spec) x (tn_attachments latest) fs of
        (Inl e, fs1) \<Rightarrow> failed e fs1
      | (Inr (attachments, cleanup), fs1) \<Rightarrow>
          (Inr \<lparr>pp_lease = l, pp_model = sp_model spec, pp_prompt = prompt, pp_attachments = attachments,
                pp_cleanup = cleanup, pp_agent = sp_agent spec,
                pp_system_message_mode = sp_system_prompt_mode spec,
                pp_include_reasoning = ce_include_reasoning x,
                pp_include_runtime_events = (ce_include_runtime_events x \<or> requires_continuation x (sp_permission_mode spec)),
                pp_include_usage = cv_include_usage r,
                pp_copilot_requested = hasCopilotRequestExtension x\<rparr>, m1, fs1))))))"

end
