(* ===== verification/Server_Responses.thy ===== *)
theory Server_Responses
  imports Server_Prepare Copilot_Send
begin

text \<open>
  The answers of the gateway: the response builders of \<open>internal/compat/openai.go\<close> and \<open>claude.go\<close>, and the
  extension of \<open>internal/httpapi/server.go\<close> with runtime events.

  A Go struct that is marshalled is a record of the same fields; a map literal is a constructor with the
  values it puts in.  \<open>now\<close> is the time in seconds.
\<close>

section \<open>Extensions\<close>

record response_extension =
  cx_agent :: string
  cx_system_message_mode :: string
  cx_reasoning :: string
  cx_runtime_events :: "runtime_event list"

definition empty_extension :: response_extension where
  "empty_extension = \<lparr>cx_agent = [], cx_system_message_mode = [], cx_reasoning = [], cx_runtime_events = []\<rparr>"

definition buildCopilotResponseExtension ::
    "prepared_conversation \<Rightarrow> send_result \<Rightarrow> response_extension option" where
  "buildCopilotResponseExtension p res =
     (let x = \<lparr>cx_agent = (if pp_copilot_requested p then pp_agent p else []),
               cx_system_message_mode =
                 (if pp_copilot_requested p \<and>
                     (pp_system_message_mode p = ''replace'' \<or> pp_system_message_mode p = ''customize'')
                  then pp_system_message_mode p else []),
               cx_reasoning = (if pp_include_reasoning p \<and> \<not> blank (rs_reasoning res) then rs_reasoning res else []),
               cx_runtime_events = (if pp_include_runtime_events p then rs_runtime_events res else [])\<rparr>
      in if x = empty_extension then None else Some x)"

definition cloneRuntimeEvent :: "runtime_event \<Rightarrow> runtime_event" where
  "cloneRuntimeEvent r =
     r\<lparr>rv_telemetry := map_option clone_members (rv_telemetry r),
       rv_user_input_request := map_option (\<lambda>u. u\<lparr>us_requested_schema := map_option cloneAny (us_requested_schema u)\<rparr>)
         (rv_user_input_request r),
       rv_arguments := cloneAny (rv_arguments r),
       rv_data := map_option clone_members (rv_data r)\<rparr>"

definition isReasoningEvent :: "event_type \<Rightarrow> bool" where
  "isReasoningEvent t \<longleftrightarrow> t = EventReasoning \<or> t = EventReasoningDelta"

definition streamRuntimeEvent :: "event \<Rightarrow> prepared_conversation \<Rightarrow> runtime_event option" where
  "streamRuntimeEvent ev p =
     (case evt_runtime ev of
        None \<Rightarrow> None
      | Some r \<Rightarrow>
          (if isReasoningEvent (evt_type ev) then
             (if \<not> pp_include_reasoning p \<and> \<not> pp_include_runtime_events p then None else Some (cloneRuntimeEvent r))
           else if \<not> pp_include_runtime_events p then None
           else Some (cloneRuntimeEvent r)))"

section \<open>OpenAI responses\<close>

record openai_usage =
  ou_prompt_tokens :: "64 word"
  ou_completion_tokens :: "64 word"
  ou_total_tokens :: "64 word"

definition openai_usage_of :: "usage \<Rightarrow> openai_usage" where
  "openai_usage_of u = \<lparr>ou_prompt_tokens = input_tokens u, ou_completion_tokens = output_tokens u,
     ou_total_tokens = total_tokens u\<rparr>"

record chat_response =
  cr_id :: string
  cr_object :: string
  cr_created :: int
  cr_model :: string
  cr_role :: string
  cr_content :: string
  cr_reasoning :: string
  cr_finish_reason :: string
  cr_usage :: openai_usage
  cr_x_copilot :: "response_extension option"

definition BuildOpenAIChatCompletionResponse ::
    "int \<Rightarrow> string \<Rightarrow> string \<Rightarrow> string \<Rightarrow> string \<Rightarrow> usage \<Rightarrow> response_extension option \<Rightarrow> chat_response" where
  "BuildOpenAIChatCompletionResponse now responseID m content reasoning u x =
     \<lparr>cr_id = responseID, cr_object = ''chat.completion'', cr_created = now, cr_model = m,
      cr_role = ''assistant'', cr_content = content, cr_reasoning = trim_space reasoning,
      cr_finish_reason = ''stop'', cr_usage = openai_usage_of u, cr_x_copilot = x\<rparr>"

record openai_delta =
  de_role :: string
  de_content :: string
  de_reasoning :: string

definition no_delta :: openai_delta where
  "no_delta = \<lparr>de_role = [], de_content = [], de_reasoning = []\<rparr>"

text \<open>A chunk has one choice, a delta with a finish reason, or none and the usage.\<close>

record chunk =
  ck_id :: string
  ck_object :: string
  ck_created :: int
  ck_model :: string
  ck_choices :: "(openai_delta \<times> string option) list"
  ck_usage :: "openai_usage option"
  ck_x_copilot :: "runtime_event option"

definition BuildOpenAIStreamChunk ::
    "int \<Rightarrow> string \<Rightarrow> string \<Rightarrow> openai_delta \<Rightarrow> string option \<Rightarrow> runtime_event option \<Rightarrow> chunk" where
  "BuildOpenAIStreamChunk now responseID m delta finishReason x =
     \<lparr>ck_id = responseID, ck_object = ''chat.completion.chunk'', ck_created = now, ck_model = m,
      ck_choices = [(delta, finishReason)], ck_usage = None, ck_x_copilot = x\<rparr>"

definition BuildOpenAIUsageChunk :: "int \<Rightarrow> string \<Rightarrow> string \<Rightarrow> usage \<Rightarrow> chunk" where
  "BuildOpenAIUsageChunk now responseID m u =
     \<lparr>ck_id = responseID, ck_object = ''chat.completion.chunk'', ck_created = now, ck_model = m,
      ck_choices = [], ck_usage = Some (openai_usage_of u), ck_x_copilot = None\<rparr>"

record model_extension =
  mx_vision :: bool
  mx_reasoning_effort :: bool
  mx_max_prompt_tokens :: "int option"
  mx_max_output_tokens :: "int option"
  mx_max_context_window :: int
  mx_vision_limits :: "vision_limits option"
  mx_efforts :: "string list"
  mx_default_effort :: string

record model_info =
  mi_id :: string
  mi_object :: string
  mi_created :: int
  mi_owned_by :: string
  mi_x_copilot :: model_extension

definition BuildOpenAIModelsResponse :: "int \<Rightarrow> model list \<Rightarrow> model_info list" where
  "BuildOpenAIModelsResponse now models =
     map (\<lambda>m. \<lparr>mi_id = mo_id m, mi_object = ''model'', mi_created = now, mi_owned_by = ''github-copilot'',
               mi_x_copilot = \<lparr>mx_vision = mo_vision m, mx_reasoning_effort = mo_reasoning_effort m,
                 mx_max_prompt_tokens = mo_max_prompt_tokens m, mx_max_output_tokens = mo_max_output_tokens m,
                 mx_max_context_window = mo_max_context_window m, mx_vision_limits = mo_vision_limits m,
                 mx_efforts = mo_efforts m, mx_default_effort = mo_default_effort m\<rparr>\<rparr>) models"

section \<open>Claude responses\<close>

record claude_usage =
  cl_input_tokens :: "64 word"
  cl_output_tokens :: "64 word"
  cl_cache_creation_input_tokens :: "64 word"
  cl_cache_read_input_tokens :: "64 word"

definition claude_usage_of :: "usage \<Rightarrow> claude_usage" where
  "claude_usage_of u = \<lparr>cl_input_tokens = input_tokens u, cl_output_tokens = output_tokens u,
     cl_cache_creation_input_tokens = cache_write_tokens u, cl_cache_read_input_tokens = cache_read_tokens u\<rparr>"

record claude_response =
  lr_id :: string
  lr_type :: string
  lr_role :: string
  lr_model :: string
  lr_text :: string
  lr_stop_reason :: string
  lr_usage :: claude_usage
  lr_x_copilot :: "response_extension option"

definition BuildClaudeMessageResponse ::
    "string \<Rightarrow> string \<Rightarrow> string \<Rightarrow> usage \<Rightarrow> response_extension option \<Rightarrow> claude_response" where
  "BuildClaudeMessageResponse responseID m content u x =
     \<lparr>lr_id = responseID, lr_type = ''message'', lr_role = ''assistant'', lr_model = m, lr_text = content,
      lr_stop_reason = ''end_turn'', lr_usage = claude_usage_of u, lr_x_copilot = x\<rparr>"

end
