(* ===== verification/Server_Stream.thy ===== *)
theory Server_Stream
  imports Server_Responses
begin

text \<open>
  The two streams of \<open>internal/httpapi/server.go\<close>: \<open>streamOpenAIChatCompletion\<close> and \<open>streamClaudeMessage\<close>
  write server-sent events while \<open>Send\<close> of the session runs with their handler.

  The writer holds the events written and a script of the failures of its calls; a failed write writes
  nothing.  \<open>Send\<close> is that of Copilot_Send: \<open>sdk\<close> gives the events of the SDK for a message and, of the
  cases of \<open>select\<close> that are ready at the end, the one taken.
\<close>

section \<open>The writer\<close>

record 'e writer =
  wr_events :: "'e list"
  wr_faults :: "go_error option list"
  wr_touches :: nat
  wr_latest_usage :: usage

definition write_call :: "'e writer \<Rightarrow> go_error option \<times> 'e writer" where
  "write_call w = (case wr_faults w of [] \<Rightarrow> (None, w) | f # fs \<Rightarrow> (f, w\<lparr>wr_faults := fs\<rparr>))"

text \<open>\<open>ErrNotSupported\<close> of the controller is no failure.\<close>

definition setWriteDeadline :: "int \<Rightarrow> 'e writer \<Rightarrow> go_error option \<times> 'e writer" where
  "setWriteDeadline writeTimeout w = (if writeTimeout \<le> 0 then (None, w) else write_call w)"

definition write_sse :: "int \<Rightarrow> 'e \<Rightarrow> 'e writer \<Rightarrow> go_error option \<times> 'e writer" where
  "write_sse writeTimeout ev w =
     (case setWriteDeadline writeTimeout w of
        (Some e, w1) \<Rightarrow> (Some e, w1)
      | (None, w1) \<Rightarrow>
          (case write_call w1 of
             (Some e, w2) \<Rightarrow> (Some e, w2)
           | (None, w2) \<Rightarrow> (None, w2\<lparr>wr_events := wr_events w2 @ [ev]\<rparr>)))"

definition touch_writer :: "'e writer \<Rightarrow> 'e writer" where
  "touch_writer w = w\<lparr>wr_touches := Suc (wr_touches w)\<rparr>"

definition new_writer :: "go_error option list \<Rightarrow> 'e writer" where
  "new_writer faults = \<lparr>wr_events = [], wr_faults = faults, wr_touches = 0, wr_latest_usage = zero_usage\<rparr>"

definition streamWriteTimeout :: "config \<Rightarrow> int" where
  "streamWriteTimeout c = (if cf_stream_idle_timeout c > 0 then cf_stream_idle_timeout c else cf_request_timeout c)"

section \<open>Sending\<close>

text \<open>An attachment as the SDK takes it: the data and its type, or the file.\<close>

datatype sdk_attachment = BlobAttachment string string | FileAttachment "(nat \<times> string \<times> string) option"

definition sdk_attachments :: "attachment list \<Rightarrow> sdk_attachment list" where
  "sdk_attachments =
     map (\<lambda>a. if at_blob a \<noteq> [] then BlobAttachment (at_blob a) (at_media_type a) else FileAttachment (at_file a))"

record sdk =
  sd_bridge :: "rt_session \<Rightarrow> bridge option"
  sd_events :: "rt_session \<Rightarrow> string \<Rightarrow> sdk_attachment list \<Rightarrow> (sdk_event_type \<times> event_data) list"
  sd_sent :: "rt_session \<Rightarrow> go_error option option"
  sd_choice :: "(go_error + send_result) list \<Rightarrow> go_error + send_result"

definition send_message ::
    "sdk \<Rightarrow> prepared_conversation \<Rightarrow> 'h event_handler option \<Rightarrow> 'h \<Rightarrow> (go_error + send_result) \<times> 'h" where
  "send_message d p handler h =
     (case le_session (pp_lease p) of
        None \<Rightarrow> (Inl (errors_new ''nil session''), h)
      | Some sess \<Rightarrow>
          (let s = run_events handler (sd_events d sess (pp_prompt p) (sdk_attachments (pp_attachments p)))
                     (start_send 0 (sd_bridge d sess) h)
           in (sd_choice d (send_outcomes (rs_id sess) (sd_sent d sess) s), sn_handler s)))"

section \<open>The OpenAI stream\<close>

datatype openai_event = Chunk chunk | StreamError string string | Done

definition openai_handler ::
    "int \<Rightarrow> int \<Rightarrow> string \<Rightarrow> prepared_conversation \<Rightarrow> openai_event writer event_handler" where
  "openai_handler now t responseID p ev w0 =
     (let w = touch_writer w0;
          out = (\<lambda>delta x. write_sse t (Chunk (BuildOpenAIStreamChunk now responseID (pp_model p) delta None x)));
          extension = (\<lambda>w'. case streamRuntimeEvent ev p of
              None \<Rightarrow> (None, w') | Some r \<Rightarrow> out no_delta (Some r) w') in
      if evt_type ev = EventMessageDelta then out (no_delta\<lparr>de_content := evt_delta ev\<rparr>) None w
      else if evt_type ev = EventReasoningDelta then
        (if blank (evt_delta ev) then extension w
         else (case out (no_delta\<lparr>de_reasoning := evt_delta ev\<rparr>) None w of
                 (Some e, w1) \<Rightarrow> (Some e, w1)
               | (None, w1) \<Rightarrow> extension w1))
      else if evt_type ev = EventUsage then (None, w\<lparr>wr_latest_usage := evt_usage ev\<rparr>)
      else extension w)"

text \<open>The result is the status, the type of the error and the usage.\<close>

definition final_usage :: "usage \<Rightarrow> usage \<Rightarrow> usage" where
  "final_usage result latest =
     (if total_tokens result = 0 \<and> 0 <s total_tokens latest then latest else result)"

definition end_openai_stream ::
    "int \<Rightarrow> int \<Rightarrow> string \<Rightarrow> prepared_conversation \<Rightarrow> send_result \<Rightarrow> openai_event writer \<Rightarrow>
     (int \<times> string \<times> usage) \<times> openai_event writer" where
  "end_openai_stream now t responseID p res w =
     (let u = final_usage (rs_usage res) (wr_latest_usage w) in
      case write_sse t (Chunk (BuildOpenAIStreamChunk now responseID (pp_model p) no_delta (Some ''stop'') None)) w of
        (Some e, w1) \<Rightarrow> ((200, ''stream_write_error'', u), w1)
      | (None, w1) \<Rightarrow>
     (case (if pp_include_usage p then write_sse t (Chunk (BuildOpenAIUsageChunk now responseID (pp_model p) u)) w1
            else (None, w1)) of
        (Some e, w2) \<Rightarrow> ((200, ''stream_write_error'', u), w2)
      | (None, w2) \<Rightarrow> ((200, [], u), snd (write_sse t Done w2))))"

definition streamOpenAIChatCompletion ::
    "config \<Rightarrow> sdk \<Rightarrow> int \<Rightarrow> bool \<Rightarrow> prepared_conversation \<Rightarrow> string \<Rightarrow> openai_event writer \<Rightarrow>
     (int \<times> string \<times> usage) \<times> openai_event writer" where
  "streamOpenAIChatCompletion c d now flusher p responseID w =
     (let t = streamWriteTimeout c in
      if \<not> flusher then ((500, ''internal_error'', zero_usage), w)
      else (case setWriteDeadline t w of
        (Some e, w1) \<Rightarrow> ((500, ''stream_write_error'', zero_usage), w1)
      | (None, w1) \<Rightarrow>
     (case write_sse t (Chunk (BuildOpenAIStreamChunk now responseID (pp_model p)
              (no_delta\<lparr>de_role := ''assistant''\<rparr>) None None)) w1 of
        (Some e, w2) \<Rightarrow> ((200, ''stream_write_error'', zero_usage), w2)
      | (None, w2) \<Rightarrow>
     (case send_message d p (Some (openai_handler now t responseID p)) (touch_writer w2) of
        (Inl e, w3) \<Rightarrow>
          (case classifyError e of
             (status, etype, message) \<Rightarrow>
               ((status, etype, wr_latest_usage w3),
                snd (write_sse t Done (snd (write_sse t (StreamError etype message) w3)))))
      | (Inr res, w3) \<Rightarrow> end_openai_stream now t responseID p res w3))))"

section \<open>The Claude stream\<close>

text \<open>The events by name; the map literals are their arguments.\<close>

datatype claude_event =
    MessageStart string string
  | ContentBlockStart
  | TextDelta string
  | XCopilot runtime_event
  | ErrorEvent string string
  | ContentBlockStop
  | MessageDelta claude_usage
  | MessageStop

primrec claude_event_name :: "claude_event \<Rightarrow> string" where
  "claude_event_name (MessageStart i m) = ''message_start''"
| "claude_event_name ContentBlockStart = ''content_block_start''"
| "claude_event_name (TextDelta s) = ''content_block_delta''"
| "claude_event_name (XCopilot r) = ''x_copilot''"
| "claude_event_name (ErrorEvent t m) = ''error''"
| "claude_event_name ContentBlockStop = ''content_block_stop''"
| "claude_event_name (MessageDelta u) = ''message_delta''"
| "claude_event_name MessageStop = ''message_stop''"

definition claude_handler :: "int \<Rightarrow> prepared_conversation \<Rightarrow> claude_event writer event_handler" where
  "claude_handler t p ev w0 =
     (let w = touch_writer w0 in
      if evt_type ev = EventMessageDelta then write_sse t (TextDelta (evt_delta ev)) w
      else if evt_type ev = EventUsage then (None, w\<lparr>wr_latest_usage := evt_usage ev\<rparr>)
      else (case streamRuntimeEvent ev p of
              None \<Rightarrow> (None, w) | Some r \<Rightarrow> write_sse t (XCopilot r) w))"

text \<open>Writes in a row, up to the first failure.\<close>

fun write_all :: "int \<Rightarrow> 'e list \<Rightarrow> 'e writer \<Rightarrow> go_error option \<times> 'e writer" where
  "write_all t [] w = (None, w)"
| "write_all t (ev # evs) w =
     (case write_sse t ev w of (Some e, w1) \<Rightarrow> (Some e, w1) | (None, w1) \<Rightarrow> write_all t evs w1)"

definition streamClaudeMessage ::
    "config \<Rightarrow> sdk \<Rightarrow> bool \<Rightarrow> prepared_conversation \<Rightarrow> string \<Rightarrow> claude_event writer \<Rightarrow>
     (int \<times> string \<times> usage) \<times> claude_event writer" where
  "streamClaudeMessage c d flusher p responseID w =
     (let t = streamWriteTimeout c in
      if \<not> flusher then ((500, ''internal_error'', zero_usage), w)
      else (case setWriteDeadline t w of
        (Some e, w1) \<Rightarrow> ((500, ''stream_write_error'', zero_usage), w1)
      | (None, w1) \<Rightarrow>
     (case write_all t [MessageStart responseID (pp_model p), ContentBlockStart] w1 of
        (Some e, w2) \<Rightarrow> ((200, ''stream_write_error'', zero_usage), w2)
      | (None, w2) \<Rightarrow>
     (case send_message d p (Some (claude_handler t p)) (touch_writer w2) of
        (Inl e, w3) \<Rightarrow>
          (case classifyError e of
             (status, etype, message) \<Rightarrow>
               ((status, etype, wr_latest_usage w3),
                fold (\<lambda>ev w'. snd (write_sse t ev w')) [ErrorEvent etype message, ContentBlockStop, MessageStop] w3))
      | (Inr res, w3) \<Rightarrow>
          (case write_all t [ContentBlockStop, MessageDelta (claude_usage_of (rs_usage res)), MessageStop] w3 of
             (Some e, w4) \<Rightarrow> ((200, ''stream_write_error'', rs_usage res), w4)
           | (None, w4) \<Rightarrow> ((200, [], rs_usage res), w4))))))"

end
