(* ===== verification/Server_Handlers.thy ===== *)
theory Server_Handlers
  imports Server_Stream Compat_Requests
begin

text \<open>
  The HTTP handlers of \<open>internal/httpapi/server.go\<close> and \<open>interactive.go\<close>, and the usage records of
  \<open>internal/usage/recorder.go\<close>.

  A handler is a function from a request and the state of the server (the session manager, the
  temporary files, the bridges of the sessions by their Go object, the usage records written) to a
  reply and the next state.  The body of a request is the error of reading or decoding it, or its
  document.  The two conversation handlers are the same code but for what the record \<open>protocol\<close> holds.
\<close>

section \<open>Requests and replies\<close>

record http_request =
  rq_method :: string
  rq_headers :: headers
  rq_body :: "go_error + doc"

datatype reply_body =
    TextBody string
  | HealthBody string
  | OpenAIError string string
  | ClaudeError string string
  | ChatBody chat_response
  | ClaudeBody claude_response
  | ModelsBody "model_info list"
  | ContinuationBody string
  | OpenAIStream "openai_event list"
  | ClaudeStream "claude_event list"

record reply =
  re_code :: int
  re_headers :: "(string \<times> string) list"
  re_body :: reply_body

definition writeJSON :: "int \<Rightarrow> reply_body \<Rightarrow> reply" where
  "writeJSON status body = \<lparr>re_code = status, re_headers = [(''Content-Type'', ''application/json'')], re_body = body\<rparr>"

definition writeOpenAIError :: "int \<Rightarrow> string \<Rightarrow> string \<Rightarrow> reply" where
  "writeOpenAIError status errorType message = writeJSON status (OpenAIError errorType message)"

definition writeClaudeError :: "int \<Rightarrow> string \<Rightarrow> string \<Rightarrow> reply" where
  "writeClaudeError status errorType message = writeJSON status (ClaudeError errorType message)"

definition method_not_allowed :: "string \<Rightarrow> reply" where
  "method_not_allowed allow =
     \<lparr>re_code = 405, re_headers = [(''Allow'', allow)], re_body = TextBody ''method not allowed''\<rparr>"

section \<open>Usage records\<close>

record usage_record =
  ur_request_id :: string
  ur_route :: string
  ur_api_key_label :: string
  ur_model :: string
  ur_session_id :: string
  ur_streaming :: bool
  ur_status_code :: int
  ur_error_type :: string
  ur_duration :: int
  ur_usage :: usage

section \<open>The server\<close>

record 's gateway =
  gw_config :: config
  gw_keys :: "stored_key list"
  gw_store :: "'s store_ops option"
  gw_env :: gateway_env
  gw_sdk :: sdk

text \<open>\<open>recorder.Record\<close> writes one log line, if there is a logger.  A runtime session comes with its own bridge,
  empty at first: the bridges are those of all Go objects, made or not.\<close>

record 's server_state =
  gs_manager :: "'s manager"
  gs_files :: temp_fs
  gs_bridges :: "nat \<Rightarrow> bridge option"
  gs_records :: "usage_record list"

definition Record :: "bool \<Rightarrow> usage_record \<Rightarrow> 's server_state \<Rightarrow> 's server_state" where
  "Record has_logger r s = (if \<not> has_logger then s else s\<lparr>gs_records := gs_records s @ [r]\<rparr>)"

text \<open>What is new with each request: its identifier, the instants, whether the writer can flush, its failures.\<close>

record request_env =
  rn_id :: string
  rn_unix :: int
  rn_acquire :: int
  rn_release :: int
  rn_duration :: int
  rn_flusher :: bool
  rn_faults :: "go_error option list"
  rn_hook :: nat

section \<open>Health and models\<close>

definition handleHealthz :: "http_request \<Rightarrow> reply" where
  "handleHealthz rq =
     (if rq_method rq \<noteq> ''GET'' then method_not_allowed ''GET'' else writeJSON 200 (HealthBody ''ok''))"

definition handleModels :: "'s gateway \<Rightarrow> request_env \<Rightarrow> http_request \<Rightarrow> reply" where
  "handleModels g rn rq =
     (if rq_method rq \<noteq> ''GET'' then method_not_allowed ''GET''
      else (case AuthenticateRequest (gw_keys g) (rq_headers rq) of
        Inl _ \<Rightarrow> writeOpenAIError 401 ''authentication_error'' ''invalid API key''
      | Inr _ \<Rightarrow>
          (case ge_models (gw_env g) of
             Inl e \<Rightarrow> (case classifyError e of (status, t, m) \<Rightarrow> writeOpenAIError status t m)
           | Inr ms \<Rightarrow> writeJSON 200 (ModelsBody (BuildOpenAIModelsResponse (rn_unix rn) ms)))))"

section \<open>Conversations\<close>

record 'e protocol =
  pt_route :: string
  pt_prefix :: string
  pt_check :: "headers \<Rightarrow> go_error option"
  pt_parse :: "go_error + doc \<Rightarrow> go_error + conversation"
  pt_error :: "int \<Rightarrow> string \<Rightarrow> string \<Rightarrow> reply"
  pt_answer :: "int \<Rightarrow> string \<Rightarrow> prepared_conversation \<Rightarrow> send_result \<Rightarrow> reply_body"
  pt_stream :: "int \<Rightarrow> bool \<Rightarrow> prepared_conversation \<Rightarrow> string \<Rightarrow> 'e writer \<Rightarrow> (int \<times> string \<times> usage) \<times> 'e writer"
  pt_events :: "'e list \<Rightarrow> reply_body"

definition session_header :: "string \<Rightarrow> (string \<times> string) list" where
  "session_header key = (if key \<noteq> [] then [(''X-Session-ID'', key)] else [])"

definition stream_headers :: "string \<Rightarrow> (string \<times> string) list" where
  "stream_headers key =
     [(''Content-Type'', ''text/event-stream''), (''Cache-Control'', ''no-cache''), (''Connection'', ''keep-alive'')]
     @ session_header key"

text \<open>The closures of a lease only close and delete.\<close>

definition lease_env :: "runtime_world \<Rightarrow> runtime_env" where
  "lease_env w = \<lparr>env_ctx_err = rw_ctx_err w, env_new = Inl (errors_new []), env_resume = (\<lambda>_. Inl (errors_new [])),
     env_close = rw_close w, env_delete = rw_delete w\<rparr>"

text \<open>The deferred function: remove the attachments, then discard or release the lease.\<close>

definition finish_conversation ::
    "'s gateway \<Rightarrow> request_env \<Rightarrow> bool \<Rightarrow> prepared_conversation \<Rightarrow> 's server_state \<Rightarrow> 's server_state" where
  "finish_conversation g rn discarded p s =
     (let env = lease_env (ge_runtime (gw_env g)) in
      s\<lparr>gs_files := run_cleanup (pp_cleanup p) (gs_files s),
        gs_manager := snd (snd (if discarded then Discard (gw_store g) env (pp_lease p) (gs_manager s)
                                else Release (gw_store g) env (rn_release rn) (pp_lease p) (gs_manager s)))\<rparr>)"

definition record_of ::
    "'e protocol \<Rightarrow> request_env \<Rightarrow> identity \<Rightarrow> string \<Rightarrow> string \<Rightarrow> bool \<Rightarrow> int \<Rightarrow> string \<Rightarrow> usage \<Rightarrow> usage_record" where
  "record_of pt rn i m sid streaming status etype u =
     \<lparr>ur_request_id = rn_id rn, ur_route = pt_route pt, ur_api_key_label = id_label i, ur_model = m,
      ur_session_id = sid, ur_streaming = streaming, ur_status_code = status, ur_error_type = etype,
      ur_duration = rn_duration rn, ur_usage = u\<rparr>"

text \<open>An error of a request: classified, written and recorded.\<close>

definition refuse ::
    "'e protocol \<Rightarrow> request_env \<Rightarrow> identity \<Rightarrow> string \<Rightarrow> string \<Rightarrow> bool \<Rightarrow> go_error \<Rightarrow> 's server_state \<Rightarrow>
     reply \<times> 's server_state" where
  "refuse pt rn i m sid streaming e s =
     (case classifyError e of (status, etype, message) \<Rightarrow>
        (pt_error pt status etype message,
         Record True (record_of pt rn i m sid streaming status etype zero_usage) s))"

text \<open>The stream of a prepared conversation, up to the end of the handler; \<open>target\<close> is the entry that has its hook.\<close>

definition serve_stream ::
    "'s gateway \<Rightarrow> 'e protocol \<Rightarrow> request_env \<Rightarrow> identity \<Rightarrow> string \<Rightarrow> nat option \<Rightarrow> prepared_conversation \<Rightarrow>
     's server_state \<Rightarrow> reply \<times> 's server_state" where
  "serve_stream g pt rn i key target p s =
     (let ((status, etype, u), w) =
            pt_stream pt (rn_unix rn) (rn_flusher rn) p (pt_prefix pt @ rn_id rn) (new_writer (rn_faults rn));
          s1 = Record True (record_of pt rn i (pp_model p) (le_session_id (pp_lease p)) True status etype u)
                 (s\<lparr>gs_manager := clear_activity target (gs_manager s)\<rparr>)
      in (\<lparr>re_code = 200, re_headers = (if rn_flusher rn then stream_headers key else []), re_body = pt_events pt (wr_events w)\<rparr>,
          finish_conversation g rn (etype \<noteq> []) p s1))"

definition serve_whole ::
    "'s gateway \<Rightarrow> 'e protocol \<Rightarrow> request_env \<Rightarrow> identity \<Rightarrow> string \<Rightarrow> prepared_conversation \<Rightarrow>
     's server_state \<Rightarrow> reply \<times> 's server_state" where
  "serve_whole g pt rn i key p s =
     (case fst (send_message (gw_sdk g) p None ()) of
        Inl e \<Rightarrow>
          (case refuse pt rn i (pp_model p) (le_session_id (pp_lease p)) False e s of
             (r, s1) \<Rightarrow> (r, finish_conversation g rn True p s1))
      | Inr res \<Rightarrow>
          (let r = writeJSON 200 (pt_answer pt (rn_unix rn) (pt_prefix pt @ rn_id rn) p res) in
           (r\<lparr>re_headers := session_header key @ re_headers r\<rparr>,
            finish_conversation g rn False p
              (Record True (record_of pt rn i (pp_model p) (rs_session_id res) False 200 [] (rs_usage res)) s))))"

text \<open>
  A handler in two parts: up to the prepared conversation, with the activity hook of a stream set, and from there
  to its end.  Between them the prompt runs, and other requests are served.
\<close>

record running =
  ru_identity :: identity
  ru_key :: string
  ru_scoped :: string
  ru_stream :: bool
  ru_target :: "nat option"
  ru_prepared :: prepared_conversation

definition begin_conversation ::
    "'s gateway \<Rightarrow> 'e protocol \<Rightarrow> request_env \<Rightarrow> http_request \<Rightarrow> 's server_state \<Rightarrow> (reply + running) \<times> 's server_state" where
  "begin_conversation g pt rn rq s =
     (let refused = (\<lambda>(r, s'). (Inl r, s')) in
      if rq_method rq \<noteq> ''POST'' then (Inl (method_not_allowed ''POST''), s)
      else (case AuthenticateRequest (gw_keys g) (rq_headers rq) of
        Inl _ \<Rightarrow> (Inl (pt_error pt 401 ''authentication_error'' ''invalid API key''), s)
      | Inr i \<Rightarrow>
     (case pt_check pt (rq_headers rq) of
        Some e \<Rightarrow> refused (refuse pt rn i [] [] False e s)
      | None \<Rightarrow>
     (case pt_parse pt (rq_body rq) of
        Inl e \<Rightarrow> refused (refuse pt rn i [] [] False e s)
      | Inr r \<Rightarrow>
     (let m = resolveModel (gw_config g) (cv_model r); key = sessionKeyFromRequest (rq_headers rq) in
      case validateSessionKey key of
        Some e \<Rightarrow> refused (refuse pt rn i m [] (cv_stream r) e s)
      | None \<Rightarrow>
     (let scoped = scopedSessionKey i key in
      case prepareConversation (gw_config g) (gw_env g) (gw_store g) (rn_acquire rn) (rn_release rn) scoped r
             (gs_manager s) (gs_files s) of
        (Inl e, m1, fs1) \<Rightarrow> refused (refuse pt rn i m [] (cv_stream r) e (s\<lparr>gs_manager := m1, gs_files := fs1\<rparr>))
      | (Inr p, m1, fs1) \<Rightarrow>
          (let (target, m2) = (if cv_stream r then SetActivityHook scoped (rn_hook rn) m1 else (None, m1))
           in (Inr \<lparr>ru_identity = i, ru_key = key, ru_scoped = scoped, ru_stream = cv_stream r, ru_target = target,
                     ru_prepared = p\<rparr>,
               s\<lparr>gs_manager := m2, gs_files := fs1\<rparr>))))))))"

definition complete_conversation ::
    "'s gateway \<Rightarrow> 'e protocol \<Rightarrow> request_env \<Rightarrow> running \<Rightarrow> 's server_state \<Rightarrow> reply \<times> 's server_state" where
  "complete_conversation g pt rn ru s =
     (if ru_stream ru then serve_stream g pt rn (ru_identity ru) (ru_key ru) (ru_target ru) (ru_prepared ru) s
      else serve_whole g pt rn (ru_identity ru) (ru_key ru) (ru_prepared ru) s)"

definition handle_conversation ::
    "'s gateway \<Rightarrow> 'e protocol \<Rightarrow> request_env \<Rightarrow> http_request \<Rightarrow> 's server_state \<Rightarrow> reply \<times> 's server_state" where
  "handle_conversation g pt rn rq s =
     (case begin_conversation g pt rn rq s of
        (Inl r, s1) \<Rightarrow> (r, s1)
      | (Inr ru, s1) \<Rightarrow> complete_conversation g pt rn ru s1)"

definition openai_protocol :: "'s gateway \<Rightarrow> openai_event protocol" where
  "openai_protocol g =
     \<lparr>pt_route = ''/v1/chat/completions'', pt_prefix = ''chatcmpl-'', pt_check = (\<lambda>_. None),
      pt_parse = ParseOpenAIChatCompletionRequest (ge_lib (gw_env g)), pt_error = writeOpenAIError,
      pt_answer = (\<lambda>now responseID p res. ChatBody (BuildOpenAIChatCompletionResponse now responseID (pp_model p)
        (rs_content res) (rs_reasoning res) (rs_usage res) (buildCopilotResponseExtension p res))),
      pt_stream = streamOpenAIChatCompletion (gw_config g) (gw_sdk g), pt_events = OpenAIStream\<rparr>"

definition claude_protocol :: "'s gateway \<Rightarrow> claude_event protocol" where
  "claude_protocol g =
     \<lparr>pt_route = ''/v1/messages'', pt_prefix = ''msg_'', pt_check = (\<lambda>hdr. validateAnthropicVersion (hdr ''anthropic-version'')),
      pt_parse = ParseClaudeMessagesRequest (ge_lib (gw_env g)), pt_error = writeClaudeError,
      pt_answer = (\<lambda>_ responseID p res. ClaudeBody (BuildClaudeMessageResponse responseID (pp_model p)
        (rs_content res) (rs_usage res) (buildCopilotResponseExtension p res))),
      pt_stream = (\<lambda>_. streamClaudeMessage (gw_config g) (gw_sdk g)), pt_events = ClaudeStream\<rparr>"

definition handleOpenAIChatCompletions ::
    "'s gateway \<Rightarrow> request_env \<Rightarrow> http_request \<Rightarrow> 's server_state \<Rightarrow> reply \<times> 's server_state" where
  "handleOpenAIChatCompletions g = handle_conversation g (openai_protocol g)"

definition handleClaudeMessages ::
    "'s gateway \<Rightarrow> request_env \<Rightarrow> http_request \<Rightarrow> 's server_state \<Rightarrow> reply \<times> 's server_state" where
  "handleClaudeMessages g = handle_conversation g (claude_protocol g)"

end
