(* ===== verification/Server_Continuation.thy ===== *)
theory Server_Continuation
  imports Server_Handlers
begin

text \<open>
  \<open>internal/httpapi/interactive.go\<close>: the client's answer to a pending request of a running prompt, and the
  routes of \<open>server.go\<close>.  The decoder reads the first JSON value of the body; what follows is ignored.
\<close>

section \<open>Parsing\<close>

definition binary_result_fields :: "(string \<times> go_type) list" where
  "binary_result_fields = [(''data'', GString), (''mime_type'', GString), (''type'', GString), (''description'', GString)]"

definition continuation_fields :: "(string \<times> go_type) list" where
  "continuation_fields = [(''request_id'', GString), (''kind'', GString), (''text_result'', GString),
     (''result_type'', GString), (''session_log'', GString), (''telemetry'', GMap GAny),
     (''binary_results'', GSlice (GStruct binary_result_fields)), (''error'', GString), (''answer'', GString),
     (''was_freeform'', GBool), (''rules'', GSlice GAny)]"

definition read_binary_result :: "doc \<Rightarrow> tool_binary_result" where
  "read_binary_result d = \<lparr>tb_data = get_string ''data'' d, tb_mime_type = get_string ''mime_type'' d,
     tb_type = get_string ''type'' d, tb_description = get_string ''description'' d\<rparr>"

definition isSupportedPermissionResultKind :: "string \<Rightarrow> bool" where
  "isSupportedPermissionResultKind v \<longleftrightarrow>
     trim_space v \<in> {''approved'', ''denied-by-rules'', ''denied-interactively-by-user'',
       ''denied-no-approval-rule-and-could-not-request-from-user'', ''denied-by-content-exclusion-policy''}"

definition bad_response :: "string \<Rightarrow> go_error" where
  "bad_response d = err_with ErrInvalidCopilotResponse d"

definition answer_of :: "string \<Rightarrow> pending_kind \<Rightarrow> pending_response" where
  "answer_of requestID kind = \<lparr>rsp_request_id = requestID, rsp_kind = kind, rsp_tool_result = None,
     rsp_tool_error = [], rsp_user_input = None, rsp_permission = None\<rparr>"

definition continuation_answer :: "string \<Rightarrow> doc \<Rightarrow> go_error + pending_response" where
  "continuation_answer requestID d =
     (let kind = to_lower (trim_space (get_string ''kind'' d)) in
      if kind = ''tool_result'' then Inr ((answer_of requestID PendingRequestTool)\<lparr>rsp_tool_result :=
        Some \<lparr>tr_text_result = get_string ''text_result'' d,
              tr_binary_results = map read_binary_result (get_list ''binary_results'' d),
              tr_result_type = get_string ''result_type'' d, tr_session_log = get_string ''session_log'' d,
              tr_telemetry = map_option clone_members (get_map ''telemetry'' d)\<rparr>\<rparr>)
      else if kind = ''tool_error'' then
        (if blank (get_string ''error'' d) then Inl (bad_response ''tool_error requires error'')
         else Inr ((answer_of requestID PendingRequestTool)\<lparr>rsp_tool_error := get_string ''error'' d\<rparr>))
      else if kind = ''user_input'' then Inr ((answer_of requestID PendingRequestUserInput)\<lparr>rsp_user_input :=
        Some \<lparr>ui_answer = get_string ''answer'' d, ui_was_freeform = get_bool ''was_freeform'' d\<rparr>\<rparr>)
      else if kind = ''permission_result'' then
        (let resultKind = trim_space (get_string ''result_type'' d) in
         if resultKind = [] then Inl (bad_response ''permission_result requires result_type'')
         else if \<not> isSupportedPermissionResultKind resultKind
         then Inl (bad_response (''unsupported permission result_type '' @ resultKind))
         else Inr ((answer_of requestID PendingRequestPermission)\<lparr>rsp_permission :=
           Some \<lparr>pm_result_kind = resultKind, pm_rules = map value_of (get_list ''rules'' d)\<rparr>\<rparr>))
      else Inl (bad_response (''unsupported kind '' @ get_string ''kind'' d)))"

definition parseCopilotContinuationRequest :: "go_error + doc \<Rightarrow> go_error + pending_response" where
  "parseCopilotContinuationRequest body =
     (case body of
        Inl e \<Rightarrow> Inl (wrap_prefix ''decode x_copilot continuation request'' e)
      | Inr d \<Rightarrow>
          (if \<not> decode_ok (GStruct continuation_fields) d
           then Inl (wrap_prefix ''decode x_copilot continuation request'' type_error)
           else (let requestID = trim_space (get_string ''request_id'' d) in
                 if requestID = [] then Inl (bad_response ''request_id is required'')
                 else continuation_answer requestID d)))"

section \<open>The handler\<close>

text \<open>\<open>ResolvePending\<close> of the session behind a Go object, and the bridge after it.\<close>

definition resolve_in ::
    "rt_session \<Rightarrow> pending_response \<Rightarrow> 's server_state \<Rightarrow> go_error option \<times> 's server_state" where
  "resolve_in sess r s =
     (case gs_bridges s (rs_handle sess) of
        None \<Rightarrow> (Some (err ErrPendingRequestsUnsupported), s)
      | Some b \<Rightarrow> (case resolve r b of (e, b1) \<Rightarrow>
          (e, s\<lparr>gs_bridges := (gs_bridges s)(rs_handle sess := Some b1)\<rparr>)))"

definition error_reply :: "go_error \<Rightarrow> reply" where
  "error_reply e = (case classifyError e of (status, t, m) \<Rightarrow> writeOpenAIError status t m)"

text \<open>The activity hook that is called, if any, is the last part of the result.\<close>

definition handleCopilotResponse ::
    "'s gateway \<Rightarrow> http_request \<Rightarrow> 's server_state \<Rightarrow> reply \<times> 's server_state \<times> nat option" where
  "handleCopilotResponse g rq s =
     (if rq_method rq \<noteq> ''POST'' then (method_not_allowed ''POST'', s, None)
      else (case AuthenticateRequest (gw_keys g) (rq_headers rq) of
        Inl _ \<Rightarrow> (writeOpenAIError 401 ''authentication_error'' ''invalid API key'', s, None)
      | Inr i \<Rightarrow>
     (let key = sessionKeyFromRequest (rq_headers rq) in
      if key = [] then (error_reply (err ErrMissingSessionKey), s, None)
      else (case validateSessionKey key of
        Some e \<Rightarrow> (error_reply e, s, None)
      | None \<Rightarrow>
     (let scoped = scopedSessionKey i key in
      case Lookup scoped (gs_manager s) of
        None \<Rightarrow> (error_reply (err ErrPendingRequestNotFound), s, None)
      | Some sess \<Rightarrow>
     (case parseCopilotContinuationRequest (rq_body rq) of
        Inl e \<Rightarrow> (error_reply e, s, None)
      | Inr r \<Rightarrow>
     (case resolve_in sess r s of
        (Some e, s1) \<Rightarrow> (error_reply e, s1, None)
      | (None, s1) \<Rightarrow>
          (writeJSON 200 (ContinuationBody (rsp_request_id r)), s1, TouchActivity scoped (gs_manager s1)))))))))"

section \<open>Routes\<close>

definition serve_http ::
    "'s gateway \<Rightarrow> request_env \<Rightarrow> string \<Rightarrow> http_request \<Rightarrow> 's server_state \<Rightarrow> (reply \<times> 's server_state) option" where
  "serve_http g rn path rq s =
     (if path = ''/healthz'' then Some (handleHealthz rq, s)
      else if path = ''/v1/models'' then Some (handleModels g rn rq, s)
      else if path = ''/v1/chat/completions'' then Some (handleOpenAIChatCompletions g rn rq s)
      else if path = ''/v1/messages'' then Some (handleClaudeMessages g rn rq s)
      else if path = ''/v1/copilot/respond'' then
        (case handleCopilotResponse g rq s of (r, s1, _) \<Rightarrow> Some (r, s1))
      else None)"

end
