(* ===== verification/Gateway_Main.thy ===== *)
theory Gateway_Main
  imports Server_Continuation
begin

text \<open>
  \<open>cmd/copilot-sdkapi/main.go\<close>: the parts of the gateway are put together from the configuration, a ticker
  removes expired sessions, and at the end the sessions are disconnected and the provider is closed.

  Durations are nanoseconds.  Signals, the listener and \<open>http.Server.Shutdown\<close> are outside: a running gateway is
  the sequence of the requests it has served and of the ticks of its ticker.
\<close>

section \<open>Settings\<close>

datatype log_level = LevelDebug | LevelInfo | LevelWarn | LevelError

definition parseLogLevel :: "string \<Rightarrow> log_level" where
  "parseLogLevel level =
     (if level = ''debug'' then LevelDebug else if level = ''warn'' then LevelWarn
      else if level = ''error'' then LevelError else LevelInfo)"

abbreviation minute :: int where
  "minute \<equiv> 60000000000"

abbreviation second :: int where
  "second \<equiv> 1000000000"

record http_server =
  hs_addr :: string
  hs_read_header_timeout :: int
  hs_read_timeout :: int
  hs_idle_timeout :: int

definition newHTTPServer :: "config \<Rightarrow> http_server" where
  "newHTTPServer c =
     \<lparr>hs_addr = cf_listen_addr c, hs_read_header_timeout = 10 * second,
      hs_read_timeout = (if cf_request_timeout c < 10 * second then 10 * second else cf_request_timeout c),
      hs_idle_timeout = (if cf_request_timeout c < 30 * second then 30 * second else cf_request_timeout c)\<rparr>"

section \<open>Cleanup\<close>

definition cleanup_interval :: "int \<Rightarrow> int" where
  "cleanup_interval ttl = (if ttl div 2 < minute then minute else ttl div 2)"

text \<open>What \<open>select\<close> takes, pass by pass; a failed cleanup is logged.\<close>

datatype cleanup_event = ContextDone | TickerFired int runtime_env

fun cleanup_loop :: "'s store_ops option \<Rightarrow> cleanup_event list \<Rightarrow> 's manager \<Rightarrow> 's manager" where
  "cleanup_loop st [] m = m"
| "cleanup_loop st (ContextDone # evs) m = m"
| "cleanup_loop st (TickerFired now env # evs) m = cleanup_loop st evs (snd (CleanupExpired st env now m))"

definition runSessionCleanup :: "'s store_ops option \<Rightarrow> int \<Rightarrow> cleanup_event list \<Rightarrow> 's manager \<Rightarrow> 's manager" where
  "runSessionCleanup st ttl evs m = (if ttl \<le> 0 then m else cleanup_loop st evs m)"

section \<open>Start\<close>

definition limits_of_config :: "config \<Rightarrow> session_limits" where
  "limits_of_config c = \<lparr>MaxActiveSessions = cf_max_active_sessions c, MaxActivePerNamespace = cf_max_sessions_per_key c\<rparr>"

definition new_gateway :: "config \<Rightarrow> 's store_ops option \<Rightarrow> gateway_env \<Rightarrow> sdk \<Rightarrow> 's gateway" where
  "new_gateway c st e d = \<lparr>gw_config = c, gw_keys = NewStore (cf_api_keys c), gw_store = st, gw_env = e, gw_sdk = d\<rparr>"

definition new_state :: "config \<Rightarrow> 's \<Rightarrow> temp_fs \<Rightarrow> 's server_state" where
  "new_state c store fs = \<lparr>gs_manager = NewManagerWithStore (cf_session_ttl c) (limits_of_config c) store,
     gs_files = fs, gs_bridges = (\<lambda>_. Some newInteractiveBridge), gs_records = []\<rparr>"

section \<open>A running gateway\<close>

text \<open>The answers of the outside world may differ from one event to the next.\<close>

datatype gateway_event =
    Served gateway_env sdk request_env string http_request
  | Swept int runtime_env

fun gateway_step :: "config \<Rightarrow> 's store_ops option \<Rightarrow> gateway_event \<Rightarrow> 's server_state \<Rightarrow> 's server_state" where
  "gateway_step c st (Served e d rn path rq) s =
     (case serve_http (new_gateway c st e d) rn path rq s of None \<Rightarrow> s | Some (_, s') \<Rightarrow> s')"
| "gateway_step c st (Swept now env) s =
     s\<lparr>gs_manager := runSessionCleanup st (cf_session_ttl c) [TickerFired now env] (gs_manager s)\<rparr>"

definition gateway_run :: "config \<Rightarrow> 's store_ops option \<Rightarrow> gateway_event list \<Rightarrow> 's server_state \<Rightarrow> 's server_state" where
  "gateway_run c st evs s = fold (gateway_step c st) evs s"

section \<open>Shutdown\<close>

text \<open>What \<open>closeWithContext\<close> may return: the context is done, the closer has returned, or both.\<close>

definition closeWithContext :: "go_error option \<Rightarrow> go_error option option \<Rightarrow> go_error option list" where
  "closeWithContext ctx_err answer =
     (case ctx_err of None \<Rightarrow> [] | Some e \<Rightarrow> [Some e]) @ (case answer of None \<Rightarrow> [] | Some r \<Rightarrow> [r])"

text \<open>The end of \<open>main\<close> after the HTTP server: \<open>env\<close> and \<open>wait_err\<close> are those of the shutdown context.\<close>

definition shutdown ::
    "'s store_ops option \<Rightarrow> runtime_env \<Rightarrow> go_error \<Rightarrow> go_error option \<Rightarrow> provider \<Rightarrow> 's manager \<Rightarrow> provider \<times> 's manager" where
  "shutdown st env wait_err stopped p m =
     (let m1 = snd (DisconnectContext st env wait_err m) in (snd (CloseProvider stopped p), m1))"

end
