(* ===== verification/Gateway_Live.thy ===== *)
theory Gateway_Live
  imports Gateway_Main
begin

text \<open>
  The gateway with prompts in flight: \<open>net/http\<close> runs every handler of \<open>internal/httpapi\<close> in a goroutine of its own.
  A conversation request takes effect in two parts, up to the prepared conversation and after its prompt, and
  between them other requests arrive, the sessions' bridges see events of the SDK, and the ticker fires.

  The parts are those of Server_Handlers; the interleaving inside \<open>Acquire\<close>, \<open>Release\<close> and \<open>Discard\<close> is that of
  Session_Concurrency.  Requests are numbered; a number is in use from the arrival to the end of its handler.
\<close>

section \<open>Requests in flight\<close>

record flight =
  fl_path :: string
  fl_env :: request_env
  fl_running :: running

definition begin_request ::
    "'s gateway \<Rightarrow> request_env \<Rightarrow> string \<Rightarrow> http_request \<Rightarrow> 's server_state \<Rightarrow> (reply option + running) \<times> 's server_state" where
  "begin_request g rn path rq s =
     (let split = (\<lambda>(out, s1). (case out of Inl r \<Rightarrow> Inl (Some r) | Inr ru \<Rightarrow> Inr ru, s1)) in
      if path = ''/v1/chat/completions'' then split (begin_conversation g (openai_protocol g) rn rq s)
      else if path = ''/v1/messages'' then split (begin_conversation g (claude_protocol g) rn rq s)
      else (case serve_http g rn path rq s of None \<Rightarrow> (Inl None, s) | Some (r, s1) \<Rightarrow> (Inl (Some r), s1)))"

definition end_request :: "'s gateway \<Rightarrow> flight \<Rightarrow> 's server_state \<Rightarrow> reply \<times> 's server_state" where
  "end_request g f s =
     (if fl_path f = ''/v1/messages'' then complete_conversation g (claude_protocol g) (fl_env f) (fl_running f) s
      else complete_conversation g (openai_protocol g) (fl_env f) (fl_running f) s)"

section \<open>Events\<close>

record 's live =
  lv_state :: "'s server_state"
  lv_flights :: "nat \<Rightarrow> flight option"

text \<open>The answers of the outside world may differ from one event to the next.  \<open>Bridged h op\<close> is what the SDK and the
  handlers of a prompt do to the bridge of the Go object \<open>h\<close>; only clients resolve requests, by a request of theirs.\<close>

datatype live_event =
    Arrived nat gateway_env sdk request_env string http_request
  | Finished nat gateway_env sdk
  | Bridged nat bridge_op
  | Expired int runtime_env

definition on_bridge :: "nat \<Rightarrow> bridge_op \<Rightarrow> 's server_state \<Rightarrow> 's server_state" where
  "on_bridge h op s =
     (case (gs_bridges s h, op) of
        (None, _) \<Rightarrow> s
      | (Some b, OpResolve r) \<Rightarrow> s
      | (Some b, _) \<Rightarrow> s\<lparr>gs_bridges := (gs_bridges s)(h := Some (bridge_step op b))\<rparr>)"

fun live_step :: "config \<Rightarrow> 's store_ops option \<Rightarrow> live_event \<Rightarrow> 's live \<Rightarrow> 's live" where
  "live_step c st (Arrived t e d rn path rq) l =
     (if lv_flights l t \<noteq> None then l
      else (case begin_request (new_gateway c st e d) rn path rq (lv_state l) of
        (Inl _, s1) \<Rightarrow> l\<lparr>lv_state := s1\<rparr>
      | (Inr ru, s1) \<Rightarrow>
          l\<lparr>lv_state := s1, lv_flights := (lv_flights l)(t \<mapsto> \<lparr>fl_path = path, fl_env = rn, fl_running = ru\<rparr>)\<rparr>))"
| "live_step c st (Finished t e d) l =
     (case lv_flights l t of
        None \<Rightarrow> l
      | Some f \<Rightarrow>
          l\<lparr>lv_state := snd (end_request (new_gateway c st e d) f (lv_state l)),
            lv_flights := (lv_flights l)(t := None)\<rparr>)"
| "live_step c st (Bridged h op) l = l\<lparr>lv_state := on_bridge h op (lv_state l)\<rparr>"
| "live_step c st (Expired now env) l = l\<lparr>lv_state := (lv_state l)
     \<lparr>gs_manager := runSessionCleanup st (cf_session_ttl c) [TickerFired now env] (gs_manager (lv_state l))\<rparr>\<rparr>"

definition live_run :: "config \<Rightarrow> 's store_ops option \<Rightarrow> live_event list \<Rightarrow> 's live \<Rightarrow> 's live" where
  "live_run c st evs l = fold (live_step c st) evs l"

definition new_live :: "config \<Rightarrow> 's \<Rightarrow> temp_fs \<Rightarrow> 's live" where
  "new_live c store fs = \<lparr>lv_state = new_state c store fs, lv_flights = (\<lambda>_. None)\<rparr>"

section \<open>The process\<close>

text \<open>\<open>main\<close>: the configuration, the provider, the server until its context is done, and the shutdown.  \<open>file\<close> and
  \<open>faults\<close> are the contents of the session file and the failures of its system calls, \<open>fs\<close> the temporary
  directories, \<open>events\<close> all that happens until the shutdown.\<close>

datatype outcome =
    Panicked go_error
  | Exited go_error provider
  | Ended config http_server "file_store live" provider "file_store manager"

definition run_main ::
    "host \<Rightarrow> go_error option \<Rightarrow> document option \<Rightarrow> go_error option list \<Rightarrow> temp_fs \<Rightarrow> live_event list \<Rightarrow>
     runtime_env \<Rightarrow> go_error \<Rightarrow> go_error option \<Rightarrow> outcome" where
  "run_main h started file faults fs events env wait_err stopped =
     (case Load h of
        Inl e \<Rightarrow> Panicked e
      | Inr c \<Rightarrow>
     (case StartProvider started (NewCopilotProvider (options_of_config c)) of
        (Some e, p) \<Rightarrow> Exited e p
      | (None, p) \<Rightarrow>
          (let st = Some file_store_ops;
               l = live_run c st events (new_live c ((NewFileStore (cf_session_store_path c) file)\<lparr>fs_faults := faults\<rparr>) fs);
               (p1, m) = shutdown st env wait_err stopped p (gs_manager (lv_state l))
           in Ended c (newHTTPServer c) l p1 m)))"

end
