(* ===== verification/Send_Facts.thy ===== *)
theory Send_Facts
  imports Copilot_Send
begin

text \<open>
  What \<open>Send\<close> returns, whatever the handler does: the text, reasoning and usage are functions of
  the events, which are given here as a specification on the list of events; an error of the
  handler decides the result; and the ways in which a session error reaches the caller.
\<close>

section \<open>The specification of the result\<close>

fun text_delta :: "sdk_event_type \<times> event_data \<Rightarrow> string" where
  "text_delta (SdkAssistantMessageDelta, d) = deref (ev_delta_content d)"
| "text_delta _ = []"

fun full_text :: "sdk_event_type \<times> event_data \<Rightarrow> string" where
  "full_text (SdkAssistantMessage, d) = deref (ev_content d)"
| "full_text _ = []"

fun reasoning_delta :: "sdk_event_type \<times> event_data \<Rightarrow> string" where
  "reasoning_delta (SdkAssistantReasoningDelta, d) =
     firstNonEmpty [deref (ev_delta_content d), deref (ev_reasoning_text d)]"
| "reasoning_delta _ = []"

fun usage_of :: "sdk_event_type \<times> event_data \<Rightarrow> usage option" where
  "usage_of (SdkAssistantUsage, d) = Some
     \<lparr>input_tokens = int64FromFloat (ev_input_tokens d),
      output_tokens = int64FromFloat (ev_output_tokens d),
      cache_read_tokens = int64FromFloat (ev_cache_read_tokens d),
      cache_write_tokens = int64FromFloat (ev_cache_write_tokens d)\<rparr>"
| "usage_of _ = None"

text \<open>All the text deltas, and the last complete message, if there is one.\<close>

definition streamed_text :: "(sdk_event_type \<times> event_data) list \<Rightarrow> string" where
  "streamed_text evs = concat (map text_delta evs)"

fun last_text :: "(sdk_event_type \<times> event_data) list \<Rightarrow> string" where
  "last_text [] = []"
| "last_text (ev # evs) = (if last_text evs = [] then full_text ev else last_text evs)"

fun last_usage :: "(sdk_event_type \<times> event_data) list \<Rightarrow> usage option" where
  "last_usage [] = None"
| "last_usage (ev # evs) = (case last_usage evs of None \<Rightarrow> usage_of ev | Some u \<Rightarrow> Some u)"

section \<open>Frames\<close>

lemma dispatch_frame [simp]:
  "sn_content (dispatch h ev s) = sn_content s"
  "sn_reasoning (dispatch h ev s) = sn_reasoning s"
  "sn_final_text (dispatch h ev s) = sn_final_text s"
  "sn_usage (dispatch h ev s) = sn_usage s"
  "sn_bridge (dispatch h ev s) = sn_bridge s"
  "sn_err_ch (dispatch h ev s) = sn_err_ch s"
  "sn_idle (dispatch h ev s) = sn_idle s"
  by (auto simp: dispatch_def Let_def set_error_def cancel_send_def split: option.splits prod.splits)

lemma send_err_frame [simp]:
  "sn_content (send_err e s) = sn_content s" "sn_reasoning (send_err e s) = sn_reasoning s"
  "sn_final_text (send_err e s) = sn_final_text s" "sn_usage (send_err e s) = sn_usage s"
  "sn_first_err (send_err e s) = sn_first_err s" "sn_cause (send_err e s) = sn_cause s"
  "sn_idle (send_err e s) = sn_idle s" "sn_runtime_events (send_err e s) = sn_runtime_events s"
  "sn_handler (send_err e s) = sn_handler s" "sn_bridge (send_err e s) = sn_bridge s"
  "sn_err_ch (send_err e s) \<noteq> None"
  by (auto simp: send_err_def)

lemma cancel_send_frame [simp]:
  "sn_content (cancel_send e s) = sn_content s" "sn_reasoning (cancel_send e s) = sn_reasoning s"
  "sn_final_text (cancel_send e s) = sn_final_text s" "sn_usage (cancel_send e s) = sn_usage s"
  "sn_first_err (cancel_send e s) = sn_first_err s" "sn_err_ch (cancel_send e s) = sn_err_ch s"
  "sn_idle (cancel_send e s) = sn_idle s" "sn_runtime_events (cancel_send e s) = sn_runtime_events s"
  "sn_handler (cancel_send e s) = sn_handler s" "sn_bridge (cancel_send e s) = sn_bridge s"
  "sn_cause (cancel_send e s) \<noteq> None"
  by (auto simp: cancel_send_def)

lemma on_bridge_frame [simp]:
  "sn_content (on_bridge f s) = sn_content s" "sn_reasoning (on_bridge f s) = sn_reasoning s"
  "sn_final_text (on_bridge f s) = sn_final_text s" "sn_usage (on_bridge f s) = sn_usage s"
  "sn_first_err (on_bridge f s) = sn_first_err s" "sn_err_ch (on_bridge f s) = sn_err_ch s"
  "sn_idle (on_bridge f s) = sn_idle s" "sn_runtime_events (on_bridge f s) = sn_runtime_events s"
  "sn_handler (on_bridge f s) = sn_handler s" "sn_cause (on_bridge f s) = sn_cause s"
  by (auto simp: on_bridge_def)

text \<open>What the switch does to the accumulated fields, case by case.\<close>

lemma handle_event_fields:
  "sn_content (snd (handle_event h t d s)) = sn_content s @ text_delta (t, d) \<and>
   sn_final_text (snd (handle_event h t d s)) =
     (if full_text (t, d) = [] then sn_final_text s else full_text (t, d)) \<and>
   sn_reasoning (snd (handle_event h t d s)) = sn_reasoning s @ reasoning_delta (t, d) \<and>
   sn_usage (snd (handle_event h t d s)) =
     (case usage_of (t, d) of None \<Rightarrow> sn_usage s | Some u \<Rightarrow> u) \<and>
   sn_idle (snd (handle_event h t d s)) = (sn_idle s \<or> t = SdkSessionIdle)"
  by (cases t) (simp_all add: Let_def)

lemma on_event_fields:
  "sn_content (on_event h ev s) = sn_content s @ text_delta ev \<and>
   sn_final_text (on_event h ev s) = (if full_text ev = [] then sn_final_text s else full_text ev) \<and>
   sn_reasoning (on_event h ev s) = sn_reasoning s @ reasoning_delta ev \<and>
   sn_usage (on_event h ev s) = (case usage_of ev of None \<Rightarrow> sn_usage s | Some u \<Rightarrow> u) \<and>
   sn_idle (on_event h ev s) = (sn_idle s \<or> fst ev = SdkSessionIdle)"
proof -
  obtain t d where ev: "ev = (t, d)" by (cases ev)
  obtain b s1 where h: "handle_event h t d s = (b, s1)" by fastforce
  show ?thesis
    using handle_event_fields [of h t d s] unfolding on_event_def ev fst_conv snd_conv h
    by (cases b; cases "sn_cause s1") (simp_all add: ev)
qed

lemma run_events_Nil [simp]: "run_events h [] s = s"
  by (simp add: run_events_def)

lemma run_events_Cons [simp]: "run_events h (ev # evs) s = run_events h evs (on_event h ev s)"
  by (simp add: run_events_def)

lemma run_events_append: "run_events h (evs @ evs') s = run_events h evs' (run_events h evs s)"
  by (simp add: run_events_def)

lemma run_events_fields:
  "sn_content (run_events h evs s) = sn_content s @ streamed_text evs"
  "sn_final_text (run_events h evs s) = (if last_text evs = [] then sn_final_text s else last_text evs)"
  "sn_usage (run_events h evs s) = (case last_usage evs of None \<Rightarrow> sn_usage s | Some u \<Rightarrow> u)"
  "sn_idle (run_events h evs s) = (sn_idle s \<or> SdkSessionIdle \<in> fst ` set evs)"
proof -
  show "sn_content (run_events h evs s) = sn_content s @ streamed_text evs"
    by (induction evs arbitrary: s) (simp_all add: streamed_text_def on_event_fields)
  show "sn_final_text (run_events h evs s) = (if last_text evs = [] then sn_final_text s else last_text evs)"
    by (induction evs arbitrary: s) (simp_all add: on_event_fields)
  show "sn_usage (run_events h evs s) = (case last_usage evs of None \<Rightarrow> sn_usage s | Some u \<Rightarrow> u)"
    by (induction evs arbitrary: s) (auto simp: on_event_fields split: option.splits)
  show "sn_idle (run_events h evs s) = (sn_idle s \<or> SdkSessionIdle \<in> fst ` set evs)"
    by (induction evs arbitrary: s) (auto simp: on_event_fields)
qed

section \<open>Errors\<close>

lemma first_err_dispatch:
  "sn_first_err s \<noteq> None \<Longrightarrow> sn_first_err (dispatch h ev s) = sn_first_err s"
  by (auto simp: dispatch_def Let_def set_error_def split: option.splits prod.splits)

lemma first_err_on_event:
  assumes "sn_first_err s \<noteq> None"
  shows "sn_first_err (on_event h ev s) = sn_first_err s"
proof -
  obtain t d where ev: "ev = (t, d)" by (cases ev)
  obtain b s1 where h: "handle_event h t d s = (b, s1)" by fastforce
  have "sn_first_err (snd (handle_event h t d s)) = sn_first_err s"
    using assms by (cases t) (simp_all add: Let_def first_err_dispatch)
  then show ?thesis
    unfolding on_event_def ev fst_conv snd_conv h by (cases b; cases "sn_cause s1") (simp_all add: h)
qed

lemma first_err_run:
  "sn_first_err s \<noteq> None \<Longrightarrow> sn_first_err (run_events h evs s) = sn_first_err s"
  by (induction evs arbitrary: s) (simp_all add: first_err_on_event)

lemma failed_outcomes:
  assumes "sn_first_err s \<noteq> None" and "x \<in> set (send_outcomes sid sent s)"
  shows "\<exists>e. x = Inl e"
  using assms
  by (auto simp: send_outcomes_def after_send_outcomes_def finish_send_def split: option.splits if_splits)

section \<open>What the handler sees\<close>

text \<open>A handler that reports no error and records the events it is given.\<close>

definition recorder :: "event list event_handler" where
  "recorder ev tr = (None, tr @ [ev])"

definition runtime_of :: "event list \<Rightarrow> runtime_event list" where
  "runtime_of tr = List.map_filter evt_runtime tr"

lemma runtime_of_simps [simp]:
  "runtime_of [] = []"
  "runtime_of (tr @ tr') = runtime_of tr @ runtime_of tr'"
  "runtime_of [ev] = (case evt_runtime ev of None \<Rightarrow> [] | Some r \<Rightarrow> [r])"
  by (auto simp: runtime_of_def List.map_filter_def split: option.splits)

lemma recorder_dispatch:
  "sn_handler (dispatch (Some recorder) ev s) = sn_handler s @ [ev]"
  "sn_runtime_events (dispatch (Some recorder) ev s) =
     sn_runtime_events s @ (case evt_runtime ev of None \<Rightarrow> [] | Some r \<Rightarrow> [r])"
  by (auto simp: dispatch_def Let_def recorder_def split: option.splits)

lemma recorder_event:
  assumes "sn_runtime_events s = runtime_of (sn_handler s)"
  shows "sn_runtime_events (on_event (Some recorder) ev s) =
     runtime_of (sn_handler (on_event (Some recorder) ev s))"
proof -
  obtain t d where ev: "ev = (t, d)" by (cases ev)
  obtain b s1 where h: "handle_event (Some recorder) t d s = (b, s1)" by fastforce
  have "sn_runtime_events (snd (handle_event (Some recorder) t d s)) =
      runtime_of (sn_handler (snd (handle_event (Some recorder) t d s)))"
    using assms by (cases t) (simp_all add: Let_def recorder_dispatch)
  then show ?thesis
    unfolding on_event_def ev fst_conv snd_conv h by (cases b; cases "sn_cause s1") simp_all
qed

lemma recorder_run:
  "sn_runtime_events s = runtime_of (sn_handler s) \<Longrightarrow>
   sn_runtime_events (run_events (Some recorder) evs s) =
     runtime_of (sn_handler (run_events (Some recorder) evs s))"
  by (induction evs arbitrary: s) (simp_all add: recorder_event)

section \<open>Properties\<close>

text \<open>C38: What \<open>Send\<close> returns is a function of the events, whatever the handler is: on success the text is
  the last non-empty complete message or, without one, the concatenation of all text deltas in
  order, and the usage is that of the last usage event.\<close>

theorem send_result_spec:
  assumes "finish_send sid (run_events h evs (start_send ctx b x)) = Inr r"
  shows "rs_content r = (if last_text evs = [] then streamed_text evs else last_text evs) \<and>
    rs_usage r = (case last_usage evs of None \<Rightarrow> zero_usage | Some u \<Rightarrow> u) \<and>
    rs_session_id r = sid"
  using assms
  by (auto simp: finish_send_def run_events_fields start_send_def split: option.splits if_splits)

definition delta_event :: "string \<Rightarrow> sdk_event_type \<times> event_data" where
  "delta_event t = (SdkAssistantMessageDelta, empty_data\<lparr>ev_delta_content := Some t\<rparr>)"

lemma send_result_spec_witness:
  "\<exists>r. finish_send ''s1'' (run_events None [delta_event ''He'', delta_event ''llo'', (SdkSessionIdle, empty_data)]
      (start_send 0 None ())) = Inr r \<and> rs_content r = ''Hello''"
proof -
  let ?evs = "[delta_event ''He'', delta_event ''llo'', (SdkSessionIdle, empty_data)]"
  obtain r where r: "finish_send ''s1'' (run_events None ?evs (start_send 0 None ())) = Inr r"
    by (simp add: finish_send_def on_event_def delta_event_def empty_data_def deref_def dispatch_def
        start_send_def blank_gateway_event_def)
  from send_result_spec [OF this] r show ?thesis
    by (simp add: streamed_text_def delta_event_def deref_def)
qed

text \<open>The runtime events reported in the result are exactly those the handler was given, in order:
  a handler that accepts and records every event has seen each of them.\<close>

theorem result_events_are_dispatched:
  assumes "finish_send sid (run_events (Some recorder) evs (start_send ctx b [])) = Inr r"
  shows "rs_runtime_events r = runtime_of (sn_handler (run_events (Some recorder) evs (start_send ctx b [])))"
proof -
  have "sn_runtime_events (run_events (Some recorder) evs (start_send ctx b [])) =
      runtime_of (sn_handler (run_events (Some recorder) evs (start_send ctx b [])))"
    by (rule recorder_run) (simp add: start_send_def)
  then show ?thesis using assms by (auto simp: finish_send_def split: option.splits)
qed

lemma result_events_are_dispatched_witness:
  "\<exists>r. finish_send ''s1'' (run_events (Some recorder) [(SdkAssistantTurnEnd, empty_data)]
       (start_send 0 None [])) = Inr r \<and> map rv_type (rs_runtime_events r) = [''assistant_turn_end'']"
proof -
  let ?s = "run_events (Some recorder) [(SdkAssistantTurnEnd, empty_data)] (start_send 0 None [])"
  obtain r where r: "finish_send ''s1'' ?s = Inr r"
    by (simp add: finish_send_def on_event_def dispatch_def recorder_def start_send_def
        runtime_gateway_event_def blank_gateway_event_def)
  have "map rv_type (runtime_of (sn_handler ?s)) = [''assistant_turn_end'']"
    by (simp add: on_event_def dispatch_def recorder_def start_send_def
        runtime_gateway_event_def blank_gateway_event_def blank_event_def runtime_of_def
        List.map_filter_simps)
  then show ?thesis using result_events_are_dispatched [OF r] r by auto
qed

text \<open>A handler that fails is heard: when the caller's handler returns an error for a text delta (a
  client that has gone away), then whatever events follow, every outcome of \<open>Send\<close> is an error,
  and the context of the running request is cancelled.\<close>

theorem handler_error_fails_send:
  assumes "sn_first_err s = None" and "deref (ev_delta_content d) = t" and "t \<noteq> []"
    and "h ((blank_gateway_event EventMessageDelta)\<lparr>evt_delta := t\<rparr>) (sn_handler s) = (Some e, x)"
    and "s' = run_events (Some h) ((SdkAssistantMessageDelta, d) # evs) s"
  shows "finish_send sid s' = Inl e \<and> sn_cause (on_event (Some h) (SdkAssistantMessageDelta, d) s) \<noteq> None \<and>
    (\<forall>y \<in> set (send_outcomes sid sent s'). \<exists>er. y = Inl er)"
proof -
  let ?s1 = "on_event (Some h) (SdkAssistantMessageDelta, d) s"
  have f: "sn_first_err ?s1 = Some e" "sn_cause ?s1 \<noteq> None"
    using assms(1-4)
    by (auto simp: on_event_def dispatch_def Let_def blank_gateway_event_def set_error_def
        cancel_send_def split: option.splits)
  then have "sn_first_err s' = Some e" using assms(5) by (simp add: first_err_run)
  then show ?thesis using f failed_outcomes [of s' _ sid sent] by (auto simp: finish_send_def)
qed

definition broken_pipe :: "unit event_handler" where
  "broken_pipe ev u = (Some (errors_new ''broken pipe''), ())"

lemma handler_error_fails_send_witness:
  "finish_send ''s1'' (run_events (Some broken_pipe) [delta_event ''He'', (SdkSessionIdle, empty_data)]
     (start_send 0 None ())) = Inl (errors_new ''broken pipe'')"
proof -
  have "sn_first_err (start_send 0 None ()) = None" by (simp add: start_send_def)
  moreover have "deref (ev_delta_content (empty_data\<lparr>ev_delta_content := Some ''He''\<rparr>)) = ''He''"
    by (simp add: deref_def)
  ultimately show ?thesis
    using handler_error_fails_send [OF _ _ _ _ refl, of "start_send 0 None ()"
        "empty_data\<lparr>ev_delta_content := Some ''He''\<rparr>" "''He''" broken_pipe "errors_new ''broken pipe''" "()"
        "''s1''" "[(SdkSessionIdle, empty_data)]"]
    by (simp add: broken_pipe_def delta_event_def)
qed

text \<open>A session error can be lost: when the runtime reports a session error and then idles before \<open>Send\<close>
  looks at its channels, the error and the idle signal are both ready, and without a handler (as
  for every non-streaming request) one of the outcomes that \<open>select\<close> may choose is success.\<close>

theorem session_error_may_be_lost:
  "Inl (response_err (runtimeErrorFromEvent d)) \<in> set (send_outcomes sid (Some None)
     (run_events None [(SdkSessionError, d), (SdkSessionIdle, d')] (start_send ctx b x))) \<and>
   (\<exists>r. Inr r \<in> set (send_outcomes sid (Some None)
     (run_events None [(SdkSessionError, d), (SdkSessionIdle, d')] (start_send ctx b x))))"
  by (simp add: on_event_def dispatch_def Let_def start_send_def send_outcomes_def
      after_send_outcomes_def finish_send_def send_err_def cancel_send_def blank_gateway_event_def)

end
