(* ===== verification/Config_Facts.thy ===== *)
theory Config_Facts
  imports Gateway_Config
begin

text \<open>What a configuration that \<open>Load\<close> accepts satisfies.\<close>

section \<open>API keys and agents\<close>

definition key_ok :: "api_key \<Rightarrow> bool" where
  "key_ok k \<longleftrightarrow> ak_label k \<noteq> [] \<and> ak_secret k \<noteq> [] \<and> trim_space (ak_secret k) = ak_secret k"

lemma api_key_entries_ok: "api_key_entries i parts = Inr ks \<Longrightarrow> list_all key_ok ks"
proof (induction parts arbitrary: i ks)
  case (Cons raw rest)
  then show ?case
    by (auto simp: Let_def key_ok_def result_simps split: if_splits prod.splits option.splits)
qed simp

lemma parseAPIKeys_ok:
  assumes "parseAPIKeys raw = Inr (ks, d)"
  shows "ks \<noteq> [] \<and> list_all key_ok ks"
proof -
  have "trim_space ''test-key'' = ''test-key''" by code_simp
  then show ?thesis
    using assms api_key_entries_ok by (auto simp: parseAPIKeys_def key_ok_def split: if_splits sum.splits)
qed

lemma parsePermissionMode_ok:
  "parsePermissionMode raw = Inr m \<Longrightarrow> m \<in> {PermissionModeDeny, PermissionModeBridge, PermissionModeAllow}"
  by (auto simp: parsePermissionMode_def Let_def split: if_splits)

lemma check_agents_ok:
  "check_agents agents seen = Inr seen' \<Longrightarrow>
   distinct (map (trim_space \<circ> cu_name) agents) \<and> seen' = seen \<union> (trim_space \<circ> cu_name) ` set agents \<and>
   (trim_space \<circ> cu_name) ` set agents \<inter> seen = {} \<and>
   (\<forall>a \<in> set agents. \<not> blank (cu_name a) \<and> \<not> blank (cu_prompt a))"
proof (induction agents arbitrary: seen)
  case (Cons a rest)
  from Cons.prems have c: "check_agents rest (insert (trim_space (cu_name a)) seen) = Inr seen'"
    "\<not> blank (cu_name a)" "\<not> blank (cu_prompt a)" "trim_space (cu_name a) \<notin> seen"
    by (auto simp: Let_def split: if_splits)
  from Cons.IH [OF c(1)] c(2-4) show ?case by auto
qed simp

section \<open>Load\<close>

lemma setting_keeps:
  assumes "setting h name parse upd r = Inr c" and "\<And>x c. parse (env_value h name) = Inr x \<Longrightarrow> P c \<Longrightarrow> P (upd x c)"
    and "\<And>c. r = Inr c \<Longrightarrow> P c"
  shows "P c"
  using assms by (auto simp: setting_def optional_setting_def Let_def split: sum.splits option.splits if_splits)

lemma parsed_settings_mode:
  assumes "parsed_settings h c = Inr c'"
    and "cf_permission_mode c \<in> {PermissionModeDeny, PermissionModeBridge, PermissionModeAllow}"
  shows "cf_permission_mode c' \<in> {PermissionModeDeny, PermissionModeBridge, PermissionModeAllow}"
proof -
  let ?P = "\<lambda>c. cf_permission_mode c \<in> {PermissionModeDeny, PermissionModeBridge, PermissionModeAllow}"
  note keep = setting_keeps [where P = ?P]
  show ?thesis
    using assms(1) unfolding parsed_settings_def
    apply (rule keep)
    subgoal using parsePermissionMode_ok by simp
    apply (erule keep, simp)+
    using assms(2) by simp
qed

lemma load_result:
  assumes "Load h = Inr c"
  shows "\<exists>wd c0 d. parsed_settings h (text_settings h (default_config h wd)) = Inr c0 \<and>
    validateCustomAgents (cf_custom_agents c0) (cf_default_agent c0) = None \<and>
    cf_custom_agents c = cf_custom_agents c0 \<and> cf_default_agent c = cf_default_agent c0 \<and>
    cf_permission_mode c = cf_permission_mode c0 \<and>
    parseAPIKeys (ho_getenv h ''GATEWAY_API_KEYS'') = Inr (cf_api_keys c, d)"
proof -
  from assms obtain wd c0 infinite_opts logged_in keys d where
    "parsed_settings h (text_settings h (default_config h wd)) = Inr c0"
    "validateCustomAgents (cf_custom_agents c0) (cf_default_agent c0) = None"
    "parseAPIKeys (ho_getenv h ''GATEWAY_API_KEYS'') = Inr (keys, d)"
    and "c = c0\<lparr>cf_infinite_sessions := infinite_opts,
      cf_use_logged_in_user := (case logged_in of None \<Rightarrow> cf_github_token c0 = [] | Some b \<Rightarrow> b),
      cf_api_keys := keys, cf_using_default_api_key := d, cf_telemetry := parseTelemetryFromEnv h\<rparr>"
    unfolding Load_def by (auto simp: result_simps)
  then show ?thesis by (intro exI [of _ wd] exI [of _ c0] exI [of _ d]) simp
qed

section \<open>Properties\<close>


text \<open>A host with one setting.\<close>

definition demo_host :: "string \<Rightarrow> string \<Rightarrow> host" where
  "demo_host name v = \<lparr>ho_getenv = (\<lambda>n. if n = name then v else []), ho_getwd = Inr ''/srv'',
     ho_config_dir = Inr ''/etc'', ho_temp_dir = ''/tmp'', ho_join = concat,
     ho_parse_duration = (\<lambda>s. Inl (errors_new s)), ho_parse_float = (\<lambda>s. if s = ''NaN'' then Inr NaN else Inl (errors_new s)),
     ho_parse_json = (\<lambda>s. Inl (errors_new s))\<rparr>"

lemma demo_loaded: "\<exists>c. Load (demo_host ''GATEWAY_SDK_PERMISSION_MODE'' ''Bridge'') = Inr c \<and>
    cf_permission_mode c = PermissionModeBridge"
proof -
  have t: "trim_space ''Bridge'' = ''Bridge''" "parsePermissionMode ''Bridge'' = Inr PermissionModeBridge"
    by code_simp+
  show ?thesis
    by (simp add: Load_def demo_host_def parsed_settings_def setting_def optional_setting_def env_value_def t
        text_settings_def default_config_def parseInfiniteSessionsFromEnv_def validateCustomAgents_def
        parseAPIKeys_def text_setting_def Let_def github_token_def)
qed


text \<open>A bare API key that ends in base64 padding is misread: its text up to the first equality sign becomes
  the label, and what follows, here a single sign, becomes a secret that the gateway accepts.\<close>

theorem padded_api_key_misread:
  "parseAPIKeys ''c2VjcmV0MQ=='' = Inr ([\<lparr>ak_label = ''c2VjcmV0MQ'', ak_secret = ''=''\<rparr>], False) \<and>
   (\<exists>i. AuthenticateRequest (NewStore [\<lparr>ak_label = ''c2VjcmV0MQ'', ak_secret = ''=''\<rparr>]) (bearer ''='') = Inr i)"
proof -
  have "extractToken (bearer ''='') = ''=''" unfolding bearer_def extractToken_def by code_simp
  moreover have "parseAPIKeys ''c2VjcmV0MQ=='' = Inr ([\<lparr>ak_label = ''c2VjcmV0MQ'', ak_secret = ''=''\<rparr>], False)"
    by code_simp
  ultimately show ?thesis by (simp add: AuthenticateRequest_def NewStore_def Let_def)
qed

text \<open>A compaction threshold is checked to lie between 0 and 1, but NaN passes the check, since both of its
  comparisons are false: the configuration is loaded with it.\<close>

theorem nan_threshold_accepted:
  "parseInfiniteSessionsFromEnv
     (demo_host ''GATEWAY_SDK_INFINITE_SESSIONS_BUFFER_EXHAUSTION_THRESHOLD'' ''NaN'') =
   Inr (Some \<lparr>is_enabled = None, is_background = None, is_buffer = Some NaN\<rparr>)"
proof -
  have "trim_space ''NaN'' = ''NaN''" by code_simp
  then show ?thesis
    by (simp add: parseInfiniteSessionsFromEnv_def optional_setting_def env_value_def demo_host_def Let_def
        parseThreshold_def)
qed

end
