(* ===== verification/Attachment_Facts.thy ===== *)
theory Attachment_Facts
  imports Server_Attachments Compat_Facts Config_Facts
begin

text \<open>
  Facts on attachments: the names of the files written, the directories left behind, the size and
  origin of fetched content, and the two image checks, which agree on inline images.
\<close>

section \<open>File names\<close>

lemma clean_name_chars: "list_all name_char (clean_name s)"
  by (induction s rule: clean_name.induct) (auto simp: name_char_def)

lemma trim_dashes_subset: "set (trim_dashes s) \<subseteq> set s"
  unfolding trim_dashes_def by (auto dest!: set_dropWhileD)

lemma sanitized_chars:
  "sanitizeAttachmentName name \<noteq> [] \<and> list_all name_char (sanitizeAttachmentName name)"
proof -
  have "list_all name_char (trim_dashes (clean_name s))" for s
    using clean_name_chars [of s] trim_dashes_subset [of "clean_name s"] by (auto simp: list_all_iff)
  then show ?thesis
    by (auto simp: sanitizeAttachmentName_def Let_def name_char_def)
qed

lemma no_separator: "list_all name_char s \<Longrightarrow> CHR ''/'' \<notin> set s"
  by (auto simp: list_all_iff name_char_def)

lemma extension_no_separator: "CHR ''/'' \<notin> set (extensionForMediaType m)"
  by (auto simp: extensionForMediaType_def Let_def)

section \<open>Temporary directories\<close>

definition temp_ok :: "temp_fs \<Rightarrow> bool" where
  "temp_ok s \<longleftrightarrow> list_all (\<lambda>d. d < tf_next s) (tf_live s)"

text \<open>The directory that a later cleanup removes, over those that were there before.\<close>

definition owns :: "nat list \<Rightarrow> nat option \<Rightarrow> temp_fs \<Rightarrow> bool" where
  "owns live dir s \<longleftrightarrow>
     temp_ok s \<and> (case dir of None \<Rightarrow> tf_live s = live | Some d \<Rightarrow> tf_live s = d # live \<and> d \<notin> set live)"

lemma os_call_frame: "os_call s = (r, s') \<Longrightarrow> tf_live s' = tf_live s \<and> tf_next s' = tf_next s"
  by (auto simp: os_call_def split: list.splits)

lemma write_calls_frame: "write_calls s = (r, s') \<Longrightarrow> tf_live s' = tf_live s \<and> tf_next s' = tf_next s"
  by (auto simp: write_calls_def split: prod.splits option.splits dest!: os_call_frame)

lemma write_frame:
  "writeAttachmentFile lib d n m data s = (r, s') \<Longrightarrow> tf_live s' = tf_live s \<and> tf_next s' = tf_next s"
  by (auto simp: writeAttachmentFile_def Let_def split: prod.splits option.splits if_splits dest!: write_calls_frame)

lemma owns_frame: "owns live dir s \<Longrightarrow> tf_live s' = tf_live s \<and> tf_next s' = tf_next s \<Longrightarrow> owns live dir s'"
  by (auto simp: owns_def temp_ok_def split: option.splits)

lemma mkdir_owns:
  "owns live None s \<Longrightarrow> MkdirTemp s = (Inr d, s') \<Longrightarrow> owns live (Some d) s'"
  "owns live None s \<Longrightarrow> MkdirTemp s = (Inl e, s') \<Longrightarrow> owns live None s'"
  by (auto simp: MkdirTemp_def owns_def temp_ok_def list_all_iff split: prod.splits option.splits dest!: os_call_frame)
     force+

lemma remove_owned: "owns live (Some d) s \<Longrightarrow> owns live None (RemoveAll d s)"
  by (auto simp: owns_def temp_ok_def RemoveAll_def)

lemma drop_owned: "owns live dir s \<Longrightarrow> owns live None (drop_dir dir s)"
  by (cases dir) (auto simp: drop_dir_def remove_owned)

text \<open>What a function that may own a directory at its end does with those it was given.\<close>

definition keeps :: "nat list \<Rightarrow> (go_error + 'a \<times> nat option) \<times> temp_fs \<Rightarrow> bool" where
  "keeps live r \<longleftrightarrow>
     (case r of (Inl e, s) \<Rightarrow> owns live None s | (Inr (x, dir), s) \<Rightarrow> owns live dir s)"

lemma images_keep: "owns live dir s \<Longrightarrow> keeps live (materialize_images c lib w imgs dir acc s)"
proof (induction imgs arbitrary: dir acc s)
  case Nil
  then show ?case by (simp add: keeps_def)
next
  case (Cons img rest)
  show ?case
  proof (cases "if blank (ia_url img) then Inr (ia_media_type img, ia_data img, [])
                else fetchRemoteAttachment c lib w (ia_url img)")
    case (Inl e)
    with Cons.prems show ?thesis by (simp add: keeps_def drop_owned)
  next
    case (Inr x)
    obtain m data n where x: "x = (m, data, n)" by (cases x)
    show ?thesis
    proof (cases "data = []")
      case False
      with Inr x Cons show ?thesis by simp
    next
      case True
      obtain r s1 where dir: "(case dir of Some d \<Rightarrow> (Inr d, s) | None \<Rightarrow> MkdirTemp s) = (r, s1)" by fastforce
      show ?thesis
      proof (cases r)
        case (Inl e)
        with dir Cons.prems have "owns live None s1"
          by (auto split: option.splits intro: mkdir_owns)
        with Inl \<open>(if _ then _ else _) = Inr x\<close> x True dir show ?thesis by (simp add: keeps_def)
      next
        case (Inr d)
        with dir Cons.prems have own: "owns live (Some d) s1"
          by (auto split: option.splits intro: mkdir_owns)
        obtain r2 s2 where wr: "writeAttachmentFile lib d ''image'' m data s1 = (r2, s2)" by fastforce
        have "owns live (Some d) s2" using owns_frame [OF own] write_frame [OF wr] by blast
        with Inr \<open>(if _ then _ else _) = Inr x\<close> x True dir wr Cons.IH show ?thesis
          by (cases r2) (simp_all add: keeps_def remove_owned)
      qed
    qed
  qed
qed

lemma file_frame:
  "materializeCopilotAttachment c lib w d x s = (r, s') \<Longrightarrow> tf_live s' = tf_live s \<and> tf_next s' = tf_next s"
  unfolding materializeCopilotAttachment_def Let_def
  by (auto split: if_splits option.splits sum.splits prod.splits dest!: write_frame)

lemma files_keep:
  "owns live (Some d) s \<Longrightarrow>
   (case materialize_files c lib w d xs acc s of (Inl e, s') \<Rightarrow> owns live None s' | (Inr r, s') \<Rightarrow> owns live (Some d) s')"
proof (induction xs arbitrary: acc s)
  case (Cons x xs)
  obtain r s1 where r: "materializeCopilotAttachment c lib w d x s = (r, s1)" by fastforce
  have "owns live (Some d) s1" using owns_frame [OF Cons.prems] file_frame [OF r] by blast
  with r Cons.IH show ?case by (cases r) (auto simp: remove_owned)
qed simp

lemma materialize_keep:
  assumes "owns live None s"
  shows "keeps live (materializeAttachments c lib w imgs s)"
    and "keeps live (materializeCopilotAttachments c lib w xs s)"
proof -
  show "keeps live (materializeAttachments c lib w imgs s)"
    using assms images_keep [OF assms] by (simp add: materializeAttachments_def keeps_def)
  show "keeps live (materializeCopilotAttachments c lib w xs s)"
  proof (cases "xs = []")
    case True
    with assms show ?thesis by (simp add: materializeCopilotAttachments_def keeps_def)
  next
    case False
    obtain r s1 where mk: "MkdirTemp s = (r, s1)" by fastforce
    show ?thesis
    proof (cases r)
      case (Inl e)
      with mk False assms show ?thesis
        by (simp add: materializeCopilotAttachments_def keeps_def mkdir_owns)
    next
      case (Inr d)
      with mk assms have "owns live (Some d) s1" by (simp add: mkdir_owns)
      from files_keep [OF this, of c lib w xs "[]"] mk Inr False show ?thesis
        by (auto simp: materializeCopilotAttachments_def keeps_def split: prod.splits sum.splits)
    qed
  qed
qed

lemma run_two:
  assumes "owns live d1 s1" and "owns (tf_live s1) d2 s2"
  shows "tf_live (run_cleanup (combineCleanup [d1, d2]) s2) = live" and "tf_live (remove_dir d1 s1) = live"
  using assms
  by (auto simp: owns_def run_cleanup_def combineCleanup_def remove_dir_def map_filter_def RemoveAll_def
      split: option.splits)

lemma remove_one: "owns live d s \<Longrightarrow> tf_live s' = tf_live s \<Longrightarrow> tf_live (remove_dir d s') = live"
  by (auto simp: owns_def run_cleanup_def combineCleanup_def remove_dir_def map_filter_def RemoveAll_def
      split: option.splits)

lemma owns_here: "owns live d s \<Longrightarrow> owns (tf_live s) None s"
  by (simp add: owns_def)

lemma directories_kept:
  assumes "temp_ok s"
  shows "case prepare_attachments c lib w models modelID x images s of
           (Inl e, s') \<Rightarrow> tf_live s' = tf_live s
         | (Inr (attachments, cleanup), s') \<Rightarrow> tf_live (run_cleanup cleanup s') = tf_live s"
proof -
  have start: "owns (tf_live s) None s" using assms by (simp add: owns_def)
  obtain r1 s1 where m1: "materializeAttachments c lib w images s = (r1, s1)" by fastforce
  obtain r2 s2 where m2: "materializeCopilotAttachments c lib w (ce_attachments x) s1 = (r2, s2)" by fastforce
  have k1: "keeps (tf_live s) (r1, s1)" using materialize_keep(1) [OF start, of c lib w images] m1 by simp
  show ?thesis
  proof (cases r1)
    case (Inl e)
    with k1 m1 show ?thesis by (simp add: prepare_attachments_def keeps_def owns_def)
  next
    case (Inr y)
    obtain as1 d1 where y: "y = (as1, d1)" by (cases y)
    have own: "owns (tf_live s) d1 s1" using k1 Inr y by (simp add: keeps_def)
    have k2: "keeps (tf_live s1) (r2, s2)"
      using materialize_keep(2) [OF owns_here [OF own], of c lib w "ce_attachments x"] m2 by simp
    show ?thesis
    proof (cases r2)
      case (Inl e)
      then have "tf_live s2 = tf_live s1" using k2 by (simp add: keeps_def owns_def)
      from remove_one [OF own this] Inl Inr y m1 m2 show ?thesis by (simp add: prepare_attachments_def)
    next
      case (Inr z)
      obtain as2 d2 where z: "z = (as2, d2)" by (cases z)
      have "owns (tf_live s1) d2 s2" using k2 Inr z by (simp add: keeps_def)
      from run_two(1) [OF own this] \<open>r1 = Inr y\<close> Inr y z m1 m2 show ?thesis
        by (simp add: prepare_attachments_def Let_def split: option.splits)
    qed
  qed
qed

section \<open>Inputs of the witnesses\<close>

definition demo_config :: config where
  "demo_config = (default_config (demo_host [] []) ''/work'')\<lparr>cf_max_body_bytes := 8\<rparr>"

text \<open>A file system, one that is full after one call, and a network that serves one text.\<close>

definition demo_fs :: temp_fs where
  "demo_fs = \<lparr>tf_live = [7], tf_next = 8, tf_faults = []\<rparr>"

definition demo_web :: web where
  "demo_web = \<lparr>wb_parse = (\<lambda>_. Some \<lparr>pu_scheme = ''https'', pu_hostname = ''example.com''\<rparr>),
     wb_path = (\<lambda>_. ''/a/b.txt''), wb_get = (\<lambda>_. Inr (200, ''text/plain; charset=utf-8'', ''Hi'', None))\<rparr>"

definition demo_full_fs :: temp_fs where
  "demo_full_fs = demo_fs\<lparr>tf_faults := [None, Some (errors_new ''no space left on device'')]\<rparr>"

definition demo_image :: image_attachment where
  "demo_image = \<lparr>ia_media_type = ''image/png'', ia_data = ''abc'', ia_url = []\<rparr>"

definition demo_model :: model where
  "demo_model = \<lparr>mo_id = ''gpt-4.1'', mo_name = ''GPT'', mo_vision = True, mo_reasoning_effort = False,
     mo_max_prompt_tokens = None, mo_max_output_tokens = None, mo_max_context_window = 0,
     mo_vision_limits = Some \<lparr>vl_media_types = [], vl_max_images = 1, vl_max_image_size = 2\<rparr>,
     mo_efforts = [], mo_default_effort = []\<rparr>"

section \<open>Properties\<close>

text \<open>C27: The file written for an attachment lies in the directory given for it, whatever the name in the
  request: its fixed part is a non-empty word of letters, digits, dashes and underscores, followed by an
  extension of the known media types, with no path separator, and its contents are the data, not empty.\<close>

theorem attachment_file_contained:
  assumes "writeAttachmentFile lib dir nameHint mediaType data s = (Inr a, s')"
  shows "data \<noteq> [] \<and> (\<exists>stem ext. at_file a = Some (dir, stem @ ''-*'' @ ext, data) \<and>
    stem \<noteq> [] \<and> list_all name_char stem \<and> CHR ''/'' \<notin> set (stem @ ''-*'' @ ext))"
proof -
  from assms obtain m where "data \<noteq> []" and
    at: "at_file a = Some (dir, sanitizeAttachmentName nameHint @ ''-*'' @ extensionForMediaType m, data)"
    by (auto simp: writeAttachmentFile_def Let_def split: if_splits prod.splits option.splits)
  with sanitized_chars [of nameHint] no_separator extension_no_separator [of m] show ?thesis
    by (intro conjI exI [of _ "sanitizeAttachmentName nameHint"] exI [of _ "extensionForMediaType m"]) auto
qed

lemma demo_write:
  "writeAttachmentFile demo_lib 7 ''../../etc/passwd.txt'' ''text/plain'' ''Hi'' demo_fs =
     (Inr \<lparr>at_file = Some (7, ''passwd-*.txt'', ''Hi''), at_media_type = ''text/plain'', at_blob = []\<rparr>, demo_fs)"
  by code_simp

lemma attachment_file_contained_witness: "CHR ''/'' \<notin> set ''passwd-*.txt''"
  using attachment_file_contained [OF demo_write] by simp

text \<open>No temporary directory outlives its request.  When the attachments of a request are refused, on
  whatever error of a system call, a download or a limit, the directories are those there were before; when
  they are accepted, the cleanup handed to the caller brings them back to those.\<close>

theorem no_directory_left:
  assumes "temp_ok s"
  shows "case prepare_attachments c lib w models modelID x images s of
           (Inl e, s') \<Rightarrow> tf_live s' = tf_live s
         | (Inr (attachments, cleanup), s') \<Rightarrow> tf_live (run_cleanup cleanup s') = tf_live s"
  by (rule directories_kept [OF assms])

lemma demo_fs_ok: "temp_ok demo_full_fs" "tf_live demo_full_fs = [7]"
  by (simp_all add: demo_full_fs_def demo_fs_def temp_ok_def)

lemma no_directory_left_witness:
  "case prepare_attachments demo_config demo_lib demo_web (Inr []) [] (cv_copilot demo_conversation)
      [demo_image] demo_full_fs of
     (Inl e, s') \<Rightarrow> tf_live s' = [7] | (Inr (attachments, cleanup), s') \<Rightarrow> tf_live (run_cleanup cleanup s') = [7]"
  by (rule no_directory_left [OF demo_fs_ok(1), unfolded demo_fs_ok(2)])


lemma demo_fetch:
  "fetchRemoteAttachment demo_config demo_lib demo_web ''https://example.com/a/b.txt'' = Inr (''text/plain'', ''Hi'', ''b.txt'')"
  by code_simp


text \<open>Inline images of one turn, as the runtime gets them.\<close>

definition blob :: "image_attachment \<Rightarrow> attachment" where
  "blob a = \<lparr>at_file = None, at_media_type = ia_media_type a, at_blob = b64_encode (ia_data a)\<rparr>"

definition inline :: "image_attachment \<Rightarrow> bool" where
  "inline a \<longleftrightarrow> blank (ia_url a) \<and> ia_data a \<noteq> []"

lemma inline_materialized:
  "list_all inline imgs \<Longrightarrow> materialize_images c lib w imgs dir acc s = (Inr (acc @ map blob imgs, dir), s)"
  by (induction imgs arbitrary: acc) (simp_all add: inline_def blob_def)

lemma inline_sizes:
  "list_all inline imgs \<Longrightarrow>
   size_error limit (map blob imgs) =
     (if list_ex (\<lambda>a. int (length (ia_data a)) > limit) imgs
      then Some (limits_error ''image exceeds max_prompt_image_size'') else None)"
  by (induction imgs) (simp_all add: inline_def blob_def attachment_size_def b64_decode_encode)

text \<open>The two checks of images against the limits of the model agree on inline images: what the check before
  the session is acquired says of the images of the request is what the check of the materialized blobs says,
  after the encoding, up to the support of images and their number, which only the first one looks at.\<close>

theorem image_checks_agree:
  assumes "list_all inline imgs" and "imgs \<noteq> []"
    and "lookupModel models modelID = Inr (Some m)" and "mo_vision m"
    and "\<And>l. mo_vision_limits m = Some l \<Longrightarrow> vl_max_images l \<le> 0 \<or> int (length imgs) \<le> vl_max_images l"
  shows "\<exists>as. materializeAttachments c lib w imgs s = (Inr (as, None), s) \<and>
    validateMaterializedImageAttachments models modelID as False = image_error m imgs"
proof (intro exI conjI)
  show "materializeAttachments c lib w imgs s = (Inr (map blob imgs, None), s)"
    using inline_materialized [OF assms(1), of c lib w None "[]" s] assms(2) by (simp add: materializeAttachments_def)
  have "\<not> list_ex (\<lambda>a. ia_data a = []) imgs"
    using assms(1) by (auto simp: list_all_iff list_ex_iff inline_def)
  moreover have "at_media_type \<circ> blob = ia_media_type" by (auto simp: blob_def)
  moreover have "\<not> (0 < vl_max_images l \<and> vl_max_images l < int (length imgs))" if "mo_vision_limits m = Some l" for l
    using assms(5) [OF that] by linarith
  ultimately show "validateMaterializedImageAttachments models modelID (map blob imgs) False = image_error m imgs"
    using assms(2-4)
    by (cases "mo_vision_limits m")
      (auto simp: validateMaterializedImageAttachments_def image_error_def inline_sizes [OF assms(1)]
        split: option.split)
qed

lemma image_checks_agree_witness:
  "\<exists>as. materializeAttachments demo_config demo_lib demo_web [demo_image] demo_fs = (Inr (as, None), demo_fs) \<and>
    validateMaterializedImageAttachments (Inr [demo_model]) ''gpt-4.1'' as False =
      Some (limits_error ''image exceeds max_prompt_image_size'')"
proof -
  have "list_all inline [demo_image]" "lookupModel (Inr [demo_model]) ''gpt-4.1'' = Inr (Some demo_model)"
    "image_error demo_model [demo_image] = Some (limits_error ''image exceeds max_prompt_image_size'')"
    by code_simp+
  with image_checks_agree [of "[demo_image]" "Inr [demo_model]" "''gpt-4.1''" demo_model demo_config demo_lib demo_web demo_fs]
  show ?thesis by (simp add: demo_model_def)
qed

end
