(* ===== verification/Policy_Facts.thy ===== *)
theory Policy_Facts
  imports Server_Policy Config_Facts "HOL-Library.Multiset"
begin

text \<open>
  Facts on the request policy: which errors are the client's, and that a tool fingerprint is that
  of the set of tools.
\<close>

section \<open>Client errors\<close>

definition client_sentinels :: "sentinel list" where
  "client_sentinels =
     [ErrUnsupportedTools, ErrUnsupportedControls, ErrUnsupportedMessageFields, ErrUnsupportedContent,
      ErrNoTurns, ErrFinalTurnNotUser, ErrUnsupportedImages, ErrInvalidImageData,
      ErrInvalidSessionKey, ErrMissingSessionKey, ErrInvalidAnthropicVersion, ErrInvalidSystemMessageMode,
      ErrUnknownAgent, ErrInteractiveRequiresStream, ErrInteractiveRequiresSessionKey,
      ErrInvalidCopilotPermissionMode, ErrInvalidCopilotProvider, ErrCopilotPermissionEscalation,
      ErrInvalidCopilotTool, ErrInvalidCopilotResponse, ErrInvalidCopilotAttachment,
      ErrUnsupportedReasoningEffort, ErrUnsupportedVisionModel, ErrModelLimitsExceeded,
      ErrUnknownModelCapabilities]"

definition client_error :: "go_error \<Rightarrow> bool" where
  "client_error e \<longleftrightarrow> causes e = [JsonTypeError] \<or> (\<exists>s \<in> set client_sentinels. causes e = [Sentinel s])"

lemma client_error_simps [simp]:
  "client_error (err s) = (s \<in> set client_sentinels)"
  "client_error (wrap_suffix e d) = client_error e"
  "client_error (wrap_prefix p e) = client_error e"
  "client_error type_error"
  by (auto simp: client_error_def type_error_def)

lemma client_error_400: "client_error e \<Longrightarrow> fst (classifyError e) = 400"
proof -
  assume "client_error e"
  then consider "causes e = [JsonTypeError]" | s where "s \<in> set client_sentinels" "causes e = [Sentinel s]"
    by (auto simp: client_error_def)
  then show ?thesis
  proof cases
    case 1
    then show ?thesis by (simp add: classifyError_def is_any_def errors_is_def)
  next
    case 2
    then show ?thesis
      by (auto simp: client_sentinels_def classifyError_def is_any_def errors_is_def)
  qed
qed

text \<open>A fallible step whose every error is the client's.\<close>

definition blames_client :: "go_error + 'a \<Rightarrow> bool" where
  "blames_client r \<longleftrightarrow> (\<forall>e. r = Inl e \<longrightarrow> client_error e)"

definition refuses_client :: "go_error option \<Rightarrow> bool" where
  "refuses_client r \<longleftrightarrow> (\<forall>e. r = Some e \<longrightarrow> client_error e)"

named_theorems blame

lemma blames_simps [simp]:
  "blames_client (Inr x)" "blames_client (Inl e) = client_error e"
  "refuses_client None" "refuses_client (Some e) = client_error e"
  by (auto simp: blames_client_def refuses_client_def)

lemma blames_case [blame]:
  "blames_client r \<Longrightarrow> (\<And>x. r = Inr x \<Longrightarrow> blames_client (f x)) \<Longrightarrow>
   blames_client (case r of Inl e \<Rightarrow> Inl e | Inr x \<Rightarrow> f x)"
  by (cases r) auto

lemma refuses_case [blame]:
  "refuses_client r \<Longrightarrow> blames_client y \<Longrightarrow> blames_client (case r of None \<Rightarrow> y | Some e \<Rightarrow> Inl e)"
  by (cases r) auto

lemma refuses_sum [blame]:
  "blames_client r \<Longrightarrow> (\<And>x. r = Inr x \<Longrightarrow> refuses_client (f x)) \<Longrightarrow>
   refuses_client (case r of Inl e \<Rightarrow> Some e | Inr x \<Rightarrow> f x)"
  by (cases r) auto

lemma refuses_option [blame]:
  "refuses_client r \<Longrightarrow> refuses_client y \<Longrightarrow> refuses_client (case r of None \<Rightarrow> y | Some e \<Rightarrow> Some e)"
  by (cases r) auto

lemma blames_if [blame]:
  "(b \<Longrightarrow> blames_client x) \<Longrightarrow> (\<not> b \<Longrightarrow> blames_client y) \<Longrightarrow> blames_client (if b then x else y)"
  "(b \<Longrightarrow> refuses_client u) \<Longrightarrow> (\<not> b \<Longrightarrow> refuses_client v) \<Longrightarrow> refuses_client (if b then u else v)"
  by auto

lemma blames_prod [blame]:
  "(\<And>x y. p = (x, y) \<Longrightarrow> blames_client (f x y)) \<Longrightarrow> blames_client (case p of (x, y) \<Rightarrow> f x y)"
  by (cases p) auto

lemma blames_absent [blame]:
  "client_error e \<Longrightarrow> (\<And>x. r = Some x \<Longrightarrow> blames_client (f x)) \<Longrightarrow>
   blames_client (case r of None \<Rightarrow> Inl e | Some x \<Rightarrow> f x)"
  by (cases r) auto

lemmas client_defs = client_sentinels_def bad_image_def controls_def bad_provider_def limits_error_def

subsection \<open>Parsing\<close>

lemma payload_blame: "refuses_client (validateImagePayload lib m d)"
  unfolding validateImagePayload_def Let_def
  by (auto simp: client_defs split: sum.splits)

lemma decode_image_blame: "blames_client (decode_image lib m x)"
  unfolding decode_image_def using payload_blame
  by (auto intro!: blame simp: client_defs)

lemma image_blame: "blames_client (parseOpenAIImage lib v)" "blames_client (parseClaudeImage lib v)"
proof -
  have "blames_client (parseDataURLImage lib raw)" for raw
    unfolding parseDataURLImage_def using decode_image_blame
    by (auto simp: client_defs split: sum.splits option.splits)
  then show "blames_client (parseOpenAIImage lib v)"
    unfolding parseOpenAIImage_def by (auto simp: client_defs split: option.splits)
  show "blames_client (parseClaudeImage lib v)"
    unfolding parseClaudeImage_def Let_def using decode_image_blame
    by (auto simp: client_defs split: option.splits)
qed

lemma content_item_blame: "blames_client (content_item lib v)"
  unfolding content_item_def Let_def using image_blame
  by (auto simp: client_defs blames_client_def split: json.splits option.splits sum.splits)

lemma content_items_blame: "blames_client (content_items lib vs t as)"
  using content_item_blame
  by (induction vs arbitrary: t as) (auto simp: blames_client_def split: sum.splits)

lemma content_blame: "blames_client (extractConversationContent lib v)"
  unfolding extractConversationContent_def using content_items_blame
  by (auto simp: client_defs split: json.splits)

lemma openai_message_blame: "blames_client (parseOpenAIMessage lib raw)"
  unfolding parseOpenAIMessage_def Let_def using content_blame
  by (auto intro!: blame simp: client_defs)

lemma claude_message_blame: "blames_client (parseClaudeMessage lib raw)"
  unfolding parseClaudeMessage_def Let_def using content_blame
  by (cases "unknown_member [''role'', ''content''] raw") (auto intro!: blame simp: client_defs)

lemma openai_messages_blame: "blames_client (openai_messages lib raws sys turns)"
  using openai_message_blame
  by (induction raws arbitrary: sys turns) (auto simp: client_defs blames_client_def split: sum.splits if_splits)

lemma map_error_blame: "(\<And>x. blames_client (f x)) \<Longrightarrow> blames_client (map_error f xs)"
  by (induction xs) (auto simp: blames_client_def split: sum.splits)

lemma turns_error_blame: "refuses_client (turns_error turns)"
  by (auto simp: turns_error_def LatestUserPrompt_def ValidateAttachmentPlacement_def client_defs)

lemma directive_blame: "blames_client (parseOpenAIToolDirective a b)"
proof -
  have "blames_client (parseSingleOpenAIToolDirective raw)" for raw
    unfolding parseSingleOpenAIToolDirective_def Let_def by (auto simp: client_defs split: option.splits)
  then show ?thesis unfolding parseOpenAIToolDirective_def by (auto intro!: blame)
qed

lemma openai_tools_blame: "blames_client (openai_tools r ext)"
proof -
  have "blames_client (parse_chat_tool d)" "blames_client (parse_function d)" for d
    by (auto simp: parse_chat_tool_def parse_function_def Let_def client_defs split: option.splits)
  then have "blames_client (mapOpenAICompatibleTools a b)" for a b
    unfolding mapOpenAICompatibleTools_def parseOpenAIChatTools_def parseOpenAIFunctionDefinitions_def
    by (auto intro!: blame map_error_blame)
  moreover have "blames_client (select_tools dir a b)" for dir a b
    by (auto simp: select_tools_def Let_def client_defs)
  ultimately show ?thesis
    unfolding openai_tools_def using directive_blame by (auto intro!: blame simp: client_defs)
qed

lemma openai_parse_blame: "blames_client (ParseOpenAIChatCompletionRequest lib (Inr r))"
proof -
  have "refuses_client (openai_control_error r)" by (auto simp: openai_control_error_def client_defs)
  moreover have "blames_client (parseOpenAIReasoningEffort a b)" for a b
    by (auto simp: parseOpenAIReasoningEffort_def Let_def client_defs)
  moreover have "blames_client (parseOpenAIStreamIncludeUsage a)" for a
    by (auto simp: parseOpenAIStreamIncludeUsage_def Let_def client_defs split: doc.splits)
  moreover have "blames_client (buildOpenAIResponseFormatInstruction a)" for a
    by (auto simp: buildOpenAIResponseFormatInstruction_def Let_def client_defs split: option.splits)
  moreover have "blames_client (openai_turns lib r)"
    using openai_messages_blame by (auto simp: openai_turns_def Let_def client_defs)
  ultimately show ?thesis
    unfolding ParseOpenAIChatCompletionRequest_def Let_def sum.case
    using openai_tools_blame turns_error_blame by (auto intro!: blame)
qed

lemma claude_parse_blame: "blames_client (ParseClaudeMessagesRequest lib (Inr r))"
proof -
  have "blames_client (extractTextContent lib v)" for v
    unfolding extractTextContent_def using content_blame by (auto intro!: blame simp: client_defs)
  moreover have "blames_client (map_error (parseClaudeMessage lib) xs)" for xs
    using claude_message_blame by (rule map_error_blame)
  moreover have "blames_client (parse_claude_tool d)" for d
    by (auto simp: parse_claude_tool_def client_defs)
  then have "blames_client (parseClaudeToolDefinitions xs)" for xs
    unfolding parseClaudeToolDefinitions_def by (rule map_error_blame)
  ultimately show ?thesis
    unfolding ParseClaudeMessagesRequest_def Let_def sum.case
    using turns_error_blame
    by (cases "unknown_member claudeAllowedFields r") (auto intro!: blame simp: client_defs)
qed

subsection \<open>Validation\<close>

lemma permission_blame: "blames_client (effectivePermissionMode m d)"
  by (auto simp: effectivePermissionMode_def Let_def client_defs)

lemma tools_blame: "refuses_client (validateCopilotTools ts)"
  by (induction ts) (auto simp: validate_tool_def client_defs split: option.splits)

lemma placement_blame: "refuses_client (ValidateAttachmentPlacement turns b)"
  by (auto simp: ValidateAttachmentPlacement_def client_defs)

lemma media_type_blame: "refuses_client (media_type_error l ts)"
  by (auto simp: media_type_error_def client_defs split: option.splits)

lemma image_error_blame: "refuses_client (image_error m as)"
  unfolding image_error_def using media_type_blame
  by (cases "mo_vision_limits m") (auto intro!: blame simp: client_defs)

lemma features_blame: "refuses_client (validateConversationFeatures c (Inr ms) modelID r)"
proof -
  have "refuses_client (system_message_error c r)"
    by (auto simp: system_message_error_def Let_def client_defs)
  moreover have "refuses_client (unknownModelCapabilitiesError modelID a b)" for a b
    by (simp add: unknownModelCapabilitiesError_def Let_def client_defs)
  moreover have "refuses_client (effort_error m x)" for m x
    by (auto simp: effort_error_def client_defs)
  moreover have "blames_client (LatestUserTurn ts)" for ts
    by (auto simp: LatestUserTurn_def client_defs)
  ultimately have "refuses_client (model_error (Inr ms) modelID r)"
    unfolding model_error_def lookupModel_def sum.case using image_error_blame
    by (cases "find (\<lambda>m. mo_id m = modelID) ms") (auto intro!: blame)
  then show ?thesis
    unfolding validateConversationFeatures_def
    using permission_blame tools_blame placement_blame \<open>refuses_client (system_message_error c r)\<close>
    by (auto intro!: blame simp: client_defs)
qed

lemma ip_blame: "refuses_client (validateProviderBaseURL allow ptype u)"
  unfolding validateProviderBaseURL_def validateProviderIP_def provider_blocked_def Let_def
  by (auto simp: client_defs split: option.splits)

lemma provider_blame: "blames_client (toRuntimeProvider c parse_url marshal p)"
proof -
  have "blames_client (wire_api t q)" "blames_client (azure_version t q)" for t q
    by (auto simp: wire_api_def azure_version_def Let_def client_defs split: option.splits)
  then show ?thesis
    unfolding toRuntimeProvider_def Let_def using ip_blame
    by (cases p) (auto intro!: blame simp: client_defs)
qed

section \<open>Sorting\<close>

lemma lex_le_linear: "lex_le xs ys \<or> lex_le ys xs"
  by (induction xs ys rule: lex_le.induct) auto

lemma lex_le_antisym: "lex_le xs ys \<Longrightarrow> lex_le ys xs \<Longrightarrow> xs = ys"
  by (induction xs ys rule: lex_le.induct) (auto elim: lex_le.elims)

lemma lex_le_trans: "lex_le xs ys \<Longrightarrow> lex_le ys zs \<Longrightarrow> lex_le xs zs"
proof (induction xs ys arbitrary: zs rule: lex_le.induct)
  case (3 x xs y ys)
  then show ?case by (cases zs) auto
qed auto

lemma byte_order_inj: "byte_order s = byte_order t \<Longrightarrow> s = t"
  unfolding byte_order_def by (erule map_injective) (auto intro!: injI)

definition str_le :: "string \<Rightarrow> string \<Rightarrow> bool" where
  "str_le s t \<longleftrightarrow> lex_le (byte_order s) (byte_order t)"

lemma insert_sorted_str_le:
  "insert_sorted s (t # ts) = (if str_le s t then s # t # ts else t # insert_sorted s ts)"
  by (simp add: str_le_def)

lemma str_le_order:
  "str_le a b \<or> str_le b a" "str_le a b \<Longrightarrow> str_le b a \<Longrightarrow> a = b" "str_le a b \<Longrightarrow> str_le b c \<Longrightarrow> str_le a c"
  unfolding str_le_def using lex_le_linear lex_le_antisym lex_le_trans byte_order_inj by blast+

lemma insert_sorted_commute: "insert_sorted a (insert_sorted b l) = insert_sorted b (insert_sorted a l)"
proof (induction l)
  case Nil
  then show ?case using str_le_order(1) [of a b] str_le_order(2) [of a b] by (auto simp: str_le_def)
next
  case (Cons c l)
  have lt: "insert_sorted a (insert_sorted b (c # l)) = insert_sorted b (insert_sorted a (c # l))"
    if "str_le a b" and "\<not> str_le b a" and "insert_sorted a (insert_sorted b l) = insert_sorted b (insert_sorted a l)"
    for a b
  proof -
    have "str_le b c \<Longrightarrow> str_le a c" using str_le_order(3) [of a b c] that(1) by blast
    then show ?thesis
      using that by (cases "str_le a c"; cases "str_le b c")
        (simp_all add: insert_sorted_str_le del: insert_sorted.simps(2))
  qed
  show ?case
  proof (cases "str_le a b \<and> str_le b a")
    case True
    then show ?thesis using str_le_order(2) by blast
  next
    case False
    then show ?thesis using lt [of a b] lt [of b a] Cons.IH str_le_order(1) [of a b] by metis
  qed
qed

lemma sort_strings_mset: "mset xs = mset ys \<Longrightarrow> sort_strings xs = sort_strings ys"
proof -
  assume "mset xs = mset ys"
  have c: "insert_sorted a \<circ> insert_sorted b = insert_sorted b \<circ> insert_sorted a" for a b
    using insert_sorted_commute by auto
  then have "foldr insert_sorted zs = fold insert_sorted zs" for zs
    by (intro foldr_fold) simp
  moreover have "fold insert_sorted xs = fold insert_sorted ys"
    using c \<open>mset xs = mset ys\<close> by (intro fold_multiset_equiv) auto
  ultimately show ?thesis by (simp add: sort_strings_def)
qed

section \<open>Properties of the fingerprints\<close>

text \<open>C30: The fingerprint of the tools of a session is that of a multiset: the same definitions in another order have
  the same fingerprint, so they do not conflict with the session.\<close>

theorem tools_fingerprint_order_free:
  assumes "mset tools = mset tools'"
  shows "toolDefinitionsFingerprint marshal tools = toolDefinitionsFingerprint marshal tools'"
proof -
  have "mset (map (\<lambda>t. marshal (tool_payload t)) tools) = mset (map (\<lambda>t. marshal (tool_payload t)) tools')"
    using assms by (simp only: mset_map)
  from sort_strings_mset [OF this] show ?thesis
    using assms by (auto simp: toolDefinitionsFingerprint_def)
qed

definition demo_tool :: "string \<Rightarrow> copilot_tool" where
  "demo_tool name = \<lparr>ct_name = name, ct_description = [], ct_parameters = None, ct_override_builtin = False,
     ct_skip_permission = False\<rparr>"

lemma tools_fingerprint_order_free_witness:
  "toolDefinitionsFingerprint (\<lambda>_. []) [demo_tool ''a'', demo_tool ''b''] =
   toolDefinitionsFingerprint (\<lambda>_. []) [demo_tool ''b'', demo_tool ''a'']"
  by (rule tools_fingerprint_order_free) simp

definition provider_type :: "copilot_provider \<Rightarrow> string" where
  "provider_type p = (let given = to_lower (trim_space (cp_type p)) in if given = [] then ''openai'' else given)"

definition provider_of :: "copilot_provider \<Rightarrow> string \<Rightarrow> string \<Rightarrow> provider_config" where
  "provider_of p wire version =
     \<lparr>pc_type = provider_type p, pc_wire_api = wire, pc_base_url = trim_space (cp_base_url p),
      pc_api_key = trim_space (cp_api_key p), pc_bearer_token = trim_space (cp_bearer_token p),
      pc_azure_api_version = version\<rparr>"

lemma toRuntimeProvider_Inr:
  "toRuntimeProvider c parse_url marshal (Some p) = Inr (rp, pub, secret) \<longleftrightarrow>
   (\<exists>wire version. trim_space (cp_base_url p) \<noteq> [] \<and> provider_type p \<in> {''openai'', ''azure'', ''anthropic''} \<and>
     parse_url (trim_space (cp_base_url p)) \<noteq> None \<and>
     validateProviderBaseURL (cf_allow_private_urls c) (provider_type p) (parse_url (trim_space (cp_base_url p))) = None \<and>
     wire_api (provider_type p) p = Inr wire \<and> azure_version (provider_type p) p = Inr version \<and>
     rp = Some (provider_of p wire version) \<and>
     pub = fingerprint (marshal (public_payload (provider_of p wire version))) \<and>
     secret = fingerprint (marshal (secret_payload (provider_of p wire version))))"
  unfolding toRuntimeProvider_def option.case Let_def provider_type_def [unfolded Let_def, symmetric]
    provider_of_def [symmetric] result_simps
  by (auto simp: provider_of_def)


definition demo_openai :: copilot_provider where
  "demo_openai = \<lparr>cp_type = [], cp_wire_api = ''Responses'', cp_base_url = '' https://api.openai.com/v1'',
     cp_api_key = ''k'', cp_bearer_token = [], cp_azure = None\<rparr>"


end
