(* ===== verification/Prepare_Facts.thy ===== *)
theory Prepare_Facts
  imports Server_Prepare Attachment_Facts Policy_Facts Session_Properties
begin

text \<open>
  Facts on the preparation of a conversation: the permissions of the session, the errors of a refused
  request, what it leaves behind, and what the next request under the same key finds.
\<close>

section \<open>Permissions\<close>

text \<open>Permission handlers are ordered by what they let through.\<close>

primrec handler_rank :: "permission_handler \<Rightarrow> nat" where
  "handler_rank DenyAllPermissions = 0"
| "handler_rank BridgePermissions = 1"
| "handler_rank AllowAllPermissions = 2"

instantiation permission_handler :: linorder
begin

definition less_eq_permission_handler where
  "h \<le> h' \<longleftrightarrow> handler_rank h \<le> handler_rank h'"

definition less_permission_handler where
  "h < h' \<longleftrightarrow> handler_rank h < handler_rank h'"

instance
proof
  fix x y :: permission_handler
  assume "x \<le> y" "y \<le> x"
  then show "x = y" by (cases x; cases y) (simp_all add: less_eq_permission_handler_def)
qed (auto simp: less_eq_permission_handler_def less_permission_handler_def)

end

lemma handler_rank_mode: "handler_rank (permissionHandlerForMode m) = permissionModeRank m"
  by (simp add: permissionHandlerForMode_def permissionModeRank_def)

lemma effective_mode:
  assumes "effectivePermissionMode m d = Inr mode"
  shows "permissionHandlerForMode mode \<le> permissionHandlerForMode (server_mode d) \<and>
    mode \<noteq> [] \<and> mode \<noteq> PermissionModeInherit"
  using assms
  by (auto simp: effectivePermissionMode_def Let_def less_eq_permission_handler_def handler_rank_mode
      server_mode_def permission_mode_defs split: if_splits)

section \<open>Plans\<close>

lemma plan_parts:
  assumes "plan_conversation c pu mar models key r = Inr (spec, so)"
  shows "effectivePermissionMode (ce_permission_mode (cv_copilot r)) (cf_permission_mode c) = Inr (op_permission_mode so) \<and>
    sp_permission_mode spec = op_permission_mode so \<and> op_session_id so = key \<and>
    sp_model spec = resolveModel c (cv_model r) \<and> op_model so = sp_model spec \<and>
    validateConversationFeatures c models (sp_model spec) r = None \<and>
    op_sections so = toRuntimeSectionOverrides (ce_system_message_sections (cv_copilot r))"
  using assms unfolding plan_conversation_def Let_def by (auto simp: result_simps)

lemma plan_blame: "blames_client (plan_conversation c pu mar (Inr ms) key r)"
  unfolding plan_conversation_def Let_def
  using permission_blame features_blame provider_blame
  by (auto intro!: blame simp: client_defs)

section \<open>After the lease\<close>

lemma prepare_refused:
  assumes "plan_conversation c (ge_parse_url g) (ge_marshal g) (ge_models g) key r = Inr (spec, so)"
    and "Acquire st (factories (ge_runtime g) so) (ge_wait_err g) now True True key spec m = (Inr l, m0)"
    and "prepareConversation c g st now later key r m fs = (Inl e, m1, fs1)"
  shows "m1 = release_lease st (factories (ge_runtime g) so) later l m0"
  using assms by (auto simp: prepareConversation_def Let_def split: sum.splits prod.splits)

lemma prepare_accepted:
  assumes "plan_conversation c (ge_parse_url g) (ge_marshal g) (ge_models g) key r = Inr (spec, so)"
    and "Acquire st (factories (ge_runtime g) so) (ge_wait_err g) now True True key spec m = (Inr l, m0)"
    and "prompt_for l (cv_turns r) = Inr prompt" and "LatestUserTurn (cv_turns r) = Inr latest"
    and "prepare_attachments c (ge_lib g) (ge_web g) (ge_models_later g) (sp_model spec) (cv_copilot r)
           (tn_attachments latest) fs = (Inr (as, cleanup), fs1)"
  shows "\<exists>pc. prepareConversation c g st now later key r m fs = (Inr pc, m0, fs1) \<and>
    pp_prompt pc = prompt \<and> pp_lease pc = l"
  using assms by (simp add: prepareConversation_def Let_def)

lemma prepare_failed:
  assumes "plan_conversation c (ge_parse_url g) (ge_marshal g) (ge_models g) key r = Inr (spec, so)"
    and "Acquire st (factories (ge_runtime g) so) (ge_wait_err g) now True True key spec m = (Inr l, m0)"
    and "prompt_for l (cv_turns r) = Inr prompt" and "LatestUserTurn (cv_turns r) = Inr latest"
    and "prepare_attachments c (ge_lib g) (ge_web g) (ge_models_later g) (sp_model spec) (cv_copilot r)
           (tn_attachments latest) fs = (Inl e, fs1)"
  shows "prepareConversation c g st now later key r m fs =
    (Inl e, release_lease st (factories (ge_runtime g) so) later l m0, fs1)"
  using assms by (simp add: prepareConversation_def Let_def)

lemma prepare_result:
  assumes "prepareConversation c g st now later key r m fs = (Inr pc, m1, fs1)"
    and "plan_conversation c (ge_parse_url g) (ge_marshal g) (ge_models g) key r = Inr (spec, so)"
  shows "Acquire st (factories (ge_runtime g) so) (ge_wait_err g) now True True key spec m = (Inr (pp_lease pc), m1)"
  using assms by (auto simp: prepareConversation_def Let_def split: sum.splits prod.splits)

text \<open>A released lease is followed by one on the same session, without a call of the runtime.\<close>

lemma reacquire:
  assumes "mgr_inv m" and "key \<noteq> []"
    and "Acquire st env werr now True True key spec m = (Inr l, m0)" and "env_ctx_err env' = None"
  shows "\<exists>l' m2. Acquire st env' werr' now2 True True key spec (release_lease st env later l m0) = (Inr l', m2) \<and>
    le_session l' = le_session l \<and> \<not> le_created l' \<and> le_persistent l' \<and> m_calls m2 = m_calls m0"
proof -
  obtain e where live: "lease_live l m0" and tgt: "le_target l = EntryLease key e"
    and cur: "map_of (m_sessions m0) key = Some e" and spec: "ms_spec (entry m0 e) = spec"
    using Acquire_success_outcome [OF assms(1-3)] by blast
  obtain er m1 where rel: "release_entry st later key e m0 = (er, m1)" by fastforce
  note eff = release_entry_effect [OF rel]
  have m1: "release_lease st env later l m0 = m1"
    using live tgt rel by (simp add: release_lease_def Release_def finish_lease_def lease_live_def)
  have "ms_session (entry m0 e) = le_session l" using live tgt by (simp add: lease_live_def)
  then show ?thesis
    using eff cur spec assms(2,4)
    by (simp add: m1 Acquire_def acquire_enter_def specsEqual_def acquire_recheck_def is_current_def
        lock_entry_def touch_def newLease_def)
qed

text \<open>What \<open>Acquire\<close> does to the other entries of the map: nothing.\<close>

lemma Acquire_frame:
  assumes "key \<noteq> []" and "Acquire st env werr now hr dl key spec m = (Inr l, m')"
    and "le_target l = EntryLease key e" and "map_of (m_sessions m') k = Some d" and "d \<noteq> e"
  shows "map_of (m_sessions m) k = Some d \<and> entry m' d = entry m d"
proof -
  obtain o1 m1 where en: "acquire_enter dl key spec m = (o1, m1)" by fastforce
  show ?thesis
  proof (cases o1)
    case (EnterError er)
    with assms en show ?thesis by (simp add: Acquire_def)
  next
    case (EnterWait x)
    with assms acquire_enter_wait [OF en [unfolded EnterWait]] en show ?thesis
      by (auto simp: Acquire_def acquire_recheck_def newLease_def lock_entry_def unlock_entry_def touch_def
          split: option.splits if_splits prod.splits)
  next
    case (EnterCreate x)
    note c = acquire_enter_create [OF en [unfolded EnterCreate]]
    have cr: "acquire_create st env now hr dl key spec x m1 = (Inr l, m')"
      using assms(1,2) en EnterCreate by (simp add: Acquire_def)
    note out = acquire_create_outcome [OF cr]
    have "x = e" using out assms(3) by (auto simp: newLease_def)
    with out c assms(4,5) show ?thesis by (auto split: if_splits)
  qed
qed

lemma released_locks:
  assumes "mgr_inv m" and "Acquire st env werr now True True key spec m = (Inr l, m0)"
    and "m1 = release_lease st env later l m0"
  shows "mgr_inv m1" and "map_of (m_sessions m1) k = Some d \<Longrightarrow> ms_locked (entry m1 d) \<Longrightarrow>
    map_of (m_sessions m) k = Some d \<and> ms_locked (entry m d)"
proof -
  have inv0: "mgr_inv m0" by (rule Acquire_preserves_inv [OF assms(1,2)])
  show "mgr_inv m1" and "map_of (m_sessions m1) k = Some d \<Longrightarrow> ms_locked (entry m1 d) \<Longrightarrow>
    map_of (m_sessions m) k = Some d \<and> ms_locked (entry m d)"
  proof (atomize(full), cases "key = []")
    case True
    then have "same_core m m0" and "\<exists>s. l = ephemeral_lease s"
      using assms(2) same_core_create [of m env CallNew "env_new env"]
      by (auto simp: Acquire_def split: prod.splits sum.splits)
    then have "same_core m m1"
      using assms(3) by (auto simp: release_lease_def Release_def finish_lease_def ephemeral_lease_def
          intro: same_core_log2)
    then show "mgr_inv m1 \<and> (map_of (m_sessions m1) k = Some d \<longrightarrow> ms_locked (entry m1 d) \<longrightarrow>
      map_of (m_sessions m) k = Some d \<and> ms_locked (entry m d))"
      using assms(1) mgr_inv_same_core same_coreD by (auto simp: same_core_def)
  next
    case False
    obtain e where live: "lease_live l m0" and tgt: "le_target l = EntryLease key e"
      using Acquire_success_outcome [OF assms(1) False assms(2)] by blast
    obtain er m2 where rel: "release_entry st later key e m0 = (er, m2)" by fastforce
    have m1: "m1 = m2"
      using live tgt rel assms(3) by (simp add: release_lease_def Release_def finish_lease_def lease_live_def)
    have "mgr_inv m2" using release_entry_inv [OF inv0 _ rel] live tgt by (simp add: lease_live_def)
    moreover have "map_of (m_sessions m) k = Some d \<and> ms_locked (entry m d)"
      if "map_of (m_sessions m2) k = Some d" "ms_locked (entry m2 d)"
      using Acquire_frame [OF False assms(2) tgt, of k d] release_entry_effect [OF rel] that
      by (cases "d = e") auto
    ultimately show "mgr_inv m1 \<and> (map_of (m_sessions m1) k = Some d \<longrightarrow> ms_locked (entry m1 d) \<longrightarrow>
      map_of (m_sessions m) k = Some d \<and> ms_locked (entry m d))"
      by (simp add: m1)
  qed
qed

lemma refused_files:
  assumes "temp_ok fs" and "prepareConversation c g st now later key r m fs = (Inl e, m', fs')"
  shows "tf_live fs' = tf_live fs"
proof -
  have "tf_live s' = tf_live fs" if "prepare_attachments c lib w models modelID x images fs = (Inl e', s')"
    for lib w models modelID x images e' s'
    using directories_kept [OF assms(1), of c lib w models modelID x images] that by simp
  then show ?thesis
    using assms(2) by (auto simp: prepareConversation_def Let_def split: sum.splits prod.splits)
qed

lemma refused_request_clean:
  assumes "mgr_inv m" and "temp_ok fs" and "prepareConversation c g st now later key r m fs = (Inl e, m', fs')"
  shows "mgr_inv m' \<and> tf_live fs' = tf_live fs \<and>
    (\<forall>k d. map_of (m_sessions m') k = Some d \<and> ms_locked (entry m' d) \<longrightarrow>
       map_of (m_sessions m) k = Some d \<and> ms_locked (entry m d))"
proof (cases "plan_conversation c (ge_parse_url g) (ge_marshal g) (ge_models g) key r")
  case (Inl e')
  with assms show ?thesis by (simp add: prepareConversation_def)
next
  case (Inr plan)
  obtain spec so where plan: "plan = (spec, so)" by (cases plan)
  define env where "env = factories (ge_runtime g) so"
  obtain a m0 where acq: "Acquire st env (ge_wait_err g) now True True key spec m = (a, m0)" by fastforce
  have inv0: "mgr_inv m0" by (rule Acquire_preserves_inv [OF assms(1) acq])
  show ?thesis
  proof (cases a)
    case (Inl e')
    with assms(3) \<open>_ = Inr plan\<close> plan acq have m': "m' = m0" "fs' = fs"
      by (simp_all add: prepareConversation_def Let_def env_def)
    have same: "m_sessions m0 = m_sessions m \<and> (\<forall>d < m_next m. entry m0 d = entry m d)"
      using Acquire_error_outcome [OF assms(1)] acq Inl by blast
    have "d < m_next m" if "map_of (m_sessions m) k = Some d" for k d
      using mgr_wf_entry [OF _ that] assms(1) by (simp add: mgr_inv_def)
    with same m' inv0 show ?thesis by auto
  next
    case (Inr l)
    have rel: "m' = release_lease st env later l m0"
      using prepare_refused assms(3) \<open>_ = Inr plan\<close> plan acq Inr unfolding env_def by blast
    have "tf_live fs' = tf_live fs" by (rule refused_files [OF assms(2,3)])
    with released_locks [OF assms(1) acq [unfolded Inr] rel] show ?thesis by blast
  qed
qed

section \<open>A gateway for the witnesses\<close>

definition demo_world :: runtime_world where
  "demo_world = \<lparr>rw_ctx_err = None, rw_new = (\<lambda>_. Inr \<lparr>rs_handle = 0, rs_id = ''s1''\<rparr>),
     rw_resume = (\<lambda>sid _. Inr \<lparr>rs_handle = 0, rs_id = sid\<rparr>), rw_close = (\<lambda>_. None), rw_delete = (\<lambda>_. None)\<rparr>"

definition demo_gateway :: gateway_env where
  "demo_gateway = \<lparr>ge_lib = demo_lib, ge_web = demo_web, ge_parse_url = (\<lambda>_. None), ge_marshal = (\<lambda>_. []),
     ge_models = Inr [], ge_models_later = Inr [], ge_runtime = demo_world, ge_wait_err = err ErrCanceled\<rparr>"

definition demo_talk :: conversation where
  "demo_talk = demo_conversation\<lparr>cv_turns :=
     [\<lparr>tn_role = ''user'', tn_content = ''One'', tn_attachments = []\<rparr>,
      \<lparr>tn_role = ''assistant'', tn_content = ''Two'', tn_attachments = []\<rparr>,
      \<lparr>tn_role = ''user'', tn_content = ''Three'', tn_attachments = []\<rparr>]\<rparr>"

text \<open>The same with an attachment that has no content.\<close>

definition demo_bad_talk :: conversation where
  "demo_bad_talk = demo_talk\<lparr>cv_copilot := no_extension\<lparr>ce_attachments :=
     [\<lparr>ca_name = [], ca_media_type = [], ca_data = [], ca_text = [], ca_url = []\<rparr>]\<rparr>\<rparr>"

definition demo_plan :: "session_spec \<times> session_options" where
  "demo_plan =
     (\<lparr>sp_model = ''gpt-4.1'', sp_system_prompt = [], sp_system_prompt_mode = ''append'',
       sp_reasoning_effort = [], sp_agent = [], sp_interactive = False, sp_tools_fingerprint = [],
       sp_permission_mode = ''deny'', sp_provider_fingerprint = [], sp_provider_secret_fingerprint = []\<rparr>,
      \<lparr>op_session_id = demo_key, op_model = ''gpt-4.1'', op_system_prompt = [], op_system_prompt_mode = ''append'',
       op_sections = [], op_reasoning_effort = [], op_agent = [], op_interactive = False, op_tools = [],
       op_permission_mode = ''deny'', op_provider = None\<rparr>)"

lemma demo_plans:
  "plan_conversation demo_config (ge_parse_url demo_gateway) (ge_marshal demo_gateway) (ge_models demo_gateway)
     demo_key demo_talk = Inr demo_plan"
  "plan_conversation demo_config (ge_parse_url demo_gateway) (ge_marshal demo_gateway) (ge_models demo_gateway)
     demo_key demo_bad_talk = Inr demo_plan"
  by code_simp+

lemma demo_prepared_acquire:
  "\<exists>l m0. Acquire demo_ops (factories (ge_runtime demo_gateway) so) (ge_wait_err demo_gateway) 5
     True True demo_key spec demo_start = (Inr l, m0) \<and> le_created l"
  by (simp add: Acquire_def acquire_enter_def validateCapacityLocked_def demo_limits_def
      NewManagerWithStore_def active_in_namespace_def acquire_create_def acquire_persisted_def
      acquire_load_def store_load_def file_store_ops_def Session_Races.demo_load acquire_session_def
      createSessionWithContext_def factories_def demo_gateway_def demo_world_def acquire_finish_def Let_def store_save_def
      fill_entry_def update_entry_def log_call_def newLease_def demo_save)

section \<open>Properties of the request policy\<close>

text \<open>C9: Permissions never escalate.  Whatever a request asks for, the session that is created or resumed for
  it answers permission requests with the handler of the mode in its specification, and that handler lets
  through no more than the one of the mode the server is configured with.\<close>

theorem permission_never_escalates:
  assumes "plan_conversation c pu mar models key r = Inr (spec, so)"
    and "pv_options p = options_of_config c"
    and "NewSession answer p so = Inr s \<or> ResumeSession answer p sid (so\<lparr>op_session_id := sid\<rparr>) = Inr s"
  shows "sc_permission_handler (cs_config s) = permissionHandlerForMode (sp_permission_mode spec) \<and>
    sc_permission_handler (cs_config s) \<le> permissionHandlerForMode (server_mode (cf_permission_mode c))"
proof -
  note parts = plan_parts [OF assms(1)]
  from assms(3) have "sc_permission_handler (cs_config s) = permissionHandlerForMode (resolved_mode (pv_options p) so)"
    by (auto simp: NewSession_def ResumeSession_def session_config_of_def resolved_mode_def split: sum.splits)
  moreover have "resolved_mode (pv_options p) so = op_permission_mode so"
    using effective_mode parts by (auto simp: resolved_mode_def Let_def)
  ultimately show ?thesis using effective_mode parts by metis
qed

definition demo_provider :: provider where
  "demo_provider = \<lparr>pv_options = options_of_config demo_config, pv_client = Some (client_options_of (options_of_config demo_config))\<rparr>"

lemma demo_new_session: "\<exists>s. NewSession (Inr ''s1'') demo_provider (snd demo_plan) = Inr s"
  by (simp add: NewSession_def sessionClient_def demo_provider_def)

lemma permission_never_escalates_witness:
  "\<exists>s. NewSession (Inr ''s1'') demo_provider (snd demo_plan) = Inr s \<and>
    sc_permission_handler (cs_config s) = DenyAllPermissions"
proof -
  obtain s where s: "NewSession (Inr ''s1'') demo_provider (snd demo_plan) = Inr s" using demo_new_session by blast
  have "plan_conversation demo_config (ge_parse_url demo_gateway) (ge_marshal demo_gateway) (ge_models demo_gateway)
      demo_key demo_talk = Inr (fst demo_plan, snd demo_plan)" by (simp add: demo_plans)
  moreover have "pv_options demo_provider = options_of_config demo_config" by (simp add: demo_provider_def)
  moreover have "permissionHandlerForMode (sp_permission_mode (fst demo_plan)) = DenyAllPermissions" by code_simp
  ultimately show ?thesis using permission_never_escalates [of demo_config _ _ _ _ _ "fst demo_plan"] s by metis
qed

text \<open>C32: A request that the gateway refuses on its own account is answered with status 400: every error of the two
  parsers on a JSON document, and, with the list of models at hand, every error of the checks that precede the
  session (permission mode, session key, features, tools, provider).\<close>

theorem refusals_are_client_errors:
  assumes "ParseOpenAIChatCompletionRequest lib (Inr d) = Inl e \<or> ParseClaudeMessagesRequest lib (Inr d) = Inl e \<or>
    plan_conversation c pu mar (Inr ms) key r = Inl e"
  shows "fst (classifyError e) = 400"
  using assms openai_parse_blame [of lib d] claude_parse_blame [of lib d] plan_blame [of c pu mar ms key r]
  by (auto simp: blames_client_def intro: client_error_400)

lemma demo_escalation:
  "plan_conversation demo_config (\<lambda>_. None) (\<lambda>_. []) (Inr []) demo_key
     (demo_conversation\<lparr>cv_copilot := no_extension\<lparr>ce_permission_mode := '' Allow''\<rparr>\<rparr>) =
   Inl (err_with ErrCopilotPermissionEscalation ''requested=allow server=deny'')"
  by code_simp

lemma refusals_are_client_errors_witness:
  "fst (classifyError (err_with ErrCopilotPermissionEscalation ''requested=allow server=deny'')) = 400"
  by (rule refusals_are_client_errors [OF disjI2 [OF disjI2 [OF demo_escalation]]])

text \<open>A request that is refused keeps nothing: the manager's invariant holds as before, every session that is
  locked afterwards was locked before, and the temporary directories are those there were.\<close>

theorem refused_request_keeps_nothing:
  assumes "mgr_inv m" and "temp_ok fs" and "prepareConversation c g st now later key r m fs = (Inl e, m', fs')"
  shows "mgr_inv m' \<and> tf_live fs' = tf_live fs \<and>
    (\<forall>k d. map_of (m_sessions m') k = Some d \<and> ms_locked (entry m' d) \<longrightarrow>
       map_of (m_sessions m) k = Some d \<and> ms_locked (entry m d))"
  by (rule refused_request_clean [OF assms])

lemma demo_fs_temp_ok: "temp_ok demo_fs"
  by (simp add: demo_fs_def temp_ok_def)

text \<open>The request with the empty attachment is refused after its lease was granted.\<close>

lemma demo_attachment_refused:
  "\<exists>fs'. prepare_attachments demo_config (ge_lib demo_gateway) (ge_web demo_gateway) (ge_models_later demo_gateway)
     (sp_model (fst demo_plan)) (cv_copilot demo_bad_talk) [] demo_fs =
   (Inl (bad_attachment ''attachment must include data, text, or url''), fs')"
proof -
  have "blank []" by code_simp
  then show ?thesis
    by (simp add: prepare_attachments_def materializeAttachments_def materializeCopilotAttachments_def
        demo_bad_talk_def no_extension_def MkdirTemp_def os_call_def demo_fs_def materializeCopilotAttachment_def)
qed

lemma demo_bad_prepare:
  "\<exists>m1 fs1. prepareConversation demo_config demo_gateway demo_ops 5 6 demo_key demo_bad_talk demo_start demo_fs =
     (Inl (bad_attachment ''attachment must include data, text, or url''), m1, fs1)"
proof -
  obtain l m0 where acq: "Acquire demo_ops (factories (ge_runtime demo_gateway) (snd demo_plan))
      (ge_wait_err demo_gateway) 5 True True demo_key (fst demo_plan) demo_start = (Inr l, m0)" "le_created l"
    using demo_prepared_acquire by blast
  have "LatestUserTurn (cv_turns demo_bad_talk) =
      Inr \<lparr>tn_role = ''user'', tn_content = ''Three'', tn_attachments = []\<rparr>"
    by code_simp
  moreover have "plan_conversation demo_config (ge_parse_url demo_gateway) (ge_marshal demo_gateway)
      (ge_models demo_gateway) demo_key demo_bad_talk = Inr (fst demo_plan, snd demo_plan)" by (simp add: demo_plans)
  moreover have "prompt_for l (cv_turns demo_bad_talk) = Inr (BuildPrompt (cv_turns demo_bad_talk))"
    using acq(2) by (simp add: prompt_for_def)
  ultimately show ?thesis using prepare_failed [OF _ acq(1)] demo_attachment_refused by fastforce
qed

lemma refused_request_keeps_nothing_witness:
  "\<exists>m1 fs1. prepareConversation demo_config demo_gateway demo_ops 5 6 demo_key demo_bad_talk demo_start demo_fs =
     (Inl (bad_attachment ''attachment must include data, text, or url''), m1, fs1) \<and> tf_live fs1 = [7]"
proof -
  obtain m1 fs1 where p: "prepareConversation demo_config demo_gateway demo_ops 5 6 demo_key demo_bad_talk demo_start demo_fs =
     (Inl (bad_attachment ''attachment must include data, text, or url''), m1, fs1)"
    using demo_bad_prepare by blast
  have "tf_live demo_fs = [7]" by (simp add: demo_fs_def)
  with refused_request_keeps_nothing [OF demo_start_inv demo_fs_temp_ok p] p show ?thesis by simp
qed

text \<open>A first request that is refused after its session was created loses the conversation: the lease is
  released, so the fresh session stays under the key, and the repaired request, although nothing was ever sent,
  is taken for a later turn and sends only its latest user message; the earlier turns reach no one.\<close>

theorem refused_request_forgets_history:
  assumes "mgr_inv m" and "key \<noteq> []" and "rw_ctx_err (ge_runtime g) = None"
    and "plan_conversation c (ge_parse_url g) (ge_marshal g) (ge_models g) key bad = Inr (spec, so)"
    and "Acquire st (factories (ge_runtime g) so) (ge_wait_err g) now True True key spec m = (Inr l, m0)"
    and "prepareConversation c g st now later key bad m fs = (Inl e, m1, fs1)"
    and "plan_conversation c (ge_parse_url g) (ge_marshal g) (ge_models g) key good = Inr (spec, so')"
    and "LatestUserTurn (cv_turns good) = Inr latest"
    and "prepare_attachments c (ge_lib g) (ge_web g) (ge_models_later g) (sp_model spec) (cv_copilot good)
           (tn_attachments latest) fs1 = (Inr (as, cleanup), fs2)"
  shows "\<exists>pc m2. prepareConversation c g st now2 later2 key good m1 fs1 = (Inr pc, m2, fs2) \<and>
    Inr (pp_prompt pc) = LatestUserPrompt (cv_turns good) \<and> m_calls m2 = m_calls m0"
proof -
  have m1: "m1 = release_lease st (factories (ge_runtime g) so) later l m0"
    by (rule prepare_refused [OF assms(4-6)])
  obtain l' m2 where acq: "Acquire st (factories (ge_runtime g) so') (ge_wait_err g) now2 True True key spec m1 = (Inr l', m2)"
    and l': "\<not> le_created l'" "le_persistent l'" "m_calls m2 = m_calls m0"
    using reacquire [OF assms(1,2,5), of "factories (ge_runtime g) so'" "ge_wait_err g" now2 later] assms(3)
    unfolding m1 by (metis factories_def runtime_env.select_convs(1))
  obtain p where p: "LatestUserPrompt (cv_turns good) = Inr p"
    using assms(8) by (auto simp: LatestUserPrompt_def LatestUserTurn_def split: if_splits)
  then have "prompt_for l' (cv_turns good) = Inr p" using l' by (simp add: prompt_for_def)
  from prepare_accepted [OF assms(7) acq this assms(8,9)] p l' show ?thesis by metis
qed

lemma demo_latest: "LatestUserTurn (cv_turns demo_talk) = Inr \<lparr>tn_role = ''user'', tn_content = ''Three'', tn_attachments = []\<rparr>"
  by code_simp

lemma refused_request_forgets_history_witness:
  "\<exists>m1 fs1 pc m2 fs2.
     prepareConversation demo_config demo_gateway demo_ops 5 6 demo_key demo_bad_talk demo_start demo_fs =
       (Inl (bad_attachment ''attachment must include data, text, or url''), m1, fs1) \<and>
     prepareConversation demo_config demo_gateway demo_ops 7 8 demo_key demo_talk m1 fs1 = (Inr pc, m2, fs2) \<and>
     pp_prompt pc = ''Three''"
proof -
  obtain m1 fs1 where bad: "prepareConversation demo_config demo_gateway demo_ops 5 6 demo_key demo_bad_talk
      demo_start demo_fs = (Inl (bad_attachment ''attachment must include data, text, or url''), m1, fs1)"
    using demo_bad_prepare by blast
  obtain l m0 where acq: "Acquire demo_ops (factories (ge_runtime demo_gateway) (snd demo_plan))
      (ge_wait_err demo_gateway) 5 True True demo_key (fst demo_plan) demo_start = (Inr l, m0)"
    using demo_prepared_acquire by blast
  have plans: "plan_conversation demo_config (ge_parse_url demo_gateway) (ge_marshal demo_gateway)
      (ge_models demo_gateway) demo_key r = Inr (fst demo_plan, snd demo_plan)" if "r \<in> {demo_talk, demo_bad_talk}" for r
    using demo_plans that by auto
  have none: "prepare_attachments demo_config (ge_lib demo_gateway) (ge_web demo_gateway) (ge_models_later demo_gateway)
      (sp_model (fst demo_plan)) (cv_copilot demo_talk) [] fs1 = (Inr ([], []), fs1)"
    by (simp add: prepare_attachments_def materializeAttachments_def materializeCopilotAttachments_def
        demo_talk_def demo_conversation_def no_extension_def combineCleanup_def map_filter_def
        validateMaterializedImageAttachments_def)
  have "demo_key \<noteq> []" "rw_ctx_err (ge_runtime demo_gateway) = None"
    by (simp_all add: demo_key_def demo_gateway_def demo_world_def)
  moreover have "LatestUserPrompt (cv_turns demo_talk) = Inr ''Three''" by code_simp
  ultimately show ?thesis
    using refused_request_forgets_history [OF demo_start_inv _ _ plans acq bad plans demo_latest, of "[]" "[]" fs1 7 8]
      none bad by fastforce
qed

text \<open>The section overrides of a customized system message are not part of the specification of a session: a
  later request under the same key that differs in them only is planned with the same specification, gets the
  kept session, and makes no call of the runtime, so its overrides have no effect; no conflict is reported.\<close>

theorem changed_sections_ignored:
  assumes "mgr_inv m" and "key \<noteq> []" and "rw_ctx_err (ge_runtime g) = None"
    and "plan_conversation c (ge_parse_url g) (ge_marshal g) (ge_models g) key r = Inr (spec, so)"
    and "prepareConversation c g st now later key r m fs = (Inr pc, m1, fs1)"
    and "m2 = release_lease st (factories (ge_runtime g) so) later (pp_lease pc) m1"
    and "ce_system_message_sections (cv_copilot r) \<noteq> []" and "sections \<noteq> []"
    and "r' = r\<lparr>cv_copilot := (cv_copilot r)\<lparr>ce_system_message_sections := sections\<rparr>\<rparr>"
  shows "\<exists>so' l' m3.
    plan_conversation c (ge_parse_url g) (ge_marshal g) (ge_models g) key r' = Inr (spec, so') \<and>
    op_sections so' = toRuntimeSectionOverrides sections \<and>
    Acquire st (factories (ge_runtime g) so') (ge_wait_err g) now2 True True key spec m2 = (Inr l', m3) \<and>
    le_session l' = le_session (pp_lease pc) \<and> m_calls m3 = m_calls m1"
proof -
  have same: "cv_model r' = cv_model r" "cv_turns r' = cv_turns r" "cv_system_prompt r' = cv_system_prompt r"
    "cv_reasoning_effort r' = cv_reasoning_effort r" "cv_stream r' = cv_stream r"
    and ext: "cv_copilot r' = (cv_copilot r)\<lparr>ce_system_message_sections := sections\<rparr>"
    by (simp_all add: assms(9))
  have parts: "ce_permission_mode (cv_copilot r') = ce_permission_mode (cv_copilot r)"
    "ce_tools (cv_copilot r') = ce_tools (cv_copilot r)" "ce_provider (cv_copilot r') = ce_provider (cv_copilot r)"
    "ce_agent (cv_copilot r') = ce_agent (cv_copilot r)" "ce_interactive (cv_copilot r') = ce_interactive (cv_copilot r)"
    "ce_system_message_mode (cv_copilot r') = ce_system_message_mode (cv_copilot r)"
    "ce_system_message_sections (cv_copilot r') = sections"
    by (simp_all add: ext)
  have req: "requires_continuation (cv_copilot r') mode = requires_continuation (cv_copilot r) mode" for mode
    by (simp add: requires_continuation_def ext)
  have msg: "system_message_error c r' = system_message_error c r"
    using assms(7,8) by (simp add: system_message_error_def Let_def same ext)
  have mdl: "model_error models id r' = model_error models id r" for models id
    unfolding model_error_def same parts ..
  have feat: "validateConversationFeatures c models id r' = validateConversationFeatures c models id r" for models id
    unfolding validateConversationFeatures_def msg mdl req same parts ..
  have plan: "plan_conversation c (ge_parse_url g) (ge_marshal g) (ge_models g) key r' =
      Inr (spec, so\<lparr>op_sections := toRuntimeSectionOverrides sections\<rparr>)"
    using assms(4) unfolding plan_conversation_def Let_def req feat same parts
    by (auto simp: result_simps)
  note acq = prepare_result [OF assms(5,4)]
  obtain l' m3 where "Acquire st (factories (ge_runtime g) (so\<lparr>op_sections := toRuntimeSectionOverrides sections\<rparr>))
      (ge_wait_err g) now2 True True key spec m2 = (Inr l', m3)"
    "le_session l' = le_session (pp_lease pc)" "m_calls m3 = m_calls m1"
    using reacquire [OF assms(1,2) acq, of "factories (ge_runtime g) (so\<lparr>op_sections := toRuntimeSectionOverrides sections\<rparr>)"
        "ge_wait_err g" now2 later] assms(3)
    unfolding assms(6) by (auto simp: factories_def)
  moreover have "op_sections (so\<lparr>op_sections := toRuntimeSectionOverrides sections\<rparr>) = toRuntimeSectionOverrides sections"
    by simp
  ultimately show ?thesis using plan by blast
qed

definition demo_sections :: "string \<Rightarrow> (string \<times> section_override) list" where
  "demo_sections text = [(''tone'', \<lparr>so_action = ''replace'', so_content = text\<rparr>)]"

definition demo_custom :: conversation where
  "demo_custom = demo_talk\<lparr>cv_copilot := no_extension\<lparr>ce_system_message_mode := ''customize'',
     ce_system_message_sections := demo_sections ''formal''\<rparr>\<rparr>"

lemma demo_custom_plan:
  "plan_conversation demo_config (ge_parse_url demo_gateway) (ge_marshal demo_gateway) (ge_models demo_gateway)
     demo_key demo_custom =
   Inr ((fst demo_plan)\<lparr>sp_system_prompt_mode := ''customize''\<rparr>,
        (snd demo_plan)\<lparr>op_system_prompt_mode := ''customize'', op_sections := demo_sections ''formal''\<rparr>)"
  by code_simp

lemma demo_no_attachments:
  "prepare_attachments c lib w models modelID no_extension [] s = (Inr ([], []), s)"
  by (simp add: prepare_attachments_def materializeAttachments_def materializeCopilotAttachments_def
      no_extension_def combineCleanup_def map_filter_def validateMaterializedImageAttachments_def)

lemma demo_custom_attachments:
  "prepare_attachments c lib w models modelID (cv_copilot demo_custom) [] s = (Inr ([], []), s)"
  using demo_no_attachments
  by (simp add: demo_custom_def prepare_attachments_def materializeAttachments_def materializeCopilotAttachments_def
      no_extension_def)

lemma changed_sections_ignored_witness:
  "\<exists>spec so pc m1 fs1 so' l' m3.
     prepareConversation demo_config demo_gateway demo_ops 5 6 demo_key demo_custom demo_start demo_fs = (Inr pc, m1, fs1) \<and>
     op_sections so' = demo_sections ''casual'' \<and>
     Acquire demo_ops (factories (ge_runtime demo_gateway) so') (ge_wait_err demo_gateway) 7 True True demo_key spec
       (release_lease demo_ops (factories (ge_runtime demo_gateway) so) 6 (pp_lease pc) m1) = (Inr l', m3) \<and>
     le_session l' = le_session (pp_lease pc) \<and> m_calls m3 = m_calls m1"
proof -
  obtain spec so where plan: "plan_conversation demo_config (ge_parse_url demo_gateway) (ge_marshal demo_gateway)
      (ge_models demo_gateway) demo_key demo_custom = Inr (spec, so)"
    using demo_custom_plan by blast
  obtain l m0 where acq: "Acquire demo_ops (factories (ge_runtime demo_gateway) so) (ge_wait_err demo_gateway) 5
      True True demo_key spec demo_start = (Inr l, m0)" and "le_created l"
    using demo_prepared_acquire by blast
  then have "prompt_for l (cv_turns demo_custom) = Inr (BuildPrompt (cv_turns demo_custom))"
    by (simp add: prompt_for_def)
  moreover have latest: "LatestUserTurn (cv_turns demo_custom) =
      Inr \<lparr>tn_role = ''user'', tn_content = ''Three'', tn_attachments = []\<rparr>" by code_simp
  ultimately obtain pc where pc: "prepareConversation demo_config demo_gateway demo_ops 5 6 demo_key demo_custom
      demo_start demo_fs = (Inr pc, m0, demo_fs)"
    using prepare_accepted [OF plan acq _ latest, of _ demo_fs "[]" "[]" demo_fs] demo_custom_attachments by fastforce
  have "demo_key \<noteq> []" "rw_ctx_err (ge_runtime demo_gateway) = None"
    by (simp_all add: demo_key_def demo_gateway_def demo_world_def)
  moreover have "toRuntimeSectionOverrides (demo_sections ''casual'') = demo_sections ''casual''" by code_simp
  moreover have "ce_system_message_sections (cv_copilot demo_custom) \<noteq> []" "demo_sections ''casual'' \<noteq> []"
    by (simp_all add: demo_custom_def demo_sections_def)
  ultimately show ?thesis
    using changed_sections_ignored [OF demo_start_inv _ _ plan pc refl _ _ refl, of "demo_sections ''casual''" 7] pc
    by metis
qed

end
