(* ===== verification/Stream_Facts.thy ===== *)
theory Stream_Facts
  imports Server_Stream Send_Facts Prepare_Facts
begin

text \<open>
  What a client of the two streams reads: the order of the events, and their text, which is that of the
  SDK's text deltas.
\<close>

section \<open>Writers\<close>

lemma write_call_frame:
  "write_call w = (r, w') \<Longrightarrow> wr_events w' = wr_events w \<and> wr_latest_usage w' = wr_latest_usage w"
  by (auto simp: write_call_def split: list.splits)

lemma deadline_frame:
  "setWriteDeadline t w = (r, w') \<Longrightarrow> wr_events w' = wr_events w \<and> wr_latest_usage w' = wr_latest_usage w"
  by (auto simp: setWriteDeadline_def dest: write_call_frame split: if_splits)

lemma write_sse_events:
  assumes "write_sse t ev w = (r, w')"
  shows "wr_events w' = (if r = None then wr_events w @ [ev] else wr_events w) \<and> wr_latest_usage w' = wr_latest_usage w"
  using assms
  by (auto simp: write_sse_def split: prod.splits option.splits if_splits dest!: deadline_frame write_call_frame)

lemma touch_frame [simp]:
  "wr_events (touch_writer w) = wr_events w" "wr_latest_usage (touch_writer w) = wr_latest_usage w"
  by (simp_all add: touch_writer_def)

lemma new_writer_simps [simp]:
  "wr_events (new_writer fs) = []" "wr_latest_usage (new_writer fs) = zero_usage"
  by (simp_all add: new_writer_def)

lemma write_all_events: "write_all t evs w = (None, w') \<Longrightarrow> wr_events w' = wr_events w @ evs"
  by (induction evs arbitrary: w) (auto split: prod.splits option.splits dest!: write_sse_events)

section \<open>Handlers under Send\<close>

text \<open>A relation between what was written and the text so far, kept by every dispatch.\<close>

lemma dispatch_handler:
  "sn_handler (dispatch (Some h) ev s) = snd (h ev (sn_handler s))"
  "sn_first_err (dispatch (Some h) ev s) = first_error (sn_first_err s) (fst (h ev (sn_handler s)))"
  by (auto simp: dispatch_def Let_def set_error_def cancel_send_def first_error_def split: option.splits prod.splits)

text \<open>What a stream's handler promises: it appends events whose text is that of a text delta.\<close>

locale stream_handler =
  fixes h :: "'e writer event_handler" and said :: "'e \<Rightarrow> string" and ok :: "'e \<Rightarrow> bool"
  assumes step: "h ev w = (r, w') \<Longrightarrow> \<exists>new. wr_events w' = wr_events w @ new \<and> list_all ok new \<and>
    (r = None \<longrightarrow> concat (map said new) = (if evt_type ev = EventMessageDelta then evt_delta ev else []))"
begin

definition in_step :: "'e list \<Rightarrow> 'e writer send_state \<Rightarrow> bool" where
  "in_step pre s \<longleftrightarrow>
     (\<exists>new. wr_events (sn_handler s) = pre @ new \<and> list_all ok new \<and>
       (sn_first_err s = None \<longrightarrow> concat (map said new) = sn_content s))"

lemma dispatch_in_step:
  assumes "in_step pre s"
    and "sn_content s' = sn_content s @ (if evt_type ev = EventMessageDelta then evt_delta ev else [])"
    and "sn_handler s' = sn_handler s" and "sn_first_err s' = sn_first_err s"
  shows "in_step pre (dispatch (Some h) ev s')"
proof -
  obtain new where new: "wr_events (sn_handler s) = pre @ new" "list_all ok new"
    "sn_first_err s = None \<Longrightarrow> concat (map said new) = sn_content s"
    using assms(1) by (auto simp: in_step_def)
  obtain r w' where h: "h ev (sn_handler s) = (r, w')" by fastforce
  obtain more where more: "wr_events w' = wr_events (sn_handler s) @ more" "list_all ok more"
    "r = None \<Longrightarrow> concat (map said more) = (if evt_type ev = EventMessageDelta then evt_delta ev else [])"
    using step [OF h] by blast
  show ?thesis
    unfolding in_step_def dispatch_handler dispatch_frame assms(2-4) h fst_conv snd_conv
    using new more by (intro exI [of _ "new @ more"]) (auto simp: first_error_def split: option.splits)
qed

lemma in_step_simps [simp]:
  "in_step pre (send_err e s) = in_step pre s" "in_step pre (cancel_send e s) = in_step pre s"
  "in_step pre (on_bridge f s) = in_step pre s" "in_step pre (s\<lparr>sn_idle := b\<rparr>) = in_step pre s"
  by (simp_all add: in_step_def)

lemma handle_event_in_step:
  assumes "in_step pre s"
  shows "in_step pre (snd (handle_event (Some h) t d s))"
  by (cases t) (simp_all add: Let_def assms dispatch_in_step [OF assms] runtime_gateway_event_def blank_gateway_event_def)

lemma run_in_step: "in_step pre s \<Longrightarrow> in_step pre (run_events (Some h) evs s)"
proof (induction evs arbitrary: s)
  case (Cons ev evs)
  obtain t d where ev: "ev = (t, d)" by (cases ev)
  have "in_step pre (on_event (Some h) ev s)"
    using handle_event_in_step [OF Cons.prems, of t d]
    by (auto simp: on_event_def ev split: prod.splits bool.splits option.splits)
  then show ?case using Cons.IH by simp
qed simp

text \<open>The events written while the message is sent; their text when \<open>Send\<close> succeeds.\<close>

lemma sent_events:
  assumes "send_message d p (Some h) w = (r, w')" and "le_session (pp_lease p) = Some sess"
  shows "\<exists>new. wr_events w' = wr_events w @ new \<and> list_all ok new \<and>
    (\<forall>res. r = Inr res \<longrightarrow>
       Inr res \<in> set (send_outcomes (rs_id sess) (sd_sent d sess)
         (run_events (Some h) (sd_events d sess (pp_prompt p) (sdk_attachments (pp_attachments p))) (start_send 0 (sd_bridge d sess) w))) \<longrightarrow>
       concat (map said new) = streamed_text (sd_events d sess (pp_prompt p) (sdk_attachments (pp_attachments p))))"
proof -
  let ?evs = "sd_events d sess (pp_prompt p) (sdk_attachments (pp_attachments p))"
  let ?s = "run_events (Some h) ?evs (start_send 0 (sd_bridge d sess) w)"
  have "in_step (wr_events w) (start_send 0 (sd_bridge d sess) w)"
    by (simp add: in_step_def start_send_def)
  from run_in_step [OF this, of ?evs] obtain new where
    new: "wr_events (sn_handler ?s) = wr_events w @ new" "list_all ok new"
      "sn_first_err ?s = None \<Longrightarrow> concat (map said new) = sn_content ?s"
    by (auto simp: in_step_def)
  have "sn_content ?s = streamed_text ?evs" by (simp add: run_events_fields start_send_def)
  moreover have "sn_first_err ?s = None" if "Inr res \<in> set (send_outcomes (rs_id sess) (sd_sent d sess) ?s)" for res
    using failed_outcomes [OF _ that] by blast
  moreover have "w' = sn_handler ?s" using assms by (simp add: send_message_def Let_def)
  ultimately show ?thesis using new by auto
qed

end

section \<open>The two handlers\<close>

text \<open>The text and the shape of what stands between the first and the last events.\<close>

fun openai_text :: "openai_event \<Rightarrow> string" where
  "openai_text (Chunk k) = concat (map (\<lambda>(d, f). de_content d) (ck_choices k))"
| "openai_text _ = []"

fun openai_mid :: "openai_event \<Rightarrow> bool" where
  "openai_mid (Chunk k) \<longleftrightarrow>
     (\<exists>d. ck_choices k = [(d, None)] \<and> de_role d = []) \<and> ck_usage k = None"
| "openai_mid _ = False"

fun claude_text :: "claude_event \<Rightarrow> string" where
  "claude_text (TextDelta s) = s"
| "claude_text _ = []"

fun claude_mid :: "claude_event \<Rightarrow> bool" where
  "claude_mid (TextDelta s) = True"
| "claude_mid (XCopilot r) = True"
| "claude_mid _ = False"

text \<open>One chunk written, and the extension of an event.\<close>

definition appended :: "'e writer \<Rightarrow> go_error option \<Rightarrow> 'e writer \<Rightarrow> ('e \<Rightarrow> bool) \<Rightarrow> ('e \<Rightarrow> string) \<Rightarrow> string \<Rightarrow> bool" where
  "appended w r w' ok said text \<longleftrightarrow> (\<exists>new. wr_events w' = wr_events w @ new \<and> list_all ok new \<and>
     (r = None \<longrightarrow> concat (map said new) = text))"

lemma appended_trans:
  "appended w None w1 ok said a \<Longrightarrow> appended w1 r w' ok said b \<Longrightarrow> appended w r w' ok said (a @ b)"
  by (fastforce simp: appended_def)

lemma appended_failed: "appended w (Some e) w' ok said a \<Longrightarrow> appended w (Some e) w' ok said b"
  by (auto simp: appended_def)

lemma appended_touch [simp]: "appended (touch_writer w) r w' ok said a = appended w r w' ok said a"
  by (simp add: appended_def touch_writer_def)

lemma chunk_appended:
  assumes "write_sse t (Chunk (BuildOpenAIStreamChunk now rid (pp_model p) delta None x)) w = (r, w')" and "de_role delta = []"
  shows "appended w r w' openai_mid openai_text (de_content delta)"
  using write_sse_events [OF assms(1)] assms(2)
  by (cases "r = None") (auto simp: appended_def BuildOpenAIStreamChunk_def)

lemma extension_appended:
  assumes "(case streamRuntimeEvent ev p of None \<Rightarrow> (None, w)
      | Some y \<Rightarrow> write_sse t (Chunk (BuildOpenAIStreamChunk now rid (pp_model p) no_delta None (Some y))) w) = (r, w')"
  shows "appended w r w' openai_mid openai_text []"
proof (cases "streamRuntimeEvent ev p")
  case None
  with assms show ?thesis by (auto simp: appended_def)
next
  case (Some y)
  with assms show ?thesis using chunk_appended [of t now rid p no_delta "Some y" w r w'] by (simp add: no_delta_def)
qed

lemma reasoning_appended:
  assumes "openai_handler now t rid p ev w = (r, w')" and "evt_type ev = EventReasoningDelta" and "\<not> blank (evt_delta ev)"
  shows "appended w r w' openai_mid openai_text []"
proof -
  obtain r1 w1 where w1: "write_sse t (Chunk (BuildOpenAIStreamChunk now rid (pp_model p)
      (no_delta\<lparr>de_reasoning := evt_delta ev\<rparr>) None None)) (touch_writer w) = (r1, w1)" by fastforce
  have n1: "appended w r1 w1 openai_mid openai_text []" using chunk_appended [OF w1] by (simp add: no_delta_def)
  show ?thesis
  proof (cases r1)
    case (Some e)
    with assms w1 n1 show ?thesis by (auto simp: openai_handler_def Let_def)
  next
    case None
    with assms w1 have "appended w1 r w' openai_mid openai_text []"
      by (intro extension_appended [where ev = ev and p = p and t = t and now = now and rid = rid])
        (simp add: openai_handler_def Let_def)
    with appended_trans [OF n1 [unfolded None]] show ?thesis by simp
  qed
qed

lemma openai_steps:
  assumes "openai_handler now t rid p ev w = (r, w')"
  shows "appended w r w' openai_mid openai_text (if evt_type ev = EventMessageDelta then evt_delta ev else [])"
proof -
  consider (message) "evt_type ev = EventMessageDelta" | (reasoning) "evt_type ev = EventReasoningDelta" "\<not> blank (evt_delta ev)"
    | (usage) "evt_type ev = EventUsage" | (other) "evt_type ev \<notin> {EventMessageDelta, EventUsage}"
        "evt_type ev = EventReasoningDelta \<longrightarrow> blank (evt_delta ev)"
    by blast
  then show ?thesis
  proof cases
    case message
    with assms chunk_appended [of t now rid p "no_delta\<lparr>de_content := evt_delta ev\<rparr>" None "touch_writer w" r w'] show ?thesis
      by (simp add: openai_handler_def Let_def no_delta_def)
  next
    case reasoning
    with reasoning_appended [OF assms] show ?thesis by simp
  next
    case usage
    with assms show ?thesis by (auto simp: openai_handler_def Let_def appended_def touch_writer_def)
  next
    case other
    with assms extension_appended [where ev = ev and p = p and t = t and now = now and rid = rid and w = "touch_writer w" and r = r and w' = w'] show ?thesis
      by (auto simp: openai_handler_def Let_def split: if_splits)
  qed
qed

lemma claude_steps:
  assumes "claude_handler t p ev w = (r, w')"
  shows "appended w r w' claude_mid claude_text (if evt_type ev = EventMessageDelta then evt_delta ev else [])"
  using assms unfolding claude_handler_def Let_def appended_def
  by (auto split: if_splits option.splits dest!: write_sse_events)

interpretation openai: stream_handler "openai_handler now t rid p" openai_text openai_mid
  by unfold_locales (use openai_steps in \<open>simp add: appended_def\<close>)

interpretation claude: stream_handler "claude_handler t p" claude_text claude_mid
  by unfold_locales (use claude_steps in \<open>simp add: appended_def\<close>)

section \<open>Outcomes\<close>

text \<open>A runtime whose \<open>select\<close> takes one of the cases that are ready.\<close>

definition fair_choice :: "sdk \<Rightarrow> bool" where
  "fair_choice d \<longleftrightarrow> (\<forall>l. l \<noteq> [] \<longrightarrow> sd_choice d l \<in> set l)"

definition sdk_events :: "sdk \<Rightarrow> prepared_conversation \<Rightarrow> rt_session \<Rightarrow> (sdk_event_type \<times> event_data) list" where
  "sdk_events d p sess = sd_events d sess (pp_prompt p) (sdk_attachments (pp_attachments p))"

text \<open>The message was sent, and the session becomes idle.\<close>

definition answered :: "sdk \<Rightarrow> prepared_conversation \<Rightarrow> rt_session \<Rightarrow> bool" where
  "answered d p sess \<longleftrightarrow> fair_choice d \<and> le_session (pp_lease p) = Some sess \<and> sd_sent d sess = Some None \<and>
     SdkSessionIdle \<in> fst ` set (sdk_events d p sess)"

lemma answered_outcome:
  assumes "answered d p sess" and "send_message d p h x = (r, y)"
  shows "r \<in> set (send_outcomes (rs_id sess) (sd_sent d sess)
           (run_events h (sdk_events d p sess) (start_send 0 (sd_bridge d sess) x)))"
proof -
  let ?s = "run_events h (sdk_events d p sess) (start_send 0 (sd_bridge d sess) x)"
  have "sn_idle ?s" using assms(1) by (simp add: run_events_fields answered_def)
  then have "send_outcomes (rs_id sess) (sd_sent d sess) ?s \<noteq> []"
    using assms(1) by (simp add: send_outcomes_def after_send_outcomes_def answered_def)
  then show ?thesis
    using assms by (auto simp: send_message_def answered_def fair_choice_def sdk_events_def Let_def)
qed

lemma success_result:
  assumes "Inr res \<in> set (send_outcomes sid sent s)"
  shows "finish_send sid s = Inr res"
  using assms by (auto simp: send_outcomes_def after_send_outcomes_def split: option.splits if_splits)

lemma classify_type: "classifyError e = (status, etype, message) \<Longrightarrow> etype \<noteq> []"
  by (auto simp: classifyError_def Let_def split: option.splits if_splits)

section \<open>Writers that never fail\<close>

lemma sure_write [simp]:
  "wr_faults w = [] \<Longrightarrow> write_sse t ev w = (None, w\<lparr>wr_events := wr_events w @ [ev]\<rparr>)"
  "wr_faults w = [] \<Longrightarrow> setWriteDeadline t w = (None, w)"
  by (simp_all add: write_sse_def setWriteDeadline_def write_call_def)

lemma run_handler_keeps:
  assumes "\<And>ev x. P x \<Longrightarrow> P (snd (h ev x))" and "P (sn_handler s)"
  shows "P (sn_handler (run_events (Some h) evs s))"
  using assms(2)
proof (induction evs arbitrary: s)
  case (Cons ev evs)
  obtain t d where ev: "ev = (t, d)" by (cases ev)
  have "P (sn_handler (snd (handle_event (Some h) t d s)))"
    using Cons.prems assms(1) by (cases t) (simp_all add: Let_def dispatch_handler)
  then have "P (sn_handler (on_event (Some h) ev s))"
    by (auto simp: on_event_def ev split: prod.splits bool.splits option.splits)
  then show ?case using Cons.IH by simp
qed simp

lemma handlers_keep_faults:
  "wr_faults w = [] \<Longrightarrow> wr_faults (snd (openai_handler now t rid p ev w)) = []"
  "wr_faults v = [] \<Longrightarrow> wr_faults (snd (claude_handler t p ev v)) = []"
  by (auto simp: openai_handler_def claude_handler_def Let_def touch_writer_def split: option.splits)

lemma send_keeps_faults:
  assumes "send_message d p (Some h) w = (r, w')" and "wr_faults w = []"
    and "\<And>ev w. wr_faults w = [] \<Longrightarrow> wr_faults (snd (h ev w)) = []"
  shows "wr_faults w' = []"
  using assms run_handler_keeps [of "\<lambda>w. wr_faults w = []" h, OF assms(3)]
  by (auto simp: send_message_def Let_def start_send_def split: option.splits)

lemma openai_stream_shape:
  assumes "streamOpenAIChatCompletion c d now True p rid (new_writer faults) = ((status, [], u), w)"
    and "answered d p sess"
  shows "status = 200 \<and> (\<exists>mids rest.
    wr_events w = Chunk (BuildOpenAIStreamChunk now rid (pp_model p) (no_delta\<lparr>de_role := ''assistant''\<rparr>) None None) # mids
      @ [Chunk (BuildOpenAIStreamChunk now rid (pp_model p) no_delta (Some ''stop'') None)]
      @ (if pp_include_usage p then [Chunk (BuildOpenAIUsageChunk now rid (pp_model p) u)] else []) @ rest \<and>
    rest \<in> {[], [Done]} \<and> list_all openai_mid mids \<and>
    concat (map openai_text mids) = streamed_text (sdk_events d p sess))"
proof -
  define t where "t = streamWriteTimeout c"
  define role where "role = Chunk (BuildOpenAIStreamChunk now rid (pp_model p) (no_delta\<lparr>de_role := ''assistant''\<rparr>) None None)"
  obtain w1 w2 w3 r where
    w1: "setWriteDeadline t (new_writer faults) = (None, w1)" and
    w2: "write_sse t role w1 = (None, w2)" and
    w3: "send_message d p (Some (openai_handler now t rid p)) (touch_writer w2) = (r, w3)"
    using assms(1) unfolding streamOpenAIChatCompletion_def Let_def t_def [symmetric] role_def [symmetric]
    by (auto split: prod.splits option.splits)
  note unfold = assms(1) [unfolded streamOpenAIChatCompletion_def Let_def t_def [symmetric] role_def [symmetric]]
  obtain res where r: "r = Inr res" and fin: "end_openai_stream now t rid p res w3 = ((status, [], u), w)"
    using unfold w1 w2 w3 by (auto split: sum.splits prod.splits dest!: classify_type)
  obtain mids where mids: "wr_events w3 = wr_events w2 @ mids" "list_all openai_mid mids"
    "concat (map openai_text mids) = streamed_text (sdk_events d p sess)"
    using openai.sent_events [OF w3, of sess] answered_outcome [OF assms(2) w3] assms(2) r
    by (auto simp: answered_def sdk_events_def)
  have start: "wr_events w2 = [role]"
    using deadline_frame [OF w1] write_sse_events [OF w2] by simp
  obtain w4 w5 where
    w4: "write_sse t (Chunk (BuildOpenAIStreamChunk now rid (pp_model p) no_delta (Some ''stop'') None)) w3 = (None, w4)" and
    w5: "(if pp_include_usage p then write_sse t (Chunk (BuildOpenAIUsageChunk now rid (pp_model p) u)) w4 else (None, w4)) = (None, w5)"
    and status: "status = 200" and last: "w = snd (write_sse t Done w5)"
    using fin unfolding end_openai_stream_def Let_def by (auto split: prod.splits option.splits if_splits)
  obtain x where x: "write_sse t Done w5 = (x, w)" using last by (metis prod.collapse)
  have "wr_events w = wr_events w5 @ (if x = None then [Done] else [])" using write_sse_events [OF x] by simp
  moreover have "wr_events w5 = wr_events w4 @ (if pp_include_usage p then [Chunk (BuildOpenAIUsageChunk now rid (pp_model p) u)] else [])"
    using w5 by (auto split: if_splits dest!: write_sse_events)
  ultimately show ?thesis
    using write_sse_events [OF w4] start mids status
    unfolding role_def by (intro conjI exI [of _ mids] exI [of _ "if x = None then [Done] else []"]) auto
qed

lemma whole_result:
  assumes "answered d p sess" and "fst (send_message d p None ()) = Inr res"
  shows "rs_content res = (if last_text (sdk_events d p sess) = [] then streamed_text (sdk_events d p sess)
    else last_text (sdk_events d p sess))"
proof -
  obtain x where "send_message d p None () = (Inr res, x)" using assms(2) by (metis prod.collapse)
  from success_result [OF answered_outcome [OF assms(1) this]] show ?thesis
    by (auto simp: finish_send_def run_events_fields start_send_def split: option.splits if_splits)
qed

section \<open>A runtime for the witnesses\<close>

definition demo_sdk :: "(sdk_event_type \<times> event_data) list \<Rightarrow> sdk" where
  "demo_sdk evs = \<lparr>sd_bridge = (\<lambda>_. None), sd_events = (\<lambda>_ _ _. evs @ [(SdkSessionIdle, empty_data)]),
     sd_sent = (\<lambda>_. Some None), sd_choice = hd\<rparr>"

definition demo_prepared :: prepared_conversation where
  "demo_prepared = \<lparr>pp_lease = ephemeral_lease \<lparr>rs_handle = 0, rs_id = ''s1''\<rparr>, pp_model = ''gpt-4.1'', pp_prompt = ''Hi'',
     pp_attachments = [], pp_cleanup = [], pp_agent = [], pp_system_message_mode = ''append'',
     pp_include_reasoning = False, pp_include_runtime_events = False, pp_include_usage = True,
     pp_copilot_requested = False\<rparr>"

definition demo_session :: rt_session where
  "demo_session = \<lparr>rs_handle = 0, rs_id = ''s1''\<rparr>"

definition hello :: "(sdk_event_type \<times> event_data) list" where
  "hello = [delta_event ''He'', delta_event ''llo'']"

definition whole_hello :: "(sdk_event_type \<times> event_data) list" where
  "whole_hello = [(SdkAssistantMessage, empty_data\<lparr>ev_content := Some ''Hello''\<rparr>)]"

text \<open>A session that fails after its first delta.\<close>

definition broken_hello :: "(sdk_event_type \<times> event_data) list" where
  "broken_hello = [delta_event ''He'', (SdkSessionError, empty_data)]"

lemma demo_answered: "answered (demo_sdk evs) demo_prepared demo_session"
  by (simp add: answered_def fair_choice_def demo_sdk_def demo_prepared_def ephemeral_lease_def demo_session_def
      sdk_events_def)

lemma demo_sdk_events: "sdk_events (demo_sdk evs) demo_prepared demo_session = evs @ [(SdkSessionIdle, empty_data)]"
  by (simp add: sdk_events_def demo_sdk_def)

lemmas demo_run = send_message_def demo_sdk_def demo_prepared_def ephemeral_lease_def start_send_def on_event_def
  delta_event_def dispatch_def deref_def empty_data_def blank_gateway_event_def send_outcomes_def
  after_send_outcomes_def finish_send_def set_error_def cancel_send_def send_err_def touch_writer_def
  new_writer_def Let_def

lemmas demo_openai = streamOpenAIChatCompletion_def openai_handler_def end_openai_stream_def demo_run

lemmas demo_claude = streamClaudeMessage_def claude_handler_def demo_run

lemma demo_streams:
  "fst (snd (fst (streamOpenAIChatCompletion demo_config (demo_sdk hello) 1 True demo_prepared ''c1'' (new_writer [])))) = []"
  "fst (snd (fst (streamOpenAIChatCompletion demo_config (demo_sdk whole_hello) 1 True demo_prepared ''c1'' (new_writer [])))) = []"
  "fst (snd (fst (streamClaudeMessage demo_config (demo_sdk hello) True demo_prepared ''c1'' (new_writer [])))) = []"
  "isl (fst (send_message (demo_sdk whole_hello) demo_prepared None ())) = False"
  by (simp_all add: demo_openai demo_claude hello_def whole_hello_def streamRuntimeEvent_def)

lemma demo_failures:
  "fst (snd (fst (streamOpenAIChatCompletion demo_config (demo_sdk broken_hello) 1 True demo_prepared ''c1'' (new_writer [])))) \<noteq> []"
  "fst (snd (fst (streamClaudeMessage demo_config (demo_sdk broken_hello) True demo_prepared ''c1'' (new_writer [])))) \<noteq> []"
  by (simp_all add: demo_openai demo_claude broken_hello_def streamRuntimeEvent_def split: prod.splits)
    (auto dest: classify_type)

section \<open>Properties\<close>





text \<open>The events of a message in any case.\<close>

lemma mid_events:
  "send_message d p (Some (openai_handler now t rid p)) w = (r, w') \<Longrightarrow>
     \<exists>mids. wr_events w' = wr_events w @ mids \<and> list_all openai_mid mids"
  "send_message d p (Some (claude_handler t p)) v = (r', v') \<Longrightarrow>
     \<exists>mids. wr_events v' = wr_events v @ mids \<and> list_all claude_mid mids"
  using openai.sent_events [of d p now t rid p w r w'] claude.sent_events [of d p t p v r' v']
  by (cases "le_session (pp_lease p)"; force simp: send_message_def)+

text \<open>A failed prompt is reported in the stream itself: when the connection takes every write, a stream that ends
  with an error ends with the error's type and message as they are classified, followed by the closing events of
  its protocol, after nothing but text and runtime events; and the status and type recorded are those of the error.\<close>

theorem openai_failure_reported:
  assumes "streamOpenAIChatCompletion c d now True p rid (new_writer []) = ((status, etype, u), w)" and "etype \<noteq> []"
  shows "\<exists>e message mids. classifyError e = (status, etype, message) \<and> list_all openai_mid mids \<and>
    wr_events w = Chunk (BuildOpenAIStreamChunk now rid (pp_model p) (no_delta\<lparr>de_role := ''assistant''\<rparr>) None None) # mids
      @ [StreamError etype message, Done]"
proof -
  define t where "t = streamWriteTimeout c"
  define w0 :: "openai_event writer" where "w0 = (new_writer [])\<lparr>wr_events := [Chunk (BuildOpenAIStreamChunk now rid (pp_model p)
    (no_delta\<lparr>de_role := ''assistant''\<rparr>) None None)]\<rparr>"
  have f: "wr_faults (new_writer [] :: openai_event writer) = []" by (simp add: new_writer_def)
  obtain r w3 where w3: "send_message d p (Some (openai_handler now t rid p)) (touch_writer w0) = (r, w3)" by fastforce
  obtain mids where mids: "wr_events w3 = wr_events w0 @ mids" "list_all openai_mid mids"
    using mid_events(1) [OF w3] by auto
  have f3: "wr_faults w3 = []"
    by (rule send_keeps_faults [OF w3 _ handlers_keep_faults(1)]) (simp add: w0_def touch_writer_def new_writer_def)
  show ?thesis
  proof (cases r)
    case (Inr res)
    with assms f f3 w3 have "etype = []"
      by (simp add: streamOpenAIChatCompletion_def Let_def t_def [symmetric] w0_def end_openai_stream_def split: if_splits)
    with assms(2) show ?thesis by simp
  next
    case (Inl e)
    obtain st ty message where cl: "classifyError e = (st, ty, message)" by (cases "classifyError e")
    have "wr_events w = wr_events w3 @ [StreamError ty message, Done]" "st = status" "ty = etype"
      using assms f f3 w3 Inl cl
      by (auto simp: streamOpenAIChatCompletion_def Let_def t_def [symmetric] w0_def)
    with mids cl show ?thesis by (simp add: w0_def) blast
  qed
qed

lemma openai_failure_reported_witness:
  "\<exists>status etype u w message. streamOpenAIChatCompletion demo_config (demo_sdk broken_hello) 1 True demo_prepared ''c1''
     (new_writer []) = ((status, etype, u), w) \<and> last (butlast (wr_events w)) = StreamError etype message"
proof -
  obtain status etype u w where s: "streamOpenAIChatCompletion demo_config (demo_sdk broken_hello) 1 True demo_prepared ''c1''
      (new_writer []) = ((status, etype, u), w)" and "etype \<noteq> []"
    using demo_failures(1) by (metis prod.collapse)
  from openai_failure_reported [OF this] s show ?thesis by (auto simp: butlast_append)
qed

text \<open>A message stream that fails ends with the error, as it is classified, and the closing events, when the
  connection takes every write.\<close>

theorem claude_failure_reported:
  assumes "streamClaudeMessage c d True p rid (new_writer []) = ((status, etype, u), w)" and "etype \<noteq> []"
  shows "\<exists>e message mids. classifyError e = (status, etype, message) \<and> list_all claude_mid mids \<and>
    wr_events w = [MessageStart rid (pp_model p), ContentBlockStart] @ mids
      @ [ErrorEvent etype message, ContentBlockStop, MessageStop]"
proof -
  define t where "t = streamWriteTimeout c"
  define w0 :: "claude_event writer" where
    "w0 = (new_writer [])\<lparr>wr_events := [MessageStart rid (pp_model p), ContentBlockStart]\<rparr>"
  have f: "wr_faults (new_writer [] :: claude_event writer) = []" by (simp add: new_writer_def)
  obtain r w3 where w3: "send_message d p (Some (claude_handler t p)) (touch_writer w0) = (r, w3)" by fastforce
  obtain mids where mids: "wr_events w3 = wr_events w0 @ mids" "list_all claude_mid mids"
    using mid_events(2) [OF w3] by auto
  have f3: "wr_faults w3 = []"
    by (rule send_keeps_faults [OF w3 _ handlers_keep_faults(2)]) (simp add: w0_def touch_writer_def new_writer_def)
  show ?thesis
  proof (cases r)
    case (Inr res)
    with assms f f3 w3 have "etype = []"
      by (simp add: streamClaudeMessage_def Let_def t_def [symmetric] w0_def)
    with assms(2) show ?thesis by simp
  next
    case (Inl e)
    obtain st ty message where cl: "classifyError e = (st, ty, message)" by (cases "classifyError e")
    have "wr_events w = wr_events w3 @ [ErrorEvent ty message, ContentBlockStop, MessageStop]" "st = status" "ty = etype"
      using assms f f3 w3 Inl cl
      by (auto simp: streamClaudeMessage_def Let_def t_def [symmetric] w0_def)
    with mids cl show ?thesis by (simp add: w0_def) blast
  qed
qed

lemma claude_failure_reported_witness:
  "\<exists>status etype u w message. streamClaudeMessage demo_config (demo_sdk broken_hello) True demo_prepared ''c1''
     (new_writer []) = ((status, etype, u), w) \<and> ErrorEvent etype message \<in> set (wr_events w) \<and> last (wr_events w) = MessageStop"
proof -
  obtain status etype u w where s: "streamClaudeMessage demo_config (demo_sdk broken_hello) True demo_prepared ''c1''
      (new_writer []) = ((status, etype, u), w)" and "etype \<noteq> []"
    using demo_failures(2) by (metis prod.collapse)
  from claude_failure_reported [OF this] s show ?thesis by auto
qed

text \<open>A complete message that came without deltas is not streamed: when the runtime sends only the whole text, the
  stream of a chat completion ends in success without any text, while the same request without streaming is
  answered with the text.\<close>

theorem message_without_deltas_not_streamed:
  assumes "answered d p sess" and "streamed_text (sdk_events d p sess) = []" and "last_text (sdk_events d p sess) \<noteq> []"
    and "streamOpenAIChatCompletion c d now True p rid (new_writer faults) = ((status, [], u), w)"
    and "fst (send_message d p None ()) = Inr res"
  shows "concat (map openai_text (wr_events w)) = [] \<and> status = 200 \<and>
    rs_content res = last_text (sdk_events d p sess)"
proof -
  have "concat (map openai_text (wr_events w)) = []"
    using openai_stream_shape [OF assms(4,1)] assms(2)
    by (auto simp: BuildOpenAIStreamChunk_def BuildOpenAIUsageChunk_def no_delta_def)
  then show ?thesis using openai_stream_shape [OF assms(4,1)] whole_result [OF assms(1,5)] assms(3) by auto
qed

lemma message_without_deltas_not_streamed_witness:
  "\<exists>u w res. streamOpenAIChatCompletion demo_config (demo_sdk whole_hello) 1 True demo_prepared ''c1'' (new_writer []) =
     ((200, [], u), w) \<and> concat (map openai_text (wr_events w)) = [] \<and>
   fst (send_message (demo_sdk whole_hello) demo_prepared None ()) = Inr res \<and> rs_content res = ''Hello''"
proof -
  obtain status u w where s: "streamOpenAIChatCompletion demo_config (demo_sdk whole_hello) 1 True demo_prepared ''c1''
      (new_writer []) = ((status, [], u), w)"
    using demo_streams(2) by (metis prod.collapse)
  have x: "streamed_text (whole_hello @ [(SdkSessionIdle, empty_data)]) = []"
    "last_text (whole_hello @ [(SdkSessionIdle, empty_data)]) = ''Hello''"
    by code_simp+
  obtain res where r: "fst (send_message (demo_sdk whole_hello) demo_prepared None ()) = Inr res"
    using demo_streams(4) by (cases "fst (send_message (demo_sdk whole_hello) demo_prepared None ())") auto
  from message_without_deltas_not_streamed [OF demo_answered _ _ s r] x s r demo_sdk_events show ?thesis by simp
qed

end
