(* ===== verification/Session_Refinement.thy ===== *)
theory Session_Refinement
  imports Session_Races
begin

text \<open>
  The operations of Session_Manager refine to runs of the concurrent manager: what \<open>Acquire\<close>, \<open>Release\<close>,
  \<open>Discard\<close>, \<open>CleanupExpired\<close> and the shutdown compute when they run undisturbed is what one goroutine reaches
  by its own steps.  So every sequence of operations is one of the schedules of Session_Concurrency, and
  whatever is invariant there holds after it.
\<close>

section \<open>Runs of one goroutine\<close>

definition runs :: "'s store_ops option \<Rightarrow> nat \<Rightarrow> 's sys \<Rightarrow> 's sys \<Rightarrow> bool" where
  "runs st t = (\<lambda>s s'. \<exists>a. sys_step st a t s s')\<^sup>*\<^sup>*"

lemma runs_refl [simp, intro]: "runs st t s s"
  by (simp add: runs_def)

lemma runs_step: "sys_step st a t s s1 \<Longrightarrow> runs st t s1 s' \<Longrightarrow> runs st t s s'"
  unfolding runs_def by (blast intro: converse_rtranclp_into_rtranclp)

lemma runs_trans: "runs st t s s1 \<Longrightarrow> runs st t s1 s' \<Longrightarrow> runs st t s s'"
  unfolding runs_def by simp

lemma goto_goto [simp]: "goto t p' m' (goto t p m s) = goto t p' m' s"
  by (simp add: goto_def)

lemma goto_same [simp]: "sy_pc s t = p \<Longrightarrow> goto t p (sy_mgr s) s = s"
  by (auto simp: goto_def)

lemma runs_reachable: "runs st t s s' \<Longrightarrow> reachable st m0 s \<Longrightarrow> reachable st m0 s'"
  unfolding runs_def by (induction rule: rtranclp_induct) (auto intro: reachable.step)

lemma runs1: "sys_step st a t s s1 \<Longrightarrow> runs st t s s1"
  by (rule runs_step [OF _ runs_refl])

lemma runs2: "sys_step st a t s s1 \<Longrightarrow> sys_step st b t s1 s2 \<Longrightarrow> runs st t s s2"
  by (rule runs_step [OF _ runs1])

section \<open>Acquire\<close>

text \<open>A failed creation ends in \<open>cleanupEntry\<close>.\<close>

lemma aborting_runs: "runs st t (goto t (Aborting key e) m s) (goto t Idle (cleanup_entry key e m) s)"
  using sys_step.abort [of "goto t (Aborting key e) m s" t key e st] by (simp add: runs1)

lemma persisted_runs:
  assumes "acquire_persisted st env now d key spec m = (r, m')"
  shows "\<exists>p. runs st t (goto t (Loading key spec d e) m s) (goto t p m' s) \<and>
    (case r of Inl er \<Rightarrow> p = Aborting key e
     | Inr None \<Rightarrow> p = Making key e None | Inr (Some x) \<Rightarrow> p = Resuming key e x)"
proof -
  let ?s = "goto t (Loading key spec d e) m s"
  have pc: "sy_pc ?s t = Loading key spec d e" by simp
  obtain out m1 where l: "acquire_load st now key spec m = (out, m1)" by fastforce
  show ?thesis
  proof (cases out)
    case (LoadError er)
    with assms l sys_step.load_error [OF pc, of st now er m1] show ?thesis
      by (auto simp: acquire_persisted_def intro: runs1)
  next
    case LoadNone
    with assms l sys_step.load_none [OF pc, of st now m1] show ?thesis
      by (auto simp: acquire_persisted_def intro: runs1)
  next
    case (LoadMismatch x)
    obtain er m2 where rm: "removeStoredSession st env d key x m1 = (er, m2)" by fastforce
    have "runs st t ?s (goto t (Aborting key e) m2 s)"
      using sys_step.load_mismatch [OF pc, of st now x m1] l LoadMismatch rm
        sys_step.remove_stored [of "goto t (Removing key spec d e x True) m1 s" t key spec d e x True st env er m2]
      by (intro runs2) simp_all
    with assms l LoadMismatch rm show ?thesis by (auto simp: acquire_persisted_def split: option.splits)
  next
    case (LoadExpired x)
    obtain er m2 where rm: "removeStoredSession st env d key x m1 = (er, m2)" by fastforce
    have "runs st t ?s (goto t (if er \<noteq> None then Aborting key e else Making key e None) m2 s)"
      using sys_step.load_expired [OF pc, of st now x m1] l LoadExpired rm
        sys_step.remove_stored [of "goto t (Removing key spec d e x False) m1 s" t key spec d e x False st env er m2]
      by (intro runs2) simp_all
    with assms l LoadExpired rm show ?thesis by (auto simp: acquire_persisted_def split: option.splits)
  next
    case (LoadHit x)
    with assms l sys_step.load_hit [OF pc, of st now x m1] show ?thesis
      by (auto simp: acquire_persisted_def intro: runs1)
  qed
qed

lemma fresh_runs:
  assumes "createSessionWithContext env CallNew (env_new env) m = (r, m')"
  shows "runs st t (goto t (Making key e q) m s)
    (goto t (case r of Inl _ \<Rightarrow> Aborting key e | Inr sess \<Rightarrow> Finishing key e sess True q) m' s)"
proof -
  have pc: "sy_pc (goto t (Making key e q) m s) t = Making key e q" by simp
  show ?thesis
    using sys_step.make_ok [OF pc, of env _ m' st] sys_step.make_error [OF pc, of env _ m' st] assms
    by (auto split: sum.splits intro: runs1)
qed

text \<open>From the stored record, or none, to the runtime session.\<close>

abbreviation restored :: "string \<Rightarrow> nat \<Rightarrow> stored_session option \<Rightarrow> pc" where
  "restored key e q \<equiv> (case q of None \<Rightarrow> Making key e None | Some x \<Rightarrow> Resuming key e x)"

abbreviation session_made :: "string \<Rightarrow> nat \<Rightarrow> go_error + rt_session \<times> bool \<times> stored_session option \<Rightarrow> pc" where
  "session_made key e r \<equiv>
     (case r of Inl _ \<Rightarrow> Aborting key e | Inr (sess, c, q) \<Rightarrow> Finishing key e sess c q)"

lemma fresh_session:
  "(case createSessionWithContext env CallNew (env_new env) m of
      (Inl er, m1) \<Rightarrow> (Inl er, m1) | (Inr sess, m1) \<Rightarrow> (Inr (sess, True, q), m1)) = (r, m') \<Longrightarrow>
   runs st t (goto t (Making key e q) m s) (goto t (session_made key e r) m' s)"
  by (auto split: prod.splits sum.splits dest!: fresh_runs [where st = st and t = t and key = key and e = e and q = q and s = s])

lemma resume_runs:
  assumes "acquire_session st env True key (Some x) m = (r, m')"
  shows "runs st t (goto t (Resuming key e x) m s) (goto t (session_made key e r) m' s)"
proof -
  let ?s = "goto t (Resuming key e x) m s"
  have pc: "sy_pc ?s t = Resuming key e x" by simp
  obtain y m1 where c: "createSessionWithContext env (CallResume (ss_session_id x))
      (env_resume env (ss_session_id x)) m = (y, m1)" by fastforce
  show ?thesis
  proof (cases y)
    case (Inr sess)
    with c assms sys_step.resume_ok [OF pc, of env sess m1 st] show ?thesis
      by (auto simp: acquire_session_def intro: runs1)
  next
    case (Inl er)
    with c have step: "sys_step st ActRun t ?s
        (goto t (if errors_is er ErrSessionNotFound then Dropping key e else Aborting key e) m1 s)"
      using sys_step.resume_error [OF pc, of env er m1 st] by simp
    show ?thesis
    proof (cases "errors_is er ErrSessionNotFound")
      case False
      with assms c Inl step show ?thesis by (auto simp: acquire_session_def intro: runs1)
    next
      case True
      obtain de m2 where d: "store_delete st key m1 = (de, m2)" by fastforce
      have "runs st t ?s (goto t (if de \<noteq> None then Aborting key e else Making key e None) m2 s)"
        using step True d sys_step.drop_stored [of "goto t (Dropping key e) m1 s" t key e st de m2]
        by (intro runs2) simp_all
      with assms c Inl True d show ?thesis
        by (auto simp: acquire_session_def split: option.splits intro: runs_trans [OF _ fresh_session])
    qed
  qed
qed

lemma session_runs:
  assumes "acquire_session st env hr key q m = (r, m')"
  shows "runs st t (goto t (restored key e q) m s) (goto t (session_made key e r) m' s)"
proof (cases q)
  case None
  with assms show ?thesis by (auto simp: acquire_session_def Let_def intro: fresh_session)
next
  case (Some x)
  show ?thesis
  proof (cases hr)
    case True
    with assms Some resume_runs show ?thesis by fastforce
  next
    case False
    have "sys_step st ActRun t (goto t (Resuming key e x) m s) (goto t (Making key e (Some x)) m s)"
      using sys_step.resume_nil [of "goto t (Resuming key e x) m s" t key e x st] by simp
    with assms Some False show ?thesis
      by (auto simp: acquire_session_def Let_def intro: runs_step fresh_session)
  qed
qed

text \<open>What a goroutine is at after \<open>Acquire\<close>: its lease, or nothing.\<close>

fun lease_pc :: "lease_target \<Rightarrow> pc" where
  "lease_pc (EntryLease key e) = Leased key e"
| "lease_pc (EphemeralLease sess) = Ephemeral sess"

definition acquired :: "go_error + lease \<Rightarrow> pc" where
  "acquired r = (case r of Inl _ \<Rightarrow> Idle | Inr l \<Rightarrow> lease_pc (le_target l))"

lemma acquired_simps [simp]:
  "acquired (Inl er) = Idle" "acquired (Inr l) = lease_pc (le_target l)"
  "lease_pc (le_target (newLease key e c m)) = Leased key e"
  "lease_pc (le_target (ephemeral_lease sess)) = Ephemeral sess"
  by (simp_all add: acquired_def newLease_def ephemeral_lease_def)

lemma finish_runs:
  assumes "acquire_finish st env now key e sess c q m = (r, m')"
  shows "runs st t (goto t (Finishing key e sess c q) m s) (goto t (acquired r) m' s)"
proof -
  let ?s = "goto t (Finishing key e sess c q) m s"
  let ?m = "fill_entry now e q sess m"
  have pc: "sy_pc ?s t = Finishing key e sess c q" by simp
  obtain er m1 where sv: "store_save st key (entry_record now (entry ?m e)) ?m = (er, m1)" by fastforce
  show ?thesis
  proof (cases er)
    case None
    then have "sys_step st ActRun t ?s (goto t (Leased key e) (mark_ready e m1) s)"
      using sv sys_step.finish_ok [OF pc, where st = st and now = now] by simp
    with assms sv None show ?thesis by (auto simp: acquire_finish_def Let_def intro: runs1)
  next
    case (Some x)
    then have "sys_step st ActRun t ?s (goto t (Aborting key e) (log_call (CallClose sess) m1) s)"
      using sv sys_step.finish_error [OF pc, where st = st and now = now] by simp
    from runs_step [OF this aborting_runs] assms sv Some show ?thesis by (auto simp: acquire_finish_def Let_def)
  qed
qed

lemma create_runs:
  assumes "acquire_create st env now hr d key spec e m = (r, m')"
  shows "runs st t (goto t (Loading key spec d e) m s) (goto t (acquired r) m' s)"
proof -
  obtain q m1 where q: "acquire_persisted st env now d key spec m = (q, m1)" by fastforce
  obtain p where p: "runs st t (goto t (Loading key spec d e) m s) (goto t p m1 s)"
    "case q of Inl er \<Rightarrow> p = Aborting key e | Inr None \<Rightarrow> p = Making key e None | Inr (Some x) \<Rightarrow> p = Resuming key e x"
    using persisted_runs [OF q] by blast
  show ?thesis
  proof (cases q)
    case (Inl er)
    with assms q p show ?thesis by (auto simp: acquire_create_def intro: runs_trans [OF _ aborting_runs])
  next
    case (Inr x)
    with p(2) have pq: "p = restored key e x" by (auto split: option.splits)
    obtain y m2 where y: "acquire_session st env hr key x m1 = (y, m2)" by fastforce
    have s: "runs st t (goto t (Loading key spec d e) m s) (goto t (session_made key e y) m2 s)"
      using runs_trans [OF p(1) session_runs [OF y, of t e s, folded pq]] .
    show ?thesis
    proof (cases y)
      case (Inl er)
      with assms q Inr y s show ?thesis by (auto simp: acquire_create_def intro: runs_trans [OF _ aborting_runs])
    next
      case r: (Inr z)
      obtain sess c q' where z: "z = (sess, c, q')" using prod_cases3 by blast
      with assms q Inr y r have "acquire_finish st env now key e sess c q' m2 = (r, m')"
        by (simp add: acquire_create_def)
      from runs_trans [OF _ finish_runs [OF this]] s r z show ?thesis by simp
    qed
  qed
qed

lemma Acquire_runs:
  assumes "Acquire st env werr now hr d key spec (sy_mgr s) = (r, m')" and "sy_pc s t = Idle"
  shows "runs st t s (goto t (acquired r) m' s)"
proof (cases "key = []")
  case True
  with assms(1) sys_step.ephemeral_ok [OF assms(2), of env _ m' st] sys_step.ephemeral_error [OF assms(2), of env _ m' st]
  show ?thesis by (auto simp: Acquire_def split: prod.splits sum.splits intro: runs1)
next
  case False
  let ?m = "sy_mgr s"
  have enter: "sys_step st ActCall t s (goto t (Entering key spec d) ?m s)"
    by (rule sys_step.call_acquire [OF assms(2) False])
  have pc: "sy_pc (goto t (Entering key spec d) ?m s) t = Entering key spec d" by simp
  obtain out m1 where o: "acquire_enter d key spec ?m = (out, m1)" by fastforce
  show ?thesis
  proof (cases out)
    case (EnterError er)
    with o sys_step.enter_error [OF pc, of er m1 st] have
      "sys_step st ActRun t (goto t (Entering key spec d) ?m s) (goto t Idle m1 s)" by simp
    with runs2 [OF enter this] o EnterError False assms(1) show ?thesis by (auto simp: Acquire_def)
  next
    case (EnterCreate e)
    with o sys_step.enter_create [OF pc, of e m1 st] have
      "sys_step st ActRun t (goto t (Entering key spec d) ?m s) (goto t (Loading key spec d e) m1 s)" by simp
    from runs_trans [OF runs2 [OF enter this] create_runs] o EnterCreate False assms(1) show ?thesis
      by (auto simp: Acquire_def)
  next
    case (EnterWait e)
    note w = acquire_enter_wait [OF o [unfolded EnterWait]]
    with o EnterWait sys_step.enter_wait [OF pc, of e m1 st] have
      "sys_step st ActRun t (goto t (Entering key spec d) ?m s) (goto t (Waiting key spec d e) ?m s)" by simp
    note wait = runs2 [OF enter this]
    show ?thesis
    proof (cases "env_ctx_err env = None \<and> \<not> ms_locked (entry ?m e)")
      case False
      have "sys_step st ActCancel t (goto t (Waiting key spec d e) ?m s) (goto t Idle ?m s)"
        using sys_step.wait_cancel [of "goto t (Waiting key spec d e) ?m s" t key spec d e st] by simp
      with runs_trans [OF wait runs1 [OF this]] False \<open>key \<noteq> []\<close> o EnterWait w assms(1) show ?thesis
        by (auto simp: Acquire_def split: option.splits)
    next
      case True
      let ?l = "lock_entry e ?m"
      have cur: "acquire_recheck now key e ?l = (True, touch now e ?l)"
        using w by (simp add: acquire_recheck_def is_current_def lock_entry_def)
      have "runs st t (goto t (Waiting key spec d e) ?m s) (goto t (Leased key e) (touch now e ?l) s)"
        using sys_step.wait_lock [of "goto t (Waiting key spec d e) ?m s" t key spec d e st] True
          sys_step.recheck_ok [of "goto t (Holding key spec d e) ?l s" t key spec d e now "touch now e ?l" st] cur
        by (intro runs2) simp_all
      with runs_trans [OF wait this] True False o EnterWait w cur assms(1) show ?thesis
        by (auto simp: Acquire_def)
    qed
  qed
qed

section \<open>Release and Discard\<close>

lemma finish_lease_result: "finish_lease l r = (er, l', m') \<longleftrightarrow> er = fst r \<and> l' = l\<lparr>le_done := True, le_final_err := fst r\<rparr> \<and> m' = snd r"
  by (auto simp: finish_lease_def)

lemma Release_runs:
  assumes "Release st env now l (sy_mgr s) = (er, l', m')" and "sy_pc s t = lease_pc (le_target l)" and "\<not> le_done l"
  shows "runs st t s (goto t Idle m' s)"
proof (cases "le_target l")
  case (EntryLease key e)
  with assms(1,3) have "release_entry st now key e (sy_mgr s) = (er, m')"
    by (cases "release_entry st now key e (sy_mgr s)") (auto simp: Release_def finish_lease_result)
  with sys_step.release [of s t key e st now er m'] assms(2) EntryLease show ?thesis by (simp add: runs1)
next
  case (EphemeralLease sess)
  with assms sys_step.ephemeral_close [of s t sess st] show ?thesis
    by (simp add: Release_def finish_lease_result runs1)
qed

lemma Discard_runs:
  assumes "Discard st env l (sy_mgr s) = (er, l', m')" and "sy_pc s t = lease_pc (le_target l)" and "\<not> le_done l"
  shows "runs st t s (goto t Idle m' s)"
proof (cases "le_target l")
  case (EntryLease key e)
  let ?m = "unmap_entry key e (sy_mgr s)"
  obtain x m1 where d: "destroyPersistentSession st env e ?m = (x, m1)" by fastforce
  with assms(1,3) EntryLease have "m' = unlock_entry e m1"
    by (auto simp: Discard_def discard_entry_def finish_lease_result)
  with sys_step.discard [of s t key e st] assms(2) EntryLease d
    sys_step.destroy [of "goto t (Destroying e) ?m s" t e st env x m1]
  show ?thesis by (intro runs2 [of st ActRun t s "goto t (Destroying e) ?m s" ActRun]) simp_all
next
  case (EphemeralLease sess)
  with assms sys_step.ephemeral_close [of s t sess st] show ?thesis
    by (simp add: Discard_def finish_lease_result runs1)
qed

section \<open>Expiry and shutdown\<close>

lemma destroy_all_runs:
  "destroy_all st env es acc m = (er, m') \<Longrightarrow> runs st t (goto t (Sweeping es) m s) (goto t Idle m' s)"
proof (induction es arbitrary: acc m)
  case Nil
  then show ?case using sys_step.sweep_done [of "goto t (Sweeping []) m s" t st] by (simp add: runs1)
next
  case (Cons e es)
  obtain x m1 where d: "destroyPersistentSession st env e m = (x, m1)" by fastforce
  with sys_step.sweep_one [of "goto t (Sweeping (e # es)) m s" t e es st env x m1]
  have "sys_step st ActRun t (goto t (Sweeping (e # es)) m s) (goto t (Sweeping es) (unlock_entry e m1) s)" by simp
  from runs_step [OF this Cons.IH] Cons.prems d show ?case by simp
qed

lemma CleanupExpired_runs:
  assumes "CleanupExpired st env now (sy_mgr s) = (er, m')" and "sy_pc s t = Idle"
  shows "runs st t s (goto t Idle m' s)"
proof (cases "m_ttl (sy_mgr s) \<le> 0")
  case True
  with assms(1) have "m' = sy_mgr s" by (simp add: CleanupExpired_def)
  with assms(2) show ?thesis by simp
next
  case False
  obtain es m1 where w: "sweep now (m_sessions (sy_mgr s)) (sy_mgr s) = (es, m1)" by fastforce
  with False sys_step.call_cleanup [OF assms(2), of now es m1 st]
  have "sys_step st ActCall t s (goto t (Sweeping es) m1 s)" by simp
  from runs_step [OF this destroy_all_runs] assms(1) False w show ?thesis by (simp add: CleanupExpired_def)
qed

lemma close_all_runs:
  "close_all st env werr preserve es acc m = (er, m') \<Longrightarrow>
   runs st t (goto t (Closing preserve es) m s) (goto t Idle m' s)"
proof (induction es arbitrary: acc m)
  case Nil
  then show ?case using sys_step.close_done [of "goto t (Closing preserve []) m s" t preserve st] by (simp add: runs1)
next
  case (Cons e es)
  let ?s = "goto t (Closing preserve (e # es)) m s"
  show ?case
  proof (cases "env_ctx_err env = None \<and> \<not> ms_locked (entry m e)")
    case False
    have skip: "sys_step st ActCancel t ?s (goto t (Closing preserve es) m s)"
      using sys_step.close_skip [of ?s t preserve e es st] by simp
    from False Cons.prems obtain acc' where "close_all st env werr preserve es acc' m = (er, m')"
      by (auto split: option.splits if_splits)
    from runs_step [OF skip Cons.IH [OF this]] show ?thesis .
  next
    case True
    obtain x m1 where d: "(if preserve then disconnectPersistentSession env e (lock_entry e m)
        else destroyPersistentSession st env e (lock_entry e m)) = (x, m1)" by fastforce
    have "sys_step st ActRun t ?s (goto t (Closing preserve es) (unlock_entry e m1) s)"
      using sys_step.close_one [of ?s t preserve e es env st x m1] True d
      by (simp only: goto_simps goto_goto fun_upd_same simp_thms)
    from runs_step [OF this Cons.IH] Cons.prems d True show ?thesis by simp
  qed
qed

lemma closeContext_runs:
  assumes "closeContext st env werr preserve (sy_mgr s) = (er, m')" and "sy_pc s t = Idle"
  shows "runs st t s (goto t Idle m' s)"
  using runs_step [OF sys_step.call_close [OF assms(2), of st preserve] close_all_runs] assms(1)
  by (simp add: closeContext_def)

section \<open>Sequences of operations\<close>

text \<open>What an idle goroutine can make of the manager while the others do not move.\<close>

definition schedulable :: "'s store_ops option \<Rightarrow> 's manager \<Rightarrow> 's manager \<Rightarrow> bool" where
  "schedulable st m m' \<longleftrightarrow> (\<forall>s t. sy_mgr s = m \<longrightarrow> sy_pc s t = Idle \<longrightarrow> runs st t s (goto t Idle m' s))"

lemma schedulable_refl [simp]: "schedulable st m m"
  by (auto simp: schedulable_def)

lemma schedulable_trans:
  assumes "schedulable st m m1" and "schedulable st m1 m2"
  shows "schedulable st m m2"
  unfolding schedulable_def
proof (intro allI impI)
  fix s :: "'a sys" and t
  assume s: "sy_mgr s = m" "sy_pc s t = Idle"
  then have "runs st t s (goto t Idle m1 s)" using assms(1) by (simp add: schedulable_def)
  moreover have "runs st t (goto t Idle m1 s) (goto t Idle m2 (goto t Idle m1 s))"
    using assms(2) unfolding schedulable_def by (metis fun_upd_same goto_simps)
  ultimately show "runs st t s (goto t Idle m2 s)" using runs_trans by fastforce
qed

lemma schedulable_reachable:
  assumes "reachable st m0 (init_sys m)" and "schedulable st m m'"
  shows "reachable st m0 (init_sys m')"
proof -
  have "goto 0 Idle m' (init_sys m) = init_sys m'" by (auto simp: init_sys_def goto_def)
  moreover have "runs st 0 (init_sys m) (goto 0 Idle m' (init_sys m))"
    using assms(2) by (simp add: schedulable_def init_sys_def)
  ultimately show ?thesis using runs_reachable [OF _ assms(1)] by metis
qed

text \<open>Hooks set and cleared.\<close>

inductive hooked :: "'s manager \<Rightarrow> 's manager \<Rightarrow> bool" for m where
  hooked_refl [simp, intro]: "hooked m m"
| hooked_set: "hooked m m1 \<Longrightarrow> SetActivityHook key hook m1 = (target, m2) \<Longrightarrow> hooked m m2"
| hooked_clear: "hooked m m1 \<Longrightarrow> hooked m (clear_activity target m1)"

lemma hooked_activity: "hooked m m' \<Longrightarrow> activity_only m m'"
proof (induction rule: hooked.induct)
  case hooked_refl
  show ?case by (simp add: activity_only_def)
next
  case (hooked_set m1 key hook target m2)
  then show ?case using hook_activity(1) activity_only_trans by blast
next
  case (hooked_clear m1 target)
  then show ?case using hook_activity(2) activity_only_trans by blast
qed

lemma hooked_runs: "hooked m m' \<Longrightarrow> runs st t (goto t p m s) (goto t p m' s)"
proof (induction rule: hooked.induct)
  case (hooked_set m1 key hook target m2)
  then show ?case
    using sys_step.set_hook [of key hook "goto t p m1 s" target m2 st t] by (auto intro: runs_trans runs1)
next
  case (hooked_clear m1 target)
  then show ?case
    using sys_step.clear_hook [of st t "goto t p m1 s" target] by (auto intro: runs_trans runs1)
qed simp

lemma Acquire_open: "Acquire st env werr now hr d key spec m = (Inr l, m') \<Longrightarrow> \<not> le_done l"
  by (auto simp: Acquire_def acquire_create_def acquire_finish_def newLease_def ephemeral_lease_def Let_def
      split: if_splits prod.splits sum.splits option.splits enter_outcome.splits)

text \<open>A whole request: acquire, use, and release or discard.\<close>

definition end_lease ::
    "'s store_ops option \<Rightarrow> runtime_env \<Rightarrow> int \<Rightarrow> bool \<Rightarrow> lease \<Rightarrow> 's manager \<Rightarrow> 's manager" where
  "end_lease st env now discarded l m =
     snd (snd (if discarded then Discard st env l m else Release st env now l m))"

lemma end_lease_runs:
  assumes "sy_pc s t = lease_pc (le_target l)" and "\<not> le_done l"
  shows "runs st t s (goto t Idle (end_lease st env now b l (sy_mgr s)) s)"
proof (cases b)
  case True
  obtain er l' m' where d: "Discard st env l (sy_mgr s) = (er, l', m')" using prod_cases3 by blast
  then show ?thesis using Discard_runs [OF d assms] True by (simp add: end_lease_def)
next
  case False
  obtain er l' m' where d: "Release st env now l (sy_mgr s) = (er, l', m')" using prod_cases3 by blast
  then show ?thesis using Release_runs [OF d assms] False by (simp add: end_lease_def)
qed

lemma request_schedulable:
  assumes "Acquire st env werr now hr d key spec m = (Inr l, m0)" and "hooked m0 m1"
  shows "schedulable st m (end_lease st env' later b l m1)"
  unfolding schedulable_def
proof (intro allI impI)
  fix s :: "'a sys" and t
  assume s: "sy_mgr s = m" "sy_pc s t = Idle"
  let ?p = "lease_pc (le_target l)"
  have "runs st t s (goto t ?p m0 s)" using Acquire_runs [of st env werr now hr d key spec s] assms(1) s by fastforce
  moreover have "runs st t (goto t ?p m0 s) (goto t ?p m1 s)"
    by (rule hooked_runs [OF assms(2)])
  moreover have "runs st t (goto t ?p m1 s) (goto t Idle (end_lease st env' later b l m1) s)"
    using end_lease_runs [of "goto t ?p m1 s" t l st env' later b] Acquire_open [OF assms(1)] by simp
  ultimately show "runs st t s (goto t Idle (end_lease st env' later b l m1) s)" using runs_trans by metis
qed

lemma failed_schedulable: "Acquire st env werr now hr d key spec m = (Inl er, m') \<Longrightarrow> schedulable st m m'"
  using Acquire_runs [of st env werr now hr d key spec] unfolding schedulable_def by fastforce

lemma cleanup_schedulable: "CleanupExpired st env now m = (er, m') \<Longrightarrow> schedulable st m m'"
  using CleanupExpired_runs unfolding schedulable_def by blast

lemma close_schedulable: "closeContext st env werr preserve m = (er, m') \<Longrightarrow> schedulable st m m'"
  using closeContext_runs unfolding schedulable_def by blast

end
