(* ===== verification/Handler_Facts.thy ===== *)
theory Handler_Facts
  imports Server_Continuation Stream_Facts Session_Refinement
begin

text \<open>
  Facts on whole requests: how a conversation request decomposes into its lease, the prompt and the record, what it
  leaves behind in the session manager and the file system, and what an unauthenticated one can do.
\<close>

section \<open>Managers that differ in activity hooks\<close>

lemma activity_only_refl [simp]: "activity_only m m"
  by (simp add: activity_only_def)

lemma activity_only_entry:
  assumes "activity_only m m'"
  shows "ms_locked (entry m' d) = ms_locked (entry m d)" "ms_key (entry m' d) = ms_key (entry m d)"
    "entry_complete (entry m' d) = entry_complete (entry m d)" "ms_session (entry m' d) = ms_session (entry m d)"
    "ms_session_id (entry m' d) = ms_session_id (entry m d)" "ms_spec (entry m' d) = ms_spec (entry m d)"
proof -
  obtain a where "entry m' d = (entry m d)\<lparr>ms_activity := a\<rparr>"
    using assms by (auto simp: activity_only_def up_to_hook_def)
  then show "ms_locked (entry m' d) = ms_locked (entry m d)" "ms_key (entry m' d) = ms_key (entry m d)"
    "entry_complete (entry m' d) = entry_complete (entry m d)" "ms_session (entry m' d) = ms_session (entry m d)"
    "ms_session_id (entry m' d) = ms_session_id (entry m d)" "ms_spec (entry m' d) = ms_spec (entry m d)"
    by (simp_all add: entry_complete_def)
qed

lemma activity_only_inv: "activity_only m m' \<Longrightarrow> mgr_inv m \<Longrightarrow> mgr_inv m'"
  using activity_only_entry [of m m']
  by (auto simp: mgr_inv_def mgr_wf_def capacity_ok_def mgr_ready_def activity_only_def)

lemma activity_only_lease: "activity_only m m' \<Longrightarrow> lease_live l m \<Longrightarrow> lease_live l m'"
  using activity_only_entry [of m m'] by (auto simp: lease_live_def activity_only_def split: lease_target.splits)

section \<open>Locks\<close>

text \<open>Whatever is locked now was locked before.\<close>

definition no_new_lock :: "'s manager \<Rightarrow> 's manager \<Rightarrow> bool" where
  "no_new_lock m m' \<longleftrightarrow> mgr_inv m' \<and>
     (\<forall>k d. map_of (m_sessions m') k = Some d \<and> ms_locked (entry m' d) \<longrightarrow>
        map_of (m_sessions m) k = Some d \<and> ms_locked (entry m d))"

lemma no_new_lock_refl: "mgr_inv m \<Longrightarrow> no_new_lock m m"
  by (simp add: no_new_lock_def)

lemma ephemeral_no_new_lock:
  assumes "mgr_inv m" and "Acquire st env werr now hr d [] spec m = (Inr l, m0)" and "activity_only m0 m1"
  shows "no_new_lock m (end_lease st env' later b l m1)"
proof -
  obtain s where l: "l = ephemeral_lease s" and core: "same_core m m0"
    using assms(2) same_core_create [of m env CallNew "env_new env"]
    by (auto simp: Acquire_def split: prod.splits sum.splits)
  have inv: "mgr_inv m1" using activity_only_inv [OF assms(3)] assms(1) mgr_inv_same_core [OF core] by simp
  have m2: "end_lease st env' later b l m1 = log_call (CallClose s) m1"
    using l by (auto simp: end_lease_def Discard_def Release_def finish_lease_def ephemeral_lease_def)
  have "mgr_inv (log_call (CallClose s) m1)" using inv mgr_inv_same_core [OF same_core_log] by blast
  then show ?thesis
    using core activity_only_entry [OF assms(3)] assms(3)
    by (auto simp: no_new_lock_def m2 same_core_def activity_only_def)
qed

text \<open>The manager after \<open>Acquire\<close> and the hooks of a stream, seen from the entry \<open>e\<close> of the lease.\<close>

lemma leased_entry:
  assumes "mgr_inv m" and "key \<noteq> []" and "Acquire st env werr now hr d key spec m = (Inr l, m0)" and "activity_only m0 m1"
  obtains e where "le_target l = EntryLease key e" "\<not> le_done l" "mgr_inv m1" "map_of (m_sessions m1) key = Some e"
    "ms_key (entry m1 e) = key" "ms_spec (entry m1 e) = spec" "entry_complete (entry m1 e)"
    "\<And>k d. map_of (m_sessions m1) k = Some d \<Longrightarrow> d \<noteq> e \<Longrightarrow> ms_locked (entry m1 d) \<Longrightarrow>
       map_of (m_sessions m) k = Some d \<and> ms_locked (entry m d)"
proof -
  note inv0 = Acquire_preserves_inv [OF assms(1,3)]
  obtain e where live: "lease_live l m0" and tgt: "le_target l = EntryLease key e"
    and here: "map_of (m_sessions m0) key = Some e" "ms_spec (entry m0 e) = spec"
    using Acquire_success_outcome [OF assms(1-3)] by blast
  note live1 = activity_only_lease [OF assms(4) live]
  show ?thesis
  proof (rule that [OF tgt])
    show "map_of (m_sessions m) k = Some d \<and> ms_locked (entry m d)"
      if "map_of (m_sessions m1) k = Some d" "d \<noteq> e" "ms_locked (entry m1 d)" for k d
      using Acquire_frame [OF assms(2,3) tgt, of k d] that activity_only_entry(1) [OF assms(4), of d] assms(4)
      by (auto simp: activity_only_def)
    show "\<not> le_done l" "entry_complete (entry m1 e)" "ms_key (entry m1 e) = key"
      using live1 tgt by (auto simp: lease_live_def entry_complete_def)
    show "mgr_inv m1" by (rule activity_only_inv [OF assms(4) inv0])
    show "map_of (m_sessions m1) key = Some e" "ms_spec (entry m1 e) = spec"
      using here activity_only_entry(6) [OF assms(4)] assms(4) by (simp_all add: activity_only_def)
  qed
qed

text \<open>The end of a lease on an entry.\<close>

lemma end_entry_lease:
  assumes "le_target l = EntryLease key e" and "\<not> le_done l"
  shows "end_lease st env later True l m = snd (discard_entry st env key e m)"
    "end_lease st env later False l m = snd (release_entry st later key e m)"
  using assms by (simp_all add: end_lease_def Discard_def Release_def finish_lease_def)

lemma finish_no_new_lock:
  assumes "mgr_inv m" and "Acquire st env werr now True True key spec m = (Inr l, m0)" and "activity_only m0 m1"
  shows "no_new_lock m (end_lease st env' later b l m1)"
proof (cases "key = []")
  case True
  then show ?thesis using ephemeral_no_new_lock [OF assms(1) _ assms(3)] assms(2) by simp
next
  case False
  obtain e where e: "le_target l = EntryLease key e" "\<not> le_done l" "mgr_inv m1" "map_of (m_sessions m1) key = Some e"
    "ms_key (entry m1 e) = key" "entry_complete (entry m1 e)"
    and others: "\<And>k d. map_of (m_sessions m1) k = Some d \<Longrightarrow> d \<noteq> e \<Longrightarrow> ms_locked (entry m1 d) \<Longrightarrow>
       map_of (m_sessions m) k = Some d \<and> ms_locked (entry m d)"
    by (rule leased_entry [OF assms(1) False assms(2,3)]) blast
  show ?thesis
  proof (cases b)
    case True
    obtain er m3 where d: "discard_entry st env' key e m1 = (er, m3)" by fastforce
    have "mgr_inv m3" using discard_entry_inv [OF e(3) _ d] e(5) by blast
    then show ?thesis
      using discard_entry_effect [OF d] others d True unfolding no_new_lock_def
      by (auto simp: end_entry_lease [OF e(1,2)] unmap_entry_sessions split: if_splits)
  next
    case False
    obtain er m3 where d: "release_entry st later key e m1 = (er, m3)" by fastforce
    have "mgr_inv m3" using release_entry_inv [OF e(3) _ d] e(5,6) by simp
    then show ?thesis
      using release_entry_effect [OF d] others d False unfolding no_new_lock_def
      by (auto simp: end_entry_lease [OF e(1,2)])
  qed
qed

section \<open>The parts of a request\<close>

text \<open>What \<open>prepareConversation\<close> has done with the manager.\<close>

lemma prepared_acquire:
  assumes "prepareConversation c g st now later key r m fs = (Inr p, m1, fs1)"
  shows "\<exists>env spec. Acquire st env (ge_wait_err g) now True True key spec m = (Inr (pp_lease p), m1)"
  using assms by (auto simp: prepareConversation_def Let_def split: sum.splits prod.splits if_splits) blast

lemma unprepared:
  assumes "prepareConversation c g st now later key r m fs = (Inl e, m1, fs1)"
  obtains (planning) "m1 = m"
    | (failed) env spec er where "Acquire st env (ge_wait_err g) now True True key spec m = (Inl er, m1)"
    | (released) env spec l m0 where "Acquire st env (ge_wait_err g) now True True key spec m = (Inr l, m0)"
        "m1 = end_lease st env later False l m0"
  using assms unfolding prepareConversation_def Let_def release_lease_def end_lease_def
  by (auto split: sum.splits prod.splits if_splits)

lemma prepared_files:
  assumes "prepareConversation c g st now later key r m fs = (Inr p, m1, fs1)" and "temp_ok fs"
  shows "tf_live (run_cleanup (pp_cleanup p) fs1) = tf_live fs"
proof -
  have "tf_live (run_cleanup cl s') = tf_live fs"
    if "prepare_attachments c' lib w models modelID x images fs = (Inr (as, cl), s')" for c' lib w models modelID x images as cl s'
    using directories_kept [OF assms(2), of c' lib w models modelID x images] that by simp
  then show ?thesis
    using assms(1) by (auto simp: prepareConversation_def Let_def split: sum.splits prod.splits)
qed

lemma classified_type_nonempty: "classifyError e = (status, t, m) \<Longrightarrow> t \<noteq> []"
  unfolding classifyError_def Let_def by (simp split: option.splits if_splits) auto

lemma refuse_record:
  assumes "refuse pt rn i m sid b e s = (r, s')"
  shows "\<exists>status t msg. classifyError e = (status, t, msg) \<and> t \<noteq> [] \<and> r = pt_error pt status t msg \<and>
    s' = s\<lparr>gs_records := gs_records s @ [record_of pt rn i m sid b status t zero_usage]\<rparr>"
  using assms classified_type_nonempty [of e] by (auto simp: refuse_def Record_def split: prod.splits)

lemma refuse_state: "refuse pt rn i m sid b e s = (r, s') \<Longrightarrow>
    gs_manager s' = gs_manager s \<and> gs_files s' = gs_files s \<and> gs_bridges s' = gs_bridges s"
  by (auto simp: refuse_def Record_def split: prod.splits)

lemma finish_state [simp]:
  "gs_manager (finish_conversation g rn b p s) =
     end_lease (gw_store g) (lease_env (ge_runtime (gw_env g))) (rn_release rn) b (pp_lease p) (gs_manager s)"
  "gs_files (finish_conversation g rn b p s) = run_cleanup (pp_cleanup p) (gs_files s)"
  "gs_records (finish_conversation g rn b p s) = gs_records s" "gs_bridges (finish_conversation g rn b p s) = gs_bridges s"
  by (simp_all add: finish_conversation_def Let_def end_lease_def)

lemma Record_state [simp]:
  "gs_manager (Record b r s) = gs_manager s" "gs_files (Record b r s) = gs_files s" "gs_bridges (Record b r s) = gs_bridges s"
  "gs_records (Record True r s) = gs_records s @ [r]"
  by (simp_all add: Record_def)

text \<open>The ways of the first part of a conversation request.\<close>

lemma begin_prepared:
  assumes "begin_conversation g pt rn rq s = (Inr ru, s1)"
  obtains i c m1 m2 fs1 where "AuthenticateRequest (gw_keys g) (rq_headers rq) = Inr i" "rq_method rq = ''POST''"
    "prepareConversation (gw_config g) (gw_env g) (gw_store g) (rn_acquire rn) (rn_release rn)
      (ru_scoped ru) c (gs_manager s) (gs_files s) = (Inr (ru_prepared ru), m1, fs1)"
    "hooked m1 m2" "s1 = s\<lparr>gs_manager := m2, gs_files := fs1\<rparr>" "ru_identity ru = i"
    "ru_key ru = sessionKeyFromRequest (rq_headers rq)" "ru_scoped ru = scopedSessionKey i (ru_key ru)"
proof (cases "rq_method rq = ''POST''")
  case True
  have hook: "hooked m1 m2" if "(if b then SetActivityHook key hook m1 else (None, m1)) = (target, m2)" for b key hook m1 target m2
    using that by (auto split: if_splits intro: hooked_set)
  from assms True that show ?thesis unfolding begin_conversation_def Let_def
    by (auto split: sum.splits option.splits prod.splits dest!: hook)
qed (use assms in \<open>simp add: begin_conversation_def\<close>)

lemma begin_refused:
  assumes "begin_conversation g pt rn rq s = (Inl r, s1)"
  obtains (rejected) "rq_method rq \<noteq> ''POST'' \<or> (\<exists>e. AuthenticateRequest (gw_keys g) (rq_headers rq) = Inl e)" "s1 = s"
    | (refused) i m b e where "AuthenticateRequest (gw_keys g) (rq_headers rq) = Inr i" "rq_method rq = ''POST''"
      "refuse pt rn i m [] b e s = (r, s1)"
    | (unprepared) i m b e c m1 fs1 key where "AuthenticateRequest (gw_keys g) (rq_headers rq) = Inr i" "rq_method rq = ''POST''"
      "prepareConversation (gw_config g) (gw_env g) (gw_store g) (rn_acquire rn) (rn_release rn) key c
        (gs_manager s) (gs_files s) = (Inl e, m1, fs1)"
      "refuse pt rn i m [] b e (s\<lparr>gs_manager := m1, gs_files := fs1\<rparr>) = (r, s1)"
proof (cases "rq_method rq = ''POST''")
  case True
  with assms that show ?thesis unfolding begin_conversation_def Let_def
    by (auto split: sum.splits option.splits prod.splits if_splits)
qed (use assms that(1) in \<open>simp add: begin_conversation_def\<close>)

text \<open>How a prepared conversation ends: with one record, which tells whether the lease was discarded.\<close>

definition conversation_end ::
    "'s gateway \<Rightarrow> request_env \<Rightarrow> prepared_conversation \<Rightarrow> usage_record \<Rightarrow> 's server_state \<Rightarrow> 's server_state \<Rightarrow> bool" where
  "conversation_end g rn p u s s' \<longleftrightarrow>
     gs_records s' = gs_records s @ [u] \<and> gs_files s' = run_cleanup (pp_cleanup p) (gs_files s) \<and>
     gs_bridges s' = gs_bridges s \<and>
     (\<exists>target. gs_manager s' = end_lease (gw_store g) (lease_env (ge_runtime (gw_env g))) (rn_release rn)
        (ur_error_type u \<noteq> []) (pp_lease p) (clear_activity target (gs_manager s)))"

text \<open>The record is that of the request, and has the status of the reply unless a stream has begun.\<close>

definition recorded_as :: "'e protocol \<Rightarrow> request_env \<Rightarrow> identity \<Rightarrow> usage_record \<Rightarrow> bool" where
  "recorded_as pt rn i u \<longleftrightarrow>
     ur_request_id u = rn_id rn \<and> ur_route u = pt_route pt \<and> ur_api_key_label u = id_label i"

lemma no_target [simp]: "clear_activity None m = m"
  by (simp add: clear_activity_def)

lemma streamed_end:
  assumes "serve_stream g pt rn i key target p s = (r, s')"
  shows "\<exists>u. conversation_end g rn p u s s' \<and> recorded_as pt rn i u \<and> re_code r = 200 \<and> ur_streaming u"
proof -
  obtain status etype u w where st: "pt_stream pt (rn_unix rn) (rn_flusher rn) p (pt_prefix pt @ rn_id rn)
      (new_writer (rn_faults rn)) = ((status, etype, u), w)"
    by (metis prod.collapse)
  let ?u = "record_of pt rn i (pp_model p) (le_session_id (pp_lease p)) True status etype u"
  have "r = \<lparr>re_code = 200, re_headers = (if rn_flusher rn then stream_headers key else []), re_body = pt_events pt (wr_events w)\<rparr>"
    "s' = finish_conversation g rn (etype \<noteq> []) p (Record True ?u (s\<lparr>gs_manager := clear_activity target (gs_manager s)\<rparr>))"
    using assms st by (simp_all add: serve_stream_def)
  then show ?thesis
    by (intro exI [of _ ?u]) (auto simp: conversation_end_def record_of_def recorded_as_def)
qed

lemma whole_end:
  assumes "serve_whole g pt rn i key p s = (r, s')"
  shows "\<exists>u. conversation_end g rn p u s s' \<and> recorded_as pt rn i u \<and> \<not> ur_streaming u \<and>
    (re_code r = ur_status_code u \<or> (\<exists>t m. r = pt_error pt (ur_status_code u) t m))"
proof (cases "fst (send_message (gw_sdk g) p None ())")
  case (Inl e)
  obtain r1 s1 where rf: "refuse pt rn i (pp_model p) (le_session_id (pp_lease p)) False e s = (r1, s1)" by fastforce
  with assms Inl have "r = r1" "s' = finish_conversation g rn True p s1" by (simp_all add: serve_whole_def)
  moreover obtain status t msg where c: "t \<noteq> []" "r1 = pt_error pt status t msg"
    "s1 = s\<lparr>gs_records := gs_records s @ [record_of pt rn i (pp_model p) (le_session_id (pp_lease p)) False status t zero_usage]\<rparr>"
    using refuse_record [OF rf] by blast
  ultimately show ?thesis
    by (intro exI [of _ "record_of pt rn i (pp_model p) (le_session_id (pp_lease p)) False status t zero_usage"])
      (auto simp: record_of_def recorded_as_def conversation_end_def intro: exI [of _ None])
next
  case (Inr res)
  let ?u = "record_of pt rn i (pp_model p) (rs_session_id res) False 200 [] (rs_usage res)"
  from assms Inr have "re_code r = 200" "s' = finish_conversation g rn False p (Record True ?u s)"
    by (auto simp: serve_whole_def Let_def writeJSON_def)
  then show ?thesis
    by (intro exI [of _ ?u]) (auto simp: conversation_end_def record_of_def recorded_as_def intro: exI [of _ None])
qed

lemma complete_end:
  assumes "complete_conversation g pt rn ru s = (r, s')"
  obtains u where "conversation_end g rn (ru_prepared ru) u s s'" "recorded_as pt rn (ru_identity ru) u"
    "re_code r = 200 \<and> ur_streaming u \<or> re_code r = ur_status_code u \<or> (\<exists>t m. r = pt_error pt (ur_status_code u) t m)"
  using assms streamed_end whole_end unfolding complete_conversation_def by (metis (no_types, lifting))

text \<open>The four ways of a conversation request.\<close>

lemma conversation_cases:
  assumes "handle_conversation g pt rn rq s = (r, s')"
  obtains (rejected) "rq_method rq \<noteq> ''POST'' \<or> (\<exists>e. AuthenticateRequest (gw_keys g) (rq_headers rq) = Inl e)" "s' = s"
    | (refused) i m b e where "AuthenticateRequest (gw_keys g) (rq_headers rq) = Inr i" "rq_method rq = ''POST''"
      "refuse pt rn i m [] b e s = (r, s')"
    | (unprepared) i m b e c m1 fs1 key where "AuthenticateRequest (gw_keys g) (rq_headers rq) = Inr i" "rq_method rq = ''POST''"
      "prepareConversation (gw_config g) (gw_env g) (gw_store g) (rn_acquire rn) (rn_release rn) key c
        (gs_manager s) (gs_files s) = (Inl e, m1, fs1)"
      "refuse pt rn i m [] b e (s\<lparr>gs_manager := m1, gs_files := fs1\<rparr>) = (r, s')"
    | (served) i p c m1 m2 fs1 u where "AuthenticateRequest (gw_keys g) (rq_headers rq) = Inr i" "rq_method rq = ''POST''"
      "prepareConversation (gw_config g) (gw_env g) (gw_store g) (rn_acquire rn) (rn_release rn)
        (scopedSessionKey i (sessionKeyFromRequest (rq_headers rq))) c (gs_manager s) (gs_files s) = (Inr p, m1, fs1)"
      "hooked m1 m2" "conversation_end g rn p u (s\<lparr>gs_manager := m2, gs_files := fs1\<rparr>) s'" "recorded_as pt rn i u"
      "re_code r = 200 \<and> ur_streaming u \<or> re_code r = ur_status_code u \<or> (\<exists>t m. r = pt_error pt (ur_status_code u) t m)"
proof -
  obtain out s1 where b: "begin_conversation g pt rn rq s = (out, s1)" by fastforce
  show ?thesis
  proof (cases out)
    case (Inl r1)
    with assms b that(1-3) show ?thesis by (auto simp: handle_conversation_def elim!: begin_refused)
  next
    case (Inr ru)
    with assms b have "complete_conversation g pt rn ru s1 = (r, s')" by (simp add: handle_conversation_def)
    then obtain u where u: "conversation_end g rn (ru_prepared ru) u s1 s'" "recorded_as pt rn (ru_identity ru) u"
      "re_code r = 200 \<and> ur_streaming u \<or> re_code r = ur_status_code u \<or> (\<exists>t m. r = pt_error pt (ur_status_code u) t m)"
      by (rule complete_end)
    from b Inr have "begin_conversation g pt rn rq s = (Inr ru, s1)" by simp
    then show ?thesis
      by (rule begin_prepared) (use u that(4) in auto)
  qed
qed

lemma unauthenticated_conversation:
  assumes "AuthenticateRequest (gw_keys g) (rq_headers rq) = Inl e"
  shows "handle_conversation g pt rn rq s =
    (if rq_method rq \<noteq> ''POST'' then method_not_allowed ''POST''
     else pt_error pt 401 ''authentication_error'' ''invalid API key'', s)"
  using assms by (simp add: handle_conversation_def begin_conversation_def)

section \<open>Whole requests\<close>

lemma ended_clean:
  assumes "mgr_inv (gs_manager s)" and "temp_ok (gs_files s)"
    and "prepareConversation (gw_config g) (gw_env g) (gw_store g) (rn_acquire rn) (rn_release rn) key c
      (gs_manager s) (gs_files s) = (Inr p, m1, fs1)"
    and "hooked m1 m2" and "conversation_end g rn p u (s\<lparr>gs_manager := m2, gs_files := fs1\<rparr>) s'"
  shows "no_new_lock (gs_manager s) (gs_manager s') \<and> tf_live (gs_files s') = tf_live (gs_files s)"
proof -
  obtain env spec where acq: "Acquire (gw_store g) env (ge_wait_err (gw_env g)) (rn_acquire rn) True True key spec
      (gs_manager s) = (Inr (pp_lease p), m1)"
    using prepared_acquire [OF assms(3)] by blast
  from finish_no_new_lock [OF assms(1) acq hooked_activity [OF hooked_clear [OF assms(4)]]]
    prepared_files [OF assms(3,2)] assms(5)
  show ?thesis by (auto simp: conversation_end_def)
qed

lemma conversation_clean:
  assumes "mgr_inv (gs_manager s)" and "temp_ok (gs_files s)" and "handle_conversation g pt rn rq s = (r, s')"
  shows "no_new_lock (gs_manager s) (gs_manager s') \<and> tf_live (gs_files s') = tf_live (gs_files s)"
  using assms(3)
proof (cases rule: conversation_cases)
  case rejected
  then show ?thesis using no_new_lock_refl [OF assms(1)] by simp
next
  case (refused i m b e)
  then show ?thesis using no_new_lock_refl [OF assms(1)] refuse_state [OF refused(3)] by simp
next
  case (unprepared i m b e c m1 fs1 key)
  then show ?thesis
    using refused_request_clean [OF assms(1,2) unprepared(3)] refuse_state [OF unprepared(4)]
    unfolding no_new_lock_def by auto
next
  case (served i p c m1 m2 fs1 u)
  then show ?thesis by (intro ended_clean [OF assms(1,2)])
qed

section \<open>A server for the witnesses\<close>

definition demo_server :: "(sdk_event_type \<times> event_data) list \<Rightarrow> file_store gateway" where
  "demo_server evs = \<lparr>gw_config = demo_config, gw_keys = NewStore [\<lparr>ak_label = ''team'', ak_secret = ''s3cret''\<rparr>],
     gw_store = demo_ops, gw_env = demo_gateway, gw_sdk = demo_sdk evs\<rparr>"

definition demo_state :: "file_store server_state" where
  "demo_state = \<lparr>gs_manager = demo_start, gs_files = demo_fs, gs_bridges = (\<lambda>_. None), gs_records = []\<rparr>"

definition demo_request_env :: request_env where
  "demo_request_env = \<lparr>rn_id = ''r1'', rn_unix = 1, rn_acquire = 5, rn_release = 6, rn_duration = 1,
     rn_flusher = True, rn_faults = [], rn_hook = 0\<rparr>"

definition demo_request :: "string \<Rightarrow> doc \<Rightarrow> http_request" where
  "demo_request token d = \<lparr>rq_method = ''POST'',
     rq_headers = (\<lambda>n. if n = ''Authorization'' then ''Bearer '' @ token else if n = ''X-Session-ID'' then ''chat'' else []),
     rq_body = Inr d\<rparr>"

lemma demo_state_ok: "mgr_inv (gs_manager demo_state)" "temp_ok (gs_files demo_state)"
  by (simp_all add: demo_state_def demo_start_inv demo_fs_temp_ok)

section \<open>Properties\<close>

text \<open>Every request, on whatever path, method and body, with whatever failures of the runtime, the store, the file
  system, the network and the connection, leaves the server clean: the manager keeps its invariant, no session is
  locked that was not locked before, and the temporary directories are those there were.\<close>

theorem requests_leave_no_trace:
  assumes "mgr_inv (gs_manager s)" and "temp_ok (gs_files s)" and "serve_http g rn path rq s = Some (r, s')"
  shows "mgr_inv (gs_manager s') \<and> tf_live (gs_files s') = tf_live (gs_files s) \<and>
    (\<forall>k d. map_of (m_sessions (gs_manager s')) k = Some d \<and> ms_locked (entry (gs_manager s') d) \<longrightarrow>
       map_of (m_sessions (gs_manager s)) k = Some d \<and> ms_locked (entry (gs_manager s) d))"
proof -
  have res: "gs_manager s1 = gs_manager s \<and> gs_files s1 = gs_files s" if "handleCopilotResponse g rq s = (x, s1, h)" for x s1 h
    using that unfolding handleCopilotResponse_def Let_def
    by (auto simp: resolve_in_def split: if_splits sum.splits option.splits prod.splits)
  have "no_new_lock (gs_manager s) (gs_manager s') \<and> tf_live (gs_files s') = tf_live (gs_files s)"
    using assms(3) no_new_lock_refl [OF assms(1)]
    by (auto simp: serve_http_def handleOpenAIChatCompletions_def handleClaudeMessages_def
        split: if_splits prod.splits dest: res conversation_clean [OF assms(1,2)])
  then show ?thesis unfolding no_new_lock_def by blast
qed

lemma requests_leave_no_trace_witness:
  "\<exists>r s'. serve_http (demo_server hello) demo_request_env ''/v1/chat/completions'' (demo_request ''s3cret'' demo_chat) demo_state
     = Some (r, s') \<and> mgr_inv (gs_manager s') \<and> tf_live (gs_files s') = [7]"
proof -
  obtain r s' where r: "serve_http (demo_server hello) demo_request_env ''/v1/chat/completions''
      (demo_request ''s3cret'' demo_chat) demo_state = Some (r, s')"
    by (cases "handleOpenAIChatCompletions (demo_server hello) demo_request_env (demo_request ''s3cret'' demo_chat) demo_state")
      (simp add: serve_http_def)
  have "tf_live (gs_files demo_state) = [7]" by (simp add: demo_state_def demo_fs_def)
  with requests_leave_no_trace [OF demo_state_ok r] r show ?thesis by simp
qed


lemma demo_unknown_key: "AuthenticateRequest (gw_keys (demo_server hello)) (rq_headers (demo_request ''guess'' DNull)) =
    Inl (err ErrUnauthorized)"
proof -
  have "extractToken (rq_headers (demo_request ''guess'' DNull)) = ''guess''"
    unfolding demo_request_def by (simp add: extractToken_def) code_simp
  then show ?thesis by (simp add: AuthenticateRequest_def demo_server_def NewStore_def)
qed


end
