(* ===== verification/Request_Facts.thy ===== *)
theory Request_Facts
  imports Handler_Facts
begin

text \<open>
  Facts on the result of a request: the usage record, what becomes of the session after it, and the client's
  answers to pending requests.  What holds of both conversation routes is proved once, in the locale
  \<open>conversation_route\<close>, for every protocol whose error replies carry their status.
\<close>

section \<open>Sessions after a request\<close>

lemma finished_session:
  assumes "mgr_inv m" and "key \<noteq> []" and "Acquire st env werr now True True key spec m = (Inr l, m0)"
    and "activity_only m0 m1" and "m2 = end_lease st env' later b l m1"
  shows "(b \<longrightarrow> map_of (m_sessions m2) key = None) \<and>
    (\<not> b \<longrightarrow> (\<exists>d. map_of (m_sessions m2) key = Some d \<and> \<not> ms_locked (entry m2 d) \<and> entry_complete (entry m2 d) \<and>
       ms_spec (entry m2 d) = spec))"
proof -
  obtain e where e: "le_target l = EntryLease key e" "\<not> le_done l" "map_of (m_sessions m1) key = Some e"
    "ms_spec (entry m1 e) = spec" "entry_complete (entry m1 e)"
    by (rule leased_entry [OF assms(1-4)]) blast
  obtain er m3 where d: "discard_entry st env' key e m1 = (er, m3)" by fastforce
  obtain er' m4 where r: "release_entry st later key e m1 = (er', m4)" by fastforce
  show ?thesis
    using discard_entry_effect [OF d] release_entry_effect [OF r] e(3-5) d r assms(5)
    by (cases b) (auto simp: end_entry_lease [OF e(1,2)] unmap_entry_sessions is_current_def entry_complete_def)
qed

lemma ended_session:
  assumes "mgr_inv (gs_manager s)" and "key \<noteq> []"
    and "prepareConversation (gw_config g) (gw_env g) (gw_store g) (rn_acquire rn) (rn_release rn) key c
      (gs_manager s) (gs_files s) = (Inr p, m1, fs1)"
    and "hooked m1 m2" and "conversation_end g rn p u (s\<lparr>gs_manager := m2, gs_files := fs1\<rparr>) s'"
  shows "(ur_error_type u = [] \<longrightarrow> (\<exists>d. map_of (m_sessions (gs_manager s')) key = Some d \<and>
      \<not> ms_locked (entry (gs_manager s') d) \<and> entry_complete (entry (gs_manager s') d))) \<and>
    (ur_error_type u \<noteq> [] \<longrightarrow> map_of (m_sessions (gs_manager s')) key = None)"
proof -
  obtain env spec where acq: "Acquire (gw_store g) env (ge_wait_err (gw_env g)) (rn_acquire rn) True True key spec
      (gs_manager s) = (Inr (pp_lease p), m1)"
    using prepared_acquire [OF assms(3)] by blast
  obtain target where "gs_manager s' = end_lease (gw_store g) (lease_env (ge_runtime (gw_env g))) (rn_release rn)
      (ur_error_type u \<noteq> []) (pp_lease p) (clear_activity target m2)"
    using assms(5) by (auto simp: conversation_end_def)
  from finished_session [OF assms(1,2) acq hooked_activity [OF hooked_clear [OF assms(4)]] this] show ?thesis by blast
qed

section \<open>The two conversation routes\<close>

locale conversation_route =
  fixes pt :: "'e protocol"
  assumes error_status: "re_code (pt_error pt status t m) = status"
begin

lemma conversation_recorded:
  assumes "handle_conversation g pt rn rq s = (r, s')"
  shows "if rq_method rq = ''POST'' \<and> (\<exists>i. AuthenticateRequest (gw_keys g) (rq_headers rq) = Inr i)
    then \<exists>u i. AuthenticateRequest (gw_keys g) (rq_headers rq) = Inr i \<and> gs_records s' = gs_records s @ [u] \<and>
      ur_request_id u = rn_id rn \<and> ur_route u = pt_route pt \<and> ur_api_key_label u = id_label i \<and>
      (re_code r \<noteq> 200 \<or> \<not> ur_streaming u \<longrightarrow> ur_status_code u = re_code r)
    else s' = s"
  using assms
proof (cases rule: conversation_cases)
  case (refused i m b e)
  with refuse_record [OF refused(3)] show ?thesis by (auto simp: record_of_def error_status)
next
  case (unprepared i m b e c m1 fs1 key)
  with refuse_record [OF unprepared(4)] show ?thesis by (auto simp: record_of_def error_status)
next
  case (served i p c m1 m2 fs1 u)
  then show ?thesis by (auto simp: conversation_end_def recorded_as_def error_status)
qed auto

lemma conversation_outcome:
  assumes "mgr_inv (gs_manager s)" and "handle_conversation g pt rn rq s = (r, s')"
    and "AuthenticateRequest (gw_keys g) (rq_headers rq) = Inr i" and "gs_records s' = gs_records s @ [u]"
    and "key = scopedSessionKey i (sessionKeyFromRequest (rq_headers rq))" and "key \<noteq> []"
  shows "(ur_error_type u = [] \<longrightarrow> (\<exists>d. map_of (m_sessions (gs_manager s')) key = Some d \<and>
      \<not> ms_locked (entry (gs_manager s') d) \<and> entry_complete (entry (gs_manager s') d))) \<and>
    (ur_error_type u \<noteq> [] \<and> ur_session_id u \<noteq> [] \<longrightarrow> map_of (m_sessions (gs_manager s')) key = None)"
  using assms(2)
proof (cases rule: conversation_cases)
  case rejected
  with assms(4) show ?thesis by simp
next
  case (refused i' m b e)
  then show ?thesis using refuse_record [OF refused(3)] assms(4) by (auto simp: record_of_def)
next
  case (unprepared i' m b e c m1 fs1 k)
  then show ?thesis using refuse_record [OF unprepared(4)] assms(4) by (auto simp: record_of_def)
next
  case (served i' p c m1 m2 fs1 u')
  then have "u' = u" using assms(4) by (simp add: conversation_end_def)
  with ended_session [OF assms(1,6) _ served(4,5)] served(1,3) assms(3,5) show ?thesis by auto
qed

end

interpretation openai_route: conversation_route "openai_protocol g" for g
  by unfold_locales (simp add: openai_protocol_def writeOpenAIError_def writeJSON_def)

interpretation claude_route: conversation_route "claude_protocol g" for g
  by unfold_locales (simp add: claude_protocol_def writeClaudeError_def writeJSON_def)

section \<open>Which requests are recorded\<close>

definition conversation_path :: "string \<Rightarrow> bool" where
  "conversation_path path \<longleftrightarrow> path = ''/v1/chat/completions'' \<or> path = ''/v1/messages''"

lemma protocol_routes [simp]:
  "pt_route (openai_protocol g) = ''/v1/chat/completions''" "pt_route (claude_protocol g) = ''/v1/messages''"
  by (simp_all add: openai_protocol_def claude_protocol_def)

lemma continuation_state:
  assumes "handleCopilotResponse g rq s = (r, s', h)"
  shows "gs_manager s' = gs_manager s \<and> gs_files s' = gs_files s \<and> gs_records s' = gs_records s"
  using assms unfolding handleCopilotResponse_def Let_def
  by (auto simp: resolve_in_def split: if_splits sum.splits option.splits prod.splits)

lemmas serve_defs = serve_http_def handleOpenAIChatCompletions_def handleClaudeMessages_def

lemma served_conversation:
  assumes "serve_http g rn path rq s = Some (r, s')"
  obtains (openai) "path = ''/v1/chat/completions''" "handle_conversation g (openai_protocol g) rn rq s = (r, s')"
    | (claude) "path = ''/v1/messages''" "handle_conversation g (claude_protocol g) rn rq s = (r, s')"
    | (other) "\<not> conversation_path path" "gs_records s' = gs_records s" "gs_manager s' = gs_manager s"
  using assms by (auto simp: serve_defs conversation_path_def split: if_splits prod.splits dest: continuation_state)

section \<open>Properties of requests\<close>

text \<open>C34: An authenticated conversation request is recorded exactly once, with the identifier of the request, its route,
  the label of the key it was authenticated with and, unless its stream has begun, the status that the client gets.
  No other request is recorded.\<close>

theorem conversations_recorded_once:
  assumes "serve_http g rn path rq s = Some (r, s')"
  shows "if rq_method rq = ''POST'' \<and> conversation_path path \<and> (\<exists>i. AuthenticateRequest (gw_keys g) (rq_headers rq) = Inr i)
    then \<exists>u i. AuthenticateRequest (gw_keys g) (rq_headers rq) = Inr i \<and> gs_records s' = gs_records s @ [u] \<and>
      ur_request_id u = rn_id rn \<and> ur_route u = path \<and> ur_api_key_label u = id_label i \<and>
      (re_code r \<noteq> 200 \<or> \<not> ur_streaming u \<longrightarrow> ur_status_code u = re_code r)
    else gs_records s' = gs_records s"
  using assms
proof (cases rule: served_conversation)
  case openai
  from openai_route.conversation_recorded [OF openai(2)] openai(1) show ?thesis
    by (auto simp: conversation_path_def split: if_splits)
next
  case claude
  from claude_route.conversation_recorded [OF claude(2)] claude(1) show ?thesis
    by (auto simp: conversation_path_def split: if_splits)
next
  case other
  then show ?thesis by simp
qed

lemma demo_served:
  obtains r s' where "serve_http (demo_server hello) demo_request_env ''/v1/chat/completions''
    (demo_request ''s3cret'' demo_chat) demo_state = Some (r, s')"
  by (cases "handleOpenAIChatCompletions (demo_server hello) demo_request_env (demo_request ''s3cret'' demo_chat) demo_state")
    (simp add: serve_http_def)

definition demo_identity :: identity where
  "demo_identity = \<lparr>id_label = ''team'', id_session_namespace = namespaceForSecret ''s3cret''\<rparr>"

lemma demo_known_key:
  "AuthenticateRequest (gw_keys (demo_server hello)) (rq_headers (demo_request ''s3cret'' d)) = Inr demo_identity"
proof -
  have "extractToken (rq_headers (demo_request ''s3cret'' d)) = ''s3cret''"
    unfolding demo_request_def by (simp add: extractToken_def) code_simp
  then show ?thesis by (simp add: AuthenticateRequest_def demo_server_def NewStore_def demo_identity_def)
qed

lemma conversations_recorded_once_witness:
  "\<exists>r s' u. serve_http (demo_server hello) demo_request_env ''/v1/chat/completions'' (demo_request ''s3cret'' demo_chat)
     demo_state = Some (r, s') \<and> gs_records s' = [u] \<and> ur_api_key_label u = ''team''"
proof -
  obtain r s' where r: "serve_http (demo_server hello) demo_request_env ''/v1/chat/completions''
    (demo_request ''s3cret'' demo_chat) demo_state = Some (r, s')" by (rule demo_served)
  have "conversation_path ''/v1/chat/completions''" "rq_method (demo_request ''s3cret'' demo_chat) = ''POST''"
    "gs_records demo_state = []"
    by (simp_all add: conversation_path_def demo_request_def demo_state_def)
  with conversations_recorded_once [OF r] demo_known_key r show ?thesis by (auto simp: demo_identity_def)
qed


lemma demo_session_key [simp]: "sessionKeyFromRequest (rq_headers (demo_request t d)) = ''chat''"
  unfolding demo_request_def by (simp add: sessionKeyFromRequest_def) code_simp


section \<open>Answers to pending requests\<close>

lemma continuation_answer_usable:
  assumes "continuation_answer rid d = Inr rsp"
  shows "rsp_request_id rsp = rid \<and>
    (case rsp_kind rsp of
       PendingRequestTool \<Rightarrow> (\<exists>t. await_tool_result (Answered rsp) = Inr t) \<or>
         (\<exists>e. \<not> blank e \<and> await_tool_result (Answered rsp) = Inl (errors_new e))
     | PendingRequestUserInput \<Rightarrow> user_input_result (Answered rsp) = Inr (get_string ''answer'' d, get_bool ''was_freeform'' d)
     | PendingRequestPermission \<Rightarrow> \<exists>k. isSupportedPermissionResultKind k \<and>
         permission_result (Answered rsp) = Inr (k, map value_of (get_list ''rules'' d)))"
  using assms unfolding continuation_answer_def Let_def
  by (auto simp: answer_of_def await_tool_result_def user_input_result_def permission_result_def split: if_splits)

lemma accepted_answers_nonempty:
  "parseCopilotContinuationRequest body = Inr rsp \<Longrightarrow> rsp_request_id rsp \<noteq> []"
  using continuation_answer_usable
  by (fastforce simp: parseCopilotContinuationRequest_def Let_def split: sum.splits if_splits)

text \<open>C33: Whatever body the answer of a client has, once the gateway accepts it the handler that waits for it can use
  it: the answer names a request by a trimmed identifier, and the handler of its kind gets a tool result or a non-blank
  tool error, the user's input, or one of the supported permission decisions, never the error of a missing answer.\<close>

theorem accepted_answers_usable:
  assumes "parseCopilotContinuationRequest body = Inr rsp"
  shows "rsp_request_id rsp \<noteq> [] \<and> trim_space (rsp_request_id rsp) = rsp_request_id rsp \<and>
    (case rsp_kind rsp of
       PendingRequestTool \<Rightarrow> (\<exists>t. await_tool_result (Answered rsp) = Inr t) \<or>
         (\<exists>e. \<not> blank e \<and> await_tool_result (Answered rsp) = Inl (errors_new e))
     | PendingRequestUserInput \<Rightarrow> \<exists>a f. user_input_result (Answered rsp) = Inr (a, f)
     | PendingRequestPermission \<Rightarrow> \<exists>k rules. isSupportedPermissionResultKind k \<and>
         permission_result (Answered rsp) = Inr (k, rules))"
proof -
  from assms obtain d where d: "trim_space (get_string ''request_id'' d) \<noteq> []"
    "continuation_answer (trim_space (get_string ''request_id'' d)) d = Inr rsp"
    by (auto simp: parseCopilotContinuationRequest_def Let_def split: sum.splits if_splits)
  with continuation_answer_usable [OF d(2)] show ?thesis by (auto split: pending_kind.splits)
qed

definition demo_answer :: "string \<Rightarrow> doc" where
  "demo_answer k = obj [(''request_id'', str '' p1 ''), (''kind'', str k), (''result_type'', str ''approved'')]"

definition demo_approval :: pending_response where
  "demo_approval = (answer_of ''p1'' PendingRequestPermission)\<lparr>rsp_permission :=
     Some \<lparr>pm_result_kind = ''approved'', pm_rules = []\<rparr>\<rparr>"

lemma demo_answer_parsed: "parseCopilotContinuationRequest (Inr (demo_answer ''permission_result'')) = Inr demo_approval"
  by code_simp

lemma accepted_answers_usable_witness:
  "\<exists>k rules. isSupportedPermissionResultKind k \<and> permission_result (Answered demo_approval) = Inr (k, rules)"
  using accepted_answers_usable [OF demo_answer_parsed] by (simp add: demo_approval_def answer_of_def)

lemma error_bodies [simp]:
  "re_body (writeOpenAIError c t m) = OpenAIError t m" "re_body (method_not_allowed v) = TextBody ''method not allowed''"
  "re_body (writeJSON c x) = x"
  by (simp_all add: writeOpenAIError_def writeJSON_def method_not_allowed_def)

lemma error_reply_not_accepted [simp]: "re_body (error_reply e) \<noteq> ContinuationBody x"
  by (simp add: error_reply_def split: prod.splits)

lemma resolve_accepted:
  assumes "resolve rsp b = (None, b1)"
  shows "\<exists>p. map_of (br_pending b) (trim_space (rsp_request_id rsp)) = Some p \<and>
    pr_kind (pd_request (br_heap b p)) = rsp_kind rsp \<and> pd_chan (br_heap b p) = None \<and>
    b1 = update_pending p (\<lambda>x. x\<lparr>pd_chan := Some (Answered rsp)\<rparr>) b"
  using assms
  by (auto simp: resolve_def resolve_lookup_def resolve_send_def try_send_def Let_def split: if_splits option.splits)

lemma resolve_refused: "resolve rsp b = (Some e, b1) \<Longrightarrow> b1 = b"
  by (auto simp: resolve_def resolve_lookup_def resolve_send_def try_send_def Let_def split: if_splits option.splits)

lemma resolve_in_refused: "resolve_in sess rsp s = (Some e, s1) \<Longrightarrow> s1 = s"
  by (auto simp: resolve_in_def fun_upd_idem_iff split: option.splits prod.splits dest: resolve_refused)

lemma parsed_answer_trimmed:
  "parseCopilotContinuationRequest body = Inr rsp \<Longrightarrow> trim_space (rsp_request_id rsp) = rsp_request_id rsp"
  using continuation_answer_usable
  by (fastforce simp: parseCopilotContinuationRequest_def Let_def split: sum.splits if_splits)

text \<open>The chain of the handler up to an accepted answer; every other way out leaves the state.\<close>

lemma continuation_cases:
  assumes "handleCopilotResponse g rq s = (r, s', h)"
  obtains (refused) "\<nexists>x. re_body r = ContinuationBody x" "s' = s"
    | (accepted) i sess rsp where "AuthenticateRequest (gw_keys g) (rq_headers rq) = Inr i"
      "Lookup (scopedSessionKey i (sessionKeyFromRequest (rq_headers rq))) (gs_manager s) = Some sess"
      "parseCopilotContinuationRequest (rq_body rq) = Inr rsp" "resolve_in sess rsp s = (None, s')"
      "re_body r = ContinuationBody (rsp_request_id rsp)"
  using assms unfolding handleCopilotResponse_def Let_def
  by (auto split: if_splits sum.splits option.splits prod.splits dest: resolve_in_refused)

text \<open>C10: An answer reaches one pending request or nothing at all.  It is accepted exactly when the caller's key is
  known, its session is mapped under the caller's own scope and the bridge of that very session has a pending request
  of the same identifier and kind whose channel is empty; then the answer is put there.  In every other case the
  state of the server is as it was, and never does an answer touch a session, a file or a record.\<close>

theorem answer_reaches_own_request:
  assumes "handleCopilotResponse g rq s = (r, s', h)"
  shows "if \<exists>x. re_body r = ContinuationBody x
    then \<exists>i sess b rsp p. AuthenticateRequest (gw_keys g) (rq_headers rq) = Inr i \<and>
      Lookup (scopedSessionKey i (sessionKeyFromRequest (rq_headers rq))) (gs_manager s) = Some sess \<and>
      parseCopilotContinuationRequest (rq_body rq) = Inr rsp \<and> gs_bridges s (rs_handle sess) = Some b \<and>
      map_of (br_pending b) (rsp_request_id rsp) = Some p \<and> pr_kind (pd_request (br_heap b p)) = rsp_kind rsp \<and>
      pd_chan (br_heap b p) = None \<and> re_body r = ContinuationBody (rsp_request_id rsp) \<and>
      s' = s\<lparr>gs_bridges := (gs_bridges s)(rs_handle sess :=
        Some (update_pending p (\<lambda>x. x\<lparr>pd_chan := Some (Answered rsp)\<rparr>) b))\<rparr>
    else s' = s"
  using assms
proof (cases rule: continuation_cases)
  case refused
  then show ?thesis by simp
next
  case (accepted i sess rsp)
  obtain b b1 where b: "gs_bridges s (rs_handle sess) = Some b" "resolve rsp b = (None, b1)"
    "s' = s\<lparr>gs_bridges := (gs_bridges s)(rs_handle sess := Some b1)\<rparr>"
    using accepted(4) by (auto simp: resolve_in_def split: option.splits prod.splits)
  from resolve_accepted [OF b(2)] parsed_answer_trimmed [OF accepted(3)] accepted b(1,3) show ?thesis
    by simp blast
qed

text \<open>A running prompt of the caller that has asked for a permission.\<close>

definition demo_bridge :: bridge where
  "demo_bridge = registerPermissionRequest (demo_event ''p1'' ''c1'') newInteractiveBridge"

definition demo_asking :: "file_store server_state" where
  "demo_asking = \<lparr>gs_manager = demo_start\<lparr>m_sessions := [(scopedSessionKey demo_identity ''chat'', 0)], m_entries := entries0, m_next := 1\<rparr>,
     gs_files = demo_fs, gs_bridges = (\<lambda>_. Some demo_bridge), gs_records = []\<rparr>"

lemma demo_asking_session:
  "Lookup (scopedSessionKey demo_identity ''chat'') (gs_manager demo_asking) = Some \<lparr>rs_handle = 0, rs_id = ''s1''\<rparr>"
proof -
  let ?k = "scopedSessionKey demo_identity ''chat''" and ?P = "\<lambda>c. list_all (\<lambda>w. c \<notin> set w) space_runes"
  have hex: "list_all ?P ''0123456789abcdef''" and rest: "list_all ?P '':chat''" by code_simp+
  have ns: "list_all ?P (namespaceForSecret ''s3cret'')"
    using hex hex_encode_chars [of "take 8 (sha256 ''s3cret'')"]
    unfolding namespaceForSecret_def list_all_iff by (meson subsetD)
  have k: "?k = namespaceForSecret ''s3cret'' @ '':chat''" by (simp add: scopedSessionKey_def demo_identity_def)
  have "list_all ?P ?k" unfolding k list_all_append using ns rest by (rule conjI)
  then have "set ?k \<inter> space_bytes = {}"
    unfolding space_bytes_def list_all_iff by blast
  then have "\<not> blank ?k" using trim_space_no_space [of ?k] by (simp add: scopedSessionKey_def)
  then show ?thesis by (simp add: Lookup_def demo_asking_def demo_entry_def)
qed

lemma demo_bridge_pending:
  "map_of (br_pending demo_bridge) ''p1'' = Some 0" "pr_kind (pd_request (br_heap demo_bridge 0)) = PendingRequestPermission"
  "pd_chan (br_heap demo_bridge 0) = None"
  by (simp_all add: demo_bridge_def registerPermissionRequest_def demo_event_def empty_data_def deref_def
      newInteractiveBridge_def add_pending_def hasOutstandingKindLocked_def try_send_def put_def Let_def)

lemma demo_asking_reply:
  assumes "resolve rsp demo_bridge = (e, b1)" and "parseCopilotContinuationRequest (Inr d) = Inr rsp"
  shows "\<exists>s' h. handleCopilotResponse (demo_server hello) (demo_request ''s3cret'' d) demo_asking =
    (case e of None \<Rightarrow> writeJSON 200 (ContinuationBody (rsp_request_id rsp)) | Some x \<Rightarrow> error_reply x, s', h)"
proof -
  have "rq_method (demo_request ''s3cret'' d) = ''POST''" "rq_body (demo_request ''s3cret'' d) = Inr d"
    by (simp_all add: demo_request_def)
  moreover have "validateSessionKey ''chat'' = None" by code_simp
  moreover have "gs_bridges demo_asking n = Some demo_bridge" for n by (simp add: demo_asking_def)
  ultimately show ?thesis
    using assms demo_known_key [of d] demo_asking_session
    by (simp add: handleCopilotResponse_def resolve_in_def split: option.splits)
qed

lemma trim_p1: "trim_space ''p1'' = ''p1''"
  by code_simp

lemma answer_reaches_own_request_witness:
  "\<exists>r s' h. handleCopilotResponse (demo_server hello) (demo_request ''s3cret'' (demo_answer ''permission_result''))
     demo_asking = (r, s', h) \<and> re_body r = ContinuationBody ''p1'' \<and> gs_bridges s' 0 \<noteq> gs_bridges demo_asking 0"
proof -
  obtain b1 where b1: "resolve demo_approval demo_bridge = (None, b1)"
    using demo_bridge_pending
    by (auto simp: resolve_def resolve_lookup_def resolve_send_def try_send_def demo_approval_def answer_of_def Let_def
        trim_p1)
  obtain s' h where r: "handleCopilotResponse (demo_server hello) (demo_request ''s3cret'' (demo_answer ''permission_result''))
     demo_asking = (writeJSON 200 (ContinuationBody ''p1''), s', h)"
    using demo_asking_reply [OF b1 demo_answer_parsed] by (auto simp: demo_approval_def answer_of_def)
  have "gs_bridges demo_asking n = Some demo_bridge" for n by (simp add: demo_asking_def)
  moreover obtain sess b rsp p where "gs_bridges demo_asking (rs_handle sess) = Some b"
    "Lookup (scopedSessionKey demo_identity ''chat'') (gs_manager demo_asking) = Some sess"
    "pd_chan (br_heap b p) = None" "s' = demo_asking\<lparr>gs_bridges := (gs_bridges demo_asking)(rs_handle sess :=
        Some (update_pending p (\<lambda>x. x\<lparr>pd_chan := Some (Answered rsp)\<rparr>) b))\<rparr>"
    using answer_reaches_own_request [OF r] demo_known_key by (auto split: if_splits)
  ultimately have n: "gs_bridges demo_asking 0 = Some demo_bridge" "pd_chan (br_heap demo_bridge p) = None"
    "gs_bridges s' 0 = Some (update_pending p (\<lambda>x. x\<lparr>pd_chan := Some (Answered rsp)\<rparr>) demo_bridge)"
    using demo_asking_session by auto
  have "pd_chan (br_heap (update_pending p (\<lambda>x. x\<lparr>pd_chan := Some (Answered rsp)\<rparr>) demo_bridge) p) = Some (Answered rsp)"
    by (simp add: update_pending_def)
  with n have "gs_bridges s' 0 \<noteq> gs_bridges demo_asking 0" by (metis option.distinct(1) option.inject)
  with r show ?thesis by simp
qed

text \<open>An answer that the bridge rejects, because the pending request is of another kind or has been answered
  already, is the client's mistake, but it is reported as a failure of the upstream: status 502 with the type
  \<open>upstream_error\<close>, as for every error that \<open>classifyError\<close> does not know.\<close>

theorem rejected_answer_is_bad_gateway:
  assumes "rq_method rq = ''POST''" and "AuthenticateRequest (gw_keys g) (rq_headers rq) = Inr i"
    and "validateSessionKey (sessionKeyFromRequest (rq_headers rq)) = None"
    and "Lookup (scopedSessionKey i (sessionKeyFromRequest (rq_headers rq))) (gs_manager s) = Some sess"
    and "parseCopilotContinuationRequest (rq_body rq) = Inr rsp" and "gs_bridges s (rs_handle sess) = Some b"
    and "map_of (br_pending b) (rsp_request_id rsp) = Some p"
    and "pr_kind (pd_request (br_heap b p)) \<noteq> rsp_kind rsp \<or> pd_chan (br_heap b p) \<noteq> None"
  shows "\<exists>r m. handleCopilotResponse g rq s = (r, s, None) \<and> re_code r = 502 \<and> re_body r = OpenAIError ''upstream_error'' m"
proof -
  obtain m where m: "resolve rsp b = (Some (errors_new m), b)"
    using assms(7,8) parsed_answer_trimmed [OF assms(5)] accepted_answers_nonempty [OF assms(5)]
    by (cases "pd_chan (br_heap b p)"; cases "pr_kind (pd_request (br_heap b p)) = rsp_kind rsp")
      (auto simp: resolve_def resolve_lookup_def resolve_send_def try_send_def Let_def)
  then have "resolve_in sess rsp s = (Some (errors_new m), s)"
    using assms(6) by (simp add: resolve_in_def fun_upd_idem)
  moreover have "classifyError (errors_new m) = (502, ''upstream_error'', err_text (errors_new m))"
    by (simp add: classifyError_def Let_def is_any_def)
  moreover have "sessionKeyFromRequest (rq_headers rq) \<noteq> []"
    using assms(4) by (auto simp: scopedSessionKey_def Lookup_def)
  ultimately show ?thesis
    using assms by (simp add: handleCopilotResponse_def Let_def error_reply_def writeOpenAIError_def writeJSON_def)
qed

definition demo_input :: pending_response where
  "demo_input = (answer_of ''p1'' PendingRequestUserInput)\<lparr>rsp_user_input := Some \<lparr>ui_answer = [], ui_was_freeform = False\<rparr>\<rparr>"

lemma demo_input_parsed: "parseCopilotContinuationRequest (Inr (demo_answer ''user_input'')) = Inr demo_input"
  by code_simp

lemma rejected_answer_is_bad_gateway_witness:
  "\<exists>r. handleCopilotResponse (demo_server hello) (demo_request ''s3cret'' (demo_answer ''user_input'')) demo_asking =
     (r, demo_asking, None) \<and> re_code r = 502"
proof -
  let ?rq = "demo_request ''s3cret'' (demo_answer ''user_input'')"
  have a: "rq_method ?rq = ''POST''" "rq_body ?rq = Inr (demo_answer ''user_input'')" by (simp_all add: demo_request_def)
  have k: "validateSessionKey (sessionKeyFromRequest (rq_headers ?rq)) = None" by simp code_simp
  have l: "Lookup (scopedSessionKey demo_identity (sessionKeyFromRequest (rq_headers ?rq))) (gs_manager demo_asking) =
      Some \<lparr>rs_handle = 0, rs_id = ''s1''\<rparr>"
    using demo_asking_session by simp
  have p: "parseCopilotContinuationRequest (rq_body ?rq) = Inr demo_input" using a demo_input_parsed by simp
  have b: "gs_bridges demo_asking (rs_handle \<lparr>rs_handle = 0, rs_id = ''s1''\<rparr>) = Some demo_bridge"
    by (simp add: demo_asking_def)
  have m: "map_of (br_pending demo_bridge) (rsp_request_id demo_input) = Some 0"
    "pr_kind (pd_request (br_heap demo_bridge 0)) \<noteq> rsp_kind demo_input"
    using demo_bridge_pending by (simp_all add: demo_input_def answer_of_def)
  from rejected_answer_is_bad_gateway [OF a(1) demo_known_key k l p b m(1) disjI1 [OF m(2)]] show ?thesis by blast
qed

end
