(* ===== verification/Process_Facts.thy ===== *)
theory Process_Facts
  imports Gateway_Main Request_Facts
begin

text \<open>
  Facts on the whole process: an invariant of every run of the gateway, how long an idle session is kept, and what
  a shutdown leaves for the next start.
\<close>

section \<open>The settings of the manager\<close>

definition limits_of :: "'s manager \<Rightarrow> int \<times> int \<times> int" where
  "limits_of m = (m_ttl m, m_max_active_sessions m, m_max_active_per_namespace m)"

named_theorems keeps_limits "operations that keep the settings"

lemma limits_same_core: "same_core m m' \<Longrightarrow> limits_of m' = limits_of m"
  by (simp add: same_core_def limits_of_def)

lemma limits_updates [simp]:
  "limits_of (update_entry e f m) = limits_of m" "limits_of (log_call c m) = limits_of m"
  "limits_of (lock_entry e m) = limits_of m" "limits_of (unlock_entry e m) = limits_of m"
  "limits_of (touch now e m) = limits_of m" "limits_of (mark_ready e m) = limits_of m"
  "limits_of (unmap_entry key e m) = limits_of m" "limits_of (cleanup_entry key e m) = limits_of m"
  "limits_of (fill_entry now e p sess m) = limits_of m"
  by (simp_all add: limits_of_def update_entry_def log_call_def lock_entry_def unlock_entry_def touch_def mark_ready_def
      unmap_entry_def cleanup_entry_def fill_entry_def Let_def)

lemma limits_save [keeps_limits]: "store_save st key r m = (x, m') \<Longrightarrow> limits_of m' = limits_of m"
  by (metis limits_same_core same_core_save snd_conv)

lemma limits_persisted [keeps_limits]: "acquire_persisted st env now d key spec m = (x, m') \<Longrightarrow> limits_of m' = limits_of m"
  by (metis limits_same_core same_core_persisted snd_conv)

lemma limits_session [keeps_limits]: "acquire_session st env hr key p m = (x, m') \<Longrightarrow> limits_of m' = limits_of m"
  by (metis limits_same_core same_core_session snd_conv)

lemma limits_create_session [keeps_limits]: "createSessionWithContext env c a m = (x, m') \<Longrightarrow> limits_of m' = limits_of m"
  by (metis limits_same_core same_core_create snd_conv)

lemma limits_enter [keeps_limits]: "acquire_enter d key spec m = (x, m') \<Longrightarrow> limits_of m' = limits_of m"
  by (auto simp: acquire_enter_def limits_of_def Let_def split: option.splits if_splits)

lemma limits_recheck [keeps_limits]: "acquire_recheck now key e m = (x, m') \<Longrightarrow> limits_of m' = limits_of m"
  by (auto simp: acquire_recheck_def split: if_splits)

lemma limits_finish [keeps_limits]:
  "acquire_finish st env now key e sess c p m = (x, m') \<Longrightarrow> limits_of m' = limits_of m"
  by (auto simp: acquire_finish_def Let_def split: prod.splits option.splits dest!: limits_save)

lemma limits_create [keeps_limits]:
  "acquire_create st env now hr d key spec e m = (x, m') \<Longrightarrow> limits_of m' = limits_of m"
  by (auto simp: acquire_create_def split: prod.splits sum.splits dest!: keeps_limits)

lemma limits_Acquire [keeps_limits]: "Acquire st env werr now hr d key spec m = (r, m') \<Longrightarrow> limits_of m' = limits_of m"
  by (auto simp: Acquire_def Let_def split: if_splits prod.splits sum.splits enter_outcome.splits option.splits
      dest!: keeps_limits)

lemma limits_release_entry: "limits_of (snd (release_entry st now key e m)) = limits_of m"
  using release_entry_effect [of st now key e m] by (cases "release_entry st now key e m") (simp add: limits_of_def)

lemma limits_discard_entry: "limits_of (snd (discard_entry st env key e m)) = limits_of m"
  using discard_entry_effect [of st env key e m] by (cases "discard_entry st env key e m") (simp add: limits_of_def)

lemma limits_lease [simp]:
  "limits_of (snd (snd (Release st env now l m))) = limits_of m" "limits_of (snd (snd (Discard st env l m))) = limits_of m"
  by (simp_all add: Release_def Discard_def finish_lease_def limits_release_entry limits_discard_entry
      split: lease_target.splits)

lemma limits_prepare [keeps_limits]:
  "prepareConversation c g st now later key r m fs = (x, m', fs') \<Longrightarrow> limits_of m' = limits_of m"
  by (auto simp: prepareConversation_def Let_def release_lease_def split: sum.splits prod.splits if_splits
      dest!: limits_Acquire)

section \<open>Directory numbers only grow\<close>

lemma next_mkdir: "MkdirTemp s = (r, s') \<Longrightarrow> tf_next s \<le> tf_next s'"
  by (auto simp: MkdirTemp_def split: prod.splits option.splits dest!: os_call_frame)

lemma next_remove [simp]: "tf_next (RemoveAll d s) = tf_next s" "tf_next (drop_dir dir s) = tf_next s"
  by (simp_all add: RemoveAll_def drop_dir_def split: option.splits)

lemma next_cleanup [simp]: "tf_next (run_cleanup ds s) = tf_next s"
  by (induction ds arbitrary: s) (simp_all add: run_cleanup_def)

lemma next_images: "materialize_images c lib w imgs dir acc s = (r, s') \<Longrightarrow> tf_next s \<le> tf_next s'"
proof (induction imgs arbitrary: dir acc s)
  case (Cons img rest)
  have dir: "tf_next s \<le> tf_next s1"
    if "(case dir of Some d \<Rightarrow> (Inr d, s) | None \<Rightarrow> MkdirTemp s) = (x, s1)" for x s1
    using that by (auto split: option.splits dest: next_mkdir)
  have wr: "tf_next s2 = tf_next s1" if "writeAttachmentFile lib d n m data s1 = (x, s2)" for d n m data s1 x s2
    using write_frame [OF that] by simp
  show ?case
    using Cons.prems
    by (auto simp del: split_paired_All split: sum.splits prod.splits if_splits dest!: Cons.IH wr dir)
qed simp

lemma next_files: "materialize_files c lib w d xs acc s = (r, s') \<Longrightarrow> tf_next s' = tf_next s"
  by (induction xs arbitrary: acc s) (auto split: sum.splits prod.splits dest!: file_frame)

lemma next_prepare:
  assumes "prepareConversation c g st now later key r m fs = (x, m', fs')"
  shows "tf_next fs \<le> tf_next fs'"
proof -
  have a: "tf_next s \<le> tf_next s'" if "materializeAttachments c' lib w imgs s = (y, s')" for c' lib w imgs s y s'
    using that next_images by (auto simp: materializeAttachments_def split: if_splits)
  have b: "tf_next s \<le> tf_next s'" if "materializeCopilotAttachments c' lib w xs s = (y, s')" for c' lib w xs s y s'
    using that by (auto simp: materializeCopilotAttachments_def split: if_splits prod.splits sum.splits
        dest!: next_mkdir next_files)
  have "tf_next s \<le> tf_next s'" if "prepare_attachments c' lib w ms mid e imgs s = (y, s')" for c' lib w ms mid e imgs s y s'
    using that by (auto simp: prepare_attachments_def remove_dir_def Let_def split: prod.splits sum.splits option.splits
        dest!: a b)
  with assms show ?thesis
    by (auto simp: prepareConversation_def Let_def split: sum.splits prod.splits)
qed

section \<open>A served request\<close>

lemma limits_hook [simp]: "limits_of (clear_activity target m) = limits_of m"
  by (simp add: clear_activity_def limits_of_def split: option.splits)

lemma limits_hooked: "hooked m m' \<Longrightarrow> limits_of m' = limits_of m"
  by (induction rule: hooked.induct)
    (auto simp: SetActivityHook_def limits_of_def split: if_splits option.splits simp flip: limits_of_def)

lemma limits_end_lease [simp]: "limits_of (end_lease st env now b l m) = limits_of m"
  by (simp add: end_lease_def)

lemma conversation_keeps:
  assumes "handle_conversation g pt rn rq s = (r, s')"
  shows "limits_of (gs_manager s') = limits_of (gs_manager s) \<and> tf_next (gs_files s) \<le> tf_next (gs_files s')"
  using assms
proof (cases rule: conversation_cases)
  case (refused i m b e)
  then show ?thesis using refuse_state [OF refused(3)] by simp
next
  case (unprepared i m b e c m1 fs1 key)
  then show ?thesis
    using refuse_state [OF unprepared(4)] limits_prepare [OF unprepared(3)] next_prepare [OF unprepared(3)] by simp
next
  case (served i p c m1 m2 fs1 u)
  then show ?thesis
    using limits_hooked [OF served(4)] limits_prepare [OF served(3)] next_prepare [OF served(3)]
    by (auto simp: conversation_end_def)
qed simp

lemma served_clean:
  assumes "mgr_inv (gs_manager s)" and "temp_ok (gs_files s)" and "serve_http g rn path rq s = Some (r, s')"
  shows "no_new_lock (gs_manager s) (gs_manager s') \<and> tf_live (gs_files s') = tf_live (gs_files s) \<and>
    temp_ok (gs_files s') \<and> limits_of (gs_manager s') = limits_of (gs_manager s)"
proof -
  have "no_new_lock (gs_manager s) (gs_manager s') \<and> tf_live (gs_files s') = tf_live (gs_files s) \<and>
      limits_of (gs_manager s') = limits_of (gs_manager s) \<and> tf_next (gs_files s) \<le> tf_next (gs_files s')"
    using assms(3) no_new_lock_refl [OF assms(1)]
    by (auto simp: serve_defs split: if_splits prod.splits dest: conversation_clean [OF assms(1,2)] conversation_keeps
        dest!: continuation_state)
  with assms(2) show ?thesis by (auto simp: temp_ok_def list_all_iff)
qed

section \<open>A running gateway\<close>

definition gateway_inv :: "config \<Rightarrow> temp_fs \<Rightarrow> 's server_state \<Rightarrow> bool" where
  "gateway_inv c fs s \<longleftrightarrow>
     mgr_inv (gs_manager s) \<and> temp_ok (gs_files s) \<and> tf_live (gs_files s) = tf_live fs \<and>
     limits_of (gs_manager s) = (cf_session_ttl c, cf_max_active_sessions c, cf_max_sessions_per_key c) \<and>
     (\<forall>k d. map_of (m_sessions (gs_manager s)) k = Some d \<longrightarrow> \<not> ms_locked (entry (gs_manager s) d))"

lemma gateway_inv_start: "temp_ok fs \<Longrightarrow> gateway_inv c fs (new_state c store fs)"
  by (simp add: gateway_inv_def new_state_def mgr_inv_NewManagerWithStore limits_of_def)
    (simp add: NewManagerWithStore_def limits_of_config_def)

lemma swept_inv:
  assumes "mgr_inv m" and "CleanupExpired st env now m = (er, m')"
  shows "mgr_inv m' \<and> limits_of m' = limits_of m \<and>
    (\<forall>k d. map_of (m_sessions m') k = Some d \<longrightarrow> map_of (m_sessions m) k = Some d \<and> entry m' d = entry m d)"
proof (cases "0 < m_ttl m")
  case False
  with assms show ?thesis by (simp add: CleanupExpired_def)
next
  case True
  have wf: "mgr_wf m" using assms(1) by (simp add: mgr_inv_def)
  note eff = CleanupExpired_effect [OF wf True assms(2)]
  have inv: "mgr_inv m'" by (rule CleanupExpired_preserves_inv [OF assms])
  then have "mgr_wf m'" by (simp add: mgr_inv_def)
  with inv eff wf show ?thesis by (auto simp: limits_of_def mgr_wf_current dest!: map_of_SomeD)
qed

lemma gateway_step_inv: "gateway_inv c fs s \<Longrightarrow> gateway_inv c fs (gateway_step c st ev s)"
proof (cases ev)
  case (Served e d rn path rq)
  assume inv: "gateway_inv c fs s"
  then have "no_new_lock (gs_manager s) (gs_manager s') \<and> tf_live (gs_files s') = tf_live (gs_files s) \<and>
      temp_ok (gs_files s') \<and> limits_of (gs_manager s') = limits_of (gs_manager s)"
    if "serve_http (new_gateway c st e d) rn path rq s = Some (r, s')" for r s'
    using that by (intro served_clean) (simp_all add: gateway_inv_def)
  with inv Served show ?thesis
    by (fastforce simp: gateway_inv_def no_new_lock_def split: option.splits prod.splits)
next
  case (Swept now env)
  assume inv: "gateway_inv c fs s"
  obtain er m' where m': "CleanupExpired st env now (gs_manager s) = (er, m')" by fastforce
  have "mgr_inv (gs_manager s)" using inv by (simp add: gateway_inv_def)
  from swept_inv [OF this m'] inv Swept m' show ?thesis
    by (auto simp: gateway_inv_def runSessionCleanup_def)
qed

lemma gateway_run_inv: "gateway_inv c fs s \<Longrightarrow> gateway_inv c fs (gateway_run c st evs s)"
  by (induction evs arbitrary: s) (simp_all add: gateway_run_def gateway_step_inv)

section \<open>Properties of the process\<close>

text \<open>Whatever requests a gateway serves from its start, whatever the runtime, the store, the network and the disk
  answer, and whenever its ticker fires: between any two events it has no more sessions than configured, in all and
  for one API key, every session in its table is unlocked and complete, and no temporary directory is left behind.\<close>

theorem gateway_stays_sound:
  assumes "temp_ok fs" and "s = gateway_run c st evs (new_state c store fs)"
  shows "(cf_max_active_sessions c > 0 \<longrightarrow> int (length (m_sessions (gs_manager s))) \<le> cf_max_active_sessions c) \<and>
    (cf_max_sessions_per_key c > 0 \<longrightarrow>
       (\<forall>ns. int (active_in_namespace ns (m_sessions (gs_manager s))) \<le> cf_max_sessions_per_key c)) \<and>
    (\<forall>k d. map_of (m_sessions (gs_manager s)) k = Some d \<longrightarrow>
       \<not> ms_locked (entry (gs_manager s) d) \<and> entry_complete (entry (gs_manager s) d)) \<and>
    tf_live (gs_files s) = tf_live fs"
proof -
  have inv: "gateway_inv c fs s" unfolding assms(2) by (rule gateway_run_inv [OF gateway_inv_start [OF assms(1)]])
  then have "map_of (m_sessions (gs_manager s)) k = Some d \<Longrightarrow> entry_complete (entry (gs_manager s) d)" for k d
    by (fastforce simp: gateway_inv_def mgr_inv_def mgr_ready_def dest: map_of_SomeD)
  with inv show ?thesis
    by (auto simp: gateway_inv_def mgr_inv_def capacity_ok_def limits_of_def)
qed

lemma gateway_stays_sound_witness:
  "int (length (m_sessions (gs_manager (gateway_run demo_config demo_ops
     [Served demo_gateway (demo_sdk hello) demo_request_env ''/v1/chat/completions'' (demo_request ''test-key'' demo_chat),
      Swept 7 (demo_env 0)] (new_state demo_config (demo_file []) demo_fs))))) \<le> 256"
proof -
  have "cf_max_active_sessions demo_config = 256" by (simp add: demo_config_def default_config_def)
  with gateway_stays_sound [OF demo_fs_temp_ok refl, of demo_config] show ?thesis by (metis zero_less_numeral)
qed

text \<open>C26: An idle session is collected in time: with a ticker that fires at every multiple of its interval after the
  start, there is a tick less than one interval after the session has been unused for the time to live, and the
  cleanup of that tick takes it out of the table.  The interval is at most half the time to live, or one minute.\<close>

theorem idle_session_collected:
  assumes "mgr_inv m" and "0 < m_ttl m" and "map_of (m_sessions m) key = Some e" and "\<not> ms_locked (entry m e)"
    and "start \<le> ms_last_used (entry m e) + m_ttl m" and "step = cleanup_interval (m_ttl m)"
  shows "step \<le> max minute (m_ttl m div 2) \<and>
    (\<exists>k. let now = start + int k * step in
       ms_last_used (entry m e) + m_ttl m \<le> now \<and> now < ms_last_used (entry m e) + m_ttl m + step \<and>
       map_of (m_sessions (runSessionCleanup st (m_ttl m) [TickerFired now env] m)) key = None)"
proof -
  define due where "due = ms_last_used (entry m e) + m_ttl m"
  define n where "n = (due - start + step - 1) div step"
  have step: "0 < step" "step \<le> max minute (m_ttl m div 2)" using assms(6) by (simp_all add: cleanup_interval_def)
  have "0 \<le> n" unfolding n_def using assms(5) step by (simp add: due_def pos_imp_zdiv_nonneg_iff)
  have "n * step + (due - start + step - 1) mod step = due - start + step - 1"
    unfolding n_def by (rule div_mult_mod_eq)
  moreover have "0 \<le> (due - start + step - 1) mod step" "(due - start + step - 1) mod step < step"
    using step by simp_all
  ultimately have now: "due \<le> start + n * step" "start + n * step < due + step" by linarith+
  define now where "now = start + int (nat n) * step"
  have at: "due \<le> now" "now < due + step" using now \<open>0 \<le> n\<close> by (simp_all add: now_def)
  obtain er m' where m': "CleanupExpired st env now m = (er, m')" by fastforce
  have wf: "mgr_wf m" using assms(1) by (simp add: mgr_inv_def)
  have "stale now m e" using assms(4) at by (simp add: stale_def last_used_at_def due_def)
  then have "map_of (m_sessions m') key = None"
    using CleanupExpired_effect [OF wf assms(2) m'] assms(3) wf
    by (auto simp: mgr_wf_def map_of_eq_None_iff dest!: map_of_SomeD dest: eq_key_imp_eq_value)
  then have "map_of (m_sessions (runSessionCleanup st (m_ttl m) [TickerFired now env] m)) key = None"
    using m' assms(2) by (simp add: runSessionCleanup_def)
  with at step show ?thesis unfolding Let_def due_def [symmetric] now_def by blast
qed

lemma idle_session_collected_witness:
  "\<exists>k. map_of (m_sessions (runSessionCleanup demo_ops 100 [TickerFired (0 + int k * minute) (demo_env 0)] two_sessions))
     demo_key = None"
proof -
  have i: "mgr_inv two_sessions" "0 < m_ttl two_sessions" "map_of (m_sessions two_sessions) demo_key = Some 0"
    "\<not> ms_locked (entry two_sessions 0)" "0 \<le> ms_last_used (entry two_sessions 0) + m_ttl two_sessions"
    "m_ttl two_sessions = 100" "minute = cleanup_interval (m_ttl two_sessions)"
    by (auto simp: two_sessions_def demo_mgr_def mgr_inv_def mgr_wf_def capacity_ok_def mgr_ready_def
        active_in_namespace_def demo_entry_def demo_key_def entry_complete_def sessionNamespace_def cleanup_interval_def)
  from idle_session_collected [OF i(1-5,7), of demo_ops "demo_env 0"] i(6) show ?thesis
    by (auto simp: Let_def)
qed

text \<open>C24: A graceful shutdown keeps the conversations: a session whose lease was released before the shutdown is, when
  the gateway is started again on the same file before the session has expired, resumed at the runtime under its
  identifier and not created anew; the shutdown itself only closes runtime sessions, and leaves no client of the SDK.\<close>

theorem shutdown_keeps_sessions:
  assumes "fs_inv (m_store m)" and "fs_ok (m_store m)"
    and "lease_live l m" and "le_target l = EntryLease key e" and "key \<noteq> []"
    and "Release (Some file_store_ops) env0 now l m = (er, l', m1)"
    and "shutdown (Some file_store_ops) env1 wait_err stopped p m1 = (p2, m2)"
    and "cf_session_ttl c \<le> 0 \<or> later - now < cf_session_ttl c"
    and "specForStorage spec = specForStorage (ms_spec (entry m e))"
    and "env_ctx_err env = None" and "env_resume env (ms_session_id (entry m e)) = Inr s"
  shows "pv_client p2 = None \<and> m_sessions m2 = [] \<and> (\<exists>cs. m_calls m2 = m_calls m1 @ cs \<and> (\<forall>x\<in>set cs. \<exists>y. x = CallClose y)) \<and>
    (\<exists>l3 m3. Acquire (Some file_store_ops) env werr later True dl key spec
        (gs_manager (new_state c (m_store m2) fs)) = (Inr l3, m3) \<and>
      \<not> le_created l3 \<and> le_session l3 = Some s \<and> m_calls m3 = [CallResume (le_session_id l)])"
proof -
  obtain er2 mx where d: "DisconnectContext (Some file_store_ops) env1 wait_err m1 = (er2, mx)" by fastforce
  with assms(7) have p2: "pv_client p2 = None" and m: "m2 = mx"
    by (auto simp: shutdown_def CloseProvider_def Let_def split: if_splits)
  note d = d [folded m]
  have dm: "m_sessions m2 = [] \<and> m_store m2 = m_store m1 \<and> (\<exists>cs. m_calls m2 = m_calls m1 @ cs \<and> (\<forall>x\<in>set cs. \<exists>y. x = CallClose y))"
    using close_all_preserve_store [of "Some file_store_ops" env1 wait_err "map snd (m_sessions m1)" None "m1\<lparr>m_sessions := []\<rparr>" er2 m2]
      close_all_effect [of "Some file_store_ops" env1 wait_err True "map snd (m_sessions m1)" None "m1\<lparr>m_sessions := []\<rparr>" er2 m2] d
    by (simp add: DisconnectContext_def closeContext_def)
  have "\<exists>l3 m3. Acquire (Some file_store_ops) env werr later True dl key spec
      (NewManagerWithStore (cf_session_ttl c) (limits_of_config c) (m_store m1)) = (Inr l3, m3) \<and>
      le_created l3 = False \<and> le_session l3 = Some s \<and> m_calls m3 = [CallResume (le_session_id l)]"
    using fs.release_then_restart [OF assms(1-5) _ assms(8-11), of env0 er l' m1 werr dl "limits_of_config c"] assms(6)
    by simp
  with dm p2 show ?thesis by (simp add: new_state_def)
qed

lemma shutdown_keeps_sessions_witness:
  "\<exists>m2 l3 m3. shutdown demo_ops (demo_env 0) (err ErrCanceled) None \<lparr>pv_options = options_of_config demo_config, pv_client = None\<rparr>
      (snd (snd (Release demo_ops (demo_env 0) 10 demo_lease leased0))) =
      (\<lparr>pv_options = options_of_config demo_config, pv_client = None\<rparr>, m2) \<and>
    Acquire demo_ops (demo_env 9) (err ErrCanceled) 20 True True demo_key demo_spec
      (gs_manager (new_state demo_config (m_store m2) demo_fs)) = (Inr l3, m3) \<and> m_calls m3 = [CallResume ''s1'']"
proof -
  let ?p = "\<lparr>pv_options = options_of_config demo_config, pv_client = None\<rparr>"
  obtain er l' m1 where r: "Release demo_ops (demo_env 0) 10 demo_lease leased0 = (er, l', m1)"
    by (metis prod_cases3)
  obtain p2 m2 where d: "shutdown demo_ops (demo_env 0) (err ErrCanceled) None ?p m1 = (p2, m2)" by fastforce
  have p2: "p2 = ?p" using d by (simp add: shutdown_def CloseProvider_def Let_def split: prod.splits)
  have e: "ms_session_id (entry leased0 0) = ''s1''" "ms_spec (entry leased0 0) = demo_spec"
    "le_session_id demo_lease = ''s1''" "cf_session_ttl demo_config = seconds 900"
    by (simp_all add: leased0_def demo_mgr_def demo_entry_def demo_lease_def newLease_def demo_config_def default_config_def)
  have t: "cf_session_ttl demo_config \<le> 0 \<or> 20 - 10 < cf_session_ttl demo_config" by (simp add: e seconds_def)
  have env: "env_ctx_err (demo_env 9) = None"
    "env_resume (demo_env 9) (ms_session_id (entry leased0 0)) = Inr \<lparr>rs_handle = 9, rs_id = ''s1''\<rparr>"
    by (simp_all add: demo_env_def e)
  from shutdown_keeps_sessions [OF leased0_ok(1-4) demo_key_nonempty r d t _ env, of demo_spec "err ErrCanceled" True demo_fs]
  show ?thesis using r d p2 e by auto
qed

end
