(* ===== verification/Bridge_Wait.thy ===== *)
theory Bridge_Wait
  imports Bridge_Facts
begin

text \<open>
  The waiting side of the bridge (\<open>internal/runtime/copilot.go\<close>): the loops \<open>waitForToolRequest\<close>,
  \<open>waitForUserInputRequest\<close> and \<open>waitForPermissionRequest\<close> with their deadline, and the handlers that the SDK calls,
  from the wait over the receive to the answer.

  \<open>wait_env\<close> is what a loop meets in each of its passes: the error of the context, the operations that other
  goroutines have done on the bridge before the pass takes the mutex, the clock at the check of the deadline, and
  the context's error if it is done during the sleep.  \<open>None\<close> is a loop that has not ended after the given
  passes, or a receive that blocks.
\<close>

section \<open>The loops\<close>

record wait_env =
  we_ctx_err :: "nat \<Rightarrow> go_error option"
  we_others :: "nat \<Rightarrow> bridge_op list"
  we_now :: "nat \<Rightarrow> int"
  we_done :: "nat \<Rightarrow> go_error option"
  we_later :: "bridge_op list"

definition currentContext :: "bridge option \<Rightarrow> nat option" where
  "currentContext b = (case b of None \<Rightarrow> None | Some x \<Rightarrow> br_active_ctx x)"

fun wait_loop ::
    "(bridge \<Rightarrow> poll \<times> bridge) \<Rightarrow> go_error \<Rightarrow> wait_env \<Rightarrow> int \<Rightarrow> nat \<Rightarrow> nat \<Rightarrow> bridge \<Rightarrow>
     ((go_error + nat) \<times> bridge) option" where
  "wait_loop poll timed_out env deadline 0 i b = None"
| "wait_loop poll timed_out env deadline (Suc n) i b =
     (case we_ctx_err env i of
        Some e \<Rightarrow> Some (Inl e, b)
      | None \<Rightarrow>
          (case poll (bridge_run (we_others env i) b) of
             (PollFound p, b1) \<Rightarrow> Some (Inr p, b1)
           | (PollRetry, b1) \<Rightarrow> wait_loop poll timed_out env deadline n (Suc i) b1
           | (PollEmpty, b1) \<Rightarrow>
               (if deadline < we_now env i then Some (Inl timed_out, b1)
                else (case we_done env i of
                        Some e \<Rightarrow> Some (Inl e, b1)
                      | None \<Rightarrow> wait_loop poll timed_out env deadline n (Suc i) b1))))"

text \<open>Five seconds in sleeps of ten milliseconds are at most 502 passes.\<close>

abbreviation wait_passes :: nat where
  "wait_passes \<equiv> 502"

definition wait_deadline :: "int \<Rightarrow> int" where
  "wait_deadline start = start + 5000000000"

definition waitForToolRequest ::
    "string \<Rightarrow> wait_env \<Rightarrow> int \<Rightarrow> bridge \<Rightarrow> ((go_error + nat) \<times> bridge) option" where
  "waitForToolRequest toolCallID env start =
     wait_loop (poll_tool toolCallID) (errors_new (''timed out waiting for tool request '' @ toolCallID)) env
       (wait_deadline start) wait_passes 0"

definition waitForUserInputRequest :: "wait_env \<Rightarrow> int \<Rightarrow> bridge \<Rightarrow> ((go_error + nat) \<times> bridge) option" where
  "waitForUserInputRequest env start =
     wait_loop poll_user_input (errors_new ''timed out waiting for user input request'') env
       (wait_deadline start) wait_passes 0"

definition waitForPermissionRequest :: "wait_env \<Rightarrow> int \<Rightarrow> bridge \<Rightarrow> ((go_error + nat) \<times> bridge) option" where
  "waitForPermissionRequest env start =
     wait_loop poll_permission (errors_new ''timed out waiting for permission request'') env
       (wait_deadline start) wait_passes 0"

section \<open>The handlers\<close>

definition receive_answer ::
    "(resolution \<Rightarrow> go_error + 'a) \<Rightarrow> bridge_op list \<Rightarrow> ((go_error + nat) \<times> bridge) option \<Rightarrow>
     ((go_error + 'a) \<times> bridge) option" where
  "receive_answer result later waited =
     (case waited of
        None \<Rightarrow> None
      | Some (Inl e, b) \<Rightarrow> Some (Inl e, b)
      | Some (Inr p, b) \<Rightarrow>
          (case receive p (bridge_run later b) of
             None \<Rightarrow> None
           | Some (v, b1) \<Rightarrow> Some (result v, b1)))"

definition handlePermission :: "wait_env \<Rightarrow> int \<Rightarrow> bridge \<Rightarrow> ((go_error + string \<times> json list) \<times> bridge) option" where
  "handlePermission env start b =
     receive_answer permission_result (we_later env) (waitForPermissionRequest env start b)"

definition handleUserInput :: "wait_env \<Rightarrow> int \<Rightarrow> bridge \<Rightarrow> ((go_error + string \<times> bool) \<times> bridge) option" where
  "handleUserInput env start b =
     receive_answer user_input_result (we_later env) (waitForUserInputRequest env start b)"

definition awaitToolResult :: "string \<Rightarrow> wait_env \<Rightarrow> int \<Rightarrow> bridge \<Rightarrow> ((go_error + tool_result) \<times> bridge) option" where
  "awaitToolResult toolCallID env start b =
     receive_answer await_tool_result (we_later env) (waitForToolRequest toolCallID env start b)"

section \<open>The loops end\<close>

text \<open>The clock of a loop that sleeps in every pass.\<close>

definition sleeping_clock :: "int \<Rightarrow> wait_env \<Rightarrow> bool" where
  "sleeping_clock start env \<longleftrightarrow> (\<forall>i. start + 10000000 * int i \<le> we_now env i)"

text \<open>
  What the loop needs of the bridge: a poll keeps the invariant, asks for another pass only with a sleep, and what
  it finds is what the handler may take.
\<close>

locale request_source =
  fixes poll :: "bridge \<Rightarrow> poll \<times> bridge" and found :: "bridge \<Rightarrow> nat \<Rightarrow> bool"
  assumes poll_inv: "bridge_inv b \<Longrightarrow> bridge_inv (snd (poll b))"
    and poll_sleeps: "bridge_inv b \<Longrightarrow> fst (poll b) \<noteq> PollRetry"
    and poll_found: "bridge_inv b \<Longrightarrow> fst (poll b) = PollFound p \<Longrightarrow> found (snd (poll b)) p"
begin

lemma pass:
  assumes "bridge_inv b"
  obtains c where "poll (bridge_run ops b) = (PollEmpty, c)" "bridge_inv c"
    | p c where "poll (bridge_run ops b) = (PollFound p, c)" "bridge_inv c" "found c p"
proof -
  note inv = bridge_run_inv [OF assms, of ops]
  obtain r c where "poll (bridge_run ops b) = (r, c)" by fastforce
  with poll_inv [OF inv] poll_sleeps [OF inv] poll_found [OF inv] that show ?thesis by (cases r) auto
qed

lemma wait_loop_ends:
  assumes "sleeping_clock start env" and "bridge_inv b" and "wait_deadline start < start + 10000000 * int (i + n)"
  shows "\<exists>r b'. wait_loop poll e env (wait_deadline start) (Suc n) i b = Some (r, b') \<and> bridge_inv b' \<and>
    (\<forall>p. r = Inr p \<longrightarrow> found b' p)"
  using assms(2,3)
proof (induction n arbitrary: i b)
  case 0
  have "wait_deadline start < we_now env i"
    using assms(1) 0(2) unfolding sleeping_clock_def by (metis add_0_right order_less_le_trans)
  with 0(1) show ?case by (cases rule: pass [OF 0(1), of "we_others env i"]) (auto split: option.splits)
next
  case (Suc n)
  have "wait_deadline start < start + 10000000 * int (Suc i + n)" using Suc.prems(2) by simp
  with Suc.prems(1) Suc.IH [of _ "Suc i"] show ?case
    by (cases rule: pass [OF Suc.prems(1), of "we_others env i"])
      (auto simp del: wait_loop.simps simp: wait_loop.simps(2) [of _ _ _ _ "Suc n"] split: option.splits)
qed

text \<open>What the wait finds, whenever it ends.\<close>

lemma wait_loop_found:
  assumes "wait_loop poll e env deadline n i b = Some (Inr p, b')" and "bridge_inv b"
  shows "found b' p"
  using assms
proof (induction n arbitrary: i b)
  case (Suc n)
  from Suc.prems(1) Suc.IH show ?case
    by (cases rule: pass [OF Suc.prems(2), of "we_others env i"]) (auto split: option.splits if_splits)
qed simp

end

definition of_kind :: "pending_kind \<Rightarrow> bridge \<Rightarrow> nat \<Rightarrow> bool" where
  "of_kind k b p \<longleftrightarrow> pr_kind (pd_request (br_heap b p)) = k \<and> p < br_next b"

interpretation tool_source: request_source "poll_tool call" "\<lambda>_ _. True" for call
  by unfold_locales (use inv_polls in \<open>auto simp: poll_tool_def Let_def split: option.splits\<close>)

interpretation user_input_source: request_source poll_user_input "of_kind PendingRequestUserInput"
proof
  show "bridge_inv (snd (poll_user_input b))" if "bridge_inv b" for b using inv_polls(2) that by blast
  show "fst (poll_user_input b) \<noteq> PollRetry" if "bridge_inv b" for b
    using that by (fastforce simp: bridge_inv_def queue_ok_def poll_user_input_def split: list.splits option.splits)
  show "of_kind PendingRequestUserInput (snd (poll_user_input b)) p"
    if "bridge_inv b" "fst (poll_user_input b) = PollFound p" for b p
    using that inv_pending [OF that(1)]
    by (fastforce simp: bridge_inv_def queue_ok_def poll_user_input_def of_kind_def split: list.splits option.splits)
qed

interpretation permission_source: request_source poll_permission "of_kind PendingRequestPermission"
proof
  show "bridge_inv (snd (poll_permission b))" if "bridge_inv b" for b using inv_polls(3) that by blast
  show "fst (poll_permission b) \<noteq> PollRetry" if "bridge_inv b" for b
    using that by (fastforce simp: bridge_inv_def queue_ok_def poll_permission_def split: list.splits option.splits)
  show "of_kind PendingRequestPermission (snd (poll_permission b)) p"
    if "bridge_inv b" "fst (poll_permission b) = PollFound p" for b p
    using that inv_pending [OF that(1)]
    by (fastforce simp: bridge_inv_def queue_ok_def poll_permission_def of_kind_def split: list.splits option.splits)
qed

section \<open>Where answers come from\<close>

text \<open>Every answer in a channel is one of \<open>R\<close>.\<close>

definition sourced :: "pending_response set \<Rightarrow> bridge \<Rightarrow> bool" where
  "sourced R b \<longleftrightarrow> (\<forall>p r. pd_chan (br_heap b p) = Some (Answered r) \<longrightarrow> r \<in> R)"

definition resolved_in :: "bridge_op list \<Rightarrow> pending_response set" where
  "resolved_in ops = {r. OpResolve r \<in> set ops}"

lemma sourced_heap: "br_heap b' = br_heap b \<Longrightarrow> sourced R b' = sourced R b"
  by (simp add: sourced_def)

lemma sourced_update:
  "sourced R b \<Longrightarrow> (\<And>r. pd_chan (f (br_heap b p)) = Some (Answered r) \<Longrightarrow> r \<in> R) \<Longrightarrow> sourced R (update_pending p f b)"
  by (simp add: sourced_def update_pending_def)

lemma sourced_try_send:
  "sourced R b \<Longrightarrow> (\<And>r. v = Answered r \<Longrightarrow> r \<in> R) \<Longrightarrow> sourced R (snd (try_send p v b))"
  by (auto simp: try_send_def split: option.splits intro!: sourced_update)

lemma sourced_add: "sourced R b \<Longrightarrow> sourced R (add_pending x b)"
  by (simp add: sourced_def add_pending_def)

lemma sourced_send_all: "sourced R b \<Longrightarrow> sourced R (send_all e xs b)"
proof (induction e xs b rule: send_all.induct)
  case (2 e rid p rest b)
  have "sourced R (snd (try_send p (Failed e) b))" using 2(2) by (rule sourced_try_send) simp
  then show ?case by (simp add: Let_def) (rule 2(1), simp_all add: sourced_def)
qed simp

lemma sourced_register:
  assumes "sourced R b"
  shows "sourced R (registerExternalToolRequest d b)" "sourced R (registerUserInputRequest d b)"
    "sourced R (registerPermissionRequest d b)"
proof -
  have upd: "sourced R (update_pending p (\<lambda>x. x\<lparr>pd_request := f x\<rparr>) b)" for p f
    using assms by (intro sourced_update) (auto simp: sourced_def)
  note new = sourced_add [OF assms]
  have send: "sourced R (snd (try_send p (Failed e) c))" if "sourced R c" for p e c
    using that by (rule sourced_try_send) simp
  have queue: "sourced R (c\<lparr>br_user_queue := q\<rparr>) = sourced R c" "sourced R (c\<lparr>br_permission_queue := q\<rparr>) = sourced R c"
    "sourced R (c\<lparr>br_tool_calls := t\<rparr>) = sourced R c" for c q t
    by (simp_all add: sourced_def)
  show "sourced R (registerExternalToolRequest d b)"
    using assms by (auto simp: registerExternalToolRequest_def Let_def queue upd new split: option.splits)
  show "sourced R (registerUserInputRequest d b)"
    using assms by (auto simp: registerUserInputRequest_def Let_def queue upd new send split: option.splits prod.splits)
  show "sourced R (registerPermissionRequest d b)"
    using assms by (auto simp: registerPermissionRequest_def Let_def queue upd new send split: option.splits prod.splits)
qed

lemma polls_heap:
  "br_heap (snd (poll_tool c b)) = br_heap b" "br_next (snd (poll_tool c b)) = br_next b"
  "br_heap (snd (poll_user_input b)) = br_heap b" "br_next (snd (poll_user_input b)) = br_next b"
  "br_heap (snd (poll_permission b)) = br_heap b" "br_next (snd (poll_permission b)) = br_next b"
  by (auto simp: poll_tool_def poll_user_input_def poll_permission_def Let_def split: option.splits list.splits)

lemma forget_heap: "br_heap (forgetRequest i b) = br_heap b \<and> br_next (forgetRequest i b) = br_next b"
proof -
  have trim: "forgetRequest (trim_space i) b = forgetRequest i b" by (simp add: forgetRequest_def)
  consider "trim_space i = []" | "map_of (br_pending b) (trim_space i) = None"
    | p where "map_of (br_pending b) (trim_space i) = Some p" "trim_space i \<noteq> []" by blast
  then show ?thesis
  proof cases
    case 3
    from forget_effect(1,2) [OF this] show ?thesis by (simp add: trim)
  qed (simp_all add: forgetRequest_def Let_def)
qed

lemma sourced_step:
  assumes "sourced R b" and "\<And>r. op = OpResolve r \<Longrightarrow> r \<in> R"
  shows "sourced R (bridge_step op b)"
proof (cases op)
  case (OpResolve r)
  have "sourced R (snd (resolve_send r p b))" for p
  proof (cases "pd_chan (br_heap b p)")
    case None
    have "sourced R (update_pending p (\<lambda>x. x\<lparr>pd_chan := Some (Answered r)\<rparr>) b)"
      using assms OpResolve by (intro sourced_update) auto
    with None show ?thesis by (simp add: resolve_send_def try_send_def)
  qed (use assms(1) in \<open>simp add: resolve_send_def try_send_def\<close>)
  with OpResolve assms(1) show ?thesis by (simp add: resolve_def split: sum.splits)
next
  case (OpForget i)
  then show ?thesis using assms(1) sourced_heap [of "forgetRequest i b" b] by (simp add: forget_heap)
next
  case (OpCancel e)
  then show ?thesis using sourced_send_all [OF assms(1), of e "br_pending b"] by (simp add: cancelAll_def sourced_def)
next
  case (OpContext c)
  then show ?thesis
    using assms(1) by (cases c) (simp_all add: clearActiveContext_def setActiveContext_def sourced_def)
next
  case (OpReceive p)
  then show ?thesis using assms(1) by (auto simp: receive_def sourced_def update_pending_def split: option.splits)
next
  case (OpPollTool c)
  then show ?thesis using assms(1) by (simp add: sourced_def polls_heap)
next
  case OpPollUserInput
  then show ?thesis using assms(1) by (simp add: sourced_def polls_heap)
next
  case OpPollPermission
  then show ?thesis using assms(1) by (simp add: sourced_def polls_heap)
qed (use assms(1) in \<open>simp_all add: sourced_register\<close>)

lemma sourced_run: "sourced R b \<Longrightarrow> resolved_in ops \<subseteq> R \<Longrightarrow> sourced R (bridge_run ops b)"
proof (induction ops arbitrary: b)
  case (Cons op ops)
  have "sourced R (bridge_step op b)" using Cons.prems by (intro sourced_step) (auto simp: resolved_in_def)
  moreover have "resolved_in ops \<subseteq> R" using Cons.prems(2) by (auto simp: resolved_in_def)
  ultimately show ?case using Cons.IH by (simp add: bridge_run_def)
qed (simp add: bridge_run_def)

lemma sourced_init: "sourced R newInteractiveBridge"
  by (simp add: sourced_def newInteractiveBridge_def empty_request_def)

text \<open>All answers given while a handler waits and receives.\<close>

definition resolved_during :: "wait_env \<Rightarrow> pending_response set" where
  "resolved_during env = (\<Union>i. resolved_in (we_others env i)) \<union> resolved_in (we_later env)"

lemma wait_loop_keeps:
  assumes "wait_loop poll e env deadline n i b = Some (x, b')"
    and "bridge_inv b \<and> sourced R b" and "resolved_during env \<subseteq> R"
    and "\<And>c. bridge_inv c \<and> sourced R c \<Longrightarrow> bridge_inv (snd (poll c)) \<and> sourced R (snd (poll c))"
  shows "bridge_inv b' \<and> sourced R b'"
  using assms(1,2)
proof (induction n arbitrary: i b)
  case (Suc n)
  have "resolved_in (we_others env i) \<subseteq> R" using assms(3) by (auto simp: resolved_during_def)
  with Suc.prems(2) have "bridge_inv (bridge_run (we_others env i) b) \<and> sourced R (bridge_run (we_others env i) b)"
    by (simp add: bridge_run_inv sourced_run)
  then have "bridge_inv c \<and> sourced R c" if "poll (bridge_run (we_others env i) b) = (r, c)" for r c
    using assms(4) that by (metis snd_conv)
  with Suc show ?case by (fastforce split: option.splits prod.splits poll.splits if_splits)
qed simp

section \<open>Kinds do not change\<close>

definition kinds_kept :: "bridge \<Rightarrow> bridge \<Rightarrow> bool" where
  "kinds_kept b b' \<longleftrightarrow> br_next b \<le> br_next b' \<and>
     (\<forall>p < br_next b. pr_kind (pd_request (br_heap b' p)) = pr_kind (pd_request (br_heap b p)))"

lemma kinds_refl [simp]: "kinds_kept b b"
  by (simp add: kinds_kept_def)

lemma kinds_trans: "kinds_kept a b \<Longrightarrow> kinds_kept b c \<Longrightarrow> kinds_kept a c"
  by (auto simp: kinds_kept_def)

lemma kinds_update:
  "(\<And>x. pr_kind (pd_request (f x)) = pr_kind (pd_request x)) \<Longrightarrow> kinds_kept b (update_pending p f b)"
  by (simp add: kinds_kept_def update_pending_def)

lemma kinds_try_send: "kinds_kept b (snd (try_send p v b))"
  by (auto simp: try_send_def split: option.splits intro: kinds_update)

lemma kinds_add: "kinds_kept b (add_pending x b)"
  by (simp add: kinds_kept_def add_pending_def)

lemma kinds_send_all: "kinds_kept b (send_all e xs b)"
proof (induction e xs b rule: send_all.induct)
  case (2 e rid p rest b)
  let ?b1 = "snd (try_send p (Failed e) b)"
  have "kinds_kept b (?b1\<lparr>br_pending := del rid (br_pending ?b1)\<rparr>)"
    using kinds_try_send [of b p "Failed e"] by (simp add: kinds_kept_def)
  then show ?case using 2 kinds_trans by (simp add: Let_def)
qed simp

lemma kinds_register:
  "kinds_kept b (registerExternalToolRequest d b)" "kinds_kept b (registerUserInputRequest d b)"
  "kinds_kept b (registerPermissionRequest d b)"
proof -
  have queue: "kinds_kept b (c\<lparr>br_user_queue := q\<rparr>) = kinds_kept b c" "kinds_kept b (c\<lparr>br_permission_queue := q\<rparr>) = kinds_kept b c"
    "kinds_kept b (c\<lparr>br_tool_calls := t\<rparr>) = kinds_kept b c" for c q t
    by (simp_all add: kinds_kept_def)
  have send: "kinds_kept b (snd (try_send p v c))" if "kinds_kept b c" for p v c
    using that kinds_try_send kinds_trans by blast
  show "kinds_kept b (registerExternalToolRequest d b)"
    by (auto simp: registerExternalToolRequest_def Let_def queue kinds_add split: option.splits intro: kinds_update)
  show "kinds_kept b (registerUserInputRequest d b)"
    by (auto simp: registerUserInputRequest_def Let_def queue kinds_add send split: option.splits intro: kinds_update)
  show "kinds_kept b (registerPermissionRequest d b)"
    by (auto simp: registerPermissionRequest_def Let_def queue kinds_add send split: option.splits intro: kinds_update)
qed

lemma kinds_step: "kinds_kept b (bridge_step op b)"
proof (cases op)
  case (OpResolve r)
  have "kinds_kept b (snd (resolve_send r p b))" for p
    using kinds_try_send [of b p "Answered r"] by (auto simp: resolve_send_def split: prod.splits bool.splits)
  with OpResolve show ?thesis by (simp add: resolve_def split: sum.splits)
next
  case (OpForget i)
  with forget_heap show ?thesis by (simp add: kinds_kept_def)
next
  case (OpCancel e)
  then show ?thesis using kinds_send_all [of b e "br_pending b"] by (simp add: cancelAll_def kinds_kept_def)
next
  case (OpContext c)
  then show ?thesis by (cases c) (simp_all add: clearActiveContext_def setActiveContext_def kinds_kept_def)
next
  case (OpReceive p)
  then show ?thesis by (auto simp: receive_def split: option.splits intro: kinds_update)
next
  case (OpPollTool c)
  then show ?thesis by (simp add: kinds_kept_def polls_heap)
next
  case OpPollUserInput
  then show ?thesis by (simp add: kinds_kept_def polls_heap)
next
  case OpPollPermission
  then show ?thesis by (simp add: kinds_kept_def polls_heap)
qed (simp_all add: kinds_register)

lemma kinds_run: "kinds_kept b (bridge_run ops b)"
proof (induction ops arbitrary: b)
  case (Cons op ops)
  then show ?case using kinds_step kinds_trans by (simp add: bridge_run_def) blast
qed (simp add: bridge_run_def)

section \<open>Properties\<close>

text \<open>C36: The wait of a handler for its request ends: whatever other goroutines do on the bridge, on a clock that
  advances by the sleep of each pass the loop returns within 502 passes, with the request, which is of the kind
  that the handler asked for, or with an error.\<close>

theorem waits_end:
  assumes "bridge_inv b" and "sleeping_clock start env"
  shows "waitForToolRequest call env start b \<noteq> None \<and>
    (\<exists>r b'. waitForUserInputRequest env start b = Some (r, b') \<and>
       (\<forall>p. r = Inr p \<longrightarrow> pr_kind (pd_request (br_heap b' p)) = PendingRequestUserInput)) \<and>
    (\<exists>r b'. waitForPermissionRequest env start b = Some (r, b') \<and>
       (\<forall>p. r = Inr p \<longrightarrow> pr_kind (pd_request (br_heap b' p)) = PendingRequestPermission))"
proof -
  have n: "wait_passes = Suc 501" by simp
  have t: "wait_deadline start < start + 10000000 * int (0 + 501)" by (simp add: wait_deadline_def)
  show ?thesis
    using tool_source.wait_loop_ends [OF assms(2,1) t] user_input_source.wait_loop_ends [OF assms(2,1) t]
      permission_source.wait_loop_ends [OF assms(2,1) t]
    unfolding waitForToolRequest_def waitForUserInputRequest_def waitForPermissionRequest_def of_kind_def n by blast
qed

text \<open>A silent environment: nothing happens while the handler waits.\<close>

definition demo_wait :: "bridge_op list \<Rightarrow> wait_env" where
  "demo_wait later = \<lparr>we_ctx_err = (\<lambda>_. None), we_others = (\<lambda>_. []), we_now = (\<lambda>i. 10000000 * int i),
     we_done = (\<lambda>_. None), we_later = later\<rparr>"

lemma waits_end_witness: "\<exists>r b'. waitForPermissionRequest (demo_wait []) 0 newInteractiveBridge = Some (r, b')"
proof -
  have "sleeping_clock 0 (demo_wait [])" by (simp add: sleeping_clock_def demo_wait_def)
  from waits_end [OF bridge_inv_init this] show ?thesis by blast
qed

text \<open>C35: A permission is what a client has decided: when the permission handler returns a decision to the SDK, that
  decision and its rules are the content of an answer that a client has given to a permission request of this very
  bridge, before the handler was called or while it waited; no other event, timeout or cancellation yields one.\<close>

theorem decisions_come_from_clients:
  assumes "b = bridge_run ops newInteractiveBridge" and "handlePermission env start b = Some (Inr (k, rules), b')"
  shows "\<exists>r. r \<in> resolved_in ops \<union> resolved_during env \<and> rsp_kind r = PendingRequestPermission \<and>
    rsp_permission r = Some \<lparr>pm_result_kind = k, pm_rules = rules\<rparr>"
proof -
  let ?R = "resolved_in ops \<union> resolved_during env"
  obtain p b1 v b2 where w: "waitForPermissionRequest env start b = Some (Inr p, b1)"
    and v: "receive p (bridge_run (we_later env) b1) = Some (v, b2)" "permission_result v = Inr (k, rules)"
    using assms(2) by (auto simp: handlePermission_def receive_answer_def split: option.splits sum.splits prod.splits)
  have b: "bridge_inv b \<and> sourced ?R b"
    unfolding assms(1) by (simp add: bridge_run_inv bridge_inv_init sourced_run sourced_init)
  have poll: "bridge_inv (snd (poll_permission c)) \<and> sourced ?R (snd (poll_permission c))"
    if "bridge_inv c \<and> sourced ?R c" for c
    using that inv_polls(3) by (auto simp: poll_permission_def sourced_def split: list.splits option.splits)
  have "bridge_inv b1 \<and> sourced ?R b1"
    by (rule wait_loop_keeps [OF w [unfolded waitForPermissionRequest_def] b _ poll]) auto
  then have c: "bridge_inv (bridge_run (we_later env) b1)" "sourced ?R (bridge_run (we_later env) b1)"
    by (auto simp: bridge_run_inv resolved_during_def intro!: sourced_run)
  from v(2) obtain r where r: "v = Answered r" "rsp_permission r = Some \<lparr>pm_result_kind = k, pm_rules = rules\<rparr>"
    by (auto simp: permission_result_def split: resolution.splits option.splits)
  with v(1) have ch: "pd_chan (br_heap (bridge_run (we_later env) b1) p) = Some (Answered r)"
    by (auto simp: receive_def split: option.splits)
  with c have "r \<in> ?R" "rsp_kind r = pr_kind (pd_request (br_heap (bridge_run (we_later env) b1) p))"
    by (auto simp: sourced_def bridge_inv_def chan_ok_def)
  moreover have "of_kind PendingRequestPermission b1 p"
    using permission_source.wait_loop_found [OF w [unfolded waitForPermissionRequest_def]] b by blast
  with kinds_run [of b1 "we_later env"] have "pr_kind (pd_request (br_heap (bridge_run (we_later env) b1) p)) = PendingRequestPermission"
    by (simp add: kinds_kept_def of_kind_def)
  ultimately show ?thesis using r by auto
qed

text \<open>A permission request that is answered while its handler waits for the answer.\<close>

lemma decisions_come_from_clients_witness:
  "\<exists>b'. handlePermission (demo_wait [OpResolve (demo_grant ''p1'')]) 0
     (bridge_run [OpPermission (demo_event ''p1'' ''c1'')] newInteractiveBridge) = Some (Inr (''approved'', []), b') \<and>
   demo_grant ''p1'' \<in> resolved_during (demo_wait [OpResolve (demo_grant ''p1'')])"
proof -
  let ?b = "bridge_run [OpPermission (demo_event ''p1'' ''c1'')] newInteractiveBridge"
  let ?env = "demo_wait [OpResolve (demo_grant ''p1'')]"
  have "map_option fst (handlePermission ?env 0 ?b) = Some (Inr (''approved'', []))" by code_simp
  then obtain b' where b': "handlePermission ?env 0 ?b = Some (Inr (''approved'', []), b')" by auto
  have "resolved_in [OpPermission (demo_event ''p1'' ''c1'')] = {}" by (simp add: resolved_in_def)
  moreover have "resolved_during ?env = {demo_grant ''p1''}"
    by (simp add: resolved_during_def resolved_in_def demo_wait_def)
  ultimately show ?thesis using decisions_come_from_clients [OF refl b'] b' by auto
qed

end
