(* ===== verification/Live_Facts.thy ===== *)
theory Live_Facts
  imports Gateway_Live Process_Facts Bridge_Wait
begin

text \<open>
  Facts on the gateway with prompts in flight: it refines the concurrent session manager, a prompt in flight has
  its session for itself, what a session's bridge is answered comes from the client that owns the session, and
  one request after the other is the special case in which no two overlap.
\<close>

section \<open>The two parts of a request\<close>

text \<open>What the first part leaves of the lease, the manager and the bridges.\<close>

definition begun :: "'s store_ops option \<Rightarrow> 's server_state \<Rightarrow> running \<Rightarrow> 's server_state \<Rightarrow> bool" where
  "begun st s ru s1 \<longleftrightarrow> gs_bridges s1 = gs_bridges s \<and>
     (\<exists>env werr now spec m1. Acquire st env werr now True True (ru_scoped ru) spec (gs_manager s) =
        (Inr (pp_lease (ru_prepared ru)), m1) \<and> hooked m1 (gs_manager s1))"

lemma begin_conversation_begun:
  assumes "begin_conversation g pt rn rq s = (Inr ru, s1)"
  shows "begun (gw_store g) s ru s1"
  using assms
proof (rule begin_prepared)
  fix i c m1 m2 fs1
  assume p: "prepareConversation (gw_config g) (gw_env g) (gw_store g) (rn_acquire rn) (rn_release rn) (ru_scoped ru) c
      (gs_manager s) (gs_files s) = (Inr (ru_prepared ru), m1, fs1)"
    and h: "hooked m1 m2" "s1 = s\<lparr>gs_manager := m2, gs_files := fs1\<rparr>"
  from prepared_acquire [OF p] h show ?thesis by (auto simp: begun_def) blast
qed

text \<open>What a request that is answered at once may have done to the manager.\<close>

inductive touched :: "'s store_ops option \<Rightarrow> 's manager \<Rightarrow> 's manager \<Rightarrow> bool" for st m where
  touched_not [simp, intro]: "touched st m m"
| touched_failed: "Acquire st env werr now True True key spec m = (Inl er, m') \<Longrightarrow> touched st m m'"
| touched_released: "Acquire st env werr now True True key spec m = (Inr l, m0) \<Longrightarrow>
    touched st m (end_lease st env' later False l m0)"

lemma refused_touched:
  assumes "begin_conversation g pt rn rq s = (Inl r, s1)"
  shows "gs_bridges s1 = gs_bridges s \<and> touched (gw_store g) (gs_manager s) (gs_manager s1)"
  using assms
proof (cases rule: begin_refused)
  case (refused i m b e)
  then show ?thesis using refuse_state [OF refused(3)] by simp
next
  case (unprepared i m b e c m1 fs1 key)
  have s1: "gs_manager s1 = m1" "gs_bridges s1 = gs_bridges s" using refuse_state [OF unprepared(4)] by simp_all
  from unprepared(3) have "touched (gw_store g) (gs_manager s) m1"
    by (cases rule: Handler_Facts.unprepared) (auto intro: touched.intros)
  with s1 show ?thesis by simp
qed simp

lemma touched_schedulable: "touched st m m' \<Longrightarrow> schedulable st m m'"
  by (induction rule: touched.induct) (auto intro: failed_schedulable request_schedulable)

text \<open>The path of the clients' answers is the only one that changes a bridge.\<close>

abbreviation respond_path :: string where
  "respond_path \<equiv> ''/v1/copilot/respond''"

lemma conversation_effect:
  assumes "begin_conversation g pt rn rq s = (x, s1)"
  shows "case x of
      Inl _ \<Rightarrow> touched (gw_store g) (gs_manager s) (gs_manager s1) \<and> gs_bridges s1 = gs_bridges s
    | Inr ru \<Rightarrow> begun (gw_store g) s ru s1"
  using assms refused_touched begin_conversation_begun by (cases x) fastforce+

lemma begin_request_effect:
  assumes "begin_request g rn path rq s = (out, s1)"
  shows "case out of
      Inl _ \<Rightarrow> touched (gw_store g) (gs_manager s) (gs_manager s1) \<and>
        (if path = respond_path then \<exists>r h. handleCopilotResponse g rq s = (r, s1, h) else gs_bridges s1 = gs_bridges s)
    | Inr ru \<Rightarrow> begun (gw_store g) s ru s1"
proof -
  consider "path = respond_path" | "path = ''/v1/chat/completions''" | "path = ''/v1/messages''"
    | "path \<noteq> respond_path" "\<not> conversation_path path"
    by (auto simp: conversation_path_def)
  then show ?thesis
  proof cases
    case 1
    obtain r s' h where c: "handleCopilotResponse g rq s = (r, s', h)" using prod_cases3 by blast
    with assms 1 continuation_state [OF c] show ?thesis by (auto simp: begin_request_def serve_http_def)
  next
    case 2
    with assms conversation_effect [of g "openai_protocol g" rn rq s] show ?thesis
      by (auto simp: begin_request_def split: sum.splits prod.splits)
  next
    case 3
    with assms conversation_effect [of g "claude_protocol g" rn rq s] show ?thesis
      by (auto simp: begin_request_def split: sum.splits prod.splits)
  next
    case 4
    with assms show ?thesis by (auto simp: begin_request_def conversation_path_def serve_http_def split: if_splits)
  qed
qed

lemma complete_effect:
  assumes "complete_conversation g pt rn ru s = (r, s')"
  obtains env later b target where "gs_manager s' =
      end_lease (gw_store g) env later b (pp_lease (ru_prepared ru)) (clear_activity target (gs_manager s))"
    "gs_bridges s' = gs_bridges s"
  using assms by (rule complete_end) (auto simp: conversation_end_def)

lemma end_request_effect:
  obtains env later b target where "gs_manager (snd (end_request g f s)) =
      end_lease (gw_store g) env later b (pp_lease (ru_prepared (fl_running f))) (clear_activity target (gs_manager s))"
    "gs_bridges (snd (end_request g f s)) = gs_bridges s"
  unfolding end_request_def by (cases "fl_path f = ''/v1/messages''"; simp; rule complete_effect [OF surjective_pairing])

section \<open>The concurrent manager\<close>

text \<open>Goroutine \<open>0\<close> is that of the ticker and the shutdown, goroutine \<open>Suc t\<close> that of request \<open>t\<close>.\<close>

definition flight_lease :: "flight \<Rightarrow> lease" where
  "flight_lease f = pp_lease (ru_prepared (fl_running f))"

definition flight_key :: "flight \<Rightarrow> string" where
  "flight_key f = ru_scoped (fl_running f)"

definition live_pc :: "(nat \<Rightarrow> flight option) \<Rightarrow> nat \<Rightarrow> pc" where
  "live_pc fl n = (case n of 0 \<Rightarrow> Idle | Suc t \<Rightarrow>
     (case fl t of None \<Rightarrow> Idle | Some f \<Rightarrow> lease_pc (le_target (flight_lease f))))"

definition live_sys :: "'s live \<Rightarrow> 's sys" where
  "live_sys l = \<lparr>sy_mgr = gs_manager (lv_state l), sy_pc = live_pc (lv_flights l)\<rparr>"

abbreviation manager_of :: "'s live \<Rightarrow> 's manager" where
  "manager_of l \<equiv> gs_manager (lv_state l)"

lemma live_pc_simps [simp]:
  "live_pc fl 0 = Idle" "fl t = None \<Longrightarrow> live_pc fl (Suc t) = Idle"
  "fl t = Some f \<Longrightarrow> live_pc fl (Suc t) = lease_pc (le_target (flight_lease f))"
  by (simp_all add: live_pc_def)

lemma live_sys_simps [simp]:
  "sy_mgr (live_sys l) = manager_of l" "sy_pc (live_sys l) = live_pc (lv_flights l)"
  by (simp_all add: live_sys_def)

lemma live_pc_upd:
  "(live_pc fl)(Suc t := p) = live_pc (fl(t := x))" if "live_pc (fl(t := x)) (Suc t) = p"
  using that by (auto simp: live_pc_def fun_eq_iff split: nat.splits)

lemma live_goto:
  assumes "live_pc ((lv_flights l)(t := x)) (Suc t) = p"
  shows "goto (Suc t) p (gs_manager s) (live_sys l) = live_sys (l\<lparr>lv_state := s, lv_flights := (lv_flights l)(t := x)\<rparr>)"
  using live_pc_upd [OF assms] by (simp add: live_sys_def goto_def)

lemma live_goto_idle: "goto 0 Idle (gs_manager s) (live_sys l) = live_sys (l\<lparr>lv_state := s\<rparr>)"
  by (auto simp: goto_def live_sys_def fun_eq_iff)

definition leases_open :: "'s live \<Rightarrow> bool" where
  "leases_open l \<longleftrightarrow> (\<forall>t f. lv_flights l t = Some f \<longrightarrow> \<not> le_done (flight_lease f))"

lemma new_gateway_store [simp]: "gw_store (new_gateway c st e d) = st" "gw_keys (new_gateway c st e d) = NewStore (cf_api_keys c)"
  by (simp_all add: new_gateway_def)

lemma on_bridge_manager [simp]: "gs_manager (on_bridge h op s) = gs_manager s"
  by (simp add: on_bridge_def split: option.splits bridge_op.splits)

lemma arrived_cases:
  assumes "l' = live_step c st (Arrived t e d rn path rq) l"
  obtains (busy) "l' = l"
    | (answered) x s1 where "lv_flights l t = None" "begin_request (new_gateway c st e d) rn path rq (lv_state l) = (Inl x, s1)"
        "l' = l\<lparr>lv_state := s1\<rparr>"
    | (started) ru s1 where "lv_flights l t = None" "begin_request (new_gateway c st e d) rn path rq (lv_state l) = (Inr ru, s1)"
        "l' = l\<lparr>lv_state := s1, lv_flights := (lv_flights l)(t \<mapsto> \<lparr>fl_path = path, fl_env = rn, fl_running = ru\<rparr>)\<rparr>"
  using assms by (auto split: if_splits sum.splits prod.splits)

lemma arrived_runs:
  assumes "leases_open l" and "l' = live_step c st (Arrived t e d rn path rq) l"
  shows "runs st (Suc t) (live_sys l) (live_sys l') \<and> leases_open l'"
  using assms(2)
proof (cases rule: arrived_cases)
  case busy
  with assms(1) show ?thesis by simp
next
  case (answered x s1)
  have "touched st (manager_of l) (gs_manager s1)" using begin_request_effect [OF answered(2)] by simp
  from touched_schedulable [OF this] answered(1)
  have "runs st (Suc t) (live_sys l) (goto (Suc t) Idle (gs_manager s1) (live_sys l))" by (simp add: schedulable_def)
  moreover have "(lv_flights l)(t := None) = lv_flights l" using answered(1) by auto
  ultimately show ?thesis
    using live_goto [of l t None Idle s1] answered(1,3) assms(1) by (simp add: leases_open_def)
next
  case (started ru s1)
  let ?f = "\<lparr>fl_path = path, fl_env = rn, fl_running = ru\<rparr>"
  let ?p = "lease_pc (le_target (flight_lease ?f))"
  obtain env werr now spec m1 where a: "Acquire st env werr now True True (ru_scoped ru) spec (manager_of l) =
      (Inr (flight_lease ?f), m1)" "hooked m1 (gs_manager s1)"
    using begin_request_effect [OF started(2)] by (auto simp: begun_def flight_lease_def)
  have "runs st (Suc t) (live_sys l) (goto (Suc t) ?p m1 (live_sys l))"
    using Acquire_runs [of st env werr now True True "ru_scoped ru" spec "live_sys l" _ m1 "Suc t"] a(1) started(1) by simp
  from runs_trans [OF this hooked_runs [OF a(2)]] live_goto [of l t "Some ?f" ?p s1] started(3) Acquire_open [OF a(1)] assms(1)
  show ?thesis by (auto simp: leases_open_def)
qed

lemma finished_runs:
  assumes "leases_open l" and "l' = live_step c st (Finished t e d) l"
  shows "runs st (Suc t) (live_sys l) (live_sys l') \<and> leases_open l'"
proof (cases "lv_flights l t")
  case None
  with assms show ?thesis by simp
next
  case (Some f)
  let ?s = "snd (end_request (new_gateway c st e d) f (lv_state l))"
  let ?p = "lease_pc (le_target (flight_lease f))"
  have l': "l' = l\<lparr>lv_state := ?s, lv_flights := (lv_flights l)(t := None)\<rparr>" using assms(2) Some by simp
  obtain env later b target where m: "gs_manager ?s = end_lease st env later b (flight_lease f) (clear_activity target (manager_of l))"
    by (rule end_request_effect [of "new_gateway c st e d" f "lv_state l"]) (auto simp: flight_lease_def)
  let ?m = "clear_activity target (manager_of l)"
  have "hooked (manager_of l) ?m" by (rule hooked_clear) simp
  from hooked_runs [OF this, of st "Suc t" ?p "live_sys l"] goto_same [of "live_sys l" "Suc t" ?p] Some
  have "runs st (Suc t) (live_sys l) (goto (Suc t) ?p ?m (live_sys l))" by simp
  moreover have "runs st (Suc t) (goto (Suc t) ?p ?m (live_sys l)) (goto (Suc t) Idle (gs_manager ?s) (live_sys l))"
    using end_lease_runs [of "goto (Suc t) ?p ?m (live_sys l)" "Suc t" "flight_lease f" st env later b] Some assms(1)
    by (simp add: m leases_open_def)
  moreover have "goto (Suc t) Idle (gs_manager ?s) (live_sys l) = live_sys l'"
    unfolding l' by (rule live_goto) simp
  ultimately show ?thesis using runs_trans assms(1) by (auto simp: l' leases_open_def)
qed

lemma live_step_runs:
  assumes "leases_open l" and "l' = live_step c st ev l"
  shows "(\<exists>t. runs st t (live_sys l) (live_sys l')) \<and> leases_open l'"
proof (cases ev)
  case (Arrived t e d rn path rq)
  with arrived_runs [OF assms(1)] assms(2) show ?thesis by blast
next
  case (Finished t e d)
  with finished_runs [OF assms(1)] assms(2) show ?thesis by blast
next
  case (Bridged h op)
  with assms show ?thesis by (auto simp: live_sys_def leases_open_def)
next
  case (Expired now env)
  obtain er m' where m: "CleanupExpired st env now (manager_of l) = (er, m')" by fastforce
  have "runs st 0 (live_sys l) (goto 0 Idle m' (live_sys l))"
    using CleanupExpired_runs [of st env now "live_sys l" er m' 0] m by simp
  moreover have "live_sys l' = goto 0 Idle m' (live_sys l) \<or> live_sys l' = live_sys l"
    using assms(2) Expired m live_goto_idle [of "(lv_state l)\<lparr>gs_manager := m'\<rparr>" l] by (auto simp: runSessionCleanup_def)
  ultimately show ?thesis using assms Expired by (auto simp: leases_open_def)
qed

lemma live_run_Nil [simp]: "live_run c st [] l = l"
  by (simp add: live_run_def)

lemma live_run_snoc [simp]: "live_run c st (evs @ [ev]) l = live_step c st ev (live_run c st evs l)"
  by (simp add: live_run_def)

lemma live_run_reachable:
  "reachable st (NewManagerWithStore (cf_session_ttl c) (limits_of_config c) store) (live_sys (live_run c st evs (new_live c store fs))) \<and>
   leases_open (live_run c st evs (new_live c store fs))"
proof (induction evs rule: rev_induct)
  case Nil
  have "live_sys (new_live c store fs) = init_sys (NewManagerWithStore (cf_session_ttl c) (limits_of_config c) store)"
    by (auto simp: live_sys_def new_live_def new_state_def init_sys_def live_pc_def split: nat.splits)
  then show ?case by (simp add: reachable.start leases_open_def new_live_def)
next
  case (snoc ev evs)
  then show ?case using live_step_runs [OF _ refl] runs_reachable by (metis live_run_snoc)
qed

section \<open>Sessions in use\<close>

text \<open>What is mapped and locked stays mapped, and only its hook may change.\<close>

definition locked_kept :: "'s manager \<Rightarrow> 's manager \<Rightarrow> bool" where
  "locked_kept m m' \<longleftrightarrow> (\<forall>k d. map_of (m_sessions m) k = Some d \<and> ms_locked (entry m d) \<longrightarrow>
     map_of (m_sessions m') k = Some d \<and> up_to_hook (entry m d) (entry m' d))"

lemma locked_kept_refl [simp]: "locked_kept m m"
  by (simp add: locked_kept_def)

lemma locked_keptD:
  assumes "locked_kept m m'" and "map_of (m_sessions m) k = Some d" and "ms_locked (entry m d)"
  shows "map_of (m_sessions m') k = Some d" "up_to_hook (entry m d) (entry m' d)" "ms_locked (entry m' d)"
    "ms_session (entry m' d) = ms_session (entry m d)"
proof -
  show "map_of (m_sessions m') k = Some d" and u: "up_to_hook (entry m d) (entry m' d)"
    using assms by (simp_all add: locked_kept_def)
  from u obtain a where "entry m' d = (entry m d)\<lparr>ms_activity := a\<rparr>" by (auto simp: up_to_hook_def)
  then show "ms_locked (entry m' d)" "ms_session (entry m' d) = ms_session (entry m d)" using assms(3) by simp_all
qed

lemma locked_kept_trans: "locked_kept m m1 \<Longrightarrow> locked_kept m1 m2 \<Longrightarrow> locked_kept m m2"
  unfolding locked_kept_def [of m m2] by (meson locked_keptD up_to_hook_trans)

lemma activity_only_kept: "activity_only m m' \<Longrightarrow> locked_kept m m'"
  by (auto simp: activity_only_def locked_kept_def)

lemma mapped_old: "mgr_inv m \<Longrightarrow> map_of (m_sessions m) k = Some d \<Longrightarrow> d < m_next m"
  by (drule map_of_SomeD) (auto simp: mgr_inv_def mgr_wf_def)

lemma Acquire_kept:
  assumes "mgr_inv m" and "Acquire st env werr now hr dl key spec m = (r, m')"
  shows "locked_kept m m'"
proof -
  note old = mapped_old [OF assms(1)]
  obtain out m1 where en: "acquire_enter dl key spec m = (out, m1)" by fastforce
  consider (failed) er where "r = Inl er" | (none) "key = []"
    | (wait) e l where "r = Inr l" "key \<noteq> []" "out = EnterWait e" | (create) e l where "r = Inr l" "key \<noteq> []" "out = EnterCreate e"
    by (cases "key = []"; cases r; cases out) (use assms(2) en in \<open>auto simp: Acquire_def\<close>)
  then show ?thesis
  proof cases
    case failed
    with Acquire_error_outcome [OF assms(1)] assms(2) old show ?thesis by (fastforce simp: locked_kept_def)
  next
    case none
    with assms(2) same_core_create [of m env CallNew "env_new env"] show ?thesis
      by (auto simp: Acquire_def locked_kept_def same_core_def split: prod.splits sum.splits)
  next
    case wait
    with assms(2) en acquire_enter_wait [OF en [unfolded wait]] show ?thesis
      by (auto simp: Acquire_def acquire_recheck_def lock_entry_def unlock_entry_def touch_def locked_kept_def
          split: option.splits if_splits prod.splits)
  next
    case create
    note c = acquire_enter_create [OF en [unfolded create]]
    have "acquire_create st env now hr dl key spec e m1 = (Inr l, m')"
      using assms(2) en create by (simp add: Acquire_def)
    from acquire_create_outcome [OF this] c show ?thesis by (auto simp: locked_kept_def dest: old)
  qed
qed

lemma CleanupExpired_kept:
  assumes "mgr_inv m" and "CleanupExpired st env now m = (er, m')"
  shows "locked_kept m m'"
proof (cases "0 < m_ttl m")
  case False
  with assms(2) show ?thesis by (simp add: CleanupExpired_def)
next
  case True
  have wf: "mgr_wf m" using assms(1) by (simp add: mgr_inv_def)
  have "mgr_wf m'" using CleanupExpired_preserves_inv [OF assms] by (simp add: mgr_inv_def)
  with CleanupExpired_effect [OF wf True assms(2)] wf show ?thesis
    unfolding locked_kept_def mgr_wf_current [OF wf] mgr_wf_current [OF \<open>mgr_wf m'\<close>] by (simp add: stale_def)
qed

text \<open>The end of a lease concerns no other session.\<close>

lemma end_lease_kept:
  assumes "mgr_wf m" and "\<not> le_done l"
    and "\<And>key e. le_target l = EntryLease key e \<Longrightarrow> map_of (m_sessions m) key = Some e \<and> key \<noteq> k"
    and "map_of (m_sessions m) k = Some d"
  shows "map_of (m_sessions (end_lease st env later b l m)) k = Some d \<and> entry (end_lease st env later b l m) d = entry m d"
proof (cases "le_target l")
  case (EphemeralLease sess)
  with assms(2,4) show ?thesis by (simp add: end_lease_def Discard_def Release_def finish_lease_def)
next
  case (EntryLease key e)
  with assms(3) have key: "map_of (m_sessions m) key = Some e" "key \<noteq> k" by blast+
  have mapped: "ms_key (entry m d') = k'" if "map_of (m_sessions m) k' = Some d'" for k' d'
    using map_of_SomeD [OF that] assms(1) by (auto simp: mgr_wf_def)
  have "d \<noteq> e" using mapped [OF key(1)] mapped [OF assms(4)] key(2) by blast
  obtain er m1 where r: "release_entry st later key e m = (er, m1)" by fastforce
  obtain er' m2 where x: "discard_entry st env key e m = (er', m2)" by fastforce
  show ?thesis
    using release_entry_effect [OF r] discard_entry_effect [OF x] r x key \<open>d \<noteq> e\<close> assms(4)
    by (cases b) (auto simp: end_entry_lease [OF EntryLease assms(2)] unmap_entry_sessions is_current_def)
qed

text \<open>A lease in use: live, and on the session that is mapped under its key.\<close>

definition owned :: "'s manager \<Rightarrow> string \<Rightarrow> lease \<Rightarrow> bool" where
  "owned m key l \<longleftrightarrow> lease_live l m \<and>
     (case le_target l of
        EphemeralLease _ \<Rightarrow> key = []
      | EntryLease k e \<Rightarrow> k = key \<and> key \<noteq> [] \<and> map_of (m_sessions m) key = Some e)"

lemma owned_entry:
  assumes "owned m key l" and "key \<noteq> []"
  obtains e where "le_target l = EntryLease key e" "map_of (m_sessions m) key = Some e" "ms_locked (entry m e)"
    "ms_session (entry m e) = le_session l" "lease_live l m"
  using assms by (auto simp: owned_def lease_live_def split: lease_target.splits)

lemma owned_kept:
  assumes "owned m key l" and "locked_kept m m'" and "mgr_inv m'"
  shows "owned m' key l"
proof (cases "key = []")
  case True
  with assms(1) show ?thesis by (auto simp: owned_def lease_live_def split: lease_target.splits)
next
  case False
  then obtain e where e: "le_target l = EntryLease key e" "map_of (m_sessions m) key = Some e" "ms_locked (entry m e)"
    "ms_session (entry m e) = le_session l" and live: "lease_live l m"
    by (rule owned_entry [OF assms(1)])
  note kept = locked_keptD [OF assms(2) e(2,3)]
  then obtain a where "entry m' e = (entry m e)\<lparr>ms_activity := a\<rparr>" by (auto simp: up_to_hook_def)
  moreover have "e < m_next m'" by (rule mapped_old [OF assms(3) kept(1)])
  ultimately show ?thesis using e live False kept(1) by (auto simp: owned_def lease_live_def entry_complete_def)
qed

lemma Acquire_owned:
  assumes "mgr_inv m" and "Acquire st env werr now hr d key spec m = (Inr l, m')"
  shows "owned m' key l" and "key \<noteq> [] \<Longrightarrow> \<not> owned m key l'"
proof -
  show "owned m' key l"
  proof (cases "key = []")
    case True
    with assms(2) show ?thesis
      by (auto simp: Acquire_def owned_def lease_live_def ephemeral_lease_def split: prod.splits sum.splits)
  next
    case False
    from Acquire_success_outcome [OF assms(1) False assms(2)] show ?thesis using False by (auto simp: owned_def)
  qed
  show "\<not> owned m key l'" if "key \<noteq> []"
  proof
    assume "owned m key l'"
    from this that obtain e where e: "map_of (m_sessions m) key = Some e" "ms_locked (entry m e)"
      by (rule owned_entry)
    have "e < m_next m" by (rule mapped_old [OF assms(1) e(1)])
    moreover have "map_of (m_sessions m') key = Some e" by (rule locked_keptD(1) [OF Acquire_kept [OF assms] e])
    ultimately show False using Acquire_success_outcome [OF assms(1) that assms(2)] e by auto
  qed
qed

lemma end_lease_inv: "mgr_inv m \<Longrightarrow> lease_live l m \<Longrightarrow> mgr_inv (end_lease st env later b l m)"
  unfolding end_lease_def using Release_preserves_inv Discard_preserves_inv by (metis prod.collapse)

lemma end_lease_owned:
  assumes "mgr_inv m" and "owned m key l" and "owned m key' l'" and "key = key' \<Longrightarrow> key = []"
  shows "owned (end_lease st env later b l m) key' l'"
proof (cases "key' = []")
  case True
  with assms(3) show ?thesis by (auto simp: owned_def lease_live_def split: lease_target.splits)
next
  case False
  obtain e where e: "le_target l' = EntryLease key' e" "map_of (m_sessions m) key' = Some e" "lease_live l' m"
    by (rule owned_entry [OF assms(3) False])
  let ?m = "end_lease st env later b l m"
  have live: "lease_live l m" using assms(2) by (simp add: owned_def)
  have "map_of (m_sessions ?m) key' = Some e \<and> entry ?m e = entry m e"
    using assms(1,2,4) live e(2) by (intro end_lease_kept) (auto simp: mgr_inv_def owned_def lease_live_def)
  moreover from this have "e < m_next ?m" using mapped_old [OF end_lease_inv [OF assms(1) live]] by blast
  ultimately show ?thesis using e False by (simp add: owned_def lease_live_def)
qed

text \<open>What a request that is answered at once does to the sessions in use: nothing.\<close>

lemma touched_keeps:
  assumes "touched st m m'" and "mgr_inv m"
  shows "mgr_inv m' \<and> (\<forall>key l. owned m key l \<longrightarrow> owned m' key l)"
  using assms(1)
proof cases
  case (touched_failed env werr now key spec er)
  from Acquire_preserves_inv [OF assms(2) touched_failed] Acquire_kept [OF assms(2) touched_failed] show ?thesis
    using owned_kept by blast
next
  case (touched_released env werr now key spec l m0 env' later)
  note inv = Acquire_preserves_inv [OF assms(2) touched_released(2)]
  note own = Acquire_owned [OF assms(2) touched_released(2)]
  have "owned (end_lease st env' later False l m0) key' l'" if "owned m key' l'" for key' l'
    using owned_kept [OF that Acquire_kept [OF assms(2) touched_released(2)] inv] own that
    by (intro end_lease_owned [OF inv own(1)]) auto
  moreover have "lease_live l m0" using own(1) by (simp add: owned_def)
  ultimately show ?thesis using end_lease_inv [OF inv] touched_released(1) by blast
qed (use assms(2) in simp)

section \<open>The invariant of requests in flight\<close>

definition live_inv :: "'s live \<Rightarrow> bool" where
  "live_inv l \<longleftrightarrow> mgr_inv (manager_of l) \<and>
     (\<forall>t f. lv_flights l t = Some f \<longrightarrow> owned (manager_of l) (flight_key f) (flight_lease f)) \<and>
     (\<forall>t t' f f'. lv_flights l t = Some f \<longrightarrow> lv_flights l t' = Some f' \<longrightarrow> flight_key f = flight_key f' \<longrightarrow>
        flight_key f \<noteq> [] \<longrightarrow> t = t')"

lemma live_inv_state:
  assumes "live_inv l" and "mgr_inv (gs_manager s)"
    and "\<And>key x. owned (manager_of l) key x \<Longrightarrow> owned (gs_manager s) key x"
  shows "live_inv (l\<lparr>lv_state := s\<rparr>)"
  using assms unfolding live_inv_def by simp

lemma hooked_owned:
  assumes "hooked m m'" and "mgr_inv m"
  shows "mgr_inv m' \<and> (\<forall>key l. owned m key l \<longrightarrow> owned m' key l)"
  using activity_only_inv [OF hooked_activity [OF assms(1)] assms(2)]
    owned_kept [OF _ activity_only_kept [OF hooked_activity [OF assms(1)]]] by blast

lemma arrived_inv:
  assumes "live_inv l" and "l' = live_step c st (Arrived t e d rn path rq) l"
  shows "live_inv l'"
  using assms(2)
proof (cases rule: arrived_cases)
  case busy
  with assms(1) show ?thesis by simp
next
  case (answered x s1)
  have "touched st (manager_of l) (gs_manager s1)" using begin_request_effect [OF answered(2)] by simp
  from touched_keeps [OF this] assms(1) show ?thesis
    unfolding answered(3) by (intro live_inv_state) (auto simp: live_inv_def)
next
  case (started ru s1)
  let ?f = "\<lparr>fl_path = path, fl_env = rn, fl_running = ru\<rparr>"
  have inv: "mgr_inv (manager_of l)" using assms(1) by (simp add: live_inv_def)
  obtain env werr now spec m1 where a: "Acquire st env werr now True True (flight_key ?f) spec (manager_of l) =
      (Inr (flight_lease ?f), m1)" "hooked m1 (gs_manager s1)"
    using begin_request_effect [OF started(2)] by (auto simp: begun_def flight_lease_def flight_key_def)
  note inv1 = Acquire_preserves_inv [OF inv a(1)]
  note own = Acquire_owned [OF inv a(1)]
  note hk = hooked_owned [OF a(2) inv1]
  have old: "owned (gs_manager s1) key x" if "owned (manager_of l) key x" for key x
    using owned_kept [OF that Acquire_kept [OF inv a(1)] inv1] hk by blast
  have new: "flight_key f \<noteq> flight_key ?f \<or> flight_key ?f = []" if "lv_flights l t' = Some f" for t' f
    using own(2) that assms(1) unfolding live_inv_def by metis
  show ?thesis
    using assms(1) hk own(1) old new started(3) unfolding live_inv_def by (auto split: if_splits)
qed

lemma finished_inv:
  assumes "live_inv l" and "l' = live_step c st (Finished t e d) l"
  shows "live_inv l'"
proof (cases "lv_flights l t")
  case None
  with assms show ?thesis by simp
next
  case (Some f)
  let ?s = "snd (end_request (new_gateway c st e d) f (lv_state l))"
  have l': "l' = l\<lparr>lv_state := ?s, lv_flights := (lv_flights l)(t := None)\<rparr>" using assms(2) Some by simp
  obtain env later b target where m: "gs_manager ?s = end_lease st env later b (flight_lease f) (clear_activity target (manager_of l))"
    by (rule end_request_effect [of "new_gateway c st e d" f "lv_state l"]) (auto simp: flight_lease_def)
  let ?m = "clear_activity target (manager_of l)"
  have "mgr_inv (manager_of l)" using assms(1) by (simp add: live_inv_def)
  from hooked_owned [OF hooked_clear [OF hooked_refl] this]
  have inv: "mgr_inv ?m" and own: "\<And>key x. owned (manager_of l) key x \<Longrightarrow> owned ?m key x" by blast+
  have f: "owned ?m (flight_key f) (flight_lease f)" using assms(1) Some own by (simp add: live_inv_def)
  have "mgr_inv (gs_manager ?s)" unfolding m using end_lease_inv [OF inv] f by (simp add: owned_def)
  moreover have "owned (gs_manager ?s) (flight_key f') (flight_lease f')" if "lv_flights l t' = Some f'" "t' \<noteq> t" for t' f'
    unfolding m using assms(1) that Some own unfolding live_inv_def by (intro end_lease_owned [OF inv f]) metis+
  ultimately show ?thesis using assms(1) unfolding l' live_inv_def by auto
qed

lemma live_step_inv: "live_inv l \<Longrightarrow> live_inv (live_step c st ev l)"
proof (cases ev)
  case (Arrived t e d rn path rq)
  then show "live_inv l \<Longrightarrow> ?thesis" using arrived_inv by blast
next
  case (Finished t e d)
  then show "live_inv l \<Longrightarrow> ?thesis" using finished_inv by blast
next
  case (Bridged h op)
  then show "live_inv l \<Longrightarrow> ?thesis" by (simp add: live_inv_def)
next
  case (Expired now env)
  assume l: "live_inv l"
  then have inv: "mgr_inv (manager_of l)" by (simp add: live_inv_def)
  obtain er m' where m: "CleanupExpired st env now (manager_of l) = (er, m')" by fastforce
  have inv': "mgr_inv m'" by (rule CleanupExpired_preserves_inv [OF inv m])
  have "live_step c st ev l = l \<or> live_step c st ev l = l\<lparr>lv_state := (lv_state l)\<lparr>gs_manager := m'\<rparr>\<rparr>"
    using Expired m by (simp add: runSessionCleanup_def)
  then show ?thesis
    using l inv' owned_kept [OF _ CleanupExpired_kept [OF inv m] inv'] live_inv_state [OF l, of "(lv_state l)\<lparr>gs_manager := m'\<rparr>"]
    by auto
qed

lemma live_run_inv: "live_inv (live_run c st evs (new_live c store fs))"
proof (induction evs rule: rev_induct)
  case Nil
  show ?case by (simp add: live_inv_def new_live_def new_state_def mgr_inv_NewManagerWithStore)
qed (simp add: live_step_inv)

text \<open>What is locked is in use: by a goroutine of the concurrent manager, that is by a request in flight.\<close>

lemma locked_in_flight:
  assumes "live_inv l" and "sys_inv (live_sys l)" and "map_of (m_sessions (manager_of l)) k = Some d"
    and "ms_locked (entry (manager_of l) d)"
  shows "\<exists>t f. lv_flights l t = Some f \<and> flight_key f = k"
proof -
  have inv: "mgr_inv (manager_of l)" using assms(1) by (simp add: live_inv_def)
  have "d < m_next (manager_of l)" by (rule mapped_old [OF inv assms(3)])
  then obtain n where n: "d \<in> holds (live_pc (lv_flights l) n)"
    using assms(2,4) unfolding sys_inv_def Let_def live_sys_simps by blast
  then obtain t f where f: "lv_flights l t = Some f" "d \<in> holds (lease_pc (le_target (flight_lease f)))"
    by (auto simp: live_pc_def split: nat.splits option.splits)
  have "owned (manager_of l) (flight_key f) (flight_lease f)" using assms(1) f(1) by (simp add: live_inv_def)
  with f(2) have "map_of (m_sessions (manager_of l)) (flight_key f) = Some d"
    by (auto simp: owned_def split: lease_target.splits)
  then have "flight_key f = k"
    using mgr_wf_entry [OF _ assms(3)] mgr_wf_entry [of "manager_of l" "flight_key f" d] inv by (simp add: mgr_inv_def)
  with f(1) show ?thesis by blast
qed

section \<open>Where answers come from\<close>

text \<open>A client's answer \<open>r\<close> for the object \<open>h\<close>, given in the state \<open>l\<close>: from whom, and for which session.\<close>

definition answers :: "config \<Rightarrow> 's live \<Rightarrow> live_event \<Rightarrow> nat \<Rightarrow> pending_response \<Rightarrow> bool" where
  "answers c l ev h r \<longleftrightarrow>
     (\<exists>t e d rn rq i sess. ev = Arrived t e d rn respond_path rq \<and> lv_flights l t = None \<and>
        AuthenticateRequest (NewStore (cf_api_keys c)) (rq_headers rq) = Inr i \<and>
        Lookup (scopedSessionKey i (sessionKeyFromRequest (rq_headers rq))) (manager_of l) = Some sess \<and>
        rs_handle sess = h \<and> parseCopilotContinuationRequest (rq_body rq) = Inr r)"

definition answered_in :: "config \<Rightarrow> 's store_ops option \<Rightarrow> 's live \<Rightarrow> live_event list \<Rightarrow> nat \<Rightarrow> pending_response set" where
  "answered_in c st l evs h = {r. \<exists>pre ev post. evs = pre @ ev # post \<and> answers c (live_run c st pre l) ev h r}"

lemma answered_in_snoc:
  "answered_in c st l (evs @ [ev]) h = answered_in c st l evs h \<union> {r. answers c (live_run c st evs l) ev h r}"
proof -
  have last: "evs @ [ev] = pre @ x # post \<longleftrightarrow> post = [] \<and> pre = evs \<and> x = ev \<or> (\<exists>post'. post = post' @ [ev] \<and> evs = pre @ x # post')"
    for pre x post
    by (cases post rule: rev_cases) auto
  show ?thesis unfolding answered_in_def last by blast
qed

definition bridges_sourced :: "(nat \<Rightarrow> pending_response set) \<Rightarrow> 's server_state \<Rightarrow> bool" where
  "bridges_sourced R s \<longleftrightarrow> (\<forall>h b. gs_bridges s h = Some b \<longrightarrow> sourced (R h) b)"

lemma sourced_mono: "sourced R b \<Longrightarrow> R \<subseteq> R' \<Longrightarrow> sourced R' b"
  unfolding sourced_def by blast

lemma resolved_sourced:
  assumes "bridges_sourced R s" and "handleCopilotResponse g rq s = (r, s', h)"
    and "\<And>i sess rsp. AuthenticateRequest (gw_keys g) (rq_headers rq) = Inr i \<Longrightarrow>
      Lookup (scopedSessionKey i (sessionKeyFromRequest (rq_headers rq))) (gs_manager s) = Some sess \<Longrightarrow>
      parseCopilotContinuationRequest (rq_body rq) = Inr rsp \<Longrightarrow> rsp \<in> R (rs_handle sess)"
  shows "bridges_sourced R s'"
  using assms(2)
proof (cases rule: continuation_cases)
  case refused
  with assms(1) show ?thesis by simp
next
  case (accepted i sess rsp)
  then obtain b b' where b: "gs_bridges s (rs_handle sess) = Some b" "resolve rsp b = (None, b')"
    "s' = s\<lparr>gs_bridges := (gs_bridges s)(rs_handle sess := Some b')\<rparr>"
    by (auto simp: resolve_in_def split: option.splits prod.splits)
  have "sourced (R (rs_handle sess)) (bridge_step (OpResolve rsp) b)"
    using assms(1) b(1) assms(3) [OF accepted(1-3)] by (intro sourced_step) (auto simp: bridges_sourced_def)
  with b(2,3) assms(1) show ?thesis by (auto simp: bridges_sourced_def)
qed

lemma on_bridge_sourced: "bridges_sourced R s \<Longrightarrow> bridges_sourced R (on_bridge h op s)"
  by (cases op) (auto simp: on_bridge_def bridges_sourced_def split: option.splits intro!: sourced_step simp del: bridge_step.simps)

lemma same_bridges: "gs_bridges s' = gs_bridges s \<Longrightarrow> bridges_sourced R s' = bridges_sourced R s"
  by (simp add: bridges_sourced_def)

lemma live_step_sourced:
  assumes "bridges_sourced R (lv_state l)" and "\<And>h r. answers c l ev h r \<Longrightarrow> r \<in> R h"
  shows "bridges_sourced R (lv_state (live_step c st ev l))"
proof (cases ev)
  case (Arrived t e d rn path rq)
  have "live_step c st ev l = live_step c st (Arrived t e d rn path rq) l" using Arrived by simp
  then show ?thesis
  proof (cases rule: arrived_cases)
    case busy
    with assms(1) Arrived show ?thesis by simp
  next
    case (answered x s1)
    show ?thesis
    proof (cases "path = respond_path")
      case False
      with begin_request_effect [OF answered(2)] assms(1) answered(3) Arrived show ?thesis
        by (simp add: same_bridges [of s1 "lv_state l"])
    next
      case True
      then obtain r h where r: "handleCopilotResponse (new_gateway c st e d) rq (lv_state l) = (r, s1, h)"
        using begin_request_effect [OF answered(2)] by auto
      have "bridges_sourced R s1"
        using assms(2) answered(1) by (intro resolved_sourced [OF assms(1) r]) (auto simp: answers_def Arrived True)
      with answered(3) Arrived show ?thesis by simp
    qed
  next
    case (started ru s1)
    with begin_request_effect [OF started(2)] assms(1) Arrived show ?thesis
      by (simp add: begun_def same_bridges [of s1 "lv_state l"])
  qed
next
  case (Finished t e d)
  have "bridges_sourced R (snd (end_request (new_gateway c st e d) f (lv_state l)))" for f
  proof (rule end_request_effect [of "new_gateway c st e d" f "lv_state l"])
    assume "gs_bridges (snd (end_request (new_gateway c st e d) f (lv_state l))) = gs_bridges (lv_state l)"
    from same_bridges [OF this] assms(1) show ?thesis by simp
  qed
  with Finished assms(1) show ?thesis by (simp split: option.splits)
next
  case (Bridged h op)
  with on_bridge_sourced [OF assms(1)] show ?thesis by simp
next
  case (Expired now env)
  with assms(1) show ?thesis by (simp add: bridges_sourced_def)
qed

lemma live_run_sourced:
  "bridges_sourced (answered_in c st (new_live c store fs) evs) (lv_state (live_run c st evs (new_live c store fs)))"
proof (induction evs rule: rev_induct)
  case Nil
  show ?case by (simp add: bridges_sourced_def new_live_def new_state_def sourced_init)
next
  case (snoc ev evs)
  let ?R = "answered_in c st (new_live c store fs) (evs @ [ev])"
  have "bridges_sourced ?R (lv_state (live_run c st evs (new_live c store fs)))"
    using snoc sourced_mono unfolding bridges_sourced_def answered_in_snoc by blast
  then have "bridges_sourced ?R (lv_state (live_step c st ev (live_run c st evs (new_live c store fs))))"
    by (rule live_step_sourced) (simp add: answered_in_snoc)
  then show ?case by simp
qed

section \<open>One request after the other\<close>

text \<open>A request that is served at once is one whose handler ends before anything else happens.\<close>

fun undisturbed :: "gateway_event \<Rightarrow> live_event list" where
  "undisturbed (Served e d rn path rq) = [Arrived 0 e d rn path rq, Finished 0 e d]"
| "undisturbed (Swept now env) = [Expired now env]"

lemma served_in_parts:
  assumes "begin_request g rn path rq s = (out, s1)"
  shows "(case out of Inl _ \<Rightarrow> s1 | Inr ru \<Rightarrow> snd (end_request g \<lparr>fl_path = path, fl_env = rn, fl_running = ru\<rparr> s1)) =
    (case serve_http g rn path rq s of None \<Rightarrow> s | Some (_, s') \<Rightarrow> s')"
proof -
  consider "path = ''/v1/chat/completions''" | "path = ''/v1/messages''" | "\<not> conversation_path path"
    by (auto simp: conversation_path_def)
  then show ?thesis
  proof cases
    case 3
    with assms show ?thesis by (auto simp: begin_request_def conversation_path_def split: option.splits prod.splits)
  qed (use assms in \<open>auto simp: begin_request_def end_request_def serve_defs handle_conversation_def split: sum.splits prod.splits\<close>)
qed

lemma undisturbed_step:
  assumes "lv_flights l = (\<lambda>_. None)"
  shows "live_run c st (undisturbed ev) l = l\<lparr>lv_state := gateway_step c st ev (lv_state l)\<rparr>"
proof (cases ev)
  case (Served e d rn path rq)
  obtain out s1 where b: "begin_request (new_gateway c st e d) rn path rq (lv_state l) = (out, s1)" by fastforce
  have same: "l\<lparr>lv_state := s\<rparr> = l\<lparr>lv_state := s, lv_flights := (lv_flights l)(0 := None)\<rparr>" for s
    using assms by (auto simp: fun_eq_iff)
  from served_in_parts [OF b] b assms Served show ?thesis
    by (cases out) (auto simp: live_run_def fun_eq_iff)
next
  case (Swept now env)
  then show ?thesis by (simp add: live_run_def)
qed

lemma live_run_append: "live_run c st (xs @ ys) l = live_run c st ys (live_run c st xs l)"
  by (simp add: live_run_def)

lemma undisturbed_run:
  "lv_flights l = (\<lambda>_. None) \<Longrightarrow>
   live_run c st (concat (map undisturbed evs)) l = l\<lparr>lv_state := gateway_run c st evs (lv_state l)\<rparr>"
proof (induction evs arbitrary: l)
  case (Cons ev evs)
  then show ?case by (simp add: live_run_append undisturbed_step gateway_run_def)
qed (simp add: gateway_run_def)

end
