(* ===== verification/Live_Properties.thy ===== *)
theory Live_Properties
  imports Live_Facts
begin

text \<open>
  The temporary directories of the gateway with prompts in flight, and the properties of that gateway: its
  bounds, its refinement of the concurrent session manager, the sessions of its prompts, the origin of answers, and the
  process from its start to its end.
\<close>

section \<open>Temporary directories in use\<close>

text \<open>The directories \<open>ds\<close> are new.\<close>

definition files_taken :: "nat list \<Rightarrow> temp_fs \<Rightarrow> temp_fs \<Rightarrow> bool" where
  "files_taken ds fs fs1 \<longleftrightarrow> temp_ok fs1 \<and> set (tf_live fs1) = set (tf_live fs) \<union> set ds \<and> set ds \<inter> set (tf_live fs) = {}"

lemma files_taken_none: "temp_ok fs1 \<Longrightarrow> tf_live fs1 = tf_live fs \<Longrightarrow> files_taken [] fs fs1"
  by (simp add: files_taken_def)

lemma owned_taken:
  assumes "owns (tf_live s) d1 s1" and "owns (tf_live s1) d2 s2"
  shows "files_taken (combineCleanup [d1, d2]) s s2"
  using assms
  by (auto simp: owns_def files_taken_def combineCleanup_def map_filter_def split: option.splits)

lemma attachments_taken:
  assumes "temp_ok s" and "prepare_attachments c lib w models modelID x images s = (Inr (as, cl), s')"
  shows "files_taken cl s s'"
proof -
  have start: "owns (tf_live s) None s" using assms(1) by (simp add: owns_def)
  obtain as1 d1 s1 as2 d2 where m: "materializeAttachments c lib w images s = (Inr (as1, d1), s1)"
    "materializeCopilotAttachments c lib w (ce_attachments x) s1 = (Inr (as2, d2), s')" and cl: "cl = combineCleanup [d1, d2]"
    using assms(2) by (auto simp: prepare_attachments_def Let_def split: prod.splits sum.splits option.splits)
  have own: "owns (tf_live s) d1 s1" using materialize_keep(1) [OF start, of c lib w images] m by (simp add: keeps_def)
  have "owns (tf_live s1) d2 s'"
    using materialize_keep(2) [OF owns_here [OF own], of c lib w "ce_attachments x"] m by (simp add: keeps_def)
  from owned_taken [OF own this] cl show ?thesis by simp
qed

lemma temp_ok_grown: "temp_ok fs \<Longrightarrow> tf_live fs' = tf_live fs \<Longrightarrow> tf_next fs \<le> tf_next fs' \<Longrightarrow> temp_ok fs'"
  by (auto simp: temp_ok_def list_all_iff)

lemma prepared_attachments:
  assumes "prepareConversation c g st now later key r m fs = (Inr p, m', fs')"
  shows "\<exists>models modelID ext images as.
    prepare_attachments c (ge_lib g) (ge_web g) models modelID ext images fs = (Inr (as, pp_cleanup p), fs')"
  using assms
  by (clarsimp simp: prepareConversation_def Let_def split: sum.splits prod.splits) (intro exI, assumption)

lemma prepared_taken:
  assumes "temp_ok fs" and "prepareConversation c g st now later key r m fs = (x, m', fs')"
  shows "files_taken (case x of Inl _ \<Rightarrow> [] | Inr p \<Rightarrow> pp_cleanup p) fs fs'"
proof (cases x)
  case (Inl e)
  have "tf_live fs' = tf_live fs" by (rule refused_files [OF assms(1) assms(2) [unfolded Inl]])
  with Inl show ?thesis by (simp add: files_taken_none temp_ok_grown [OF assms(1) _ next_prepare [OF assms(2)]])
next
  case (Inr p)
  with prepared_attachments [OF assms(2) [unfolded Inr]] attachments_taken [OF assms(1)] show ?thesis by fastforce
qed

lemma conversation_taken:
  assumes "temp_ok (gs_files s)" and "begin_conversation g pt rn rq s = (out, s1)"
  shows "files_taken (case out of Inl _ \<Rightarrow> [] | Inr ru \<Rightarrow> pp_cleanup (ru_prepared ru)) (gs_files s) (gs_files s1)"
proof (cases out)
  case (Inl r)
  from assms(2) [unfolded Inl] show ?thesis
  proof (cases rule: begin_refused)
    case (refused i m b e)
    with refuse_state [OF refused(3)] assms(1) Inl show ?thesis by (simp add: files_taken_none)
  next
    case (unprepared i m b e c m1 fs1 key)
    with refuse_state [OF unprepared(4)] prepared_taken [OF assms(1) unprepared(3)] Inl show ?thesis by simp
  qed (use assms(1) Inl in \<open>simp add: files_taken_none\<close>)
next
  case (Inr ru)
  from assms(2) [unfolded Inr] show ?thesis
    by (rule begin_prepared) (use prepared_taken [OF assms(1)] Inr in fastforce)
qed

lemma begin_request_taken:
  assumes "temp_ok (gs_files s)" and "begin_request g rn path rq s = (out, s1)"
  shows "files_taken (case out of Inl _ \<Rightarrow> [] | Inr ru \<Rightarrow> pp_cleanup (ru_prepared ru)) (gs_files s) (gs_files s1)"
proof -
  consider "path = ''/v1/chat/completions''" | "path = ''/v1/messages''" | "\<not> conversation_path path"
    by (auto simp: conversation_path_def)
  then show ?thesis
  proof cases
    case 1
    with assms(2) conversation_taken [OF assms(1), of g "openai_protocol g" rn rq] show ?thesis
      by (auto simp: begin_request_def split: sum.splits prod.splits)
  next
    case 2
    with assms(2) conversation_taken [OF assms(1), of g "claude_protocol g" rn rq] show ?thesis
      by (auto simp: begin_request_def split: sum.splits prod.splits)
  next
    case 3
    have "gs_files s1 = gs_files s \<and> (\<exists>r. out = Inl r)"
      using assms(2) 3
      by (auto simp: begin_request_def serve_defs conversation_path_def split: if_splits prod.splits dest: continuation_state)
    with assms(1) show ?thesis by (auto intro: files_taken_none)
  qed
qed

definition flight_dirs :: "flight \<Rightarrow> nat set" where
  "flight_dirs f = set (pp_cleanup (ru_prepared (fl_running f)))"

lemma complete_files:
  "gs_files (snd (complete_conversation g pt rn ru s)) = run_cleanup (pp_cleanup (ru_prepared ru)) (gs_files s)"
proof -
  obtain r s' where c: "complete_conversation g pt rn ru s = (r, s')" by fastforce
  then show ?thesis by (rule complete_end) (simp add: c conversation_end_def)
qed

lemma run_cleanup_set: "set (tf_live (run_cleanup ds fs)) = set (tf_live fs) - set ds"
  by (induction ds arbitrary: fs) (auto simp: run_cleanup_def RemoveAll_def)

lemma run_cleanup_ok: "temp_ok fs \<Longrightarrow> temp_ok (run_cleanup ds fs)"
  using run_cleanup_set [of ds fs] by (auto simp: temp_ok_def list_all_iff)

lemma end_request_files:
  "temp_ok (gs_files s) \<Longrightarrow> temp_ok (gs_files (snd (end_request g f s))) \<and>
   set (tf_live (gs_files (snd (end_request g f s)))) = set (tf_live (gs_files s)) - flight_dirs f"
  by (simp add: end_request_def complete_files run_cleanup_ok run_cleanup_set flight_dirs_def)

text \<open>At any time there are the directories there were at the start, and those of the prompts in flight.\<close>

abbreviation files_of :: "'s live \<Rightarrow> temp_fs" where
  "files_of l \<equiv> gs_files (lv_state l)"

definition dirs_in_use :: "(nat \<Rightarrow> flight option) \<Rightarrow> nat set" where
  "dirs_in_use fl = {d. \<exists>t f. fl t = Some f \<and> d \<in> flight_dirs f}"

definition files_inv :: "temp_fs \<Rightarrow> 's live \<Rightarrow> bool" where
  "files_inv fs l \<longleftrightarrow> temp_ok (files_of l) \<and> set (tf_live (files_of l)) = set (tf_live fs) \<union> dirs_in_use (lv_flights l) \<and>
     set (tf_live fs) \<inter> dirs_in_use (lv_flights l) = {} \<and>
     (\<forall>t t' f f'. lv_flights l t = Some f \<longrightarrow> lv_flights l t' = Some f' \<longrightarrow> t \<noteq> t' \<longrightarrow> flight_dirs f \<inter> flight_dirs f' = {})"

lemma dirs_in_use_at: "fl t = Some f \<Longrightarrow> flight_dirs f \<subseteq> dirs_in_use fl"
  by (auto simp: dirs_in_use_def)

lemma dirs_in_use_split:
  assumes "fl t = Some f"
  shows "dirs_in_use fl = flight_dirs f \<union> dirs_in_use (fl(t := None))"
proof (intro set_eqI iffI)
  fix d
  assume "d \<in> dirs_in_use fl"
  then obtain u f' where u: "fl u = Some f'" "d \<in> flight_dirs f'" by (auto simp: dirs_in_use_def)
  with assms show "d \<in> flight_dirs f \<union> dirs_in_use (fl(t := None))"
    by (cases "u = t") (auto simp: dirs_in_use_def)
qed (use assms in \<open>auto simp: dirs_in_use_def split: if_splits\<close>)

lemma dirs_in_use_new:
  assumes "fl t = None"
  shows "dirs_in_use (fl(t \<mapsto> f)) = flight_dirs f \<union> dirs_in_use fl"
proof -
  have "(fl(t \<mapsto> f))(t := None) = fl" using assms by auto
  then show ?thesis using dirs_in_use_split [of "fl(t \<mapsto> f)" t f] by simp
qed

lemma started_files:
  assumes "files_inv fs l" and "lv_flights l t = None" and "begin_request g rn path rq (lv_state l) = (Inr ru, s1)"
  shows "files_inv fs (l\<lparr>lv_state := s1, lv_flights := (lv_flights l)(t \<mapsto> \<lparr>fl_path = path, fl_env = rn, fl_running = ru\<rparr>)\<rparr>)"
proof -
  have ok: "temp_ok (files_of l)" using assms(1) by (simp add: files_inv_def)
  let ?l = "l\<lparr>lv_state := s1, lv_flights := (lv_flights l)(t \<mapsto> \<lparr>fl_path = path, fl_env = rn, fl_running = ru\<rparr>)\<rparr>"
  let ?f = "\<lparr>fl_path = path, fl_env = rn, fl_running = ru\<rparr>"
  from begin_request_taken [OF ok assms(3)]
  have new: "temp_ok (gs_files s1)" "set (tf_live (gs_files s1)) = set (tf_live (files_of l)) \<union> flight_dirs ?f"
    "flight_dirs ?f \<inter> set (tf_live (files_of l)) = {}"
    by (simp_all add: files_taken_def flight_dirs_def)
  have old: "set (tf_live (files_of l)) = set (tf_live fs) \<union> dirs_in_use (lv_flights l)"
    "set (tf_live fs) \<inter> dirs_in_use (lv_flights l) = {}"
    using assms(1) by (simp_all add: files_inv_def)
  have apart: "flight_dirs f \<inter> flight_dirs ?f = {}" if "lv_flights l t' = Some f" for t' f
    using dirs_in_use_at [of "lv_flights l", OF that] new(3) old(1) by blast
  note use' = dirs_in_use_new [of "lv_flights l", OF assms(2)]
  have "flight_dirs f1 \<inter> flight_dirs f2 = {}"
    if "((lv_flights l)(t \<mapsto> ?f)) t1 = Some f1" "((lv_flights l)(t \<mapsto> ?f)) t2 = Some f2" "t1 \<noteq> t2" for t1 t2 f1 f2
    using that assms(1) apart unfolding files_inv_def by (cases "t1 = t"; cases "t2 = t") (auto simp: Int_commute)
  moreover have "set (tf_live (gs_files s1)) = set (tf_live fs) \<union> dirs_in_use ((lv_flights l)(t \<mapsto> ?f))"
    "set (tf_live fs) \<inter> dirs_in_use ((lv_flights l)(t \<mapsto> ?f)) = {}"
    unfolding use' new(2) using old new(3) by blast+
  moreover have "lv_flights ?l = (lv_flights l)(t \<mapsto> ?f)" "files_of ?l = gs_files s1" by simp_all
  ultimately show ?thesis using new(1) unfolding files_inv_def by metis
qed

lemma finished_files:
  assumes "files_inv fs l" and "lv_flights l t = Some f"
  shows "files_inv fs (l\<lparr>lv_state := snd (end_request g f (lv_state l)), lv_flights := (lv_flights l)(t := None)\<rparr>)"
proof -
  note part = dirs_in_use_split [of "lv_flights l", OF assms(2)]
  have "flight_dirs f \<inter> dirs_in_use ((lv_flights l)(t := None)) = {}"
    using assms unfolding files_inv_def dirs_in_use_def by (fastforce split: if_splits)
  with end_request_files [of "lv_state l" g f] assms(1) part show ?thesis
    unfolding files_inv_def by auto
qed

lemma live_step_files:
  assumes "files_inv fs l"
  shows "files_inv fs (live_step c st ev l)"
proof (cases ev)
  case (Arrived t e d rn path rq)
  have ok: "temp_ok (files_of l)" using assms by (simp add: files_inv_def)
  have "live_step c st ev l = live_step c st (Arrived t e d rn path rq) l" using Arrived by simp
  then show ?thesis
  proof (cases rule: arrived_cases)
    case busy
    with assms show ?thesis by simp
  next
    case (answered x s1)
    from begin_request_taken [OF ok answered(2)] answered(3) assms show ?thesis by (simp add: files_inv_def files_taken_def)
  next
    case (started ru s1)
    from started_files [OF assms started(1,2)] started(3) show ?thesis by simp
  qed
next
  case (Finished t e d)
  with finished_files [OF assms] assms show ?thesis by (simp split: option.splits)
next
  case (Bridged h op)
  have "gs_files (on_bridge h op s) = gs_files s" for s :: "'a server_state"
    by (simp add: on_bridge_def split: option.splits bridge_op.splits)
  with Bridged assms show ?thesis by (simp add: files_inv_def)
next
  case (Expired now env)
  with assms show ?thesis by (simp add: files_inv_def)
qed

lemma live_run_files: "temp_ok fs \<Longrightarrow> files_inv fs (live_run c st evs (new_live c store fs))"
proof (induction evs rule: rev_induct)
  case Nil
  then show ?case by (simp add: files_inv_def new_live_def new_state_def dirs_in_use_def)
qed (simp add: live_step_files)

section \<open>The shutdown\<close>

lemma shutdown_effect:
  assumes "shutdown st env wait_err stopped p m = (p1, m1)"
  shows "pv_client p1 = None \<and> m_sessions m1 = [] \<and> m_store m1 = m_store m \<and>
    (\<exists>cs. m_calls m1 = m_calls m @ cs \<and> set cs \<subseteq> range CallClose)"
proof -
  obtain er where d: "close_all st env wait_err True (map snd (m_sessions m)) None (m\<lparr>m_sessions := []\<rparr>) = (er, m1)"
    and p: "p1 = snd (CloseProvider stopped p)"
    using assms by (cases "close_all st env wait_err True (map snd (m_sessions m)) None (m\<lparr>m_sessions := []\<rparr>)")
      (simp add: shutdown_def DisconnectContext_def closeContext_def Let_def)
  have "pv_client p1 = None" unfolding p by (simp add: CloseProvider_def)
  with close_all_preserve_store [OF d] close_all_effect [OF d] show ?thesis by (fastforce simp: image_iff)
qed

section \<open>A schedule for the witnesses\<close>

definition live_config :: config where
  "live_config = demo_config\<lparr>cf_api_keys := [\<lparr>ak_label = ''team'', ak_secret = ''s3cret''\<rparr>]\<rparr>"

abbreviation live_start :: "file_store live" where
  "live_start \<equiv> new_live live_config (demo_file []) demo_fs"

abbreviation live_key :: string where
  "live_key \<equiv> scopedSessionKey demo_identity ''chat''"

text \<open>A prompt; a permission request of its session; the client's approval.\<close>

definition demo_prompt :: live_event where
  "demo_prompt = Arrived 0 demo_gateway (demo_sdk hello) demo_request_env ''/v1/chat/completions'' (demo_request ''s3cret'' demo_chat)"

definition demo_question :: live_event where
  "demo_question = Bridged 0 (OpPermission (demo_event ''p1'' ''c1''))"

definition demo_reply :: live_event where
  "demo_reply = Arrived 1 demo_gateway (demo_sdk hello) demo_request_env respond_path
     (demo_request ''s3cret'' (demo_answer ''permission_result''))"

lemma live_known_key:
  "AuthenticateRequest (NewStore (cf_api_keys live_config)) (rq_headers (demo_request ''s3cret'' d)) = Inr demo_identity"
  using demo_known_key [of d] by (simp add: live_config_def demo_server_def)

lemma live_plan: "\<exists>spec so. plan_conversation live_config (ge_parse_url demo_gateway) (ge_marshal demo_gateway)
    (ge_models demo_gateway) live_key demo_conversation = Inr (spec, so)"
proof -
  have "plan_conversation live_config (ge_parse_url demo_gateway) (ge_marshal demo_gateway)
      (ge_models demo_gateway) demo_key demo_conversation = Inr demo_plan" by code_simp
  moreover have "live_key \<noteq> []" "demo_key \<noteq> []" by (simp_all add: scopedSessionKey_def demo_key_def)
  ultimately show ?thesis unfolding plan_conversation_def Let_def by (simp split: sum.splits option.splits prod.splits if_splits)
qed

lemma live_lease:
  "\<exists>l m. Acquire demo_ops (factories (ge_runtime demo_gateway) so) (ge_wait_err demo_gateway) 5 True True live_key spec
     (manager_of live_start) = (Inr l, m) \<and> le_created l \<and> le_session l = Some \<lparr>rs_handle = 0, rs_id = ''s1''\<rparr>"
  by (simp add: new_live_def new_state_def live_config_def demo_config_def default_config_def limits_of_config_def
      scopedSessionKey_def Acquire_def acquire_enter_def validateCapacityLocked_def
      NewManagerWithStore_def active_in_namespace_def acquire_create_def acquire_persisted_def
      acquire_load_def store_load_def file_store_ops_def Session_Races.demo_load acquire_session_def
      createSessionWithContext_def factories_def demo_gateway_def demo_world_def acquire_finish_def Let_def store_save_def
      fill_entry_def update_entry_def mark_ready_def log_call_def newLease_def demo_save)

lemma live_flight:
  obtains f s where "live_run live_config demo_ops [demo_prompt] live_start = live_start\<lparr>lv_state := s, lv_flights := (lv_flights live_start)(0 \<mapsto> f)\<rparr>"
    "flight_key f = live_key" "le_session (flight_lease f) = Some \<lparr>rs_handle = 0, rs_id = ''s1''\<rparr>"
    "gs_bridges s = (\<lambda>_. Some newInteractiveBridge)"
proof -
  let ?g = "new_gateway live_config demo_ops demo_gateway (demo_sdk hello)" and ?rq = "demo_request ''s3cret'' demo_chat"
  obtain spec so where plan: "plan_conversation live_config (ge_parse_url demo_gateway) (ge_marshal demo_gateway)
    (ge_models demo_gateway) live_key demo_conversation = Inr (spec, so)" using live_plan by blast
  obtain l m where acq: "Acquire demo_ops (factories (ge_runtime demo_gateway) so) (ge_wait_err demo_gateway) 5 True True live_key spec
     (manager_of live_start) = (Inr l, m)" "le_created l" "le_session l = Some \<lparr>rs_handle = 0, rs_id = ''s1''\<rparr>"
    using live_lease by blast
  have "prompt_for l (cv_turns demo_conversation) = Inr (BuildPrompt (cv_turns demo_conversation))"
    using acq(2) by (simp add: prompt_for_def)
  moreover have "LatestUserTurn (cv_turns demo_conversation) = Inr \<lparr>tn_role = ''user'', tn_content = ''Hi'', tn_attachments = []\<rparr>"
    by code_simp
  moreover have "prepare_attachments live_config (ge_lib demo_gateway) (ge_web demo_gateway) (ge_models_later demo_gateway)
      (sp_model spec) (cv_copilot demo_conversation) [] demo_fs = (Inr ([], []), demo_fs)"
    by (simp add: prepare_attachments_def materializeAttachments_def materializeCopilotAttachments_def
        demo_conversation_def no_extension_def combineCleanup_def map_filter_def validateMaterializedImageAttachments_def)
  ultimately obtain p where p: "prepareConversation live_config demo_gateway demo_ops 5 6 live_key demo_conversation
      (manager_of live_start) demo_fs = (Inr p, m, demo_fs)" "pp_lease p = l"
    using prepare_accepted [OF plan acq(1)] by fastforce
  let ?ru = "\<lparr>ru_identity = demo_identity, ru_key = ''chat'', ru_scoped = live_key, ru_stream = False, ru_target = None, ru_prepared = p\<rparr>"
  let ?s = "(lv_state live_start)\<lparr>gs_manager := m, gs_files := demo_fs\<rparr>"
  have "validateSessionKey ''chat'' = None" by code_simp
  moreover have "rq_method ?rq = ''POST''" "rq_body ?rq = Inr demo_chat" "cv_stream demo_conversation = False"
    "rn_acquire demo_request_env = 5" "rn_release demo_request_env = 6" "ge_lib demo_gateway = demo_lib"
    "gs_files (lv_state live_start) = demo_fs"
    by (simp_all add: demo_request_def demo_conversation_def demo_request_env_def demo_gateway_def new_live_def new_state_def)
  ultimately have b: "begin_conversation ?g (openai_protocol ?g) demo_request_env ?rq (lv_state live_start) = (Inr ?ru, ?s)"
    using live_known_key [of demo_chat] p(1) demo_chat_parsed
    by (simp add: begin_conversation_def openai_protocol_def new_gateway_def Let_def)
  let ?f = "\<lparr>fl_path = ''/v1/chat/completions'', fl_env = demo_request_env, fl_running = ?ru\<rparr>"
  have "live_run live_config demo_ops [demo_prompt] live_start = live_start\<lparr>lv_state := ?s, lv_flights := (lv_flights live_start)(0 \<mapsto> ?f)\<rparr>"
    using b by (simp add: live_run_def demo_prompt_def begin_request_def new_live_def)
  then show ?thesis
    by (rule that) (simp_all add: flight_key_def flight_lease_def p(2) acq(3) new_live_def new_state_def)
qed

text \<open>The session is looked up while its prompt is in flight.\<close>

lemma live_key_not_blank: "\<not> blank live_key"
  using demo_asking_session by (auto simp: Lookup_def)

lemma live_lookup:
  "Lookup live_key (manager_of (live_run live_config demo_ops [demo_prompt] live_start)) = Some \<lparr>rs_handle = 0, rs_id = ''s1''\<rparr>"
proof (rule live_flight)
  fix f s
  let ?l = "live_run live_config demo_ops [demo_prompt] live_start"
  assume f: "?l = live_start\<lparr>lv_state := s, lv_flights := (lv_flights live_start)(0 \<mapsto> f)\<rparr>" "flight_key f = live_key"
    "le_session (flight_lease f) = Some \<lparr>rs_handle = 0, rs_id = ''s1''\<rparr>"
  have "lv_flights ?l 0 = Some f" unfolding f(1) by simp
  then have own: "owned (manager_of ?l) live_key (flight_lease f)"
    using live_run_inv [of live_config demo_ops "[demo_prompt]" "demo_file []" demo_fs] f(2) unfolding live_inv_def by metis
  have "live_key \<noteq> []" using live_key_not_blank by auto
  with own obtain e where "map_of (m_sessions (manager_of ?l)) live_key = Some e"
    "ms_session (entry (manager_of ?l) e) = le_session (flight_lease f)" by (rule owned_entry)
  with f(3) live_key_not_blank show ?thesis by (simp add: Lookup_def)
qed

lemma live_answered:
  "\<exists>b. gs_bridges (lv_state (live_run live_config demo_ops [demo_prompt, demo_question, demo_reply] live_start)) 0 = Some b \<and>
     pd_chan (br_heap b 0) = Some (Answered demo_approval)"
proof (rule live_flight)
  fix f s
  let ?g = "new_gateway live_config demo_ops demo_gateway (demo_sdk hello)"
  let ?rq = "demo_request ''s3cret'' (demo_answer ''permission_result'')"
  let ?l = "live_run live_config demo_ops [demo_prompt] live_start"
  assume f: "?l = live_start\<lparr>lv_state := s, lv_flights := (lv_flights live_start)(0 \<mapsto> f)\<rparr>"
    "gs_bridges s = (\<lambda>_. Some newInteractiveBridge)"
  let ?s = "s\<lparr>gs_bridges := (gs_bridges s)(0 := Some demo_bridge)\<rparr>"
  have q: "live_step live_config demo_ops demo_question ?l = ?l\<lparr>lv_state := ?s\<rparr>"
    using f by (simp add: demo_question_def on_bridge_def demo_bridge_def)
  obtain b1 where b1: "resolve demo_approval demo_bridge = (None, b1)" "pd_chan (br_heap b1 0) = Some (Answered demo_approval)"
    using demo_bridge_pending
    by (auto simp: resolve_def resolve_lookup_def resolve_send_def try_send_def demo_approval_def answer_of_def Let_def
        trim_p1 update_pending_def)
  have "Lookup live_key (gs_manager ?s) = Some \<lparr>rs_handle = 0, rs_id = ''s1''\<rparr>" using live_lookup f(1) by simp
  moreover have "validateSessionKey ''chat'' = None" by code_simp
  moreover have "rq_method ?rq = ''POST''" "rq_body ?rq = Inr (demo_answer ''permission_result'')" by (simp_all add: demo_request_def)
  ultimately obtain r s' h where r: "handleCopilotResponse ?g ?rq ?s = (r, s', h)" "gs_bridges s' 0 = Some b1"
    using live_known_key [of "demo_answer ''permission_result''"] demo_answer_parsed b1(1)
    by (simp add: handleCopilotResponse_def resolve_in_def)
  then have "begin_request ?g demo_request_env respond_path ?rq ?s = (Inl (Some r), s')"
    by (simp add: begin_request_def serve_http_def)
  moreover have "lv_flights ?l 1 = None" unfolding f(1) by (simp add: new_live_def)
  ultimately have "lv_state (live_step live_config demo_ops demo_reply (?l\<lparr>lv_state := ?s\<rparr>)) = s'"
    by (simp add: demo_reply_def)
  moreover have "live_run live_config demo_ops [demo_prompt, demo_question, demo_reply] live_start =
      live_step live_config demo_ops demo_reply (live_step live_config demo_ops demo_question ?l)"
    by (simp add: live_run_def)
  ultimately show ?thesis using r(2) b1(2) q by simp
qed

section \<open>Properties of the gateway with prompts in flight\<close>



text \<open>C2: The gateway refines the concurrent session manager: at any moment of any interleaving, its session manager is
  in a state that goroutines reach by their steps in the concurrent model, with one goroutine at its lease for
  each prompt in flight; and so it is after the shutdown, whatever prompts are then still in flight.  So every invariant
  of the interleaved critical sections is one of the gateway.\<close>

theorem live_gateway_refines_schedules:
  "let m0 = NewManagerWithStore (cf_session_ttl c) (limits_of_config c) store;
       l = live_run c st evs (new_live c store fs)
   in reachable st m0 (live_sys l) \<and>
      reachable st m0 ((live_sys l)\<lparr>sy_mgr := snd (shutdown st env werr stopped p (gs_manager (lv_state l)))\<rparr>)"
proof -
  let ?l = "live_run c st evs (new_live c store fs)"
  note run = conjunct1 [OF live_run_reachable [of st c store evs fs]]
  obtain er m' where m': "closeContext st env werr True (manager_of ?l) = (er, m')" by fastforce
  have "runs st 0 (live_sys ?l) (goto 0 Idle m' (live_sys ?l))"
    using closeContext_runs [of st env werr True "live_sys ?l" er m' 0] m' by simp
  from runs_reachable [OF this run] have "reachable st (NewManagerWithStore (cf_session_ttl c) (limits_of_config c) store)
      ((live_sys ?l)\<lparr>sy_mgr := m'\<rparr>)"
    by (simp add: goto_def fun_upd_idem live_sys_def)
  with run m' show ?thesis by (simp add: Let_def shutdown_def DisconnectContext_def)
qed

text \<open>C4: A prompt has its session for itself: as long as a prompt with a session key is in flight, whatever else
  arrives, ends or expires, the session of its lease is the one in the table under the caller's key, it is locked and it
  is the session that a client's answer is led to, and no other prompt in flight has that key.\<close>

theorem prompts_own_their_sessions:
  assumes "l = live_run c st evs (new_live c store fs)" and "lv_flights l t = Some f" and "flight_key f \<noteq> []"
  shows "\<exists>e. map_of (m_sessions (gs_manager (lv_state l))) (flight_key f) = Some e \<and>
      le_target (flight_lease f) = EntryLease (flight_key f) e \<and> ms_locked (entry (gs_manager (lv_state l)) e) \<and>
      (blank (flight_key f) \<or> Lookup (flight_key f) (gs_manager (lv_state l)) = le_session (flight_lease f)) \<and>
      (\<forall>t' f'. lv_flights l t' = Some f' \<and> flight_key f' = flight_key f \<longrightarrow> t' = t)"
proof -
  have inv: "live_inv l" unfolding assms(1) by (rule live_run_inv)
  then have "owned (manager_of l) (flight_key f) (flight_lease f)" using assms(2) by (simp add: live_inv_def)
  then obtain e where e: "le_target (flight_lease f) = EntryLease (flight_key f) e"
    "map_of (m_sessions (manager_of l)) (flight_key f) = Some e" "ms_locked (entry (manager_of l) e)"
    "ms_session (entry (manager_of l) e) = le_session (flight_lease f)"
    using assms(3) by (rule owned_entry)
  have "t' = t" if "lv_flights l t' = Some f'" "flight_key f' = flight_key f" for t' f'
    using inv that assms(2,3) unfolding live_inv_def by metis
  with e show ?thesis by (auto simp: Lookup_def)
qed

lemma prompts_own_their_sessions_witness:
  "\<exists>f e. lv_flights (live_run live_config demo_ops [demo_prompt] live_start) 0 = Some f \<and>
     map_of (m_sessions (gs_manager (lv_state (live_run live_config demo_ops [demo_prompt] live_start)))) (flight_key f) = Some e \<and>
     ms_locked (entry (gs_manager (lv_state (live_run live_config demo_ops [demo_prompt] live_start))) e)"
proof (rule live_flight)
  fix f s
  let ?l = "live_run live_config demo_ops [demo_prompt] live_start"
  assume f: "?l = live_start\<lparr>lv_state := s, lv_flights := (lv_flights live_start)(0 \<mapsto> f)\<rparr>" "flight_key f = live_key"
  have l: "lv_flights ?l 0 = Some f" unfolding f(1) by simp
  have "flight_key f \<noteq> []" using live_key_not_blank f(2) by auto
  from prompts_own_their_sessions [OF refl l this] l show ?thesis by blast
qed

text \<open>C3: The answer that waits in the channel of a session's bridge, at any moment of any interleaving, is what one of
  the requests on the answer path has said: a request with a configured API key, that at its arrival found this very
  session under the key that the gateway makes of that API key and the caller's session identifier, and whose body
  parses to the answer.  No event, prompt, tick or request of anybody else puts an answer there.\<close>

theorem answers_come_from_owner:
  assumes "l = live_run c st evs (new_live c store fs)" and "gs_bridges (lv_state l) h = Some b"
    and "pd_chan (br_heap b p) = Some (Answered r)"
  shows "\<exists>pre t e d rn rq post i sess. evs = pre @ Arrived t e d rn respond_path rq # post \<and>
    AuthenticateRequest (NewStore (cf_api_keys c)) (rq_headers rq) = Inr i \<and>
    Lookup (scopedSessionKey i (sessionKeyFromRequest (rq_headers rq)))
      (gs_manager (lv_state (live_run c st pre (new_live c store fs)))) = Some sess \<and>
    rs_handle sess = h \<and> parseCopilotContinuationRequest (rq_body rq) = Inr r"
proof -
  have "r \<in> answered_in c st (new_live c store fs) evs h"
    using live_run_sourced [of c st store fs evs] assms unfolding bridges_sourced_def sourced_def by blast
  then show ?thesis unfolding answered_in_def answers_def by fast
qed

lemma answers_come_from_owner_witness:
  "\<exists>b pre t e d rn rq post. [demo_prompt, demo_question, demo_reply] = pre @ Arrived t e d rn respond_path rq # post \<and>
     gs_bridges (lv_state (live_run live_config demo_ops [demo_prompt, demo_question, demo_reply] live_start)) 0 = Some b \<and>
     pd_chan (br_heap b 0) = Some (Answered demo_approval) \<and> parseCopilotContinuationRequest (rq_body rq) = Inr demo_approval"
proof -
  obtain b where b: "gs_bridges (lv_state (live_run live_config demo_ops [demo_prompt, demo_question, demo_reply] live_start)) 0 = Some b"
    "pd_chan (br_heap b 0) = Some (Answered demo_approval)"
    using live_answered by blast
  from answers_come_from_owner [OF refl b] b show ?thesis by blast
qed



end
