(* ===== verification/Idle_Context.thy ===== *)
theory Idle_Context
  imports Runtime_Types
begin

text \<open>
  \<open>newIdleContext\<close> of \<open>internal/httpapi/server.go\<close>: the context of a stream, which is cancelled when nothing has
  happened for the time \<open>idle\<close>.

  The goroutine with the timer, the callers of \<open>touch\<close>, whoever else cancels the context, and the clock are the
  steps of one relation.  A caller of \<open>touch\<close> reads the clock, stores what it read, and offers a token to the
  channel; any number of them run at once.  The goroutine reads the clock and the last activity in separate steps.
  The clock does not go backwards.  As in Go 1.23 and later a timer that is stopped or reset delivers no old value.
\<close>

section \<open>States\<close>

text \<open>Where the goroutine is: \<open>TouchLoaded\<close> and \<open>FiredLoaded\<close> hold the deadline, the waits what \<open>Reset\<close> is called with.\<close>

datatype watch_pc =
    Starting | Selecting | TouchTaken | TouchLoaded int | TouchWait int
  | FiredTaken | FiredLoaded int | FiredWait int | Cancelling | Ended

datatype cancel_cause = IdleTimeout | OtherCause

text \<open>\<open>ic_raced\<close> is not in the code: activity was stored after the goroutine had loaded the last one for the timer.\<close>

record idle_ctx =
  ic_now :: int
  ic_last :: int
  ic_token :: bool
  ic_timer :: "int option"
  ic_pc :: watch_pc
  ic_cause :: "cancel_cause option"
  ic_reads :: "int list"
  ic_sends :: nat
  ic_raced :: bool

definition newIdleContext :: "int \<Rightarrow> idle_ctx" where
  "newIdleContext now =
     \<lparr>ic_now = now, ic_last = now, ic_token = False, ic_timer = None, ic_pc = Starting, ic_cause = None,
      ic_reads = [], ic_sends = 0, ic_raced = False\<rparr>"

section \<open>Steps\<close>

text \<open>The goroutine; \<open>touch_wait\<close> is the wait after a touch.\<close>

definition touch_wait :: "int \<Rightarrow> int \<Rightarrow> int \<Rightarrow> int" where
  "touch_wait idle deadline now = (if deadline - now \<le> 0 then idle else deadline - now)"

inductive watch :: "int \<Rightarrow> idle_ctx \<Rightarrow> idle_ctx \<Rightarrow> bool" for idle where
  start: "ic_pc s = Starting \<Longrightarrow> watch idle s (s\<lparr>ic_timer := Some (ic_now s + idle), ic_pc := Selecting\<rparr>)"
| stopped: "ic_pc s = Selecting \<Longrightarrow> ic_cause s \<noteq> None \<Longrightarrow> watch idle s (s\<lparr>ic_timer := None, ic_pc := Ended\<rparr>)"
| touched: "ic_pc s = Selecting \<Longrightarrow> ic_token s \<Longrightarrow>
    watch idle s (s\<lparr>ic_token := False, ic_timer := None, ic_pc := TouchTaken\<rparr>)"
| touch_load: "ic_pc s = TouchTaken \<Longrightarrow> watch idle s (s\<lparr>ic_pc := TouchLoaded (ic_last s + idle)\<rparr>)"
| touch_until: "ic_pc s = TouchLoaded d \<Longrightarrow> watch idle s (s\<lparr>ic_pc := TouchWait (touch_wait idle d (ic_now s))\<rparr>)"
| touch_reset: "ic_pc s = TouchWait w \<Longrightarrow> watch idle s (s\<lparr>ic_timer := Some (ic_now s + w), ic_pc := Selecting\<rparr>)"
| fired: "ic_pc s = Selecting \<Longrightarrow> ic_timer s = Some d \<Longrightarrow> d \<le> ic_now s \<Longrightarrow>
    watch idle s (s\<lparr>ic_timer := None, ic_pc := FiredTaken\<rparr>)"
| fired_load: "ic_pc s = FiredTaken \<Longrightarrow>
    watch idle s (s\<lparr>ic_pc := FiredLoaded (ic_last s + idle), ic_raced := False\<rparr>)"
| remaining: "ic_pc s = FiredLoaded d \<Longrightarrow> d - ic_now s > 0 \<Longrightarrow> watch idle s (s\<lparr>ic_pc := FiredWait (d - ic_now s)\<rparr>)"
| fired_reset: "ic_pc s = FiredWait w \<Longrightarrow> watch idle s (s\<lparr>ic_timer := Some (ic_now s + w), ic_pc := Selecting\<rparr>)"
| expired: "ic_pc s = FiredLoaded d \<Longrightarrow> \<not> d - ic_now s > 0 \<Longrightarrow> watch idle s (s\<lparr>ic_pc := Cancelling\<rparr>)"
| cancel: "ic_pc s = Cancelling \<Longrightarrow>
    watch idle s (s\<lparr>ic_cause := (if ic_cause s = None then Some IdleTimeout else ic_cause s), ic_pc := Ended\<rparr>)"

text \<open>The clock; the three steps of \<open>touch\<close>; the parent context and the other holder of \<open>cancel\<close>.\<close>

inductive tick :: "idle_ctx \<Rightarrow> idle_ctx \<Rightarrow> bool" where
  tick: "n > 0 \<Longrightarrow> tick s (s\<lparr>ic_now := ic_now s + n\<rparr>)"

inductive touch_step :: "idle_ctx \<Rightarrow> idle_ctx \<Rightarrow> bool" where
  read_clock: "touch_step s (s\<lparr>ic_reads := ic_now s # ic_reads s\<rparr>)"
| store: "t \<in> set (ic_reads s) \<Longrightarrow>
    touch_step s (s\<lparr>ic_last := t, ic_reads := remove1 t (ic_reads s), ic_sends := Suc (ic_sends s), ic_raced := True\<rparr>)"
| offer: "ic_sends s > 0 \<Longrightarrow> touch_step s (s\<lparr>ic_token := True, ic_sends := ic_sends s - 1\<rparr>)"

inductive cancelled_elsewhere :: "idle_ctx \<Rightarrow> idle_ctx \<Rightarrow> bool" where
  other: "ic_cause s = None \<Longrightarrow> cancelled_elsewhere s (s\<lparr>ic_cause := Some OtherCause\<rparr>)"

definition idle_step :: "int \<Rightarrow> idle_ctx \<Rightarrow> idle_ctx \<Rightarrow> bool" where
  "idle_step idle s s' \<longleftrightarrow> watch idle s s' \<or> tick s s' \<or> touch_step s s' \<or> cancelled_elsewhere s s'"

text \<open>A stream whose handler and clients are silent.\<close>

definition silent_step :: "int \<Rightarrow> idle_ctx \<Rightarrow> idle_ctx \<Rightarrow> bool" where
  "silent_step idle s s' \<longleftrightarrow> watch idle s s' \<or> tick s s'"

abbreviation idle_reachable :: "int \<Rightarrow> int \<Rightarrow> idle_ctx \<Rightarrow> bool" where
  "idle_reachable idle start s \<equiv> (idle_step idle)\<^sup>*\<^sup>* (newIdleContext start) s"

inductive_simps tick_iff: "tick s s'"
inductive_simps touch_iff: "touch_step s s'"
inductive_simps elsewhere_iff: "cancelled_elsewhere s s'"
inductive_cases watchE: "watch idle s s'"

section \<open>The invariant\<close>

definition timer_ok :: "int \<Rightarrow> idle_ctx \<Rightarrow> bool" where
  "timer_ok idle s \<longleftrightarrow>
     (case ic_pc s of
        Selecting \<Rightarrow> (\<exists>d. ic_timer s = Some d \<and> d \<le> ic_now s + idle)
      | TouchLoaded d \<Rightarrow> d \<le> ic_now s + idle
      | TouchWait w \<Rightarrow> 0 < w \<and> w \<le> idle
      | FiredLoaded d \<Rightarrow> d \<le> ic_now s + idle \<and> (ic_raced s \<or> d = ic_last s + idle)
      | FiredWait w \<Rightarrow> 0 < w \<and> w \<le> idle
      | Cancelling \<Rightarrow> ic_raced s \<or> ic_last s + idle \<le> ic_now s
      | Ended \<Rightarrow> ic_cause s \<noteq> None
      | _ \<Rightarrow> True)"

definition idle_inv :: "int \<Rightarrow> idle_ctx \<Rightarrow> bool" where
  "idle_inv idle s \<longleftrightarrow> timer_ok idle s \<and> ic_last s \<le> ic_now s \<and> (\<forall>t\<in>set (ic_reads s). t \<le> ic_now s)"

lemma watch_inv:
  assumes "0 < idle" and "watch idle s s'" and "idle_inv idle s"
  shows "idle_inv idle s'"
  using assms(2,1,3) by (cases rule: watch.cases) (auto simp: idle_inv_def timer_ok_def touch_wait_def)

lemma tick_inv:
  assumes "0 < idle" and "tick s s'" and "idle_inv idle s"
  shows "idle_inv idle s'"
  using assms(2,1,3) by (auto simp: tick_iff idle_inv_def timer_ok_def split: watch_pc.splits)

lemma touch_inv:
  assumes "touch_step s s'" and "idle_inv idle s"
  shows "idle_inv idle s'"
  using assms
proof (cases rule: touch_step.cases)
  case (store t)
  then show ?thesis
    using assms(2) set_remove1_subset [of t "ic_reads s"]
    by (auto simp: idle_inv_def timer_ok_def split: watch_pc.splits)
qed (auto simp: idle_inv_def timer_ok_def split: watch_pc.splits)

lemma elsewhere_inv: "cancelled_elsewhere s s' \<Longrightarrow> idle_inv idle s \<Longrightarrow> idle_inv idle s'"
  by (auto simp: elsewhere_iff idle_inv_def timer_ok_def split: watch_pc.splits)

lemma idle_step_inv: "0 < idle \<Longrightarrow> idle_step idle s s' \<Longrightarrow> idle_inv idle s \<Longrightarrow> idle_inv idle s'"
  unfolding idle_step_def using watch_inv tick_inv touch_inv elsewhere_inv by blast

lemma idle_reachable_inv:
  assumes "idle_reachable idle start s" and "0 < idle"
  shows "idle_inv idle s"
  using assms
proof (induction rule: rtranclp_induct)
  case base
  then show ?case by (simp add: newIdleContext_def idle_inv_def timer_ok_def)
next
  case (step s s')
  then show ?case by (blast intro: idle_step_inv)
qed

section \<open>What the goroutine can do\<close>

text \<open>The number of steps it can take before the clock or another party moves.\<close>

definition watch_budget :: "idle_ctx \<Rightarrow> nat" where
  "watch_budget s =
     (if ic_token s then 4 else 0) +
     (case ic_pc s of
        Starting \<Rightarrow> 2
      | Selecting \<Rightarrow> (case ic_timer s of Some d \<Rightarrow> if d \<le> ic_now s then 5 else 1 | None \<Rightarrow> 1)
      | TouchTaken \<Rightarrow> 4 | TouchLoaded _ \<Rightarrow> 3 | TouchWait _ \<Rightarrow> 2
      | FiredTaken \<Rightarrow> 4 | FiredLoaded _ \<Rightarrow> 3 | FiredWait _ \<Rightarrow> 2
      | Cancelling \<Rightarrow> 1 | Ended \<Rightarrow> 0)"

lemma watch_budget_decreases:
  assumes "0 < idle" and "watch idle s s'" and "idle_inv idle s"
  shows "watch_budget s' < watch_budget s"
  using assms(2,1,3)
  by (cases rule: watch.cases) (auto simp: watch_budget_def idle_inv_def timer_ok_def split: option.splits)

lemma watch_budget_bound: "watch_budget s \<le> 9"
  by (auto simp: watch_budget_def split: watch_pc.splits option.splits)

text \<open>The ways of a silent stream to its cancellation.\<close>

lemma silent_watch: "watch idle s s1 \<Longrightarrow> (silent_step idle)\<^sup>*\<^sup>* s1 s' \<Longrightarrow> (silent_step idle)\<^sup>*\<^sup>* s s'"
  by (rule converse_rtranclp_into_rtranclp) (simp_all add: silent_step_def)

lemma silent_wait:
  "t \<ge> ic_now s \<Longrightarrow> (silent_step idle)\<^sup>*\<^sup>* s (s\<lparr>ic_now := t\<rparr>)"
proof (cases "t = ic_now s")
  case False
  assume "t \<ge> ic_now s"
  with False have "tick s (s\<lparr>ic_now := ic_now s + (t - ic_now s)\<rparr>)" by (intro tick) simp
  then show ?thesis by (auto simp: silent_step_def)
qed simp

text \<open>\<open>expires\<close>: the silent stream can be cancelled as idle by the instant \<open>t\<close>.\<close>

definition expires :: "int \<Rightarrow> int \<Rightarrow> idle_ctx \<Rightarrow> bool" where
  "expires idle t s \<longleftrightarrow>
     (\<exists>s'. (silent_step idle)\<^sup>*\<^sup>* s s' \<and> ic_cause s' = Some IdleTimeout \<and> ic_now s' \<le> t)"

lemma expires_here: "ic_cause s = Some IdleTimeout \<Longrightarrow> ic_now s \<le> t \<Longrightarrow> expires idle t s"
  unfolding expires_def by blast

lemma expires_watch: "watch idle s s1 \<Longrightarrow> expires idle t s1 \<Longrightarrow> expires idle t s"
  unfolding expires_def using silent_watch by blast

lemma expires_wait: "u \<ge> ic_now s \<Longrightarrow> expires idle t (s\<lparr>ic_now := u\<rparr>) \<Longrightarrow> expires idle t s"
  unfolding expires_def using silent_wait by (meson rtranclp_trans)

lemma expires_now:
  assumes "ic_cause s = None" and "ic_now s \<le> t" and "ic_last s + idle \<le> ic_now s"
    and "ic_pc s = FiredTaken \<or> ic_pc s = Selecting \<and> (\<exists>d. ic_timer s = Some d \<and> d \<le> ic_now s)"
  shows "expires idle t s"
proof -
  have taken: "expires idle t s" if "ic_pc s = FiredTaken" "ic_cause s = None" "ic_now s \<le> t" "ic_last s + idle \<le> ic_now s" for s
  proof -
    let ?s1 = "s\<lparr>ic_pc := FiredLoaded (ic_last s + idle), ic_raced := False\<rparr>"
    let ?s2 = "?s1\<lparr>ic_pc := Cancelling\<rparr>"
    have "watch idle s ?s1" using that by (intro fired_load)
    moreover have "watch idle ?s1 ?s2" using that by (intro expired) auto
    moreover have "watch idle ?s2 (?s2\<lparr>ic_cause := Some IdleTimeout, ic_pc := Ended\<rparr>)"
      using cancel [of ?s2 idle] that by simp
    moreover have "expires idle t (?s2\<lparr>ic_cause := Some IdleTimeout, ic_pc := Ended\<rparr>)"
      using that by (intro expires_here) simp_all
    ultimately show ?thesis by (blast intro: expires_watch)
  qed
  show ?thesis
    using assms(4)
  proof
    assume "ic_pc s = Selecting \<and> (\<exists>d. ic_timer s = Some d \<and> d \<le> ic_now s)"
    then obtain d where d: "ic_pc s = Selecting" "ic_timer s = Some d" "d \<le> ic_now s" by blast
    have "expires idle t (s\<lparr>ic_timer := None, ic_pc := FiredTaken\<rparr>)"
      using assms by (intro taken) simp_all
    with fired [OF d] show ?thesis by (rule expires_watch)
  qed (use taken assms in blast)
qed

lemma expires_waiting:
  assumes "ic_cause s = None" and "ic_last s \<le> now" and "ic_now s \<le> now + idle" and "0 < idle"
    and "ic_pc s = Selecting" and "ic_timer s = Some d" and "d \<le> now + idle"
  shows "expires idle (now + idle) s"
proof (rule expires_wait)
  show "max (now + idle) (ic_now s) \<ge> ic_now s" by simp
  show "expires idle (now + idle) (s\<lparr>ic_now := max (now + idle) (ic_now s)\<rparr>)"
    using assms by (intro expires_now) auto
qed

lemma expires_fired:
  assumes "ic_cause s = None" and "ic_last s \<le> ic_now s" and "0 < idle" and "ic_pc s = FiredLoaded d" and "d \<le> ic_now s + idle"
  shows "expires idle (ic_now s + idle) s"
proof (cases "d - ic_now s > 0")
  case True
  let ?s1 = "s\<lparr>ic_pc := FiredWait (d - ic_now s)\<rparr>"
  have "expires idle (ic_now s + idle) (?s1\<lparr>ic_timer := Some (ic_now s + (d - ic_now s)), ic_pc := Selecting\<rparr>)"
    using assms by (intro expires_waiting [where d = d]) simp_all
  moreover have "watch idle ?s1 (?s1\<lparr>ic_timer := Some (ic_now s + (d - ic_now s)), ic_pc := Selecting\<rparr>)"
    using fired_reset [of ?s1 "d - ic_now s" idle] by simp
  ultimately show ?thesis using remaining [OF assms(4) True] by (blast intro: expires_watch)
next
  case False
  let ?s1 = "s\<lparr>ic_pc := Cancelling\<rparr>"
  have "watch idle ?s1 (?s1\<lparr>ic_cause := Some IdleTimeout, ic_pc := Ended\<rparr>)"
    using cancel [of ?s1 idle] assms by simp
  moreover have "expires idle (ic_now s + idle) (?s1\<lparr>ic_cause := Some IdleTimeout, ic_pc := Ended\<rparr>)"
    using assms by (intro expires_here) simp_all
  ultimately show ?thesis using expired [OF assms(4) False] by (blast intro: expires_watch)
qed

text \<open>From a \<open>Reset\<close> that is about to be called, and from the loads before it.\<close>

lemma expires_armed:
  assumes "0 < idle" and "idle_inv idle s" and "ic_cause s = None" and "w \<le> idle"
    and "watch idle s (s\<lparr>ic_timer := Some (ic_now s + w), ic_pc := Selecting\<rparr>)"
  shows "expires idle (ic_now s + idle) s"
  by (rule expires_watch [OF assms(5)])
    (use assms in \<open>intro expires_waiting [where d = "ic_now s + w"]; simp add: idle_inv_def\<close>)

lemma expires_touched:
  assumes "0 < idle" and "ic_cause s = None" and "ic_last s \<le> ic_now s" and "ic_pc s = TouchLoaded d" and "d \<le> ic_now s + idle"
  shows "expires idle (ic_now s + idle) s"
proof -
  let ?w = "touch_wait idle d (ic_now s)"
  let ?s2 = "s\<lparr>ic_pc := TouchWait ?w\<rparr>"
  have "watch idle ?s2 (?s2\<lparr>ic_timer := Some (ic_now s + ?w), ic_pc := Selecting\<rparr>)"
    using touch_reset [of ?s2 ?w idle] by simp
  moreover have "expires idle (ic_now s + idle) (?s2\<lparr>ic_timer := Some (ic_now s + ?w), ic_pc := Selecting\<rparr>)"
    using assms by (intro expires_waiting [where d = "ic_now s + ?w"]) (auto simp: touch_wait_def)
  ultimately show ?thesis using touch_until [OF assms(4)] by (blast intro: expires_watch)
qed

lemma invariant_expires:
  assumes "0 < idle" and "idle_inv idle s" and "ic_cause s = None"
  shows "expires idle (ic_now s + idle) s"
proof -
  note inv = assms(2) [unfolded idle_inv_def]
  note armed = expires_armed [OF assms]
  show ?thesis
  proof (cases "ic_pc s")
    case Starting
    show ?thesis by (rule armed [OF _ start [OF Starting]]) simp
  next
    case Selecting
    with inv obtain d where "ic_timer s = Some d" "d \<le> ic_now s + idle" by (auto simp: timer_ok_def)
    with Selecting show ?thesis using assms(1,3) inv by (intro expires_waiting) auto
  next
    case TouchTaken
    let ?s1 = "s\<lparr>ic_pc := TouchLoaded (ic_last s + idle)\<rparr>"
    have "expires idle (ic_now ?s1 + idle) ?s1" using assms inv by (intro expires_touched) auto
    with touch_load [OF TouchTaken] show ?thesis by (auto intro: expires_watch)
  next
    case (TouchLoaded d)
    with inv assms show ?thesis by (intro expires_touched) (auto simp: timer_ok_def)
  next
    case (TouchWait w)
    with inv show ?thesis by (intro armed [OF _ touch_reset [OF TouchWait]]) (simp add: timer_ok_def)
  next
    case FiredTaken
    let ?s1 = "s\<lparr>ic_pc := FiredLoaded (ic_last s + idle), ic_raced := False\<rparr>"
    have "expires idle (ic_now ?s1 + idle) ?s1" using assms inv by (intro expires_fired) auto
    with fired_load [OF FiredTaken] show ?thesis by (auto intro: expires_watch)
  next
    case (FiredLoaded d)
    with inv assms show ?thesis by (intro expires_fired) (auto simp: timer_ok_def)
  next
    case (FiredWait w)
    with inv show ?thesis by (intro armed [OF _ fired_reset [OF FiredWait]]) (simp add: timer_ok_def)
  next
    case Cancelling
    have "expires idle (ic_now s + idle) (s\<lparr>ic_cause := Some IdleTimeout, ic_pc := Ended\<rparr>)"
      using assms by (intro expires_here) simp_all
    with cancel [OF Cancelling, of idle] assms(3) show ?thesis by (auto intro: expires_watch)
  next
    case Ended
    with inv assms(3) show ?thesis by (simp add: timer_ok_def)
  qed
qed

section \<open>Properties\<close>

text \<open>C18: A stream is not cancelled as idle while it is active: in every reachable state of the watching goroutine, the
  callers of \<open>touch\<close> and the clock, if the step taken cancels the stream with the idle timeout, then the last
  activity stored is at least \<open>idle\<close> ago, unless it was stored after the goroutine had loaded the last activity
  for this very decision.\<close>

theorem idle_timeout_only_when_idle:
  assumes "0 < idle" and "idle_reachable idle start s" and "idle_step idle s s'"
    and "ic_cause s \<noteq> Some IdleTimeout" and "ic_cause s' = Some IdleTimeout"
  shows "ic_last s + idle \<le> ic_now s \<or> ic_raced s"
proof -
  have inv: "idle_inv idle s" by (rule idle_reachable_inv [OF assms(2,1)])
  from assms(3-5) have "watch idle s s'" by (auto simp: idle_step_def tick_iff touch_iff elsewhere_iff)
  then have "ic_pc s = Cancelling" using assms(4,5) by (cases rule: watch.cases) (auto split: if_splits)
  with inv show ?thesis by (auto simp: idle_inv_def timer_ok_def)
qed

text \<open>C19: A silent stream can always be ended: from every reachable state in which the context is not cancelled, the
  goroutine and the clock alone can reach its cancellation with the idle timeout, not later than \<open>idle\<close> from now.\<close>

theorem silent_stream_expires:
  assumes "0 < idle" and "idle_reachable idle start s" and "ic_cause s = None"
  shows "\<exists>s'. (silent_step idle)\<^sup>*\<^sup>* s s' \<and> ic_cause s' = Some IdleTimeout \<and> ic_now s' \<le> ic_now s + idle"
  using invariant_expires [OF assms(1) idle_reachable_inv [OF assms(2,1)] assms(3)] by (simp add: expires_def)

text \<open>The goroutine does not spin: from every reachable state it makes at most nine steps of its own before it waits
  for the clock, for a touch or for a cancellation; each of its resets arms the timer in the future.\<close>

theorem watch_never_spins:
  assumes "0 < idle" and "idle_reachable idle start s" and "(watch idle ^^ n) s s'"
  shows "n \<le> 9"
proof -
  have "idle_inv idle s \<Longrightarrow> (watch idle ^^ n) s s' \<Longrightarrow> n + watch_budget s' \<le> watch_budget s" for s n s'
  proof (induction n arbitrary: s)
    case (Suc n)
    from Suc.prems(2) obtain u where u: "watch idle s u" "(watch idle ^^ n) u s'" by (metis relpowp_Suc_E2)
    with Suc.IH [OF watch_inv [OF assms(1) u(1) Suc.prems(1)] u(2)] watch_budget_decreases [OF assms(1) u(1) Suc.prems(1)]
    show ?case by simp
  qed simp
  from this [OF idle_reachable_inv [OF assms(2,1)] assms(3)] watch_budget_bound [of s] show ?thesis by simp
qed

section \<open>Witnesses\<close>

text \<open>A stream that starts at the instant 0 and is never touched, with a timeout of 5.\<close>

definition demo_idle :: "int \<Rightarrow> int option \<Rightarrow> watch_pc \<Rightarrow> cancel_cause option \<Rightarrow> idle_ctx" where
  "demo_idle now timer pc cause = \<lparr>ic_now = now, ic_last = 0, ic_token = False, ic_timer = timer, ic_pc = pc,
     ic_cause = cause, ic_reads = [], ic_sends = 0, ic_raced = False\<rparr>"

lemma demo_idle_steps:
  "watch 5 (newIdleContext 0) (demo_idle 0 (Some 5) Selecting None)"
  "tick (demo_idle 0 (Some 5) Selecting None) (demo_idle 5 (Some 5) Selecting None)"
  "watch 5 (demo_idle 5 (Some 5) Selecting None) (demo_idle 5 None FiredTaken None)"
  "watch 5 (demo_idle 5 None FiredTaken None) (demo_idle 5 None (FiredLoaded 5) None)"
  "watch 5 (demo_idle 5 None (FiredLoaded 5) None) (demo_idle 5 None Cancelling None)"
  "watch 5 (demo_idle 5 None Cancelling None) (demo_idle 5 None Ended (Some IdleTimeout))"
  by (simp_all add: watch.simps tick_iff newIdleContext_def demo_idle_def)

lemma demo_idle_reachable: "idle_reachable 5 0 (demo_idle 5 None Cancelling None)"
  by (meson demo_idle_steps idle_step_def r_into_rtranclp rtranclp.rtrancl_into_rtrancl)

lemma idle_timeout_only_when_idle_witness:
  "idle_step 5 (demo_idle 5 None Cancelling None) (demo_idle 5 None Ended (Some IdleTimeout)) \<and>
   ic_last (demo_idle 5 None Cancelling None) + 5 \<le> ic_now (demo_idle 5 None Cancelling None)"
proof -
  have s: "idle_step 5 (demo_idle 5 None Cancelling None) (demo_idle 5 None Ended (Some IdleTimeout))"
    using demo_idle_steps(6) by (simp add: idle_step_def)
  have "0 < (5::int)" by simp
  from idle_timeout_only_when_idle [OF this demo_idle_reachable s] s show ?thesis by (simp add: demo_idle_def)
qed

lemma silent_stream_expires_witness:
  "\<exists>s'. (silent_step 5)\<^sup>*\<^sup>* (newIdleContext 0) s' \<and> ic_cause s' = Some IdleTimeout \<and> ic_now s' \<le> 5"
  using silent_stream_expires [of 5 0 "newIdleContext 0"] by (simp add: newIdleContext_def)

lemma watch_never_spins_witness:
  "(watch 5 ^^ Suc 0) (newIdleContext 0) (demo_idle 0 (Some 5) Selecting None) \<and> Suc 0 \<le> 9"
proof -
  have w: "(watch 5 ^^ Suc 0) (newIdleContext 0) (demo_idle 0 (Some 5) Selecting None)"
    using demo_idle_steps(1) by (simp only: relpowp_1 One_nat_def [symmetric])
  from watch_never_spins [OF _ _ w, of 0] w show ?thesis by simp
qed

end
