(* ===== verification/Net_Facts.thy ===== *)
theory Net_Facts
  imports Net_Policy
begin

text \<open>
  What the network policy amounts to: the accepted addresses as intervals, the same for the
  IPv4-mapped form of an address, literals in a URL, the hosts a provider may have, and the
  address that is dialled in the end; and the reserved ranges that the policy misses.
\<close>

section \<open>Prefixes as intervals\<close>

lemma div_eq_interval:
  fixes x q d :: int
  assumes "0 < d"
  shows "x div d = q \<longleftrightarrow> q * d \<le> x \<and> x < (q + 1) * d"
proof -
  have m: "d * (x div d) + x mod d = x" "0 \<le> x mod d" "x mod d < d" using assms by simp_all
  show ?thesis
  proof
    assume "x div d = q"
    then have "d * q + x mod d = x" using m(1) by simp
    then show "q * d \<le> x \<and> x < (q + 1) * d" using m by (auto simp: algebra_simps)
  next
    assume a: "q * d \<le> x \<and> x < (q + 1) * d"
    then have "x = q * d + (x - q * d)" "0 \<le> x - q * d" "x - q * d < d" by (auto simp: algebra_simps)
    then have "x div d = q + (x - q * d) div d"
      using assms by (metis add.commute div_mult_self1 less_irrefl)
    then show "x div d = q" using a by (simp add: algebra_simps div_pos_pos_trivial)
  qed
qed

text \<open>A prefix with its bits after the length zero is the interval from its base.\<close>

lemma prefix_interval_v4:
  assumes "uint base mod 2 ^ (32 - bits) = 0"
  shows "prefix_contains (P4 base bits) (V4 x) \<longleftrightarrow>
    uint base \<le> uint x \<and> uint x < uint base + 2 ^ (32 - bits)"
proof -
  have "uint base div 2 ^ (32 - bits) * 2 ^ (32 - bits) = uint base"
    using assms by (metis add.right_neutral div_mult_mod_eq)
  then show ?thesis by (simp add: div_eq_interval distrib_right)
qed

lemma prefix_interval_v6:
  assumes "uint base mod 2 ^ (128 - bits) = 0"
  shows "prefix_contains (P6 base bits) (V6 x) \<longleftrightarrow>
    uint base \<le> uint x \<and> uint x < uint base + 2 ^ (128 - bits)"
proof -
  have "uint base div 2 ^ (128 - bits) * 2 ^ (128 - bits) = uint base"
    using assms by (metis add.right_neutral div_mult_mod_eq)
  then show ?thesis by (simp add: div_eq_interval distrib_right)
qed

text \<open>Dotted quads and groups as numbers.\<close>

definition quad :: "int \<Rightarrow> int \<Rightarrow> int \<Rightarrow> int \<Rightarrow> int" where
  "quad a b c d = ((a * 256 + b) * 256 + c) * 256 + d"

definition hextets :: "int \<Rightarrow> int \<Rightarrow> int" where
  "hextets a b = (a * 65536 + b) * 2 ^ 96"

text \<open>The blocked IPv4 ranges, first and last address.\<close>

definition reserved_v4 :: "(int \<times> int) list" where
  "reserved_v4 =
     [(quad 0 0 0 0, quad 0 255 255 255), (quad 10 0 0 0, quad 10 255 255 255),
      (quad 100 64 0 0, quad 100 127 255 255), (quad 127 0 0 0, quad 127 255 255 255),
      (quad 169 254 0 0, quad 169 254 255 255), (quad 172 16 0 0, quad 172 31 255 255),
      (quad 192 0 0 0, quad 192 0 0 255), (quad 192 0 2 0, quad 192 0 2 255),
      (quad 192 88 99 0, quad 192 88 99 255), (quad 192 168 0 0, quad 192 168 255 255),
      (quad 198 18 0 0, quad 198 19 255 255), (quad 198 51 100 0, quad 198 51 100 255),
      (quad 203 0 113 0, quad 203 0 113 255), (quad 224 0 0 0, quad 239 255 255 255),
      (quad 240 0 0 0, quad 255 255 255 255)]"

definition reserved_v6 :: "(int \<times> int) list" where
  "reserved_v6 =
     [(0, 0), (1, 1), (hextets 0x100 0, hextets 0x100 0 + 2 ^ 64 - 1),
      (hextets 0x2001 2, hextets 0x2001 2 + 2 ^ 80 - 1),
      (hextets 0x2001 0x10, hextets 0x2001 0x20 - 1),
      (hextets 0x2001 0xDB8, hextets 0x2001 0xDB9 - 1),
      (hextets 0xFC00 0, hextets 0xFE00 0 - 1), (hextets 0xFE80 0, hextets 0xFEC0 0 - 1),
      (hextets 0xFF00 0, 2 ^ 128 - 1)]"

definition outside :: "(int \<times> int) list \<Rightarrow> int \<Rightarrow> bool" where
  "outside ranges n = list_all (\<lambda>(lo, hi). n < lo \<or> hi < n) ranges"

lemma uint_v4_bounds: "0 \<le> uint (x :: 32 word)" "uint (x :: 32 word) < 4294967296"
  using uint_lt2p [of x] by simp_all

lemma uint_v6_bounds: "0 \<le> uint (x :: 128 word)" "uint (x :: 128 word) < 2 ^ 128"
  using uint_lt2p [of x] by simp_all

definition policy_accepts :: "addr \<Rightarrow> bool" where
  "policy_accepts a \<longleftrightarrow> IsGlobalUnicast a \<and> \<not> list_ex (\<lambda>p. prefix_contains p a) blockedRemoteIPPrefixes"

text \<open>The negations as the disjunctions of \<open>outside\<close>.\<close>

lemma not_prefix_v4:
  assumes "uint base mod 2 ^ (32 - bits) = 0"
  shows "\<not> prefix_contains (P4 base bits) (V4 x) \<longleftrightarrow>
    uint x < uint base \<or> uint base + 2 ^ (32 - bits) - 1 < uint x"
  using prefix_interval_v4 [OF assms, of x] by auto

lemma not_prefix_v6:
  assumes "uint base mod 2 ^ (128 - bits) = 0"
  shows "\<not> prefix_contains (P6 base bits) (V6 x) \<longleftrightarrow>
    uint x < uint base \<or> uint base + 2 ^ (128 - bits) - 1 < uint x"
  using prefix_interval_v6 [OF assms, of x] by auto

lemma blocked_v4:
  "\<not> list_ex (\<lambda>p. prefix_contains p (V4 x)) blockedRemoteIPPrefixes \<longleftrightarrow> outside reserved_v4 (uint x)"
  by (simp add: blockedRemoteIPPrefixes_def outside_def reserved_v4_def quad_def not_prefix_v4
      del: prefix_contains.simps(1))

lemma policy_accepts_v4: "policy_accepts (V4 x) \<longleftrightarrow> outside reserved_v4 (uint x)"
proof -
  have z: "x \<noteq> 0 \<longleftrightarrow> uint x \<noteq> 0" "x \<noteq> 0xFFFFFFFF \<longleftrightarrow> uint x \<noteq> 4294967295"
    by (simp_all add: word_uint_eq_iff)
  have "IsGlobalUnicast (V4 x)" if o: "outside reserved_v4 (uint x)"
  proof -
    have r: "uint x < 0 \<or> 16777215 < uint x" "uint x < 2130706432 \<or> 2147483647 < uint x"
      "uint x < 2851995648 \<or> 2852061183 < uint x" "uint x < 3758096384 \<or> 4026531839 < uint x"
      "uint x < 4026531840 \<or> 4294967295 < uint x"
      using o unfolding outside_def reserved_v4_def quad_def by simp_all
    have "x \<noteq> 0" "x \<noteq> 0xFFFFFFFF" unfolding z using r(1,5) by auto
    moreover have "\<not> prefix_contains (P4 0x7F000000 8) (V4 x)"
      using r(2) by (subst not_prefix_v4) simp_all
    moreover have "\<not> prefix_contains (P4 0xA9FE0000 16) (V4 x)"
      using r(3) by (subst not_prefix_v4) simp_all
    moreover have "\<not> prefix_contains (P4 0xE0000000 4) (V4 x)"
      using r(4) by (subst not_prefix_v4) simp_all
    ultimately show ?thesis by (simp del: prefix_contains.simps)
  qed
  then show ?thesis using blocked_v4 by (auto simp: policy_accepts_def)
qed

lemma blocked_v6:
  "\<not> list_ex (\<lambda>p. prefix_contains p (V6 x)) blockedRemoteIPPrefixes \<longleftrightarrow> outside reserved_v6 (uint x)"
  by (simp add: blockedRemoteIPPrefixes_def outside_def reserved_v6_def hextets_def not_prefix_v6
      del: prefix_contains.simps(2))

lemma policy_accepts_v6: "policy_accepts (V6 x) \<longleftrightarrow> outside reserved_v6 (uint x)"
proof -
  have z: "x \<noteq> 0 \<longleftrightarrow> uint x \<noteq> 0" "x \<noteq> 1 \<longleftrightarrow> uint x \<noteq> 1"
    by (simp_all add: word_uint_eq_iff)
  have "IsGlobalUnicast (V6 x)" if o: "outside reserved_v6 (uint x)"
  proof -
    have r: "uint x < 0xFE80 * 2 ^ 112 \<or> 0xFEC0 * 2 ^ 112 - 1 < uint x"
      "uint x < 0xFF00 * 2 ^ 112 \<or> 2 ^ 128 - 1 < uint x"
      using o unfolding outside_def reserved_v6_def hextets_def by simp_all
    have "x \<noteq> 0" "x \<noteq> 1" unfolding z using o by (auto simp: outside_def reserved_v6_def)
    moreover have "\<not> prefix_contains (P6 (0xFE80 * 2 ^ 112) 10) (V6 x)"
      using r(1) by (subst not_prefix_v6) simp_all
    moreover have "\<not> prefix_contains (P6 (0xFF * 2 ^ 120) 8) (V6 x)"
      using r(2) by (subst not_prefix_v6) simp_all
    ultimately show ?thesis by (simp del: prefix_contains.simps)
  qed
  then show ?thesis using blocked_v6 by (auto simp: policy_accepts_def)
qed

section \<open>The checks of an address\<close>

lemma remote_ip_ok:
  "validateRemoteAttachmentIP ip = None \<longleftrightarrow>
     (\<exists>x a. ip = Some x \<and> AddrFromSlice x = Some a \<and> policy_accepts (Unmap a))"
  by (auto simp: validateRemoteAttachmentIP_def policy_accepts_def Let_def split: option.splits)

lemma provider_ip_ok:
  "validateProviderIP ip = None \<longleftrightarrow>
     (\<exists>x a. ip = Some x \<and> AddrFromSlice x = Some a \<and> policy_accepts (Unmap a))"
  by (auto simp: validateProviderIP_def policy_accepts_def Let_def split: option.splits)

lemma uint_mapped: "uint (mapped x) = 0xFFFF * 2 ^ 32 + uint x"
proof -
  have "0xFFFF * 2 ^ 32 + uint x < 2 ^ LENGTH(128)" "0 \<le> 0xFFFF * 2 ^ 32 + uint x"
    using uint_v4_bounds [of x] by simp_all
  then show ?thesis unfolding mapped_def uint_word_of_int by (intro mod_pos_pos_trivial)
qed

lemma Unmap_mapped [simp]: "Unmap (V6 (mapped x)) = V4 x"
proof -
  have b: "0 \<le> uint x" "uint x < 2 ^ 32" using uint_v4_bounds [of x] by simp_all
  have "(0xFFFF * 2 ^ 32 + uint x) div 2 ^ 32 = 0xFFFF" using b by (simp add: div_eq_interval)
  moreover have "(0xFFFF * 2 ^ 32 + uint x) mod 2 ^ 32 = uint x"
    unfolding mod_mult_self3 using b by (intro mod_pos_pos_trivial)
  ultimately show ?thesis by (simp add: uint_mapped)
qed

lemma Unmap_V6: "Unmap (V6 x) =
    (if uint x div 2 ^ 32 = 0xFFFF then V4 (word_of_int (uint x mod 2 ^ 32)) else V6 x)"
  by simp

section \<open>Literals in a URL\<close>

text \<open>Decimal printing of one byte, and the dotted quad of an address.\<close>

definition digit :: "int \<Rightarrow> char" where
  "digit d = char_of (48 + d)"

definition show_octet :: "int \<Rightarrow> string" where
  "show_octet n =
     (if n < 10 then [digit n]
      else if n < 100 then [digit (n div 10), digit (n mod 10)]
      else [digit (n div 100), digit (n div 10 mod 10), digit (n mod 10)])"

definition show_quad :: "int \<Rightarrow> int \<Rightarrow> int \<Rightarrow> int \<Rightarrow> string" where
  "show_quad a b c d = show_octet a @ ''.'' @ show_octet b @ ''.'' @ show_octet c @ ''.'' @ show_octet d"

definition show_v4 :: "32 word \<Rightarrow> string" where
  "show_v4 x = show_quad (uint x div 2 ^ 24) (uint x div 2 ^ 16 mod 256) (uint x div 2 ^ 8 mod 256)
     (uint x mod 256)"

lemma of_char_digit [simp]: "0 \<le> d \<Longrightarrow> d < 10 \<Longrightarrow> of_char (digit d) = 48 + d"
  by (simp add: digit_def)

lemma digit_value_digit [simp]: "0 \<le> d \<Longrightarrow> d < 10 \<Longrightarrow> digit_value (digit d) = Some d"
  by (simp add: digit_value_def)

lemma digit_zero_iff: "0 \<le> d \<Longrightarrow> d < 10 \<Longrightarrow> digit d = CHR ''0'' \<longleftrightarrow> d = 0"
proof -
  assume d: "0 \<le> d" "d < 10"
  have z: "(of_char CHR ''0'' :: int) = 48" by simp
  then have c: "char_of (48 :: int) = CHR ''0''" by (metis char_of_char)
  show ?thesis
  proof
    assume "digit d = CHR ''0''"
    then have "48 + d = 48" using of_char_digit [OF d] z by metis
    then show "d = 0" by simp
  qed (simp add: digit_def c)
qed

lemma parse_show_octet:
  assumes "0 \<le> n" and "n \<le> 255"
  shows "parse_octet (show_octet n) = Some n"
proof -
  consider "n < 10" | "10 \<le> n" "n < 100" | "100 \<le> n" by linarith
  then show ?thesis
  proof cases
    case 1
    then show ?thesis using assms by (simp add: show_octet_def parse_octet_def)
  next
    case 2
    then have "0 < n div 10" "n div 10 < 10" by auto
    then show ?thesis using 2 by (simp add: show_octet_def parse_octet_def digit_zero_iff)
  next
    case 3
    have "0 < n div 100" "n div 100 < 10" using 3 assms by auto
    moreover have "(n div 100 * 10 + n div 10 mod 10) * 10 + n mod 10 = n"
      using zdiv_zmult2_eq [of 10 n 10] by simp
    ultimately show ?thesis using 3 assms by (simp add: show_octet_def parse_octet_def digit_zero_iff)
  qed
qed

text \<open>The bytes of a dotted quad.\<close>

definition decimals :: "char set" where
  "decimals = set ''0123456789''"

lemma digit_chars: "0 \<le> d \<Longrightarrow> d < 10 \<Longrightarrow> digit d \<in> decimals"
proof -
  assume "0 \<le> d" "d < 10"
  then have "d = 0 \<or> d = 1 \<or> d = 2 \<or> d = 3 \<or> d = 4 \<or> d = 5 \<or> d = 6 \<or> d = 7 \<or> d = 8 \<or> d = 9"
    by presburger
  moreover have "digit 0 = CHR ''0''" "digit 1 = CHR ''1''" "digit 2 = CHR ''2''" "digit 3 = CHR ''3''"
    "digit 4 = CHR ''4''" "digit 5 = CHR ''5''" "digit 6 = CHR ''6''" "digit 7 = CHR ''7''"
    "digit 8 = CHR ''8''" "digit 9 = CHR ''9''"
    unfolding digit_def by code_simp+
  ultimately show ?thesis unfolding decimals_def by auto
qed

lemma show_octet_chars:
  assumes "0 \<le> n" and "n \<le> 255"
  shows "set (show_octet n) \<subseteq> decimals"
proof -
  have d: "digit (n mod 10) \<in> decimals" "digit (n div 10 mod 10) \<in> decimals"
    by (intro digit_chars; simp)+
  have "digit n \<in> decimals" if "n < 10" using digit_chars assms that by blast
  moreover have "digit (n div 10) \<in> decimals" if "n < 100"
    by (rule digit_chars) (use assms that in auto)
  moreover have "digit (n div 100) \<in> decimals"
    by (rule digit_chars) (use assms in auto)
  ultimately show ?thesis using d unfolding show_octet_def by auto
qed

lemma v4_octets:
  fixes x :: "32 word"
  shows "0 \<le> uint x div 2 ^ 24" "uint x div 2 ^ 24 \<le> 255"
    "quad (uint x div 2 ^ 24) (uint x div 2 ^ 16 mod 256) (uint x div 2 ^ 8 mod 256) (uint x mod 256) = uint x"
proof -
  have b: "0 \<le> uint x" "uint x < 4294967296" using uint_v4_bounds [of x] by simp_all
  show "0 \<le> uint x div 2 ^ 24" by (rule pos_imp_zdiv_nonneg_iff [THEN iffD2]) simp_all
  show "uint x div 2 ^ 24 \<le> 255" using b by auto
  have "uint x div 65536 = uint x div 256 div 256" "uint x div 16777216 = uint x div 256 div 256 div 256"
    using zdiv_zmult2_eq [of 256 "uint x" 256] zdiv_zmult2_eq [of 256 "uint x" 65536]
      zdiv_zmult2_eq [of 256 "uint x div 256" 256] by simp_all
  then show "quad (uint x div 2 ^ 24) (uint x div 2 ^ 16 mod 256) (uint x div 2 ^ 8 mod 256) (uint x mod 256) = uint x"
    by (simp add: quad_def)
qed

lemma no_char: "ch \<notin> decimals \<Longrightarrow> 0 \<le> n \<Longrightarrow> n \<le> 255 \<Longrightarrow> ch \<notin> set (show_octet n)"
  using show_octet_chars by blast

lemma split_four:
  assumes "sep \<notin> set a" and "sep \<notin> set b" and "sep \<notin> set c" and "sep \<notin> set d"
  shows "split_at sep (a @ [sep] @ b @ [sep] @ c @ [sep] @ d) = [a, b, c, d]"
  using assms by (simp add: split_at_append split_at_single)

lemma parse_show_quad:
  assumes "0 \<le> a" "a \<le> 255" "0 \<le> b" "b \<le> 255" "0 \<le> c" "c \<le> 255" "0 \<le> d" "d \<le> 255"
  shows "parse_v4 (show_quad a b c d) = Some (quad a b c d)"
proof -
  have "CHR ''.'' \<notin> decimals" by (simp add: decimals_def)
  note n = no_char [OF this]
  show ?thesis
    unfolding parse_v4_def show_quad_def
      split_four [OF n [OF assms(1,2)] n [OF assms(3,4)] n [OF assms(5,6)] n [OF assms(7,8)]]
    using assms by (simp add: parse_show_octet quad_def)
qed

lemma octet_mod: "0 \<le> (n :: int) mod 256" "n mod 256 \<le> 255"
  using pos_mod_bound [of 256 n] by simp_all

lemma parse_show_v4: "parse_v4 (show_v4 x) = Some (uint x)"
  unfolding show_v4_def parse_show_quad [OF v4_octets(1,2) octet_mod octet_mod octet_mod] v4_octets(3) ..

lemma show_v4_chars: "set (show_v4 x) \<subseteq> insert CHR ''.'' decimals"
  using show_octet_chars [OF v4_octets(1,2) [of x]] show_octet_chars [OF octet_mod]
  unfolding show_v4_def show_quad_def by auto

lemma ParseIP_dot:
  "filter (\<lambda>c. c \<in> set ''.:%'') s = CHR ''.'' # cs \<Longrightarrow>
   ParseIP s = map_option (\<lambda>n. IP16 (mapped (word_of_int n))) (parse_v4 s)"
  by (simp add: ParseIP_def)

lemma ParseIP_show_v4: "ParseIP (show_v4 x) = Some (IP16 (mapped x))"
proof -
  let ?f = "filter (\<lambda>c. c \<in> set ''.:%'') (show_v4 x)"
  have only: "c = CHR ''.''" if "c \<in> set ?f" for c
    using that show_v4_chars [of x] by (auto simp: decimals_def)
  have "CHR ''.'' \<in> set ?f" by (simp add: show_v4_def show_quad_def)
  then have ne: "?f \<noteq> []" by (metis empty_iff empty_set)
  then have "hd ?f = CHR ''.''" using only [OF hd_in_set] by blast
  then have "?f = CHR ''.'' # tl ?f" using ne by (metis list.collapse)
  from ParseIP_dot [OF this] show ?thesis by (simp add: parse_show_v4)
qed

lemma literal_trim: "trim_space (show_v4 x) = show_v4 x"
proof -
  have "list_all (\<lambda>c. list_all (\<lambda>w. c \<notin> set w) space_runes) ''.0123456789''" by code_simp
  then have "insert CHR ''.'' decimals \<inter> space_bytes = {}"
    unfolding decimals_def space_bytes_def list_all_iff by auto
  then show ?thesis using show_v4_chars [of x] by (intro trim_space_no_space) blast
qed

lemma lower_decimal: "c \<in> insert CHR ''.'' decimals \<Longrightarrow> lower_byte c = c"
  by (auto simp: decimals_def lower_byte_def)

lemma literal_lower: "to_lower (show_v4 x) = show_v4 x"
proof -
  have "ascii (show_v4 x)"
    using show_v4_chars [of x] by (auto simp: ascii_def list_all_iff decimals_def)
  then have "to_lower (show_v4 x) = map lower_byte (show_v4 x)" by (rule to_lower_ascii)
  also have "\<dots> = show_v4 x" using show_v4_chars [of x] lower_decimal by (intro map_idI) blast
  finally show ?thesis .
qed

lemma literal_not_localhost: "\<not> isLocalhostHostname (show_v4 x)"
proof -
  have "CHR ''l'' \<notin> set (show_v4 x)" using show_v4_chars [of x] by (auto simp: decimals_def)
  then show ?thesis
    by (auto simp: isLocalhostHostname_def literal_trim literal_lower has_suffix_iff Let_def)
qed

lemma literal_nonempty: "show_v4 x \<noteq> []"
  by (simp add: show_v4_def show_quad_def)

section \<open>Properties\<close>

text \<open>C14: The remote-attachment policy accepts an IPv4 address if and only if it lies outside of every
  reserved range (this host, private, shared, loopback, link-local, documentation, benchmark,
  multicast and class E networks), whether it comes as 4 bytes or in the IPv4-mapped form, and
  the provider policy agrees with it.\<close>

theorem v4_policy_exact:
  "(validateRemoteAttachmentIP (Some (IP4 x)) = None) = outside reserved_v4 (uint x) \<and>
   validateRemoteAttachmentIP (Some (IP16 (mapped x))) = validateRemoteAttachmentIP (Some (IP4 x)) \<and>
   validateProviderIP (Some (IP16 (mapped x))) = validateProviderIP (Some (IP4 x)) \<and>
   (validateProviderIP (Some (IP4 x)) = None) = outside reserved_v4 (uint x)"
proof -
  have m: "Unmap (V6 (mapped x)) = Unmap (V4 x)" using Unmap_mapped by (simp del: Unmap.simps(2))
  have "(validateRemoteAttachmentIP (Some (IP4 x)) = None) = outside reserved_v4 (uint x)"
    "(validateProviderIP (Some (IP4 x)) = None) = outside reserved_v4 (uint x)"
    by (simp_all add: remote_ip_ok provider_ip_ok policy_accepts_v4)
  moreover have "validateRemoteAttachmentIP (Some (IP16 (mapped x))) = validateRemoteAttachmentIP (Some (IP4 x))"
    "validateProviderIP (Some (IP16 (mapped x))) = validateProviderIP (Some (IP4 x))"
    unfolding validateRemoteAttachmentIP_def validateProviderIP_def by (simp_all add: m del: Unmap.simps(2))
  ultimately show ?thesis by blast
qed

text \<open>An IPv6 address that is not IPv4-mapped is accepted if and only if it lies outside of the reserved
  IPv6 ranges (unspecified, loopback, discard-only, benchmark, ORCHID, documentation, unique
  local, link-local and multicast).\<close>

theorem v6_policy_exact:
  assumes "uint x div 2 ^ 32 \<noteq> 0xFFFF"
  shows "(validateRemoteAttachmentIP (Some (IP16 x)) = None) = outside reserved_v6 (uint x) \<and>
    (validateProviderIP (Some (IP16 x)) = None) = outside reserved_v6 (uint x)"
proof -
  have "Unmap (V6 x) = V6 x" using assms by simp
  then show ?thesis by (simp add: remote_ip_ok provider_ip_ok policy_accepts_v6 del: Unmap.simps(2))
qed

lemma v6_policy_exact_witness:
  "validateRemoteAttachmentIP (Some (IP16 (0xFD00 * 2 ^ 112))) \<noteq> None"
proof -
  have "uint (0xFD00 * 2 ^ 112 :: 128 word) div 2 ^ 32 \<noteq> 0xFFFF" by simp
  from v6_policy_exact [OF this] show ?thesis by (simp add: outside_def reserved_v6_def hextets_def)
qed

text \<open>Every dotted-quad literal in a remote URL is subject to the address policy: \<open>ParseIP\<close> reads the
  decimal form of an address back, and an \<open>http\<close> or \<open>https\<close> URL with that host is accepted if and
  only if the address lies outside of the reserved ranges.\<close>

theorem v4_literal_checked:
  "ParseIP (show_v4 x) = Some (IP16 (mapped x)) \<and>
   (validateRemoteAttachmentURL (Some \<lparr>pu_scheme = ''https'', pu_hostname = show_v4 x\<rparr>) False = None)
     = outside reserved_v4 (uint x)"
proof -
  have "(validateRemoteAttachmentIP (Some (IP16 (mapped x))) = None) = outside reserved_v4 (uint x)"
    using Unmap_mapped by (simp add: remote_ip_ok policy_accepts_v4 del: Unmap.simps(2))
  then show ?thesis
    by (simp add: validateRemoteAttachmentURL_def Let_def literal_trim literal_nonempty
        literal_not_localhost ParseIP_show_v4)
qed

text \<open>C13: No rebinding: whatever the resolver answers and whatever redirects came before, the address that a
  remote attachment is fetched from, with private URLs disabled, is one that the policy accepts.\<close>

theorem dialled_address_is_public:
  assumes "DialContext False dials (Inr resolved) = Inr ip"
  shows "ip \<in> set resolved \<and> dials ip \<and> validateRemoteAttachmentIP (Some ip) = None"
proof -
  have d: "ip \<in> set resolved \<and> dials ip \<and> validateRemoteAttachmentIP (Some ip) = None"
    if "dial_resolved False dials resolved n = Inl ip" for n
    using that by (induction resolved arbitrary: n) (auto split: if_splits)
  show ?thesis
    using assms d by (auto simp: DialContext_def split: sum.splits if_splits)
qed

lemma dialled_address_is_public_witness:
  "DialContext False (\<lambda>_. True) (Inr [IP4 0x7F000001, IP4 0x08080808]) = Inr (IP4 0x08080808) \<and>
   validateRemoteAttachmentIP (Some (IP4 0x08080808)) = None"
proof -
  have "policy_accepts (V4 0x08080808)" "\<not> policy_accepts (V4 0x7F000001)"
    by (simp_all add: policy_accepts_v4 outside_def reserved_v4_def quad_def)
  then have "validateRemoteAttachmentIP (Some (IP4 0x08080808)) = None"
    "validateRemoteAttachmentIP (Some (IP4 0x7F000001)) \<noteq> None"
    by (simp_all only: remote_ip_ok) auto
  then have d: "DialContext False (\<lambda>_. True) (Inr [IP4 0x7F000001, IP4 0x08080808]) = Inr (IP4 0x08080808)"
    by (simp add: DialContext_def)
  then show ?thesis using dialled_address_is_public [OF d] by blast
qed

text \<open>A provider base URL that is accepted with private URLs disabled uses \<open>http\<close> or \<open>https\<close>, does not
  name the local host, and names either an IP literal that the address policy accepts or a host
  that is trusted for the provider type.\<close>

theorem provider_url_trusted:
  assumes "validateProviderBaseURL False ptype (Some u) = None"
  shows "pu_scheme u \<in> {''http'', ''https''} \<and> \<not> isLocalhostHostname (pu_hostname u) \<and>
    (case ParseIP (trim_space (pu_hostname u)) of
       Some ip \<Rightarrow> validateProviderIP (Some ip) = None
     | None \<Rightarrow> ptype \<in> {''openai'', ''anthropic'', ''azure''} \<and>
         isTrustedProviderHostname ptype (pu_hostname u))"
  using assms
  by (auto simp: validateProviderBaseURL_def Let_def isTrustedProviderHostname_def
      isLocalhostHostname_def split: if_splits option.splits)

text \<open>Trust in a provider host is by its lower-cased name, and the lower case of a non-ASCII letter can
  be ASCII: a host spelled with U+0130 in place of an \<open>i\<close>, which is another DNS name, passes for
  \<open>api.openai.com\<close>.\<close>

theorem dotted_i_host_is_trusted:
  "isTrustedProviderHostname ''openai'' (''api.opena'' @ [CHR 0xC4, CHR 0xB0] @ ''.com'') \<and>
   validateProviderBaseURL False ''openai''
     (Some \<lparr>pu_scheme = ''https'', pu_hostname = ''api.opena'' @ [CHR 0xC4, CHR 0xB0] @ ''.com''\<rparr>) = None"
  by code_simp

text \<open>The address policy misses transition addresses: the NAT64 form \<open>64:ff9b::7f00:1\<close> and the 6to4 form
  \<open>2002:7f00:1::\<close> of 127.0.0.1, and the deprecated site-local network \<open>fec0::/10\<close>, are accepted.\<close>

theorem transition_addresses_accepted:
  "validateRemoteAttachmentIP (ParseIP ''64:ff9b::7f00:1'') = None \<and>
   validateRemoteAttachmentIP (ParseIP ''2002:7f00:1::'') = None \<and>
   validateRemoteAttachmentIP (ParseIP ''fec0::1'') = None"
proof -
  have ok: "validateRemoteAttachmentIP (ParseIP s) = None"
    if "filter (\<lambda>c. c \<in> set ''.:%'') s = CHR '':'' # cs" "CHR ''%'' \<notin> set s" "parse_v6 s = Some n"
      "0 \<le> n" "n < 2 ^ 128" "n div 2 ^ 32 \<noteq> 0xFFFF" "outside reserved_v6 n" for s cs n
  proof -
    have p: "ParseIP s = Some (IP16 (word_of_int n))" using that(1-3) by (simp add: ParseIP_def)
    have u: "uint (word_of_int n :: 128 word) = n"
      unfolding uint_word_of_int using that(4,5) by (intro mod_pos_pos_trivial) simp_all
    have "Unmap (V6 (word_of_int n)) = V6 (word_of_int n)" using that(6) u by (simp only: Unmap.simps if_False)
    then show ?thesis using p u that(7) by (simp add: remote_ip_ok policy_accepts_v6 del: Unmap.simps(2))
  qed
  have p: "parse_v6 ''64:ff9b::7f00:1'' = Some 0x64FF9B00000000000000007F000001"
    "parse_v6 ''2002:7f00:1::'' = Some 0x20027F00000100000000000000000000"
    "parse_v6 ''fec0::1'' = Some 0xFEC00000000000000000000000000001" by code_simp+
  show ?thesis
    by (intro conjI; rule ok [OF _ _ p(1)] ok [OF _ _ p(2)] ok [OF _ _ p(3)])
      (simp_all add: outside_def reserved_v6_def hextets_def)
qed

lemma provider_url_trusted_witness:
  "isTrustedProviderHostname ''azure'' ''team1.openai.azure.com''"
proof -
  have v: "validateProviderBaseURL False ''azure'' (Some \<lparr>pu_scheme = ''https'', pu_hostname = ''team1.openai.azure.com''\<rparr>) = None"
    by code_simp
  have "ParseIP (trim_space ''team1.openai.azure.com'') = None" by code_simp
  then show ?thesis using provider_url_trusted [OF v] by simp
qed

end
