(* ===== verification/Spec2Isabelle.thy ===== *)
theory Spec2Isabelle
  imports Live_Properties Idle_Context Bridge_Wait Session_Properties Session_Races Send_Facts Net_Facts Config_Facts Policy_Facts
begin

text \<open>
  A verification development for the Copilot SDK gateway, a Go program that serves the OpenAI chat
  completions and the Claude messages protocols over HTTP and answers them with sessions of the
  GitHub Copilot SDK.

  The program.  \<open>internal/httpapi\<close> authenticates a request (\<open>internal/auth\<close>), converts it
  (\<open>internal/compat\<close>), checks it against the configuration (\<open>internal/config\<close>), takes a lease on a
  session from the session manager (\<open>internal/session\<close>), which creates or resumes it with the runtime
  (\<open>internal/runtime\<close>) and keeps a record of it in a file, writes the attachments to temporary
  directories, sends the prompt, and answers with the result or with a stream of events.  Tool calls,
  questions to the user and permission requests of a running prompt are bridged to the client, which
  answers them with further requests.  \<open>cmd/copilot-sdkapi\<close> puts the parts together.

  Foundations.

  \<^item> \<open>Gateway_Prelude\<close>: what the source uses of \<open>strings\<close>, Go maps as association lists with \<open>put\<close>
    and \<open>del\<close>, the first of several errors.
  \<^item> \<open>Runtime_Types\<close>: error values with their wrapping chain, permission modes, pending requests
    and responses, usage (\<open>runtime/runtime.go\<close>).
  \<^item> \<open>Json_Doc\<close>: JSON syntax trees and decoding into Go structs.

  Sessions.

  \<^item> \<open>Session_Store\<close>: the interface of a session store as two locales, \<open>FileStore\<close>
    (\<open>session/store.go\<close>) on a file, a temporary file and a script of system call errors, and the
    proof that it implements the interface.
  \<^item> \<open>Session_Manager\<close>, \<open>Session_Manager_Facts\<close>, \<open>Session_Recovery\<close>, \<open>Session_Properties\<close>: the
    operations of \<open>session/manager.go\<close> run one at a time, over any store of the interface; their
    frame and invariant lemmas; restart and recovery; the properties, on \<open>FileStore\<close>.
  \<^item> \<open>Session_Concurrency\<close>, \<open>Session_Races\<close>: the same critical sections as the steps of any
    number of goroutines, an inductive relation on the manager and the program counters; the
    invariant of the reachable states; exclusion, capacity, absence of deadlock, and a run that
    shows a race.
  \<^item> \<open>Session_Refinement\<close>: every operation of \<open>Session_Manager\<close> is what one goroutine reaches by its own
    steps, so that a sequence of operations is a schedule of \<open>Session_Concurrency\<close>.

  Runtime.

  \<^item> \<open>Copilot_Provider\<close>: the client and its options, the list of models, the configuration of new and
    resumed sessions (\<open>runtime/copilot.go\<close>).
  \<^item> \<open>Copilot_Events\<close>, \<open>Interactive_Bridge\<close>, \<open>Bridge_Facts\<close>, \<open>Bridge_Wait\<close>, \<open>Copilot_Send\<close>, \<open>Send_Facts\<close>: the
    events of the SDK and their translation, the bridge of pending requests with its channels as
    a heap of one-place buffers, the waits and handlers that the SDK calls, the callback and the result
    of \<open>Send\<close> (\<open>runtime/copilot.go\<close>).  What the waiting loop needs of the bridge is the locale
    \<open>request_source\<close>, which the three polls of the bridge interpret.

  Requests.

  \<^item> \<open>Api_Auth\<close>: API keys (\<open>auth/apikey.go\<close>), session keys and their scope, with SHA-256.
  \<^item> \<open>Compat_Common\<close>, \<open>Compat_Requests\<close>, \<open>Compat_Facts\<close>: the parsers of chat completion and Claude
    message requests, with their content, images, tools and controls (\<open>compat/*.go\<close>).
  \<^item> \<open>Gateway_Config\<close>, \<open>Config_Facts\<close>: \<open>Load\<close> over an environment (\<open>config/config.go\<close>).
  \<^item> \<open>Net_Policy\<close>, \<open>Net_Facts\<close>: the address and host policy for remote attachments and provider
    URLs, with \<open>net.ParseIP\<close> and the functions of \<open>net/netip\<close> it uses.
  \<^item> \<open>Server_Policy\<close>, \<open>Policy_Facts\<close>: permission modes, agents, the features of models, providers,
    fingerprints, and \<open>classifyError\<close>.
  \<^item> \<open>Server_Attachments\<close>, \<open>Attachment_Facts\<close>: the attachments of a request in temporary directories.

  The server (\<open>httpapi/server.go\<close>, \<open>interactive.go\<close>).

  \<^item> \<open>Server_Prepare\<close>, \<open>Prepare_Facts\<close>: \<open>prepareConversation\<close>, from the checks over the lease to the
    message; what a refused request leaves behind, and that permissions never escalate.
  \<^item> \<open>Server_Responses\<close>, \<open>Server_Stream\<close>, \<open>Stream_Facts\<close>: the response builders, and the two streams
    over \<open>Send\<close>; a locale states what the two stream handlers share, and both interpret it.
  \<^item> \<open>Idle_Context\<close>: the idle timeout of a stream as a step relation of the watching goroutine, the
    callers of \<open>touch\<close> and the clock.
  \<^item> \<open>Server_Handlers\<close>, \<open>Server_Continuation\<close>: every route on the state of the server, and the usage
    records (\<open>usage/recorder.go\<close>).  \<open>Handler_Facts\<close>, \<open>Request_Facts\<close>: what a request leaves behind,
    what becomes of its session, what is recorded, and what an answer of the client reaches; the
    facts on both conversation routes are proved in the locale \<open>conversation_route\<close>.
  \<^item> \<open>Gateway_Main\<close>, \<open>Process_Facts\<close>: the wiring, the periodic cleanup and the shutdown
    (\<open>cmd/copilot-sdkapi/main.go\<close>), an invariant of every run of the gateway on whole requests, the
    collection of idle sessions and the shutdown.
  \<^item> \<open>Gateway_Live\<close>, \<open>Live_Facts\<close>, \<open>Live_Properties\<close>: the gateway with prompts in flight.  A conversation
    handler takes effect in two parts, up to its prepared conversation and after its prompt; between
    them other requests arrive, bridges see events and the ticker fires.  The facts: the session
    manager stays reachable in the concurrent model, every prompt has its session for itself, an answer
    on a bridge was given by a client who owns the session, no lock or directory outlives its prompt;
    and the runs of \<open>Gateway_Main\<close> are those in which no two requests overlap.  \<open>run_main\<close> is the process from
    its configuration to the end of its shutdown.

  Conventions.  Strings are lists of bytes.  A Go map is an association list with distinct keys;
  its iteration order is the order of the list, any order being possible.  Errors are values of
  \<open>go_error\<close>; results are sums.  Times and durations are nanoseconds as integers; token counts
  are 64-bit words.  The Copilot SDK, the operating system, the network, the image decoders, the
  parsers of URLs, floats and durations, and the clock are arguments of the definitions that use
  them.  Two definitions have a bound: SHA-256 on the number of its 64-byte blocks, which is the length
  of the padded message, and the waiting loops of \<open>Bridge_Wait\<close> on their passes, 502, which
  \<open>waits_end\<close> proves to be enough for five seconds in sleeps of ten milliseconds.

  What the lemmas assume.  In \<open>Gateway_Live\<close> each of the two parts of a handler is one event, and a request
  that meets a session in use is answered with the error of its context; how the critical sections inside
  the parts interleave, and how such a request waits, is the subject of \<open>Session_Concurrency\<close>, of which every
  run of \<open>Gateway_Live\<close> is one schedule.  The clock does not go backwards.

  Not modelled: the wire formats of HTTP and JSON below the values they carry, the texts that the
  JSON decoder and the \<open>%q\<close> verb produce inside error messages, the path cleaning of \<open>ServeMux\<close>,
  logging and the format of the usage log line, signals and the listener.
\<close>

end
